(* ===== verification/Pairline_Prelude.thy ===== *)
theory Pairline_Prelude
  imports Main "HOL-Library.Char_ord" "HOL-Library.List_Lexorder" "HOL-Library.Sublist"
begin

text \<open>
  What every component shares: JavaScript strings and dynamic values, the arrays operations the
  front end uses, and event-driven systems run over a list of events.

  \<^item> A JavaScript string is a \<open>string\<close>; a \<open>char\<close> stands for one UTF-16 code unit below
    256, so \<open>length\<close>, comparison and search count code units as the engine does.
  \<^item> A value of type \<open>any\<close> (a parsed JSON payload) is a \<open>js\<close>. A number is kept by the text
    \<open>ToString\<close> gives for it: the code only tests such numbers for truth and prints them.
  \<^item> The named collections: \<open>js_eval\<close> unfolds the JavaScript operations, \<open>frame\<close> holds
    what an operation leaves unchanged, \<open>keeps\<close> the invariants an operation preserves.
\<close>

named_theorems js_eval
named_theorems frame
named_theorems keeps

section \<open>Strings\<close>

definition js_space :: "char \<Rightarrow> bool" where
  "js_space c \<longleftrightarrow> (of_char c :: nat) \<in> {9, 10, 11, 12, 13, 32, 160}"

definition js_trim :: "string \<Rightarrow> string" where
  "js_trim s = rev (dropWhile js_space (rev (dropWhile js_space s)))"

definition js_startsWith :: "string \<Rightarrow> string \<Rightarrow> bool" where
  "js_startsWith s p \<longleftrightarrow> take (length p) s = p"

fun js_includes :: "string \<Rightarrow> string \<Rightarrow> bool" where
  "js_includes [] p = (p = [])"
| "js_includes (c # s) p = (js_startsWith (c # s) p \<or> js_includes s p)"

definition js_lower_char :: "char \<Rightarrow> char" where
  "js_lower_char c =
     (let n = (of_char c :: nat)
      in if 65 \<le> n \<and> n \<le> 90 \<or> 192 \<le> n \<and> n \<le> 222 \<and> n \<noteq> 215
         then char_of (n + 32) else c)"

definition js_lower :: "string \<Rightarrow> string" where
  "js_lower s = map js_lower_char s"

fun js_join :: "string \<Rightarrow> string list \<Rightarrow> string" where
  "js_join sep [] = []"
| "js_join sep [x] = x"
| "js_join sep (x # y # ys) = x @ sep @ js_join sep (y # ys)"

fun js_split :: "char \<Rightarrow> string \<Rightarrow> string list" where
  "js_split d [] = [[]]"
| "js_split d (c # s) =
     (if c = d then [] # js_split d s
      else (case js_split d s of [] \<Rightarrow> [[c]] | w # ws \<Rightarrow> (c # w) # ws))"

text \<open>Splitting what was joined with a separator that no part contains.\<close>

lemma js_split_no_sep: "d \<notin> set l \<Longrightarrow> js_split d l = [l]"
  by (induction l) auto

lemma js_split_append:
  "d \<notin> set l \<Longrightarrow> js_split d (l @ d # s) = l # js_split d s"
  by (induction l) auto

lemma js_split_join:
  "\<lbrakk>list_all (\<lambda>l. d \<notin> set l) ls; ls \<noteq> []\<rbrakk> \<Longrightarrow> js_split d (js_join [d] ls) = ls"
  by (induction "[d]" ls rule: js_join.induct) (auto simp: js_split_no_sep js_split_append)

text \<open>\<open>xs.slice(-n)\<close> for a positive \<open>n\<close>: the last \<open>n\<close> elements.\<close>

definition js_slice_last :: "nat \<Rightarrow> 'a list \<Rightarrow> 'a list" where
  "js_slice_last n xs = drop (length xs - n) xs"

declare js_space_def [js_eval] js_trim_def [js_eval] js_startsWith_def [js_eval]
  js_lower_def [js_eval] js_lower_char_def [js_eval] js_slice_last_def [js_eval]

lemma js_trim_Nil [simp]: "js_trim [] = []"
  by (simp add: js_trim_def)

lemma dropWhile_idem [simp]: "dropWhile P (dropWhile P xs) = dropWhile P xs"
  by (induction xs) auto

lemma dropWhile_rev_dropWhile:
  "dropWhile P (rev (dropWhile P (rev (dropWhile P xs)))) = rev (dropWhile P (rev (dropWhile P xs)))"
proof (cases "dropWhile P xs")
  case Nil
  show ?thesis by (simp add: Nil)
next
  case (Cons y ys)
  then have "\<not> P y"
    by (simp add: dropWhile_eq_Cons_conv)
  with Cons show ?thesis
    by (simp add: dropWhile_append)
qed

lemma js_trim_idem [simp]: "js_trim (js_trim s) = js_trim s"
  by (simp add: js_trim_def dropWhile_rev_dropWhile)

lemma length_js_slice_last: "length (js_slice_last n xs) = min n (length xs)"
  by (simp add: js_slice_last_def)

lemma set_js_slice_last: "set (js_slice_last n xs) \<subseteq> set xs"
  by (simp add: js_slice_last_def set_drop_subset)

lemma js_slice_last_snoc: "0 < n \<Longrightarrow> js_slice_last n (xs @ [x]) = js_slice_last (n - 1) xs @ [x]"
  by (auto simp: js_slice_last_def Suc_diff_le)

text \<open>Truth of an optional string: \<open>undefined\<close>, \<open>null\<close> and the empty string are false.\<close>

fun str_truthy :: "string option \<Rightarrow> bool" where
  "str_truthy None = False"
| "str_truthy (Some s) = (s \<noteq> [])"

lemma str_truthy_iff: "str_truthy v \<longleftrightarrow> (\<exists>s. v = Some s \<and> s \<noteq> [])"
  by (cases v) auto

text \<open>\<open>s || null\<close> for an optional string.\<close>

definition str_or_null :: "string option \<Rightarrow> string option" where
  "str_or_null v = (if str_truthy v then v else None)"

lemma str_or_null_simps [simp]:
  "str_or_null None = None"
  "str_or_null (Some []) = None"
  "s \<noteq> [] \<Longrightarrow> str_or_null (Some s) = Some s"
  by (simp_all add: str_or_null_def)

section \<open>Dynamic values\<close>

datatype js =
    JUndef
  | JNull
  | JBool bool
  | JNum string
  | JStr string
  | JArr "js list"
  | JObj "(string \<times> js) list"

fun js_truthy :: "js \<Rightarrow> bool" where
  "js_truthy JUndef = False"
| "js_truthy JNull = False"
| "js_truthy (JBool b) = b"
| "js_truthy (JNum t) = (t \<noteq> ''0'' \<and> t \<noteq> ''NaN'')"
| "js_truthy (JStr s) = (s \<noteq> [])"
| "js_truthy (JArr xs) = True"
| "js_truthy (JObj fs) = True"

text \<open>\<open>v?.k\<close>: reading through \<open>undefined\<close> or \<open>null\<close> is \<open>undefined\<close>.\<close>

fun js_get :: "js \<Rightarrow> string \<Rightarrow> js" where
  "js_get (JObj fs) k = (case map_of fs k of Some v \<Rightarrow> v | None \<Rightarrow> JUndef)"
| "js_get v k = JUndef"

definition js_or :: "js \<Rightarrow> js \<Rightarrow> js" where
  "js_or a b = (if js_truthy a then a else b)"

text \<open>\<open>undefined\<close> or \<open>null\<close>; a property of such a value cannot be read without \<open>?.\<close>.\<close>

definition js_nullish :: "js \<Rightarrow> bool" where
  "js_nullish v \<longleftrightarrow> v = JUndef \<or> v = JNull"

text \<open>\<open>k in v\<close> for an object, and the spread \<open>{...base, ...v}\<close>: own fields of the later
  object win; spreading anything but an object adds no named field.\<close>

fun js_in :: "string \<Rightarrow> js \<Rightarrow> bool" where
  "js_in k (JObj fs) = (k \<in> fst ` set fs)"
| "js_in k v = False"

fun js_spread :: "(string \<times> js) list \<Rightarrow> js \<Rightarrow> js" where
  "js_spread base (JObj fs) = JObj (fs @ filter (\<lambda>(k, _). k \<notin> fst ` set fs) base)"
| "js_spread base v = JObj base"

lemma map_of_filter_keys:
  "map_of (filter (\<lambda>(k, _). k \<notin> K) base) k = (if k \<in> K then None else map_of base k)"
  by (induction base) auto

lemma js_get_spread:
  "js_get (js_spread base v) k = (if js_in k v then js_get v k else js_get (JObj base) k)"
proof (cases v)
  case (JObj fs)
  show ?thesis
  proof (cases "k \<in> fst ` set fs")
    case True
    then obtain w where "map_of fs k = Some w"
      by (metis map_of_eq_None_iff not_None_eq)
    with True JObj show ?thesis by (simp add: map_add_def map_of_filter_keys)
  next
    case False
    then have "map_of fs k = None" by (simp add: map_of_eq_None_iff)
    with False JObj show ?thesis by (simp add: map_add_def map_of_filter_keys)
  qed
qed simp_all

text \<open>The template \<open>${v}\<close>.\<close>

fun js_string :: "js \<Rightarrow> string" where
  "js_string JUndef = ''undefined''"
| "js_string JNull = ''null''"
| "js_string (JBool b) = (if b then ''true'' else ''false'')"
| "js_string (JNum t) = t"
| "js_string (JStr s) = s"
| "js_string (JArr xs) =
     js_join '','' (map (\<lambda>x. case x of JUndef \<Rightarrow> [] | JNull \<Rightarrow> [] | _ \<Rightarrow> js_string x) xs)"
| "js_string (JObj fs) = ''[object Object]''"

text \<open>\<open>JSON.stringify\<close>: \<open>None\<close> is the result \<open>undefined\<close>.\<close>

definition hex_digit :: "nat \<Rightarrow> char" where
  "hex_digit n = (if n < 10 then char_of (48 + n) else char_of (87 + n))"

definition json_char :: "char \<Rightarrow> string" where
  "json_char c =
     (let n = (of_char c :: nat)
      in if n = 34 then [char_of (92::nat), c]
         else if n = 92 then [c, c]
         else if n = 8 then [char_of (92::nat), CHR ''b'']
         else if n = 9 then [char_of (92::nat), CHR ''t'']
         else if n = 10 then [char_of (92::nat), CHR ''n'']
         else if n = 12 then [char_of (92::nat), CHR ''f'']
         else if n = 13 then [char_of (92::nat), CHR ''r'']
         else if n < 32 then char_of (92::nat) # ''u00'' @ [hex_digit (n div 16), hex_digit (n mod 16)]
         else [c])"

definition json_quote :: "string \<Rightarrow> string" where
  "json_quote s = CHR 0x22 # concat (map json_char s) @ [CHR 0x22]"

fun json_stringify :: "js \<Rightarrow> string option" where
  "json_stringify JUndef = None"
| "json_stringify JNull = Some ''null''"
| "json_stringify (JBool b) = Some (if b then ''true'' else ''false'')"
| "json_stringify (JNum t) =
     Some (if t \<in> {''NaN'', ''Infinity'', ''-Infinity''} then ''null'' else t)"
| "json_stringify (JStr s) = Some (json_quote s)"
| "json_stringify (JArr xs) =
     Some (''['' @ js_join '',''
       (map (\<lambda>x. case json_stringify x of None \<Rightarrow> ''null'' | Some t \<Rightarrow> t) xs) @ '']'')"
| "json_stringify (JObj fs) =
     Some (''{'' @ js_join '',''
       (concat (map (\<lambda>f. case json_stringify (snd f) of
           None \<Rightarrow> [] | Some t \<Rightarrow> [json_quote (fst f) @ '':'' @ t]) fs)) @ ''}'')"

section \<open>URLs\<close>

text \<open>
  \<^verbatim>\<open>encodeURIComponent\<close> and the serialiser of \<^verbatim>\<open>URLSearchParams\<close>, on code units
  below 256 as UTF-8 bytes. The second writes a space as \<open>+\<close> and keeps fewer marks.
\<close>

definition percent_byte :: "nat \<Rightarrow> string" where
  "percent_byte n =
     (let hex = (\<lambda>d. if d < 10 then char_of (48 + d) else char_of (55 + d) :: char)
      in [CHR ''%'', hex (n div 16), hex (n mod 16)])"

definition percent_char :: "char \<Rightarrow> string" where
  "percent_char c =
     (let n = (of_char c :: nat)
      in if n < 128 then percent_byte n
         else percent_byte (192 + n div 64) @ percent_byte (128 + n mod 64))"

definition alphanumeric :: "char \<Rightarrow> bool" where
  "alphanumeric c \<longleftrightarrow>
     (let n = (of_char c :: nat)
      in 48 \<le> n \<and> n \<le> 57 \<or> 65 \<le> n \<and> n \<le> 90 \<or> 97 \<le> n \<and> n \<le> 122)"

definition encodeURIComponent :: "string \<Rightarrow> string" where
  "encodeURIComponent s =
     concat (map (\<lambda>c. if alphanumeric c \<or> (of_char c :: nat) \<in> {45, 95, 46, 33, 126, 42, 39, 40, 41}
        then [c] else percent_char c) s)"

definition form_encode :: "string \<Rightarrow> string" where
  "form_encode s =
     concat (map (\<lambda>c. if alphanumeric c \<or> (of_char c :: nat) \<in> {42, 45, 46, 95} then [c]
        else if c = CHR '' '' then ''+'' else percent_char c) s)"

definition search_params :: "(string \<times> string) list \<Rightarrow> string" where
  "search_params ps = js_join ''&'' (map (\<lambda>(k, v). form_encode k @ ''='' @ form_encode v) ps)"

section \<open>Event-driven systems\<close>

text \<open>
  A component is a step function over its events; a run folds it over a list of events. The
  locale states once that an invariant of the initial state and of each step holds after every run,
  and that a projection no step changes is constant.
\<close>

fun run_events :: "('e \<Rightarrow> 's \<Rightarrow> 's) \<Rightarrow> 'e list \<Rightarrow> 's \<Rightarrow> 's" where
  "run_events f [] s = s"
| "run_events f (e # es) s = run_events f es (f e s)"

lemma run_events_append: "run_events f (xs @ ys) s = run_events f ys (run_events f xs s)"
  by (induction xs arbitrary: s) auto

text \<open>A run that reaches a property from a state without it has an event that brings it about.\<close>

lemma run_events_first:
  assumes "P (run_events f es s)" and "\<not> P s"
  shows "\<exists>xs e ys. es = xs @ e # ys \<and> \<not> P (run_events f xs s) \<and> P (f e (run_events f xs s))"
  using assms
proof (induction es arbitrary: s)
  case (Cons e es)
  show ?case
  proof (cases "P (f e s)")
    case True
    with Cons.prems(2) show ?thesis by (intro exI [of _ "[]"] exI [of _ e] exI [of _ es]) simp
  next
    case False
    from Cons.IH [OF _ False] Cons.prems(1) obtain xs g ys
      where "es = xs @ g # ys" "\<not> P (run_events f xs (f e s))" "P (f g (run_events f xs (f e s)))" by auto
    then show ?thesis by (intro exI [of _ "e # xs"] exI [of _ g] exI [of _ ys]) simp
  qed
qed simp

text \<open>A step that also emits effects: what a run emits, in order.\<close>

fun run_effects :: "('e \<Rightarrow> 's \<Rightarrow> 's \<times> 'o list) \<Rightarrow> 'e list \<Rightarrow> 's \<Rightarrow> 'o list" where
  "run_effects f [] s = []"
| "run_effects f (e # es) s = snd (f e s) @ run_effects f es (fst (f e s))"

lemma run_effects_append:
  "run_effects f (xs @ ys) s = run_effects f xs s @ run_effects f ys (run_events (\<lambda>e s. fst (f e s)) xs s)"
  by (induction xs arbitrary: s) auto

locale invariant_system =
  fixes step :: "'e \<Rightarrow> 's \<Rightarrow> 's"
    and start :: "'s"
    and inv :: "'s \<Rightarrow> bool"
  assumes inv_start: "inv start"
    and inv_step: "inv s \<Longrightarrow> inv (step e s)"
begin

lemma inv_run_from: "inv s \<Longrightarrow> inv (run_events step es s)"
  by (induction es arbitrary: s) (auto intro: inv_step)

lemma inv_run: "inv (run_events step es start)"
  by (rule inv_run_from [OF inv_start])

end

text \<open>
  A system that wraps another and hears only some events: a run of it is, seen through the projection,
  a run of the other over the events it heard, so that what holds of all runs there holds here.
\<close>

locale restricted_system =
  fixes step :: "'e \<Rightarrow> 's \<Rightarrow> 's"
    and outer :: "'e \<Rightarrow> 't \<Rightarrow> 't"
    and view :: "'t \<Rightarrow> 's"
    and hears :: "'e \<Rightarrow> 't \<Rightarrow> bool"
  assumes heard: "hears e t \<Longrightarrow> view (outer e t) = step e (view t)"
    and unheard: "\<not> hears e t \<Longrightarrow> view (outer e t) = view t"
begin

lemma run_restricted: "\<exists>es'. subseq es' es \<and> view (run_events outer es t) = run_events step es' (view t)"
proof (induction es arbitrary: t)
  case (Cons e es)
  from Cons.IH obtain es' where es': "subseq es' es"
    "view (run_events outer es (outer e t)) = run_events step es' (view (outer e t))" by blast
  show ?case
  proof (cases "hears e t")
    case True
    with es' heard [OF True] show ?thesis
      by (intro exI [of _ "e # es'"]) simp
  next
    case False
    with es' unheard [OF False] show ?thesis
      by (intro exI [of _ es']) (simp add: list_emb_Cons)
  qed
next
  case Nil
  show ?case by (intro exI [of _ "[]"]) simp
qed

lemma all_runs:
  assumes "\<And>es'. P (run_events step es' (view t))"
  shows "P (view (run_events outer es t))"
proof -
  from run_restricted [of es t] obtain es' where "view (run_events outer es t) = run_events step es' (view t)" by blast
  then show ?thesis by (simp add: assms)
qed

end

end
