(* ===== verification/Ice_Servers.thy ===== *)
theory Ice_Servers
  imports Pairline_Prelude "HOL-Library.Multiset" "HOL-Library.Sublist"
begin

text \<open>
  The ICE server list the TURN endpoint returns, normalised before it reaches the peer connection
  (\<^verbatim>\<open>client/src/services/iceServers.ts\<close>): URLs are trimmed and deduplicated, TURN URLs of an
  integrated deployment are cut to one per transport bucket after a random shuffle, and a transport
  filter drops the rest.

  The engine's \<^verbatim>\<open>sort\<close> with a random comparator is the argument \<open>shuffle\<close>: the shuffle of the
  URLs of the server at a given index. The specification of \<^verbatim>\<open>Array.prototype.sort\<close> leaves the
  order open and promises a permutation, which is the hypothesis \<open>permuting\<close>.
\<close>

section \<open>Data\<close>

datatype transport_filter = UdpOnly | TcpOnly | AllTransports

datatype url_bucket = BUdp | BTurns | BTcp | BOther

record ice_server =
  urls :: js
  username :: "string option"
  credential :: "string option"

definition integratedTurnBucketOrder :: "url_bucket list" where
  "integratedTurnBucketOrder = [BUdp, BTurns, BTcp, BOther]"

section \<open>Operations\<close>

fun string_items :: "js list \<Rightarrow> string list" where
  "string_items [] = []"
| "string_items (JStr s # vs) = s # string_items vs"
| "string_items (v # vs) = string_items vs"

fun asUrlList :: "js \<Rightarrow> string list" where
  "asUrlList (JArr vs) = string_items vs"
| "asUrlList (JStr s) = [s]"
| "asUrlList v = []"

fun dedupe_loop :: "string list \<Rightarrow> string set \<Rightarrow> string list \<Rightarrow> string list" where
  "dedupe_loop [] seen deduped = deduped"
| "dedupe_loop (rawUrl # rest) seen deduped =
     (let url = js_trim rawUrl
      in if url = [] \<or> url \<in> seen then dedupe_loop rest seen deduped
         else dedupe_loop rest (insert url seen) (deduped @ [url]))"

definition dedupeUrls :: "string list \<Rightarrow> string list" where
  "dedupeUrls us = dedupe_loop us {} []"

definition isTurnUrl :: "string \<Rightarrow> bool" where
  "isTurnUrl url \<longleftrightarrow> js_startsWith url ''turn:'' \<or> js_startsWith url ''turns:''"

definition integratedTurnUrlBucket :: "string \<Rightarrow> url_bucket" where
  "integratedTurnUrlBucket url =
     (if js_startsWith url ''turns:'' then BTurns
      else let lowerUrl = js_lower url
        in if js_includes lowerUrl ''transport=udp'' then BUdp
           else if js_includes lowerUrl ''transport=tcp'' then BTcp
           else BOther)"

fun fill_buckets :: "string list \<Rightarrow> (url_bucket \<rightharpoonup> string) \<Rightarrow> (url_bucket \<rightharpoonup> string)" where
  "fill_buckets [] byBucket = byBucket"
| "fill_buckets (url # rest) byBucket =
     (let bucket = integratedTurnUrlBucket url
      in if byBucket bucket = None then fill_buckets rest (byBucket(bucket \<mapsto> url))
         else fill_buckets rest byBucket)"

fun gather :: "(url_bucket \<rightharpoonup> string) \<Rightarrow> url_bucket list \<Rightarrow> string list" where
  "gather byBucket [] = []"
| "gather byBucket (bucket # rest) =
     (case byBucket bucket of
        None \<Rightarrow> gather byBucket rest
      | Some url \<Rightarrow> if url = [] then gather byBucket rest else url # gather byBucket rest)"

definition bucket_urls :: "(url_bucket \<rightharpoonup> string) \<Rightarrow> string list" where
  "bucket_urls byBucket = gather byBucket integratedTurnBucketOrder"

definition normalizeIntegratedTurnUrls ::
  "(string list \<Rightarrow> string list) \<Rightarrow> string list \<Rightarrow> string list" where
  "normalizeIntegratedTurnUrls shuffle us = bucket_urls (fill_buckets (shuffle us) Map.empty)"

definition keeps_transport :: "transport_filter \<Rightarrow> string \<Rightarrow> bool" where
  "keeps_transport transport url =
     (if js_startsWith url ''turns:'' then transport = TcpOnly
      else let lowerUrl = js_lower url
        in case transport of
             UdpOnly \<Rightarrow> \<not> js_includes lowerUrl ''transport=tcp''
           | TcpOnly \<Rightarrow> js_includes lowerUrl ''transport=tcp''
           | AllTransports \<Rightarrow> True)"

definition filterTurnUrlsByTransport :: "string list \<Rightarrow> transport_filter \<Rightarrow> string list" where
  "filterTurnUrlsByTransport turnUrls transport =
     (if transport = AllTransports then turnUrls else filter (keeps_transport transport) turnUrls)"

text \<open>The URLs one server keeps, the body of the reducer: a server with no URL left is dropped.\<close>

definition normalizedUrls ::
  "(string list \<Rightarrow> string list) \<Rightarrow> string option \<Rightarrow> transport_filter \<Rightarrow> js \<Rightarrow> string list" where
  "normalizedUrls shuffle mode transport us =
     (let deduped = dedupeUrls (asUrlList us);
          turnUrls = filter isTurnUrl deduped;
          nonTurnUrls = filter (\<lambda>url. \<not> isTurnUrl url) deduped;
          normalizedTurnUrls =
            (if map_option js_trim mode = Some ''integrated''
             then normalizeIntegratedTurnUrls shuffle turnUrls else turnUrls)
      in if deduped = [] then []
         else nonTurnUrls @ filterTurnUrlsByTransport normalizedTurnUrls transport)"

fun normalize_from ::
  "(nat \<Rightarrow> string list \<Rightarrow> string list) \<Rightarrow> string option \<Rightarrow> transport_filter \<Rightarrow> nat \<Rightarrow>
    ice_server list \<Rightarrow> ice_server list \<Rightarrow> ice_server list" where
  "normalize_from shuffle mode transport i [] servers = servers"
| "normalize_from shuffle mode transport i (server # rest) servers =
     (let us = normalizedUrls (shuffle i) mode transport (urls server)
      in normalize_from shuffle mode transport (Suc i) rest
           (if us = [] then servers else servers @ [server\<lparr>urls := JArr (map JStr us)\<rparr>]))"

definition normalizeIceServersForBootstrap ::
  "(nat \<Rightarrow> string list \<Rightarrow> string list) \<Rightarrow> ice_server list \<Rightarrow> string option \<Rightarrow>
    transport_filter option \<Rightarrow> ice_server list" where
  "normalizeIceServersForBootstrap shuffle iceServers mode transportFilter =
     normalize_from shuffle mode
       (case transportFilter of None \<Rightarrow> AllTransports | Some t \<Rightarrow> t) 0 iceServers []"

text \<open>What the engine promises of the sort: a permutation.\<close>

definition permuting :: "(string list \<Rightarrow> string list) \<Rightarrow> bool" where
  "permuting shuffle \<longleftrightarrow> (\<forall>us. mset (shuffle us) = mset us)"

section \<open>Deduplication\<close>

lemma rev_remdups_snoc:
  "rev (remdups (xs @ [x])) = x # filter (\<lambda>y. y \<noteq> x) (rev (remdups xs))"
  by (induction xs) (auto simp: rev_filter)

lemma dedupe_loop_eq:
  "dedupe_loop us seen deduped =
     deduped @ filter (\<lambda>u. u \<notin> seen)
       (rev (remdups (rev (filter (\<lambda>u. u \<noteq> []) (map js_trim us)))))"
proof (induction us arbitrary: seen deduped)
  case Nil
  then show ?case by simp
next
  case (Cons u us)
  then show ?case
    by (auto simp: Let_def rev_remdups_snoc intro!: filter_cong)
qed

lemma dedupeUrls_eq:
  "dedupeUrls us = rev (remdups (rev (filter (\<lambda>u. u \<noteq> []) (map js_trim us))))"
  by (simp add: dedupeUrls_def dedupe_loop_eq)

lemma distinct_dedupeUrls [simp]: "distinct (dedupeUrls us)"
  by (simp add: dedupeUrls_eq)

lemma set_dedupeUrls: "set (dedupeUrls us) = js_trim ` set us - {[]}"
  by (auto simp: dedupeUrls_eq)

lemma dedupeUrls_id:
  assumes "distinct us" and "\<forall>u\<in>set us. u \<noteq> [] \<and> js_trim u = u"
  shows "dedupeUrls us = us"
proof -
  have "map js_trim us = us" using assms(2) by (simp add: map_idI)
  moreover have "filter (\<lambda>u. u \<noteq> []) us = us" using assms(2) by simp
  ultimately show ?thesis
    using assms(1) by (simp add: dedupeUrls_eq distinct_remdups_id)
qed

lemma asUrlList_strings [simp]: "asUrlList (JArr (map JStr us)) = us"
  by (induction us) auto

section \<open>Buckets\<close>

lemma fill_buckets_eq:
  "fill_buckets us m b =
     (case m b of Some u \<Rightarrow> Some u | None \<Rightarrow> find (\<lambda>u. integratedTurnUrlBucket u = b) us)"
proof (induction us arbitrary: m)
  case Nil
  then show ?case by (cases "m b") simp_all
next
  case (Cons u us)
  show ?case
    by (cases "m (integratedTurnUrlBucket u)"; cases "integratedTurnUrlBucket u = b"; cases "m b")
      (simp_all add: Let_def Cons)
qed

lemma find_unique:
  assumes "u \<in> set us" and "P u" and "\<And>v. v \<in> set us \<Longrightarrow> P v \<Longrightarrow> v = u"
  shows "find P us = Some u"
proof (cases "find P us")
  case None
  with assms(1,2) show ?thesis by (auto simp: find_None_iff)
next
  case (Some v)
  then have "v \<in> set us" and "P v" by (auto simp: find_Some_iff)
  with assms(3) Some show ?thesis by blast
qed

text \<open>
  A bucket map is sound when each entry lies in its bucket and is not empty; \<open>restrict_bucket\<close>
  keeps the entries a predicate accepts.
\<close>

definition sound_buckets :: "(url_bucket \<rightharpoonup> string) \<Rightarrow> bool" where
  "sound_buckets m \<longleftrightarrow> (\<forall>b u. m b = Some u \<longrightarrow> integratedTurnUrlBucket u = b \<and> u \<noteq> [])"

definition restrict_bucket ::
  "(string \<Rightarrow> bool) \<Rightarrow> (url_bucket \<rightharpoonup> string) \<Rightarrow> (url_bucket \<rightharpoonup> string)" where
  "restrict_bucket P m b = (case m b of Some u \<Rightarrow> if P u then Some u else None | None \<Rightarrow> None)"

lemma sound_bucketsD:
  "sound_buckets m \<Longrightarrow> m b = Some u \<Longrightarrow> integratedTurnUrlBucket u = b \<and> u \<noteq> []"
  by (simp add: sound_buckets_def)

lemma sound_fill_buckets:
  assumes "[] \<notin> set us"
  shows "sound_buckets (fill_buckets us Map.empty)"
  unfolding sound_buckets_def
proof (intro allI impI)
  fix b u
  assume "fill_buckets us Map.empty b = Some u"
  then have "find (\<lambda>u. integratedTurnUrlBucket u = b) us = Some u"
    by (simp add: fill_buckets_eq)
  then obtain i where "i < length us" and "u = us ! i" and "integratedTurnUrlBucket u = b"
    by (auto simp: find_Some_iff)
  with assms show "integratedTurnUrlBucket u = b \<and> u \<noteq> []"
    using nth_mem by metis
qed

lemma set_bucket_order: "set integratedTurnBucketOrder = UNIV"
  using url_bucket.exhaust by (auto simp: integratedTurnBucketOrder_def)

lemma distinct_bucket_order: "distinct integratedTurnBucketOrder"
  by (simp add: integratedTurnBucketOrder_def)

lemma set_gather:
  "sound_buckets m \<Longrightarrow> set (gather m bs) = {u. \<exists>b\<in>set bs. m b = Some u}"
  by (induction bs) (auto split: option.splits dest: sound_bucketsD)

lemma map_bucket_gather:
  "sound_buckets m \<Longrightarrow> map integratedTurnUrlBucket (gather m bs) = filter (\<lambda>b. m b \<noteq> None) bs"
  by (induction bs) (auto split: option.splits dest: sound_bucketsD)

lemma filter_gather: "filter P (gather m bs) = gather (restrict_bucket P m) bs"
  by (induction bs) (auto simp: restrict_bucket_def split: option.splits)

lemma gather_none: "(\<And>b. b \<in> set bs \<Longrightarrow> m b = None) \<Longrightarrow> gather m bs = []"
  by (induction bs) auto

lemma gather_single:
  assumes "sound_buckets m" and "distinct bs" and "b \<in> set bs"
  shows "filter (\<lambda>u. integratedTurnUrlBucket u = b) (gather m bs) =
    (case m b of None \<Rightarrow> [] | Some u \<Rightarrow> [u])"
  using assms(2,3)
proof (induction bs)
  case Nil
  then show ?case by simp
next
  case (Cons c bs)
  have rest: "filter (\<lambda>u. integratedTurnUrlBucket u = c) (gather m bs) = []" if "c \<notin> set bs"
    using assms(1) that by (auto simp: filter_empty_conv set_gather dest: sound_bucketsD)
  show ?case
  proof (cases "b = c")
    case True
    with Cons.prems rest assms(1) show ?thesis
      by (auto split: option.splits dest: sound_bucketsD)
  next
    case False
    with Cons assms(1) show ?thesis
      by (auto split: option.splits dest: sound_bucketsD)
  qed
qed

lemma set_bucket_urls: "sound_buckets m \<Longrightarrow> set (bucket_urls m) = ran m"
  by (auto simp: bucket_urls_def set_gather set_bucket_order ran_def)

lemma bucket_urls_single:
  "sound_buckets m \<Longrightarrow>
    filter (\<lambda>u. integratedTurnUrlBucket u = b) (bucket_urls m) =
      (case m b of None \<Rightarrow> [] | Some u \<Rightarrow> [u])"
  by (simp add: bucket_urls_def gather_single distinct_bucket_order set_bucket_order)

lemma distinct_bucket_urls: "sound_buckets m \<Longrightarrow> distinct (bucket_urls m)"
  by (metis bucket_urls_def distinct_bucket_order distinct_filter distinct_map map_bucket_gather)

lemma filter_bucket_urls: "filter P (bucket_urls m) = bucket_urls (restrict_bucket P m)"
  by (simp add: bucket_urls_def filter_gather)

lemma sound_restrict: "sound_buckets m \<Longrightarrow> sound_buckets (restrict_bucket P m)"
  by (auto simp: sound_buckets_def restrict_bucket_def split: option.splits if_splits)

lemma fill_bucket_urls:
  assumes "sound_buckets m" and "set us = set (bucket_urls m)"
  shows "fill_buckets us Map.empty = m"
proof
  fix b
  have ran: "set us = ran m" using assms by (simp add: set_bucket_urls)
  show "fill_buckets us Map.empty b = m b"
  proof (cases "m b")
    case None
    then have "find (\<lambda>u. integratedTurnUrlBucket u = b) us = None"
      using assms(1) ran by (auto simp: find_None_iff sound_buckets_def ran_def)
    with None show ?thesis by (simp add: fill_buckets_eq)
  next
    case (Some u)
    have "find (\<lambda>u. integratedTurnUrlBucket u = b) us = Some u"
      by (rule find_unique) (use Some assms(1) ran in \<open>auto simp: sound_buckets_def ran_def\<close>)
    with Some show ?thesis by (simp add: fill_buckets_eq)
  qed
qed

lemma permuting_set: "permuting shuffle \<Longrightarrow> set (shuffle us) = set us"
  by (metis permuting_def set_mset_mset)

section \<open>The kept URLs of one server\<close>

lemma set_filterTurnUrls:
  "set (filterTurnUrlsByTransport us t) = {u \<in> set us. t = AllTransports \<or> keeps_transport t u}"
  by (auto simp: filterTurnUrlsByTransport_def)

lemma filterTurnUrls_eq: "filterTurnUrlsByTransport us t = filter (keeps_transport t) us"
  if "t \<noteq> AllTransports"
  using that by (simp add: filterTurnUrlsByTransport_def)

lemma turn_buckets_sound:
  assumes "permuting shuffle" and "[] \<notin> set us"
  shows "sound_buckets (fill_buckets (shuffle us) Map.empty)"
  using assms by (simp add: permuting_set sound_fill_buckets)

lemma set_normalizeIntegrated:
  assumes "permuting shuffle" and "[] \<notin> set us"
  shows "set (normalizeIntegratedTurnUrls shuffle us) \<subseteq> set us"
proof
  fix u
  assume "u \<in> set (normalizeIntegratedTurnUrls shuffle us)"
  then obtain b where "fill_buckets (shuffle us) Map.empty b = Some u"
    using turn_buckets_sound [OF assms]
    by (auto simp: normalizeIntegratedTurnUrls_def set_bucket_urls ran_def)
  then have "u \<in> set (shuffle us)"
    by (auto simp: fill_buckets_eq find_Some_iff)
  with assms(1) show "u \<in> set us" by (simp add: permuting_set)
qed

lemma distinct_normalizeIntegrated:
  assumes "permuting shuffle" and "[] \<notin> set us"
  shows "distinct (normalizeIntegratedTurnUrls shuffle us)"
  using turn_buckets_sound [OF assms]
  by (simp add: normalizeIntegratedTurnUrls_def distinct_bucket_urls)

text \<open>A second pass over a bucketed and filtered list changes nothing, whatever it shuffles.\<close>

lemma normalizeIntegrated_stable:
  assumes "permuting shuffle" and "permuting shuffle'" and "[] \<notin> set us"
  shows "normalizeIntegratedTurnUrls shuffle' (filter P (normalizeIntegratedTurnUrls shuffle us)) =
    filter P (normalizeIntegratedTurnUrls shuffle us)"
proof -
  let ?m = "restrict_bucket P (fill_buckets (shuffle us) Map.empty)"
  have sound: "sound_buckets ?m"
    by (rule sound_restrict [OF turn_buckets_sound [OF assms(1,3)]])
  have "fill_buckets (shuffle' (bucket_urls ?m)) Map.empty = ?m"
    by (rule fill_bucket_urls [OF sound]) (simp add: permuting_set [OF assms(2)])
  then show ?thesis
    by (simp add: normalizeIntegratedTurnUrls_def filter_bucket_urls)
qed

lemma turn_part:
  assumes "permuting shuffle" and "[] \<notin> set us" and "distinct us" and "\<forall>u\<in>set us. isTurnUrl u"
    and ts_def: "ts = filterTurnUrlsByTransport
      (if integrated then normalizeIntegratedTurnUrls shuffle us else us) t"
  shows "set ts \<subseteq> set us" and "distinct ts"
    and "permuting shuffle' \<Longrightarrow> filterTurnUrlsByTransport
      (if integrated then normalizeIntegratedTurnUrls shuffle' ts else ts) t = ts"
proof -
  show "set ts \<subseteq> set us"
    using set_normalizeIntegrated [OF assms(1,2)] by (auto simp: ts_def set_filterTurnUrls)
  show "distinct ts"
    using distinct_normalizeIntegrated [OF assms(1,2)] assms(3)
    by (auto simp: ts_def filterTurnUrlsByTransport_def)
  show "permuting shuffle' \<Longrightarrow> filterTurnUrlsByTransport
      (if integrated then normalizeIntegratedTurnUrls shuffle' ts else ts) t = ts"
    using normalizeIntegrated_stable [OF assms(1) _ assms(2), of shuffle' "keeps_transport t"]
      normalizeIntegrated_stable [OF assms(1) _ assms(2), of shuffle' "\<lambda>_. True"]
    by (auto simp: ts_def filterTurnUrlsByTransport_def)
qed

lemma normalizedUrls_cases:
  obtains ns ts where
    "normalizedUrls shuffle mode t us = (if dedupeUrls (asUrlList us) = [] then [] else ns @ ts)"
    and "ns = filter (\<lambda>url. \<not> isTurnUrl url) (dedupeUrls (asUrlList us))"
    and "ts = filterTurnUrlsByTransport
      (if map_option js_trim mode = Some ''integrated''
       then normalizeIntegratedTurnUrls shuffle (filter isTurnUrl (dedupeUrls (asUrlList us)))
       else filter isTurnUrl (dedupeUrls (asUrlList us))) t"
  by (auto simp: normalizedUrls_def Let_def)

lemma turn_urls_ok:
  "[] \<notin> set (filter isTurnUrl (dedupeUrls us))"
  "distinct (filter isTurnUrl (dedupeUrls us))"
  "\<forall>u\<in>set (filter isTurnUrl (dedupeUrls us)). isTurnUrl u"
  by (auto simp: set_dedupeUrls)

lemma normalizedUrls_props:
  assumes "permuting shuffle"
  shows "distinct (normalizedUrls shuffle mode t us)"
    and "set (normalizedUrls shuffle mode t us) \<subseteq> js_trim ` set (asUrlList us) - {[]}"
proof -
  obtain ns ts where eq:
    "normalizedUrls shuffle mode t us = (if dedupeUrls (asUrlList us) = [] then [] else ns @ ts)"
    and ns: "ns = filter (\<lambda>url. \<not> isTurnUrl url) (dedupeUrls (asUrlList us))"
    and ts: "ts = filterTurnUrlsByTransport
      (if map_option js_trim mode = Some ''integrated''
       then normalizeIntegratedTurnUrls shuffle (filter isTurnUrl (dedupeUrls (asUrlList us)))
       else filter isTurnUrl (dedupeUrls (asUrlList us))) t"
    by (rule normalizedUrls_cases)
  note part = turn_part [OF assms turn_urls_ok ts]
  show "distinct (normalizedUrls shuffle mode t us)"
    using part(1,2) by (auto simp: eq ns)
  have "set ns \<union> set ts \<subseteq> set (dedupeUrls (asUrlList us))"
    using part(1) by (auto simp: ns)
  then show "set (normalizedUrls shuffle mode t us) \<subseteq> js_trim ` set (asUrlList us) - {[]}"
    by (auto simp: eq set_dedupeUrls)
qed

lemma normalizedUrls_stable:
  assumes "permuting shuffle" and "permuting shuffle'"
    and us': "us' = normalizedUrls shuffle mode t us"
  shows "normalizedUrls shuffle' mode t (JArr (map JStr us')) = us'"
proof -
  obtain ns ts where eq:
    "normalizedUrls shuffle mode t us = (if dedupeUrls (asUrlList us) = [] then [] else ns @ ts)"
    and ns: "ns = filter (\<lambda>url. \<not> isTurnUrl url) (dedupeUrls (asUrlList us))"
    and ts: "ts = filterTurnUrlsByTransport
      (if map_option js_trim mode = Some ''integrated''
       then normalizeIntegratedTurnUrls shuffle (filter isTurnUrl (dedupeUrls (asUrlList us)))
       else filter isTurnUrl (dedupeUrls (asUrlList us))) t"
    by (rule normalizedUrls_cases)
  note part = turn_part [OF assms(1) turn_urls_ok ts]
  have fixed: "dedupeUrls us' = us'"
  proof (rule dedupeUrls_id)
    show "distinct us'" unfolding us' by (rule normalizedUrls_props(1) [OF assms(1)])
    show "\<forall>u\<in>set us'. u \<noteq> [] \<and> js_trim u = u"
      using normalizedUrls_props(2) [OF assms(1), of mode t us] by (auto simp: us')
  qed
  show ?thesis
  proof (cases "us' = []")
    case True
    with fixed show ?thesis by (simp add: normalizedUrls_def)
  next
    case False
    then have split: "us' = ns @ ts" using eq us' by (auto split: if_splits)
    have turn: "filter isTurnUrl us' = ts" and other: "filter (\<lambda>u. \<not> isTurnUrl u) us' = ns"
      using part(1) by (auto simp: split ns filter_id_conv filter_empty_conv)
    have "normalizedUrls shuffle' mode t (JArr (map JStr us')) =
        ns @ filterTurnUrlsByTransport
          (if map_option js_trim mode = Some ''integrated''
           then normalizeIntegratedTurnUrls shuffle' ts else ts) t"
      by (simp only: normalizedUrls_def Let_def asUrlList_strings fixed turn other False if_False)
    with part(3) [OF assms(2)] show ?thesis by (simp add: split)
  qed
qed

section \<open>The whole list\<close>

lemma normalize_from_acc:
  "normalize_from shuffle mode t i servers acc = acc @ normalize_from shuffle mode t i servers []"
proof (induction servers arbitrary: i acc)
  case Nil
  then show ?case by simp
next
  case (Cons s servers)
  show ?case
    by (simp add: Let_def) (metis Cons append_assoc append_Nil)
qed

lemma normalize_from_Cons:
  "normalize_from shuffle mode t i (s # servers) [] =
     (let us = normalizedUrls (shuffle i) mode t (urls s)
      in (if us = [] then [] else [s\<lparr>urls := JArr (map JStr us)\<rparr>])
         @ normalize_from shuffle mode t (Suc i) servers [])"
  by (simp add: Let_def normalize_from_acc [of _ _ _ _ _ "[_]"])

lemma normalize_from_mem:
  assumes "server' \<in> set (normalize_from shuffle mode t i servers [])"
  obtains server j us where "server \<in> set servers" and "us = normalizedUrls (shuffle j) mode t (urls server)"
    and "us \<noteq> []" and "server' = server\<lparr>urls := JArr (map JStr us)\<rparr>"
  using assms
proof (induction servers arbitrary: i thesis)
  case Nil
  then show ?case by simp
next
  case (Cons s servers)
  show ?case
  proof (cases "server' \<in> set (normalize_from shuffle mode t (Suc i) servers [])")
    case True
    show ?thesis
      by (rule Cons.IH [OF _ True]) (auto intro: Cons.prems(1))
  next
    case False
    with Cons.prems(2) show ?thesis
      by (auto simp: normalize_from_Cons Let_def simp del: normalize_from.simps
          split: if_splits intro: Cons.prems(1))
  qed
qed

lemma normalize_from_fixed:
  assumes "\<forall>s\<in>set servers. \<exists>us. us \<noteq> [] \<and> urls s = JArr (map JStr us) \<and>
    (\<forall>j. normalizedUrls (shuffle j) mode t (urls s) = us)"
  shows "normalize_from shuffle mode t i servers [] = servers"
  using assms
proof (induction servers arbitrary: i)
  case Nil
  then show ?case by simp
next
  case (Cons s servers)
  then obtain us where "us \<noteq> []" and u: "urls s = JArr (map JStr us)"
    and n: "\<forall>j. normalizedUrls (shuffle j) mode t (urls s) = us" by auto
  moreover have "s\<lparr>urls := JArr (map JStr us)\<rparr> = s" using u by simp
  ultimately show ?case using Cons by (simp add: normalize_from_Cons del: normalize_from.simps)
qed

section \<open>Properties\<close>

text \<open>
  Normalising is idempotent. Whatever the two shuffles choose, feeding a normalised server list
  through the same mode and transport filter again returns it unchanged, so a list that is
  normalised once when prefetched and once when applied does not lose or reorder a URL.
\<close>

theorem normalize_idempotent:
  assumes "\<forall>i. permuting (shuffle i)" and "\<forall>i. permuting (shuffle' i)"
  shows "normalizeIceServersForBootstrap shuffle'
      (normalizeIceServersForBootstrap shuffle servers mode tf) mode tf =
    normalizeIceServersForBootstrap shuffle servers mode tf"
proof -
  define t where "t = (case tf of None \<Rightarrow> AllTransports | Some t \<Rightarrow> t)"
  let ?once = "normalize_from shuffle mode t 0 servers []"
  have "\<forall>s\<in>set ?once. \<exists>us. us \<noteq> [] \<and> urls s = JArr (map JStr us) \<and>
      (\<forall>j. normalizedUrls (shuffle' j) mode t (urls s) = us)"
  proof
    fix s
    assume "s \<in> set ?once"
    then obtain server j us where "us = normalizedUrls (shuffle j) mode t (urls server)"
      and "us \<noteq> []" and "s = server\<lparr>urls := JArr (map JStr us)\<rparr>"
      by (rule normalize_from_mem)
    then show "\<exists>us. us \<noteq> [] \<and> urls s = JArr (map JStr us) \<and>
        (\<forall>j. normalizedUrls (shuffle' j) mode t (urls s) = us)"
      using assms normalizedUrls_stable by auto
  qed
  then show ?thesis
    by (simp add: normalizeIceServersForBootstrap_def t_def [symmetric] normalize_from_fixed)
qed

definition sample_servers :: "ice_server list" where
  "sample_servers =
     [\<lparr>urls = JArr [JStr ''turn:a?transport=udp'', JStr '' turn:b?transport=udp '', JStr ''stun:c''],
        username = Some ''u'', credential = Some ''p''\<rparr>,
      \<lparr>urls = JStr '' '', username = None, credential = None\<rparr>]"

theorem normalize_idempotent_witness:
  "normalizeIceServersForBootstrap (\<lambda>_. rev)
      (normalizeIceServersForBootstrap (\<lambda>_ us. us) sample_servers (Some ''integrated'') None)
      (Some ''integrated'') None =
    normalizeIceServersForBootstrap (\<lambda>_ us. us) sample_servers (Some ''integrated'') None"
  by (rule normalize_idempotent) (simp_all add: permuting_def)

text \<open>
  Every server of the result comes from a server of the input with the same credentials; its
  URL list is not empty, has no duplicate and holds only trimmed, non-empty URLs of that server.
\<close>

theorem normalize_servers_wf:
  assumes "\<forall>i. permuting (shuffle i)"
    and "server' \<in> set (normalizeIceServersForBootstrap shuffle servers mode tf)"
  shows "\<exists>server\<in>set servers. \<exists>us. server' = server\<lparr>urls := JArr (map JStr us)\<rparr> \<and> us \<noteq> [] \<and>
    distinct us \<and> set us \<subseteq> js_trim ` set (asUrlList (urls server)) - {[]}"
proof -
  define t where "t = (case tf of None \<Rightarrow> AllTransports | Some t \<Rightarrow> t)"
  from assms(2) have "server' \<in> set (normalize_from shuffle mode t 0 servers [])"
    by (simp add: normalizeIceServersForBootstrap_def t_def)
  then obtain server j us where "server \<in> set servers" and "us \<noteq> []"
    and us: "us = normalizedUrls (shuffle j) mode t (urls server)"
    and "server' = server\<lparr>urls := JArr (map JStr us)\<rparr>"
    by (rule normalize_from_mem)
  moreover have "distinct us" and "set us \<subseteq> js_trim ` set (asUrlList (urls server)) - {[]}"
    using assms(1) normalizedUrls_props unfolding us by blast+
  ultimately show ?thesis by blast
qed

lemma sample_normalized:
  "normalizeIceServersForBootstrap (\<lambda>_ us. us) sample_servers (Some ''integrated'') None =
    [\<lparr>urls = JArr [JStr ''stun:c'', JStr ''turn:a?transport=udp''],
       username = Some ''u'', credential = Some ''p''\<rparr>]"
  by code_simp

theorem normalize_servers_wf_witness:
  "\<exists>server\<in>set sample_servers. \<exists>us.
    \<lparr>urls = JArr [JStr ''stun:c'', JStr ''turn:a?transport=udp''],
       username = Some ''u'', credential = Some ''p''\<rparr> = server\<lparr>urls := JArr (map JStr us)\<rparr> \<and> us \<noteq> [] \<and>
    distinct us \<and> set us \<subseteq> js_trim ` set (asUrlList (urls server)) - {[]}"
  by (rule normalize_servers_wf [of "\<lambda>_ us. us" _ sample_servers "Some ''integrated''" None])
    (simp_all add: permuting_def sample_normalized)

lemma filter_turn_bucket:
  "\<forall>u\<in>set us. isTurnUrl u \<Longrightarrow>
    filter (\<lambda>u. isTurnUrl u \<and> integratedTurnUrlBucket u = b) us =
      filter (\<lambda>u. integratedTurnUrlBucket u = b) us"
  by (induction us) auto

lemma trim_integrated: "js_trim ''integrated'' = ''integrated''"
  by code_simp



text \<open>
  The transport filter is exact. A TURN URL survives a UDP filter only without TLS and without
  an explicit TCP transport, a TCP filter only with TLS or an explicit TCP transport, and no filter
  ever removes a STUN URL.
\<close>

theorem transport_filter_exact:
  assumes "permuting shuffle"
  shows "(\<forall>u\<in>set (normalizedUrls shuffle mode t us). isTurnUrl u \<longrightarrow>
      (t = UdpOnly \<longrightarrow> \<not> js_startsWith u ''turns:'' \<and> \<not> js_includes (js_lower u) ''transport=tcp'') \<and>
      (t = TcpOnly \<longrightarrow> js_startsWith u ''turns:'' \<or> js_includes (js_lower u) ''transport=tcp'')) \<and>
    filter (\<lambda>u. \<not> isTurnUrl u) (normalizedUrls shuffle mode t us) =
      filter (\<lambda>u. \<not> isTurnUrl u) (dedupeUrls (asUrlList us))"
proof -
  obtain ns ts where eq:
    "normalizedUrls shuffle mode t us = (if dedupeUrls (asUrlList us) = [] then [] else ns @ ts)"
    and ns: "ns = filter (\<lambda>url. \<not> isTurnUrl url) (dedupeUrls (asUrlList us))"
    and ts: "ts = filterTurnUrlsByTransport
      (if map_option js_trim mode = Some ''integrated''
       then normalizeIntegratedTurnUrls shuffle (filter isTurnUrl (dedupeUrls (asUrlList us)))
       else filter isTurnUrl (dedupeUrls (asUrlList us))) t"
    by (rule normalizedUrls_cases)
  have turn: "\<forall>u\<in>set ts. isTurnUrl u"
    using turn_part(1) [OF assms turn_urls_ok ts] by auto
  have "\<forall>u\<in>set ts. t = AllTransports \<or> keeps_transport t u"
    by (auto simp: ts set_filterTurnUrls)
  then have kept: "\<forall>u\<in>set ts.
      (t = UdpOnly \<longrightarrow> \<not> js_startsWith u ''turns:'' \<and> \<not> js_includes (js_lower u) ''transport=tcp'') \<and>
      (t = TcpOnly \<longrightarrow> js_startsWith u ''turns:'' \<or> js_includes (js_lower u) ''transport=tcp'')"
    by (auto simp: keeps_transport_def Let_def split: if_splits)
  show ?thesis
    using turn kept by (auto simp: eq ns filter_empty_conv)
qed

theorem transport_filter_exact_witness:
  "filter (\<lambda>u. \<not> isTurnUrl u) (normalizedUrls rev None TcpOnly (urls (hd sample_servers))) = [''stun:c'']"
proof -
  have "filter (\<lambda>u. \<not> isTurnUrl u) (normalizedUrls rev None TcpOnly (urls (hd sample_servers))) =
      filter (\<lambda>u. \<not> isTurnUrl u) (dedupeUrls (asUrlList (urls (hd sample_servers))))"
    using transport_filter_exact [of rev None TcpOnly] by (simp add: permuting_def)
  also have "\<dots> = [''stun:c'']" by code_simp
  finally show ?thesis .
qed

end
