(* ===== verification/Network_Health.thy ===== *)
theory Network_Health
  imports Pairline_Prelude "HOL-Library.AList"
begin

text \<open>
  The service health context of the client (\<^verbatim>\<open>client/src/hooks/useNetworkHealth.tsx\<close>): one
  status per Phoenix channel, one for the API, the aggregate that drives the banners and the
  redirect to the unavailable page.

  The object of channel statuses is an association list with distinct keys. A React commit is the
  operation \<open>commit_layout\<close>: it runs the layout effect when the aggregate changed since the effect
  last ran, or when the router handed out a new \<^verbatim>\<open>navigate\<close> (its argument).
\<close>

section \<open>Statuses\<close>

datatype service_status = SOk | SDegraded | SOffline

fun severity :: "service_status \<Rightarrow> nat" where
  "severity SOk = 0"
| "severity SDegraded = 1"
| "severity SOffline = 2"

instantiation service_status :: linorder
begin

definition less_eq_service_status :: "service_status \<Rightarrow> service_status \<Rightarrow> bool" where
  "s \<le> t \<longleftrightarrow> severity s \<le> severity t"

definition less_service_status :: "service_status \<Rightarrow> service_status \<Rightarrow> bool" where
  "s < t \<longleftrightarrow> severity s < severity t"

instance
proof
  fix x y :: service_status
  show "x \<le> y \<Longrightarrow> y \<le> x \<Longrightarrow> x = y"
    by (cases x; cases y) (simp_all add: less_eq_service_status_def)
qed (auto simp: less_eq_service_status_def less_service_status_def)

end

record health =
  channelStatuses :: "(string \<times> service_status) list"
  apiStatus :: service_status
  layoutSeen :: "service_status option"
  navigations :: "string list"

definition initial_health :: health where
  "initial_health =
     \<lparr>channelStatuses = [], apiStatus = SOk, layoutSeen = None, navigations = []\<rparr>"

section \<open>Operations\<close>

definition phoenixStatus :: "(string \<times> service_status) list \<Rightarrow> service_status" where
  "phoenixStatus chans =
     (let statuses = map snd chans
      in if length statuses = 0 then SOk
         else if list_ex (\<lambda>s. s = SOffline) statuses then SOffline
         else if list_ex (\<lambda>s. s = SDegraded) statuses then SDegraded
         else SOk)"

definition setChannelStatus :: "string \<Rightarrow> service_status \<Rightarrow> health \<Rightarrow> health" where
  "setChannelStatus channel status h =
     (if map_of (channelStatuses h) channel = Some status then h
      else h\<lparr>channelStatuses := AList.update channel status (channelStatuses h)\<rparr>)"

definition removeChannel :: "string \<Rightarrow> health \<Rightarrow> health" where
  "removeChannel channel h =
     (if channel \<notin> fst ` set (channelStatuses h) then h
      else h\<lparr>channelStatuses := AList.delete channel (channelStatuses h)\<rparr>)"

definition setApiStatus :: "service_status \<Rightarrow> health \<Rightarrow> health" where
  "setApiStatus status h = h\<lparr>apiStatus := status\<rparr>"

definition resetHealthStatus :: "health \<Rightarrow> health" where
  "resetHealthStatus h = h\<lparr>channelStatuses := [], apiStatus := SOk\<rparr>"

definition commit_layout :: "bool \<Rightarrow> health \<Rightarrow> health" where
  "commit_layout new_navigate h =
     (let now = phoenixStatus (channelStatuses h)
      in if layoutSeen h = Some now \<and> \<not> new_navigate then h
         else h\<lparr>layoutSeen := Some now,
                navigations := navigations h @ (if now = SOffline then [''/unavailable''] else [])\<rparr>)"

text \<open>The banners of the provider's markup, with their texts.\<close>

definition degraded_banner :: "health \<Rightarrow> string option" where
  "degraded_banner h =
     (let phoenix = phoenixStatus (channelStatuses h); api = apiStatus h
      in if (phoenix = SDegraded \<or> api = SDegraded) \<and> phoenix \<noteq> SOffline \<and> api \<noteq> SOffline
         then Some (if phoenix = SDegraded \<and> api = SDegraded then ''Reconnecting to network services...''
                    else if phoenix = SDegraded then ''Reconnecting to chat server...''
                    else ''Reconnecting to signaling server...'')
         else None)"

definition offline_banner :: "health \<Rightarrow> string option" where
  "offline_banner h =
     (if apiStatus h = SOffline \<and> phoenixStatus (channelStatuses h) \<noteq> SOffline
      then Some ''Video services offline. Text chat is still available.'' else None)"

section \<open>The registry of channels as an interface\<close>

text \<open>
  What the chat hooks rely on: setting and removing a channel changes that channel's entry and no
  other, and the API status not at all.
\<close>

locale channel_registry =
  fixes set_status :: "string \<Rightarrow> service_status \<Rightarrow> 's \<Rightarrow> 's"
    and remove :: "string \<Rightarrow> 's \<Rightarrow> 's"
    and status_of :: "'s \<Rightarrow> string \<Rightarrow> service_status option"
    and wf :: "'s \<Rightarrow> bool"
  assumes status_set: "wf s \<Longrightarrow> status_of (set_status c st s) d = (if d = c then Some st else status_of s d)"
    and status_remove: "wf s \<Longrightarrow> status_of (remove c s) d = (if d = c then None else status_of s d)"
    and wf_set: "wf s \<Longrightarrow> wf (set_status c st s)"
    and wf_remove: "wf s \<Longrightarrow> wf (remove c s)"
begin

text \<open>A component that reports any statuses on its own channel and removes it leaves no trace.\<close>

lemma wf_reports: "wf s \<Longrightarrow> wf (fold (set_status c) sts s)"
  by (induction sts arbitrary: s) (auto intro: wf_set)

lemma status_reports_other: "wf s \<Longrightarrow> d \<noteq> c \<Longrightarrow> status_of (fold (set_status c) sts s) d = status_of s d"
  by (induction sts arbitrary: s) (auto simp: status_set wf_set)

lemma mount_unmount:
  "wf s \<Longrightarrow> status_of (remove c (fold (set_status c) sts s)) d = (if d = c then None else status_of s d)"
  by (simp add: status_remove wf_reports status_reports_other)

lemma last_report_wins: "wf s \<Longrightarrow> status_of (fold (set_status c) (sts @ [st]) s) c = Some st"
  by (simp add: status_set wf_reports)

end

definition health_wf :: "health \<Rightarrow> bool" where
  "health_wf h \<longleftrightarrow> distinct (map fst (channelStatuses h))"

definition channel_status :: "health \<Rightarrow> string \<Rightarrow> service_status option" where
  "channel_status h c = map_of (channelStatuses h) c"

interpretation registry: channel_registry setChannelStatus removeChannel channel_status health_wf
proof
  fix s :: health and c d :: string and st :: service_status
  assume wf: "health_wf s"
  show "channel_status (setChannelStatus c st s) d = (if d = c then Some st else channel_status s d)"
    by (simp add: setChannelStatus_def channel_status_def update_conv)
  show "channel_status (removeChannel c s) d = (if d = c then None else channel_status s d)"
    using map_of_eq_None_iff [of "channelStatuses s" c]
    by (simp add: removeChannel_def channel_status_def delete_conv fun_upd_apply)
  show "health_wf (setChannelStatus c st s)"
    using wf by (simp add: setChannelStatus_def health_wf_def distinct_update)
  show "health_wf (removeChannel c s)"
    using wf by (simp add: removeChannel_def health_wf_def distinct_delete)
qed

section \<open>Events of the provider\<close>

datatype health_event =
    SetChannel string service_status
  | RemoveChannel string
  | SetApi service_status
  | ResetHealth
  | Commit bool

fun health_step :: "health_event \<Rightarrow> health \<Rightarrow> health" where
  "health_step (SetChannel c st) h = setChannelStatus c st h"
| "health_step (RemoveChannel c) h = removeChannel c h"
| "health_step (SetApi st) h = setApiStatus st h"
| "health_step ResetHealth h = resetHealthStatus h"
| "health_step (Commit b) h = commit_layout b h"

interpretation health_keys: invariant_system health_step initial_health health_wf
proof
  show "health_wf initial_health" by (simp add: health_wf_def initial_health_def)
  show "health_wf s \<Longrightarrow> health_wf (health_step e s)" for s e
    using registry.wf_set [of s] registry.wf_remove [of s]
    by (cases e) (simp_all add: health_wf_def setApiStatus_def resetHealthStatus_def
        commit_layout_def Let_def)
qed

section \<open>Properties\<close>

lemma phoenixStatus_Nil [simp]: "phoenixStatus [] = SOk"
  by (simp add: phoenixStatus_def)

lemma phoenixStatus_Cons [simp]: "phoenixStatus (cs # chans) = max (snd cs) (phoenixStatus chans)"
  by (cases "snd cs")
    (auto simp: phoenixStatus_def Let_def max_def less_eq_service_status_def)

text \<open>
  The aggregate Phoenix status is the worst channel status, the maximum in the order
  ok, degraded, offline, and ok when no channel reports.
\<close>

theorem phoenixStatus_worst_wins:
  "phoenixStatus chans = foldr max (map snd chans) SOk"
  by (induction chans) simp_all

lemma banners_exclusive:
  "degraded_banner h = None \<or> offline_banner h = None"
  by (auto simp: degraded_banner_def offline_banner_def Let_def)

lemma offline_page_has_no_banner:
  "phoenixStatus (channelStatuses h) = SOffline \<Longrightarrow> degraded_banner h = None \<and> offline_banner h = None"
  by (simp add: degraded_banner_def offline_banner_def Let_def)

text \<open>
  Whatever the provider has been through, a chat page that reports any sequence of statuses on
  its own channel and removes the channel when it unmounts leaves the status of every other channel
  as it was and no entry of its own behind.
\<close>

theorem channel_mount_unmount:
  "channel_status (removeChannel c (fold (setChannelStatus c) sts (run_events health_step es initial_health))) d =
    (if d = c then None else channel_status (run_events health_step es initial_health) d)"
  by (rule registry.mount_unmount [OF health_keys.inv_run])

end
