(* ===== verification/Ws_Client.thy ===== *)
theory Ws_Client
  imports Pairline_Prelude
begin

text \<open>
  The WebSocket client of the chat pages (\<^verbatim>\<open>client/src/services/websocket.ts\<close>), a wrapper around
  the Phoenix \<^verbatim>\<open>Socket\<close> and \<^verbatim>\<open>Channel\<close> of the \<^verbatim>\<open>phoenix\<close> package.

  The package is not part of the repository, so it is the environment: sockets and channels are
  object identities, \<open>chanState\<close> is the state field the library writes, and every callback the
  client hands to the library is an event that may arrive at any time, for any object the client
  ever created. A library call that may throw takes its outcome as an argument.

  Promises are identities with a state; \<open>settle\<close> is the resolve or reject function of the language,
  which only acts on a pending promise. Timers are identities in the lists of armed timers. What the
  client does outside itself (library calls, invocations of registered handlers) is a list of
  effects in program order. A handler is a value of the type parameter.
\<close>

section \<open>State\<close>

datatype chan_state = ChClosed | ChErrored | ChJoined | ChJoining | ChLeaving

datatype promise_state = Pending | Fulfilled js | Rejected js

datatype lib_outcome = LibOk | SocketThrows js | JoinThrows js

datatype 'h ws_effect =
    ConnectSocket nat
  | JoinChannel nat
  | LeaveChannel nat
  | DisconnectSocket nat
  | PushChannel nat string js
  | ArmReconnect nat nat
  | InvokeMessage 'h js
  | InvokeClose 'h
  | InvokeOpen 'h
  | InvokeMaxRetries 'h
  | InvokeReconnecting 'h

record 'h ws =
  socket :: "nat option"
  channel :: "nat option"
  connectPromise :: "nat option"
  messageHandlers :: "'h list"
  closeHandlers :: "'h list"
  openHandlers :: "'h list"
  maxRetriesHandlers :: "'h list"
  reconnectingHandlers :: "'h list"
  reconnectAttempts :: nat
  reconnectTimeout :: "nat option"
  roomPingInterval :: "nat option"
  shouldReconnect :: bool
  isConnecting :: bool
  chanState :: "nat \<Rightarrow> chan_state"
  joinHooks :: "(nat \<times> nat) list"
  reconnectTimers :: "nat list"
  pingIntervals :: "nat list"
  requests :: "nat list"
  responseTimers :: "nat list"
  promises :: "nat \<Rightarrow> promise_state"
  nextId :: nat

type_synonym 'h ws_result = "'h ws \<times> 'h ws_effect list"

definition maxReconnectAttempts :: nat where
  "maxReconnectAttempts = 10"

definition reconnectDelay :: nat where
  "reconnectDelay = 1000"

definition initial_ws :: "'h ws" where
  "initial_ws =
     \<lparr>socket = None, channel = None, connectPromise = None, messageHandlers = [],
      closeHandlers = [], openHandlers = [], maxRetriesHandlers = [], reconnectingHandlers = [],
      reconnectAttempts = 0, reconnectTimeout = None, roomPingInterval = None,
      shouldReconnect = True, isConnecting = False, chanState = (\<lambda>_. ChClosed), joinHooks = [],
      reconnectTimers = [], pingIntervals = [], requests = [], responseTimers = [], promises = (\<lambda>_. Pending),
      nextId = 0\<rparr>"

section \<open>Helpers\<close>

definition isConnected :: "'h ws \<Rightarrow> bool" where
  "isConnected w \<longleftrightarrow> (case channel w of None \<Rightarrow> False | Some c \<Rightarrow> chanState w c = ChJoined)"

definition fresh :: "'h ws \<Rightarrow> nat \<times> 'h ws" where
  "fresh w = (nextId w, w\<lparr>nextId := Suc (nextId w)\<rparr>)"

definition settle :: "nat \<Rightarrow> promise_state \<Rightarrow> 'h ws \<Rightarrow> 'h ws" where
  "settle p st w =
     (if promises w p = Pending then w\<lparr>promises := (promises w)(p := st)\<rparr> else w)"

definition ensureSocket :: "'h ws \<Rightarrow> 'h ws" where
  "ensureSocket w =
     (case socket w of
        Some s \<Rightarrow> w
      | None \<Rightarrow> let (s, w) = fresh w in w\<lparr>socket := Some s\<rparr>)"

definition ensureChannel :: "'h ws \<Rightarrow> 'h ws" where
  "ensureChannel w =
     (if channel w \<noteq> None \<and> chanState w (the (channel w)) \<noteq> ChClosed then w
      else let (c, w) = fresh w in w\<lparr>channel := Some c\<rparr>)"

definition dispatchMessage :: "js \<Rightarrow> 'h ws \<Rightarrow> 'h ws_effect list" where
  "dispatchMessage m w = map (\<lambda>h. InvokeMessage h m) (messageHandlers w)"

definition channelEvents :: "string list" where
  "channelEvents =
     [''match'', ''message'', ''typing'', ''webrtc_start'', ''offer'', ''answer'', ''ice'',
      ''disconnected'', ''timeout'', ''banned'']"

text \<open>The callback of \<^verbatim>\<open>channel.on\<close>: the payload is spread over an object with the event's name.\<close>

definition onChannelEvent :: "string \<Rightarrow> js \<Rightarrow> 'h ws \<Rightarrow> 'h ws_effect list" where
  "onChannelEvent ev payload w =
     (if ev \<in> set channelEvents then dispatchMessage (js_spread [(''type'', JStr ev)] payload) w else [])"

definition stopRoomHeartbeat :: "'h ws \<Rightarrow> 'h ws" where
  "stopRoomHeartbeat w =
     (case roomPingInterval w of
        None \<Rightarrow> w
      | Some i \<Rightarrow> w\<lparr>pingIntervals := removeAll i (pingIntervals w), roomPingInterval := None\<rparr>)"

definition startRoomHeartbeat :: "'h ws \<Rightarrow> 'h ws" where
  "startRoomHeartbeat w =
     (let (i, w) = fresh (stopRoomHeartbeat w)
      in w\<lparr>roomPingInterval := Some i, pingIntervals := pingIntervals w @ [i]\<rparr>)"

definition pingTick :: "'h ws \<Rightarrow> 'h ws_effect list" where
  "pingTick w =
     (if isConnected w then [PushChannel (the (channel w)) ''ping'' (JObj [])] else [])"

section \<open>Connecting\<close>

text \<open>
  The executor of the promise runs before the promise is stored in \<open>connectPromise\<close>: its
  \<^verbatim>\<open>catch\<close> clears the field first, and the assignment of the already rejected promise follows.
\<close>

definition connect_body :: "lib_outcome \<Rightarrow> nat \<Rightarrow> 'h ws \<Rightarrow> 'h ws_result" where
  "connect_body lib p w =
     (case lib of
        SocketThrows err \<Rightarrow> (settle p (Rejected err) (w\<lparr>isConnecting := False, connectPromise := None\<rparr>), [])
      | JoinThrows err \<Rightarrow>
          (let w = ensureChannel (ensureSocket w)
           in (settle p (Rejected err) (w\<lparr>isConnecting := False, connectPromise := None\<rparr>),
               [ConnectSocket (the (socket w))]))
      | LibOk \<Rightarrow>
          (let w = ensureChannel (ensureSocket w); c = the (channel w)
           in (w\<lparr>chanState := (chanState w)(c := ChJoining), joinHooks := joinHooks w @ [(c, p)]\<rparr>,
               [ConnectSocket (the (socket w)), JoinChannel c])))"

definition connect :: "lib_outcome \<Rightarrow> 'h ws \<Rightarrow> nat \<times> 'h ws_result" where
  "connect lib w =
     (if isConnected w then
        (let (p, w) = fresh w in (p, settle p (Fulfilled JUndef) w, []))
      else case connectPromise w of
        Some p \<Rightarrow> (p, w, [])
      | None \<Rightarrow>
          if channel w \<noteq> None \<and> chanState w (the (channel w)) = ChJoining then
            (let (p, w) = fresh w in (p, settle p (Fulfilled JUndef) w, []))
          else
            (let (p, w) = fresh (w\<lparr>isConnecting := True\<rparr>);
                 (w, es) = connect_body lib p w
             in (p, w\<lparr>connectPromise := Some p\<rparr>, es)))"

text \<open>The replies to the join push: the library sets the state, then calls the client's hook.\<close>

definition onJoinOk :: "nat \<Rightarrow> nat \<Rightarrow> 'h ws \<Rightarrow> 'h ws_result" where
  "onJoinOk c p w =
     (let w = w\<lparr>chanState := (chanState w)(c := ChJoined), isConnecting := False,
                connectPromise := None, reconnectAttempts := 0, shouldReconnect := True\<rparr>;
          w = startRoomHeartbeat w
      in (settle p (Fulfilled JUndef) w, map InvokeOpen (openHandlers w)))"

definition onJoinError :: "nat \<Rightarrow> nat \<Rightarrow> js \<Rightarrow> 'h ws \<Rightarrow> 'h ws_result" where
  "onJoinError c p err w =
     (settle p (Rejected err)
        (w\<lparr>chanState := (chanState w)(c := ChErrored), isConnecting := False, connectPromise := None\<rparr>), [])"

definition reconnect_delay :: "nat \<Rightarrow> nat" where
  "reconnect_delay attempts = min (reconnectDelay * 2 ^ attempts) 30000"

definition handleReconnect :: "'h ws \<Rightarrow> 'h ws_result" where
  "handleReconnect w =
     (if reconnectAttempts w < maxReconnectAttempts \<and> shouldReconnect w \<and> \<not> isConnecting w then
        (let (t, w) = fresh w
         in (w\<lparr>reconnectTimeout := Some t, reconnectTimers := reconnectTimers w @ [t]\<rparr>,
             map InvokeReconnecting (reconnectingHandlers w)
               @ [ArmReconnect t (reconnect_delay (reconnectAttempts w))]))
      else if reconnectAttempts w \<ge> maxReconnectAttempts then
        (w\<lparr>shouldReconnect := False\<rparr>, map InvokeMaxRetries (maxRetriesHandlers w))
      else (w, []))"

definition onReconnectTimer :: "nat \<Rightarrow> lib_outcome \<Rightarrow> 'h ws \<Rightarrow> 'h ws_result" where
  "onReconnectTimer t lib w =
     snd (connect lib
       (w\<lparr>reconnectTimers := removeAll t (reconnectTimers w),
          reconnectAttempts := Suc (reconnectAttempts w)\<rparr>))"

definition onSocketClose :: "'h ws \<Rightarrow> 'h ws_result" where
  "onSocketClose w =
     (let w = (stopRoomHeartbeat (w\<lparr>isConnecting := False, connectPromise := None\<rparr>))
                \<lparr>channel := None, socket := None\<rparr>;
          closed = map InvokeClose (closeHandlers w)
      in if shouldReconnect w
         then (let (w, es) = handleReconnect w in (w, closed @ es))
         else (w, closed))"

section \<open>Sending\<close>

text \<open>\<open>None\<close> is the thrown error \<^verbatim>\<open>WebSocket not connected\<close>.\<close>

definition send :: "string \<Rightarrow> js \<Rightarrow> 'h ws \<Rightarrow> 'h ws_effect list option" where
  "send ty dat w =
     (if isConnected w
      then Some [PushChannel (the (channel w)) ty (JObj [(''data'', dat)])] else None)"

definition onSendOk :: "js \<Rightarrow> 'h ws \<Rightarrow> 'h ws_effect list" where
  "onSendOk payload w =
     (if js_truthy (js_get payload ''type'') then dispatchMessage payload w else [])"

definition error_message :: "js \<Rightarrow> js" where
  "error_message payload = JObj [(''type'', JStr ''error''), (''data'', payload)]"

definition onSendError :: "js \<Rightarrow> 'h ws \<Rightarrow> 'h ws_effect list" where
  "onSendError payload w =
     (if js_truthy payload \<and> js_in ''type'' payload \<and> js_truthy (js_get payload ''type'')
      then dispatchMessage payload w
      else dispatchMessage (error_message payload) w)"

definition not_connected :: js where
  "not_connected = JStr ''WebSocket not connected''"

text \<open>
  The promise of a reply. Its timeout is armed with it; a reply clears the timeout and resolves, an
  error reply resolves too, with the message itself or wrapped as an error message.
\<close>

definition sendWithResponse :: "string \<Rightarrow> js \<Rightarrow> 'h ws \<Rightarrow> nat \<times> 'h ws_result" where
  "sendWithResponse ty dat w =
     (let (p, w) = fresh w
      in if isConnected w
         then (p, w\<lparr>requests := requests w @ [p], responseTimers := responseTimers w @ [p]\<rparr>,
               [PushChannel (the (channel w)) ty (JObj [(''data'', dat)])])
         else (p, settle p (Rejected not_connected) w, []))"

definition clearResponseTimer :: "nat \<Rightarrow> 'h ws \<Rightarrow> 'h ws" where
  "clearResponseTimer p w = w\<lparr>responseTimers := removeAll p (responseTimers w)\<rparr>"

definition onResponseOk :: "nat \<Rightarrow> js \<Rightarrow> 'h ws \<Rightarrow> 'h ws" where
  "onResponseOk p payload w = settle p (Fulfilled payload) (clearResponseTimer p w)"

definition onResponseError :: "nat \<Rightarrow> js \<Rightarrow> 'h ws \<Rightarrow> 'h ws" where
  "onResponseError p payload w =
     settle p
       (Fulfilled (if js_truthy payload \<and> js_in ''type'' payload \<and> js_truthy (js_get payload ''type'')
                   then payload else error_message payload))
       (clearResponseTimer p w)"

definition onResponseTimeout :: "nat \<Rightarrow> string \<Rightarrow> 'h ws \<Rightarrow> 'h ws" where
  "onResponseTimeout p ty w =
     settle p (Rejected (JStr (''Timed out waiting for \"'' @ ty @ ''\" response'')))
       (clearResponseTimer p w)"

section \<open>Handlers and teardown\<close>

definition onMessage :: "'h \<Rightarrow> 'h ws \<Rightarrow> 'h ws" where
  "onMessage h w = w\<lparr>messageHandlers := messageHandlers w @ [h]\<rparr>"

definition onClose :: "'h \<Rightarrow> 'h ws \<Rightarrow> 'h ws" where
  "onClose h w = w\<lparr>closeHandlers := closeHandlers w @ [h]\<rparr>"

definition onOpen :: "'h \<Rightarrow> 'h ws \<Rightarrow> 'h ws" where
  "onOpen h w = w\<lparr>openHandlers := openHandlers w @ [h]\<rparr>"

definition onMaxRetries :: "'h \<Rightarrow> 'h ws \<Rightarrow> 'h ws" where
  "onMaxRetries h w = w\<lparr>maxRetriesHandlers := maxRetriesHandlers w @ [h]\<rparr>"

definition onReconnecting :: "'h \<Rightarrow> 'h ws \<Rightarrow> 'h ws" where
  "onReconnecting h w = w\<lparr>reconnectingHandlers := reconnectingHandlers w @ [h]\<rparr>"

definition clear_reconnect_timeout :: "'h ws \<Rightarrow> 'h ws" where
  "clear_reconnect_timeout w =
     (case reconnectTimeout w of
        None \<Rightarrow> w
      | Some t \<Rightarrow> w\<lparr>reconnectTimers := removeAll t (reconnectTimers w), reconnectTimeout := None\<rparr>)"

definition disconnect :: "'h ws \<Rightarrow> 'h ws_result" where
  "disconnect w =
     (let w = w\<lparr>shouldReconnect := False, isConnecting := False, connectPromise := None\<rparr>;
          w = clear_reconnect_timeout (stopRoomHeartbeat w);
          leave = (case channel w of
              None \<Rightarrow> [] | Some c \<Rightarrow> if chanState w c = ChClosed then [] else [LeaveChannel c]);
          shut = (case socket w of None \<Rightarrow> [] | Some s \<Rightarrow> [DisconnectSocket s])
      in (w\<lparr>channel := None, socket := None, messageHandlers := [], closeHandlers := [],
            openHandlers := [], maxRetriesHandlers := [], reconnectingHandlers := []\<rparr>,
          leave @ shut))"

section \<open>Events\<close>

text \<open>
  The calls of the page and the callbacks of the library. A callback that belongs to a timer, a
  join or a request only happens when that timer is armed, that join or request was sent.
\<close>

datatype ws_event =
    CallConnect lib_outcome
  | CallDisconnect
  | CallSend string js
  | CallSendWithResponse string js
  | SocketClosed
  | JoinOk nat nat
  | JoinError nat nat js
  | ChannelEvent string js
  | ChannelStateChange nat chan_state
  | ReconnectTimerFires nat lib_outcome
  | PingTimerTicks nat
  | SendReplyOk js
  | SendReplyError js
  | ResponseOk nat js
  | ResponseError nat js
  | ResponseTimerFires nat string

fun ws_step :: "ws_event \<Rightarrow> 'h ws \<Rightarrow> 'h ws_result" where
  "ws_step (CallConnect lib) w = snd (connect lib w)"
| "ws_step CallDisconnect w = disconnect w"
| "ws_step (CallSend ty dat) w = (case send ty dat w of None \<Rightarrow> (w, []) | Some es \<Rightarrow> (w, es))"
| "ws_step (CallSendWithResponse ty dat) w = snd (sendWithResponse ty dat w)"
| "ws_step SocketClosed w = onSocketClose w"
| "ws_step (JoinOk c p) w = (if (c, p) \<in> set (joinHooks w) then onJoinOk c p w else (w, []))"
| "ws_step (JoinError c p err) w =
     (if (c, p) \<in> set (joinHooks w) then onJoinError c p err w else (w, []))"
| "ws_step (ChannelEvent ev payload) w = (w, onChannelEvent ev payload w)"
| "ws_step (ChannelStateChange c st) w = (w\<lparr>chanState := (chanState w)(c := st)\<rparr>, [])"
| "ws_step (ReconnectTimerFires t lib) w =
     (if t \<in> set (reconnectTimers w) then onReconnectTimer t lib w else (w, []))"
| "ws_step (PingTimerTicks i) w = (w, if i \<in> set (pingIntervals w) then pingTick w else [])"
| "ws_step (SendReplyOk payload) w = (w, onSendOk payload w)"
| "ws_step (SendReplyError payload) w = (w, onSendError payload w)"
| "ws_step (ResponseOk p payload) w =
     (if p \<in> set (requests w) then onResponseOk p payload w else w, [])"
| "ws_step (ResponseError p payload) w =
     (if p \<in> set (requests w) then onResponseError p payload w else w, [])"
| "ws_step (ResponseTimerFires p ty) w =
     (if p \<in> set (responseTimers w) then onResponseTimeout p ty w else w, [])"

definition ws_next :: "ws_event \<Rightarrow> 'h ws \<Rightarrow> 'h ws" where
  "ws_next e w = fst (ws_step e w)"

section \<open>The well-formedness invariant\<close>

definition ws_inv :: "'h ws \<Rightarrow> bool" where
  "ws_inv w \<longleftrightarrow>
     (\<forall>p\<ge>nextId w. promises w p = Pending) \<and>
     pingIntervals w = (case roomPingInterval w of None \<Rightarrow> [] | Some i \<Rightarrow> [i]) \<and>
     (\<forall>i. roomPingInterval w = Some i \<longrightarrow> i < nextId w) \<and>
     (\<forall>p. connectPromise w = Some p \<longrightarrow> p < nextId w) \<and>
     (\<forall>(c, p) \<in> set (joinHooks w). p < nextId w) \<and>
     (\<forall>t \<in> set (reconnectTimers w). t < nextId w) \<and> distinct (reconnectTimers w) \<and>
     (\<forall>p \<in> set (requests w). p < nextId w) \<and>
     (\<forall>p \<in> set (responseTimers w). p \<in> set (requests w))"

lemmas ws_ops = fresh_def settle_def ensureSocket_def ensureChannel_def stopRoomHeartbeat_def
  startRoomHeartbeat_def connect_body_def connect_def onJoinOk_def onJoinError_def
  handleReconnect_def onReconnectTimer_def onSocketClose_def sendWithResponse_def
  clearResponseTimer_def onResponseOk_def onResponseError_def onResponseTimeout_def
  clear_reconnect_timeout_def disconnect_def Let_def

lemma initial_ws_inv: "ws_inv initial_ws"
  by (simp add: ws_inv_def initial_ws_def)

text \<open>Fields the invariant does not read, and the primitive updates it does.\<close>

lemma ws_inv_frame [simp]:
  "ws_inv (w\<lparr>socket := v1\<rparr>) = ws_inv w"
  "ws_inv (w\<lparr>channel := v1\<rparr>) = ws_inv w"
  "ws_inv (w\<lparr>messageHandlers := hs\<rparr>) = ws_inv w"
  "ws_inv (w\<lparr>closeHandlers := hs\<rparr>) = ws_inv w"
  "ws_inv (w\<lparr>openHandlers := hs\<rparr>) = ws_inv w"
  "ws_inv (w\<lparr>maxRetriesHandlers := hs\<rparr>) = ws_inv w"
  "ws_inv (w\<lparr>reconnectingHandlers := hs\<rparr>) = ws_inv w"
  "ws_inv (w\<lparr>reconnectAttempts := n\<rparr>) = ws_inv w"
  "ws_inv (w\<lparr>reconnectTimeout := v1\<rparr>) = ws_inv w"
  "ws_inv (w\<lparr>shouldReconnect := b\<rparr>) = ws_inv w"
  "ws_inv (w\<lparr>isConnecting := b\<rparr>) = ws_inv w"
  "ws_inv (w\<lparr>chanState := f\<rparr>) = ws_inv w"
  by (simp_all add: ws_inv_def)

lemma ws_inv_connectPromise:
  "ws_inv w \<Longrightarrow> ws_inv (w\<lparr>connectPromise := None\<rparr>)"
  "ws_inv w \<Longrightarrow> p < nextId w \<Longrightarrow> ws_inv (w\<lparr>connectPromise := Some p\<rparr>)"
  by (simp_all add: ws_inv_def)

lemma ws_inv_timers:
  "ws_inv w \<Longrightarrow> ts = removeAll t (reconnectTimers w) \<Longrightarrow> ws_inv (w\<lparr>reconnectTimers := ts\<rparr>)"
  by (auto simp: ws_inv_def distinct_removeAll)

lemma ws_inv_joinHooks:
  "ws_inv w \<Longrightarrow> p < nextId w \<Longrightarrow> hs = joinHooks w @ [(c, p)] \<Longrightarrow> ws_inv (w\<lparr>joinHooks := hs\<rparr>)"
  by (auto simp: ws_inv_def)

lemma ws_inv_requests:
  "ws_inv w \<Longrightarrow> p < nextId w \<Longrightarrow>
    ws_inv (w\<lparr>requests := requests w @ [p], responseTimers := responseTimers w @ [p]\<rparr>)"
  by (auto simp: ws_inv_def)

lemma ws_inv_nextId: "ws_inv w \<Longrightarrow> ws_inv (w\<lparr>nextId := Suc (nextId w)\<rparr>)"
  by (fastforce simp: ws_inv_def split: option.splits)

lemma ws_inv_clearResponseTimer: "ws_inv w \<Longrightarrow> ws_inv (clearResponseTimer p w)"
  by (auto simp: ws_inv_def clearResponseTimer_def)

lemma nextId_clearResponseTimer [simp]: "nextId (clearResponseTimer p w) = nextId w"
  by (simp add: clearResponseTimer_def)

lemma ws_inv_settle: "ws_inv w \<Longrightarrow> p < nextId w \<Longrightarrow> ws_inv (settle p st w)"
  by (auto simp: ws_inv_def settle_def)

lemma ws_inv_stop [keeps]: "ws_inv w \<Longrightarrow> ws_inv (stopRoomHeartbeat w)"
  by (auto simp: ws_inv_def stopRoomHeartbeat_def split: option.splits)

lemma stop_fields [simp]:
  "nextId (stopRoomHeartbeat w) = nextId w"
  "roomPingInterval (stopRoomHeartbeat w) = None"
  "reconnectTimers (stopRoomHeartbeat w) = reconnectTimers w"
  "reconnectTimeout (stopRoomHeartbeat w) = reconnectTimeout w"
  "shouldReconnect (stopRoomHeartbeat w) = shouldReconnect w"
  "reconnectAttempts (stopRoomHeartbeat w) = reconnectAttempts w"
  "closeHandlers (stopRoomHeartbeat w) = closeHandlers w"
  "openHandlers (stopRoomHeartbeat w) = openHandlers w"
  "messageHandlers (stopRoomHeartbeat w) = messageHandlers w"
  "maxRetriesHandlers (stopRoomHeartbeat w) = maxRetriesHandlers w"
  "reconnectingHandlers (stopRoomHeartbeat w) = reconnectingHandlers w"
  "isConnecting (stopRoomHeartbeat w) = isConnecting w"
  "connectPromise (stopRoomHeartbeat w) = connectPromise w"
  "channel (stopRoomHeartbeat w) = channel w"
  "socket (stopRoomHeartbeat w) = socket w"
  "chanState (stopRoomHeartbeat w) = chanState w"
  "promises (stopRoomHeartbeat w) = promises w"
  "joinHooks (stopRoomHeartbeat w) = joinHooks w"
  "requests (stopRoomHeartbeat w) = requests w"
  by (simp_all add: stopRoomHeartbeat_def split: option.splits)

lemma ws_inv_start [keeps]: "ws_inv w \<Longrightarrow> ws_inv (startRoomHeartbeat w)"
  using ws_inv_stop [of w]
  by (fastforce simp: ws_inv_def startRoomHeartbeat_def fresh_def Let_def)

lemma nextId_start [simp]: "nextId (startRoomHeartbeat w) = Suc (nextId w)"
  by (simp add: startRoomHeartbeat_def fresh_def Let_def)

lemma ws_inv_ensureSocket [keeps]: "ws_inv w \<Longrightarrow> ws_inv (ensureSocket w)"
  by (simp add: ensureSocket_def fresh_def ws_inv_nextId split: option.splits)

lemma ws_inv_ensureChannel [keeps]: "ws_inv w \<Longrightarrow> ws_inv (ensureChannel w)"
  by (simp add: ensureChannel_def fresh_def ws_inv_nextId)

lemma nextId_ensure: "nextId w \<le> nextId (ensureChannel (ensureSocket w))"
  by (simp add: ensureChannel_def ensureSocket_def fresh_def split: option.splits)

lemma nextId_settle [simp]: "nextId (settle p st w) = nextId w"
  by (simp add: settle_def)

lemma nextId_connect_body: "nextId w \<le> nextId (fst (connect_body lib p w))"
  using nextId_ensure [of w] by (auto simp: connect_body_def Let_def split: lib_outcome.splits)

lemma ws_inv_connect_body:
  assumes "ws_inv w" and "p < nextId w"
  shows "ws_inv (fst (connect_body lib p w))"
proof -
  have "ws_inv (ensureChannel (ensureSocket w))"
    using assms(1) by (simp add: keeps)
  moreover have "p < nextId (ensureChannel (ensureSocket w))"
    using nextId_ensure [of w] assms(2) by simp
  ultimately show ?thesis
    using assms
    by (auto simp: connect_body_def Let_def split: lib_outcome.splits
        intro!: ws_inv_settle ws_inv_connectPromise ws_inv_joinHooks)
qed

lemma ws_inv_connect:
  assumes "ws_inv w"
  shows "ws_inv (fst (snd (connect lib w)))"
proof -
  let ?w = "w\<lparr>isConnecting := True, nextId := Suc (nextId w)\<rparr>"
  have "ws_inv ?w" using assms ws_inv_nextId [of "w\<lparr>isConnecting := True\<rparr>"] by simp
  then have "ws_inv (fst (connect_body lib (nextId w) ?w))"
    by (rule ws_inv_connect_body) simp
  moreover have "nextId w < nextId (fst (connect_body lib (nextId w) ?w))"
    using nextId_connect_body [of ?w lib "nextId w"] by simp
  ultimately show ?thesis
    using assms ws_inv_nextId [of w]
    by (auto simp: connect_def fresh_def Let_def split_beta split: option.splits
        intro!: ws_inv_settle ws_inv_connectPromise)
qed

lemma ws_inv_handleReconnect: "ws_inv w \<Longrightarrow> ws_inv (fst (handleReconnect w))"
  by (fastforce simp: handleReconnect_def fresh_def Let_def ws_inv_def split: option.splits)

lemma ws_inv_onSocketClose: "ws_inv w \<Longrightarrow> ws_inv (fst (onSocketClose w))"
  by (auto simp: onSocketClose_def Let_def split_beta
      intro!: ws_inv_handleReconnect ws_inv_stop ws_inv_connectPromise)

lemma ws_inv_disconnect: "ws_inv w \<Longrightarrow> ws_inv (fst (disconnect w))"
  by (auto simp: disconnect_def clear_reconnect_timeout_def Let_def split: option.splits
      intro!: ws_inv_stop ws_inv_connectPromise ws_inv_timers)

lemma ws_inv_pings:
  "ws_inv w \<Longrightarrow> pingIntervals w = (case roomPingInterval w of None \<Rightarrow> [] | Some i \<Rightarrow> [i])"
  by (simp add: ws_inv_def)

lemma ws_inv_response:
  assumes "ws_inv w" and "p < nextId w"
  shows "ws_inv (settle p st (clearResponseTimer p w))"
  using assms by (auto intro!: ws_inv_settle ws_inv_clearResponseTimer)

lemma ws_inv_bounds:
  "ws_inv w \<Longrightarrow> (c, p) \<in> set (joinHooks w) \<Longrightarrow> p < nextId w"
  "ws_inv w \<Longrightarrow> p \<in> set (requests w) \<Longrightarrow> p < nextId w"
  "ws_inv w \<Longrightarrow> p \<in> set (responseTimers w) \<Longrightarrow> p < nextId w"
  by (auto simp: ws_inv_def)

lemma ws_inv_join:
  assumes "ws_inv w" and "p < nextId w"
  shows "ws_inv (fst (onJoinOk c p w))" and "ws_inv (fst (onJoinError c p err w))"
  using assms by (auto simp: onJoinOk_def onJoinError_def Let_def
      intro!: ws_inv_settle ws_inv_start ws_inv_connectPromise)

lemma ws_inv_sendWithResponse: "ws_inv w \<Longrightarrow> ws_inv (fst (snd (sendWithResponse ty dat w)))"
  using ws_inv_nextId [of w] ws_inv_requests [of "w\<lparr>nextId := Suc (nextId w)\<rparr>" "nextId w"]
  by (auto simp: sendWithResponse_def fresh_def Let_def intro!: ws_inv_settle)

lemma ws_inv_onReconnectTimer: "ws_inv w \<Longrightarrow> ws_inv (fst (onReconnectTimer t lib w))"
  by (auto simp: onReconnectTimer_def intro!: ws_inv_connect ws_inv_timers)

lemma ws_inv_next:
  assumes inv: "ws_inv w"
  shows "ws_inv (ws_next e w)"
  using inv ws_inv_bounds [OF inv]
  by (cases e) (auto simp: ws_next_def onResponseOk_def onResponseError_def onResponseTimeout_def
    intro: ws_inv_connect ws_inv_disconnect ws_inv_sendWithResponse ws_inv_onSocketClose ws_inv_join
      ws_inv_onReconnectTimer ws_inv_response split: option.split)

interpretation ws_sys: invariant_system ws_next initial_ws ws_inv
  by unfold_locales (auto intro: initial_ws_inv ws_inv_next)

section \<open>The contract the chat hooks use\<close>

text \<open>
  A transport can be asked whether it is connected, send, ask for a reply and say how a promise
  stands. Sending works exactly when connected; a request made while not connected is rejected at
  once; a settled promise stays settled through whatever happens next.
\<close>

locale transport =
  fixes connected :: "'w \<Rightarrow> bool"
    and push :: "string \<Rightarrow> js \<Rightarrow> 'w \<Rightarrow> 'o list option"
    and request :: "string \<Rightarrow> js \<Rightarrow> 'w \<Rightarrow> nat \<times> 'w \<times> 'o list"
    and promise :: "'w \<Rightarrow> nat \<Rightarrow> promise_state"
    and advance :: "'e \<Rightarrow> 'w \<Rightarrow> 'w"
    and wf :: "'w \<Rightarrow> bool"
  assumes push_defined: "push ty d w \<noteq> None \<longleftrightarrow> connected w"
    and request_offline: "wf w \<Longrightarrow> \<not> connected w \<Longrightarrow> request ty d w = (p, w', es) \<Longrightarrow>
      es = [] \<and> (\<exists>err. promise w' p = Rejected err)"
    and request_online: "wf w \<Longrightarrow> connected w \<Longrightarrow> request ty d w = (p, w', es) \<Longrightarrow>
      promise w' p = Pending"
    and wf_advance: "wf w \<Longrightarrow> wf (advance e w)"
    and settled: "promise w p \<noteq> Pending \<Longrightarrow> promise (advance e w) p = promise w p"
begin

lemma settled_run: "promise w p \<noteq> Pending \<Longrightarrow> promise (run_events advance es w) p = promise w p"
  by (induction es arbitrary: w) (simp_all add: settled)

lemma offline_request_stays_rejected:
  "wf w \<Longrightarrow> \<not> connected w \<Longrightarrow> request ty d w = (p, w', es) \<Longrightarrow>
    \<exists>err. promise (run_events advance ev w') p = Rejected err"
  using request_offline [of w ty d p w' es] settled_run [of w' p ev] by fastforce

end

lemma settle_settled: "promises w p \<noteq> Pending \<Longrightarrow> promises (settle q st w) p = promises w p"
  by (auto simp: settle_def)

lemma promises_ensure [simp]:
  "promises (ensureSocket w) = promises w" "promises (ensureChannel w) = promises w"
  by (simp_all add: ensureSocket_def ensureChannel_def fresh_def split: option.splits)

lemma promises_start [simp]: "promises (startRoomHeartbeat w) = promises w"
  by (simp add: startRoomHeartbeat_def fresh_def Let_def)

lemma promises_clear [simp]:
  "promises (clearResponseTimer p w) = promises w"
  "promises (clear_reconnect_timeout w) = promises w"
  by (simp_all add: clearResponseTimer_def clear_reconnect_timeout_def split: option.splits)

lemma connect_settled:
  "promises w p \<noteq> Pending \<Longrightarrow> promises (fst (snd (connect lib w))) p = promises w p"
  by (auto simp: connect_def connect_body_def fresh_def Let_def split_beta settle_settled
      split: option.splits lib_outcome.splits)

lemma ws_next_settled:
  assumes "promises w p \<noteq> Pending"
  shows "promises (ws_next e w) p = promises w p"
  using assms
  by (cases e) (auto simp: ws_next_def connect_settled disconnect_def onSocketClose_def
    handleReconnect_def onReconnectTimer_def onJoinOk_def onJoinError_def sendWithResponse_def
    onResponseOk_def onResponseError_def onResponseTimeout_def settle_settled fresh_def Let_def
    split: option.splits)

interpretation ws_transport:
  transport isConnected send sendWithResponse promises ws_next ws_inv
proof
  fix ty d w p w' es e
  show "(send ty d w \<noteq> None) = isConnected w"
    by (simp add: send_def)
  show "ws_inv w \<Longrightarrow> \<not> isConnected w \<Longrightarrow> sendWithResponse ty d w = (p, w', es) \<Longrightarrow>
      es = [] \<and> (\<exists>err. promises w' p = Rejected err)"
    by (auto simp: sendWithResponse_def fresh_def isConnected_def settle_def ws_inv_def Let_def
        split: option.splits if_splits)
  show "ws_inv w \<Longrightarrow> isConnected w \<Longrightarrow> sendWithResponse ty d w = (p, w', es) \<Longrightarrow>
      promises w' p = Pending"
    by (auto simp: sendWithResponse_def fresh_def isConnected_def ws_inv_def Let_def
        split: option.splits if_splits)
  show "ws_inv w \<Longrightarrow> ws_inv (ws_next e w)" by (rule ws_inv_next)
  show "promises w p \<noteq> Pending \<Longrightarrow> promises (ws_next e w) p = promises w p"
    by (rule ws_next_settled)
qed

section \<open>Which promises can still settle\<close>

text \<open>A promise that is no request settles only through the join it was created for.\<close>

definition unsettled :: "nat \<Rightarrow> 'h ws \<Rightarrow> bool" where
  "unsettled p w \<longleftrightarrow> promises w p = Pending \<and> p < nextId w \<and> p \<notin> set (requests w)"

lemma settle_other: "q \<noteq> p \<Longrightarrow> promises (settle q st w) p = promises w p"
  by (simp add: settle_def)

lemma requests_frame [simp]:
  "requests (settle q st w) = requests w"
  "requests (ensureSocket w) = requests w"
  "requests (ensureChannel w) = requests w"
  "requests (startRoomHeartbeat w) = requests w"
  "requests (clearResponseTimer q w) = requests w"
  "requests (clear_reconnect_timeout w) = requests w"
  by (simp_all add: settle_def ensureSocket_def ensureChannel_def startRoomHeartbeat_def
      clearResponseTimer_def clear_reconnect_timeout_def fresh_def Let_def split: option.splits)

lemma nextId_clear_reconnect [simp]: "nextId (clear_reconnect_timeout w) = nextId w"
  by (simp add: clear_reconnect_timeout_def split: option.splits)

lemma requests_connect [simp]: "requests (fst (snd (connect lib w))) = requests w"
  by (auto simp: connect_def connect_body_def fresh_def Let_def split_beta
      split: option.splits lib_outcome.splits)

lemma nextId_connect: "nextId w \<le> nextId (fst (snd (connect lib w)))"
  using nextId_connect_body [of "w\<lparr>isConnecting := True, nextId := Suc (nextId w)\<rparr>" lib "nextId w"]
  by (auto simp: connect_def fresh_def Let_def split_beta split: option.splits)

lemma promises_connect:
  "p < nextId w \<Longrightarrow> promises (fst (snd (connect lib w))) p = promises w p"
  by (auto simp: connect_def connect_body_def fresh_def Let_def split_beta settle_other
      split: option.splits lib_outcome.splits)

lemma unsettled_connect: "unsettled p w \<Longrightarrow> unsettled p (fst (snd (connect lib w)))"
  using nextId_connect [of w lib] by (simp add: unsettled_def promises_connect)

lemma unsettled_next:
  assumes "unsettled p w" and "ws_inv w" and "\<forall>c. e \<noteq> JoinOk c p" and "\<forall>c err. e \<noteq> JoinError c p err"
  shows "unsettled p (ws_next e w)"
proof (cases e)
  case (CallConnect lib)
  with assms(1) show ?thesis by (simp add: ws_next_def unsettled_connect)
next
  case (ReconnectTimerFires t lib)
  have "unsettled p (w\<lparr>reconnectTimers := ts, reconnectAttempts := n\<rparr>)" for ts n
    using assms(1) by (simp add: unsettled_def)
  with ReconnectTimerFires assms(1) show ?thesis
    by (simp add: ws_next_def onReconnectTimer_def unsettled_connect)
next
  case (JoinOk c q)
  with assms(1,3) show ?thesis
    by (auto simp: ws_next_def onJoinOk_def unsettled_def Let_def settle_other)
next
  case (JoinError c q err)
  with assms(1,4) show ?thesis
    by (auto simp: ws_next_def onJoinError_def unsettled_def settle_other)
next
  case (ResponseOk q payload)
  with assms(1) show ?thesis
    by (cases "q = p") (auto simp: ws_next_def onResponseOk_def unsettled_def settle_other)
next
  case (ResponseError q payload)
  with assms(1) show ?thesis
    by (cases "q = p") (auto simp: ws_next_def onResponseError_def unsettled_def settle_other)
next
  case (ResponseTimerFires q ty)
  with assms(1,2) show ?thesis
    by (cases "q = p") (auto simp: ws_next_def onResponseTimeout_def unsettled_def settle_other ws_inv_def)
next
  case (CallSendWithResponse ty dat)
  with assms(1) show ?thesis
    by (auto simp: ws_next_def sendWithResponse_def unsettled_def settle_other fresh_def Let_def)
next
  case SocketClosed
  with assms(1) show ?thesis
    by (auto simp: ws_next_def onSocketClose_def handleReconnect_def unsettled_def fresh_def Let_def)
qed (use assms(1) in \<open>auto simp: ws_next_def unsettled_def disconnect_def Let_def split: option.splits\<close>)

lemma unsettled_run:
  "unsettled p w \<Longrightarrow> ws_inv w \<Longrightarrow> (\<forall>c. JoinOk c p \<notin> set es) \<Longrightarrow> (\<forall>c err. JoinError c p err \<notin> set es) \<Longrightarrow>
    unsettled p (run_events ws_next es w)"
proof (induction es arbitrary: w)
  case Nil
  then show ?case by simp
next
  case (Cons e es)
  have "unsettled p (ws_next e w)"
    by (rule unsettled_next) (use Cons.prems in auto)
  with Cons show ?case by (simp add: ws_inv_next)
qed

section \<open>Properties\<close>

text \<open>
  At every moment of every run the client has at most one heartbeat running, the one it
  remembers, so reconnecting never accumulates ping intervals.
\<close>

theorem heartbeat_single:
  "let w = run_events ws_next es initial_ws
   in pingIntervals w = (case roomPingInterval w of None \<Rightarrow> [] | Some i \<Rightarrow> [i])"
  unfolding Let_def by (rule ws_inv_pings [OF ws_sys.inv_run])

text \<open>
  A promise the client handed out settles once. Whatever replies, timeouts, joins and closes
  follow, in whatever order, a settled connect or reply promise keeps its outcome.
\<close>

theorem promise_settles_once:
  assumes "promises (run_events ws_next xs (initial_ws :: 'h ws)) p \<noteq> Pending"
  shows "promises (run_events ws_next (xs @ ys) (initial_ws :: 'h ws)) p =
    promises (run_events ws_next xs (initial_ws :: 'h ws)) p"
  using assms by (simp add: run_events_append ws_transport.settled_run)

theorem promise_settles_once_witness:
  "promises (run_events ws_next ([CallConnect LibOk, JoinOk 2 0] @ [SocketClosed, JoinError 2 0 JNull])
      (initial_ws :: nat ws)) 0 = Fulfilled JUndef"
proof -
  have eq: "promises (run_events ws_next [CallConnect LibOk, JoinOk 2 0] (initial_ws :: nat ws)) 0 =
      Fulfilled JUndef"
    by (simp add: initial_ws_def ws_next_def ws_ops isConnected_def)
  then have "promises (run_events ws_next [CallConnect LibOk, JoinOk 2 0] (initial_ws :: nat ws)) 0 \<noteq> Pending"
    by simp
  from promise_settles_once [OF this] show ?thesis by (simp only: eq)
qed

text \<open>
  An outage: the socket closes, the armed timer fires, the join never succeeds, over and over.
\<close>

fun outage :: "nat \<Rightarrow> 'h ws \<Rightarrow> 'h ws" where
  "outage 0 w = w"
| "outage (Suc k) w =
     (let closed = ws_next SocketClosed (outage k w)
      in ws_next (ReconnectTimerFires (the (reconnectTimeout closed)) LibOk) closed)"

definition same_handlers :: "'h ws \<Rightarrow> 'h ws \<Rightarrow> bool" where
  "same_handlers v w \<longleftrightarrow> closeHandlers v = closeHandlers w \<and> openHandlers v = openHandlers w \<and>
     messageHandlers v = messageHandlers w \<and> maxRetriesHandlers v = maxRetriesHandlers w \<and>
     reconnectingHandlers v = reconnectingHandlers w"

lemma close_effects:
  "shouldReconnect w \<Longrightarrow> reconnectAttempts w < maxReconnectAttempts \<Longrightarrow>
    snd (onSocketClose w) = map InvokeClose (closeHandlers w) @
      map InvokeReconnecting (reconnectingHandlers w) @
      [ArmReconnect (nextId w) (reconnect_delay (reconnectAttempts w))]"
  "shouldReconnect w \<Longrightarrow> \<not> reconnectAttempts w < maxReconnectAttempts \<Longrightarrow>
    snd (onSocketClose w) = map InvokeClose (closeHandlers w) @ map InvokeMaxRetries (maxRetriesHandlers w)"
  by (simp_all add: onSocketClose_def handleReconnect_def fresh_def Let_def)

lemma same_handlers_connect: "same_handlers (fst (snd (connect lib w))) w"
  by (auto simp: same_handlers_def connect_def connect_body_def ensureSocket_def ensureChannel_def
      settle_def fresh_def Let_def split_beta split: option.splits lib_outcome.splits)

lemma attempts_connect [simp]:
  "reconnectAttempts (fst (snd (connect lib w))) = reconnectAttempts w"
  "shouldReconnect (fst (snd (connect lib w))) = shouldReconnect w"
  by (auto simp: connect_def connect_body_def ensureSocket_def ensureChannel_def
      settle_def fresh_def Let_def split_beta split: option.splits lib_outcome.splits)

lemma outage_cycle:
  assumes "shouldReconnect w" and "reconnectAttempts w < maxReconnectAttempts"
  defines "v \<equiv> ws_next (ReconnectTimerFires (the (reconnectTimeout (ws_next SocketClosed w))) LibOk)
    (ws_next SocketClosed w)"
  shows "shouldReconnect v" and "reconnectAttempts v = Suc (reconnectAttempts w)" and "same_handlers v w"
proof -
  define c where "c = ws_next SocketClosed w"
  have c: "reconnectTimeout c = Some (nextId w)" "nextId w \<in> set (reconnectTimers c)"
    "shouldReconnect c" "reconnectAttempts c = reconnectAttempts w" "same_handlers c w"
    using assms(1,2)
    by (simp_all add: c_def ws_next_def onSocketClose_def handleReconnect_def fresh_def Let_def
        same_handlers_def)
  let ?u = "c\<lparr>reconnectTimers := removeAll (nextId w) (reconnectTimers c),
    reconnectAttempts := Suc (reconnectAttempts c)\<rparr>"
  have v: "v = fst (snd (connect LibOk ?u))"
    using c(1,2) unfolding v_def c_def [symmetric] by (simp add: ws_next_def onReconnectTimer_def)
  show "shouldReconnect v" "reconnectAttempts v = Suc (reconnectAttempts w)"
    using c(3,4) by (simp_all add: v)
  show "same_handlers v w"
    using same_handlers_connect [of LibOk ?u] c(5) by (simp add: v same_handlers_def)
qed

lemma outage_state:
  assumes "shouldReconnect w" and "reconnectAttempts w = 0"
  shows "k \<le> maxReconnectAttempts \<Longrightarrow>
    shouldReconnect (outage k w) \<and> reconnectAttempts (outage k w) = k \<and> same_handlers (outage k w) w"
proof (induction k)
  case 0
  then show ?case using assms by (simp add: same_handlers_def)
next
  case (Suc k)
  then have "shouldReconnect (outage k w)" "reconnectAttempts (outage k w) < maxReconnectAttempts"
    by simp_all
  from outage_cycle [OF this] Suc show ?case
    by (simp add: Let_def same_handlers_def)
qed

text \<open>
  C39: reconnection backs off and stops. In an outage that starts with a fresh attempt counter the
  first ten closes each notify the reconnecting handlers and arm one timer, after 1, 2, 4, 8, 16 and
  then 30 seconds; the eleventh tells the handlers that the retries are exhausted, arms nothing and
  turns reconnection off.
\<close>

theorem reconnect_gives_up:
  assumes "shouldReconnect w" and "reconnectAttempts w = 0"
  shows "(\<forall>k<10. snd (ws_step SocketClosed (outage k w)) =
      map InvokeClose (closeHandlers w) @ map InvokeReconnecting (reconnectingHandlers w) @
      [ArmReconnect (nextId (outage k w)) (min (1000 * 2 ^ k) 30000)]) \<and>
    snd (ws_step SocketClosed (outage 10 w)) =
      map InvokeClose (closeHandlers w) @ map InvokeMaxRetries (maxRetriesHandlers w) \<and>
    \<not> shouldReconnect (ws_next SocketClosed (outage 10 w))"
proof (intro conjI allI impI)
  fix k :: nat
  assume "k < 10"
  with outage_state [OF assms, of k] show "snd (ws_step SocketClosed (outage k w)) =
      map InvokeClose (closeHandlers w) @ map InvokeReconnecting (reconnectingHandlers w) @
      [ArmReconnect (nextId (outage k w)) (min (1000 * 2 ^ k) 30000)]"
    by (simp add: close_effects maxReconnectAttempts_def same_handlers_def reconnect_delay_def
        reconnectDelay_def)
next
  note ten = outage_state [OF assms, of 10]
  then show "snd (ws_step SocketClosed (outage 10 w)) =
      map InvokeClose (closeHandlers w) @ map InvokeMaxRetries (maxRetriesHandlers w)"
    by (simp add: close_effects maxReconnectAttempts_def same_handlers_def)
  from ten show "\<not> shouldReconnect (ws_next SocketClosed (outage 10 w))"
    by (simp add: ws_next_def onSocketClose_def handleReconnect_def maxReconnectAttempts_def Let_def)
qed

theorem reconnect_gives_up_witness:
  "snd (ws_step SocketClosed (outage 10 (onMaxRetries (7::nat) initial_ws))) = [InvokeMaxRetries 7]"
proof -
  have "shouldReconnect (onMaxRetries (7::nat) initial_ws)"
    and "reconnectAttempts (onMaxRetries (7::nat) initial_ws) = 0"
    by (simp_all add: onMaxRetries_def initial_ws_def)
  from reconnect_gives_up [OF this] show ?thesis
    by (simp add: onMaxRetries_def initial_ws_def)
qed

text \<open>Invocations of handlers, the effects a page can notice.\<close>

fun is_invocation :: "'h ws_effect \<Rightarrow> bool" where
  "is_invocation (InvokeMessage h m) = True"
| "is_invocation (InvokeClose h) = True"
| "is_invocation (InvokeOpen h) = True"
| "is_invocation (InvokeMaxRetries h) = True"
| "is_invocation (InvokeReconnecting h) = True"
| "is_invocation eff = False"

definition silent :: "'h ws \<Rightarrow> bool" where
  "silent w \<longleftrightarrow> messageHandlers w = [] \<and> closeHandlers w = [] \<and> openHandlers w = [] \<and>
     maxRetriesHandlers w = [] \<and> reconnectingHandlers w = []"

lemma silent_same: "silent w \<Longrightarrow> same_handlers v w \<Longrightarrow> silent v"
  by (simp add: silent_def same_handlers_def)

lemma silent_primitives [simp]:
  "silent (settle p st w) = silent w" "silent (stopRoomHeartbeat w) = silent w"
  "silent (startRoomHeartbeat w) = silent w" "silent (clearResponseTimer p w) = silent w"
  "silent (snd (fresh w)) = silent w"
  by (simp_all add: silent_def settle_def startRoomHeartbeat_def clearResponseTimer_def fresh_def Let_def)

lemma silent_connect: "silent w \<Longrightarrow> silent (fst (snd (connect lib w)))"
  using same_handlers_connect silent_same by blast

lemma connect_no_invocation: "filter is_invocation (snd (snd (connect lib w))) = []"
  by (auto simp: connect_def connect_body_def fresh_def Let_def split_beta
      split: option.splits lib_outcome.splits)

lemma silent_step:
  assumes "silent w"
  shows "silent (fst (ws_step e w))" and "filter is_invocation (snd (ws_step e w)) = []"
proof -
  have "silent (w\<lparr>reconnectTimers := ts, reconnectAttempts := n\<rparr>)" for ts n
    using assms by (simp add: silent_def)
  then have timer: "silent (fst (onReconnectTimer t lib w))" for t lib
    by (simp add: onReconnectTimer_def silent_connect)
  have rest: "silent (fst (disconnect w))" "silent (fst (onSocketClose w))"
    "silent (fst (onJoinOk c p w))" "silent (fst (onJoinError c p err w))"
    "silent (fst (snd (sendWithResponse ty dat w)))" for c p err ty dat
    using assms
    by (auto simp: disconnect_def onSocketClose_def handleReconnect_def onJoinOk_def onJoinError_def
        sendWithResponse_def fresh_def Let_def) (simp_all add: silent_def)
  show "silent (fst (ws_step e w))"
    using assms timer rest
    by (cases e) (auto simp: silent_connect onResponseOk_def onResponseError_def onResponseTimeout_def
        split: option.splits, simp_all add: silent_def)
  show "filter is_invocation (snd (ws_step e w)) = []"
    using assms
    by (cases e) (auto simp: connect_no_invocation onReconnectTimer_def disconnect_def send_def
        sendWithResponse_def onSocketClose_def handleReconnect_def onJoinOk_def onJoinError_def
        onChannelEvent_def dispatchMessage_def pingTick_def onSendOk_def onSendError_def silent_def
        fresh_def startRoomHeartbeat_def Let_def split: option.splits)
qed

lemma silent_run: "silent w \<Longrightarrow> filter is_invocation (run_effects ws_step es w) = []"
  by (induction es arbitrary: w) (simp_all add: silent_step)

text \<open>
  After \<^verbatim>\<open>disconnect()\<close> no handler of the page is ever called again: no message, close,
  open, retry or reconnect notification, whatever the library still delivers and whatever timer
  still fires. A page that unmounted cannot be driven by its old socket.
\<close>

theorem disconnect_silences:
  "filter is_invocation (run_effects ws_step es (fst (disconnect w))) = []"
  by (rule silent_run) (simp add: disconnect_def silent_def Let_def)

text \<open>
  Two overlapping reconnect timers: the page calls \<^verbatim>\<open>connect()\<close> itself while one is armed, and
  the new socket closes too. The field remembers the second timer only.
\<close>

definition overlap :: "ws_event list" where
  "overlap = [CallConnect LibOk, SocketClosed, CallConnect LibOk, SocketClosed]"

text \<open>
  \<^verbatim>\<open>disconnect()\<close> disarms the remembered reconnect timer and only that one. After the two
  closes of \<open>overlap\<close> a timer survives the teardown; when it fires the client that was told to
  stop opens a new socket and joins again, and a successful join turns reconnection back on.
\<close>

theorem disconnect_leaves_earlier_timer:
  "(\<forall>w. reconnectTimers (fst (disconnect (w :: nat ws))) =
      (case reconnectTimeout w of None \<Rightarrow> reconnectTimers w
       | Some t \<Rightarrow> removeAll t (reconnectTimers w))) \<and>
    (let w = run_events ws_next (overlap @ [CallDisconnect]) (initial_ws :: nat ws);
         v = run_events ws_next [ReconnectTimerFires 3 LibOk, JoinOk 10 8] w
     in reconnectTimers w = [3] \<and> \<not> shouldReconnect w \<and>
        snd (ws_step (ReconnectTimerFires 3 LibOk) w) = [ConnectSocket 9, JoinChannel 10] \<and>
        isConnected v \<and> shouldReconnect v)"
proof (intro conjI allI)
  fix w :: "nat ws"
  show "reconnectTimers (fst (disconnect w)) =
      (case reconnectTimeout w of None \<Rightarrow> reconnectTimers w
       | Some t \<Rightarrow> removeAll t (reconnectTimers w))"
    by (simp add: disconnect_def clear_reconnect_timeout_def Let_def split: option.splits)
next
  show "let w = run_events ws_next (overlap @ [CallDisconnect]) (initial_ws :: nat ws);
         v = run_events ws_next [ReconnectTimerFires 3 LibOk, JoinOk 10 8] w
     in reconnectTimers w = [3] \<and> \<not> shouldReconnect w \<and>
        snd (ws_step (ReconnectTimerFires 3 LibOk) w) = [ConnectSocket 9, JoinChannel 10] \<and>
        isConnected v \<and> shouldReconnect v"
    by (simp add: overlap_def initial_ws_def ws_next_def ws_ops isConnected_def
        maxReconnectAttempts_def)
qed

text \<open>
  A join that throws poisons the client. The executor of the connect promise clears
  \<open>connectPromise\<close> in its \<^verbatim>\<open>catch\<close> before the constructor's result is assigned to it, so the
  field ends up holding the rejected promise, and every later \<^verbatim>\<open>connect()\<close> hands it out again
  without trying.
\<close>

theorem sync_join_failure_sticks:
  assumes "ws_inv w" and "\<not> isConnected w" and "connectPromise w = None"
    and "\<forall>c. channel w = Some c \<longrightarrow> chanState w c \<noteq> ChJoining"
    and "connect (JoinThrows err) w = (p, w', es)" and "\<not> isConnected w'"
  shows "promises w' p = Rejected err \<and> connect lib w' = (p, w', [])"
proof -
  let ?u = "ensureChannel (ensureSocket (w\<lparr>isConnecting := True, nextId := Suc (nextId w)\<rparr>))"
  have joining: "\<not> (channel w \<noteq> None \<and> chanState w (the (channel w)) = ChJoining)"
    using assms(4) by auto
  have p: "p = nextId w" and w': "w' = settle p (Rejected err)
      (?u\<lparr>isConnecting := False, connectPromise := None\<rparr>)\<lparr>connectPromise := Some p\<rparr>"
    using assms(2,3,5) joining
    by (auto simp: connect_def connect_body_def fresh_def Let_def)
  have "promises w p = Pending" using assms(1) by (simp add: ws_inv_def p)
  then have "promises w' p = Rejected err"
    by (simp add: w' settle_def)
  moreover have "connectPromise w' = Some p" by (simp add: w')
  ultimately show ?thesis
    using assms(6) by (simp add: connect_def)
qed

theorem sync_join_failure_sticks_witness:
  "let (p, w, es) = connect (JoinThrows JNull) (initial_ws :: nat ws)
   in promises w p = Rejected JNull \<and> connect LibOk w = (p, w, [])"
proof -
  obtain p w es where eq: "connect (JoinThrows JNull) (initial_ws :: nat ws) = (p, w, es)"
    by (metis prod_cases3)
  moreover have "\<not> isConnected w"
    using eq by (auto simp: initial_ws_def ws_ops isConnected_def)
  ultimately have "promises w p = Rejected JNull \<and> connect LibOk w = (p, w, [])"
    using sync_join_failure_sticks [OF initial_ws_inv _ _ _ eq]
    by (simp add: initial_ws_def isConnected_def)
  with eq show ?thesis by simp
qed

end
