(* ===== verification/Chat_Types.thy ===== *)
theory Chat_Types
  imports Pairline_Prelude Network_Health Ws_Client "HOL-Library.Sublist"
begin

text \<open>
  The data both chat hooks share: the messages of the protocol and of the transcript
  (\<^verbatim>\<open>client/src/types/index.ts\<close>), the moderation constants (\<^verbatim>\<open>client/src/chatModeration.ts\<close>), the
  state the two hooks have in common, and the transcript operations behind an interface.

  \<^item> Messages arrive as dynamic values; \<open>decode_message\<close> reads the fields of the declared type. A
    field whose value does not have its declared type reads as absent.
  \<^item> \<^verbatim>\<open>crypto.randomUUID()\<close> and timer handles come from one supply of fresh numbers.
  \<^item> React state is a field that a setter writes at once, in program order; an action of the user
    sees the values of the last commit, taken to precede it.
\<close>

section \<open>Protocol messages\<close>

datatype msg_type =
    MOffer | MAnswer | MIce | MMessage | MMatch | MDisconnect | MDisconnected | MError | MBanned
  | MTimeout | MStopped | MTyping | MPong | MConnected | MSearching | MSkipped | MWebrtcReady
  | MWebrtcStart | MSystem | MOther

record message =
  mtype :: msg_type
  mdata :: js
  peer_id :: "string option"
  video_enabled :: "bool option"
  reportable :: "bool option"
  session_id :: "string option"
  session_token :: "string option"
  common_interests :: "js list"
  mreason :: js

definition msg_types :: "(string \<times> msg_type) list" where
  "msg_types =
     [(''offer'', MOffer), (''answer'', MAnswer), (''ice'', MIce), (''message'', MMessage),
      (''match'', MMatch), (''disconnect'', MDisconnect), (''disconnected'', MDisconnected),
      (''error'', MError), (''banned'', MBanned), (''timeout'', MTimeout), (''stopped'', MStopped),
      (''typing'', MTyping), (''pong'', MPong), (''connected'', MConnected),
      (''searching'', MSearching), (''skipped'', MSkipped), (''webrtc_ready'', MWebrtcReady),
      (''webrtc_start'', MWebrtcStart), (''system'', MSystem)]"

fun decode_type :: "js \<Rightarrow> msg_type" where
  "decode_type (JStr t) = (case map_of msg_types t of Some m \<Rightarrow> m | None \<Rightarrow> MOther)"
| "decode_type v = MOther"

fun opt_string :: "js \<Rightarrow> string option" where
  "opt_string (JStr s) = Some s"
| "opt_string v = None"

fun opt_bool :: "js \<Rightarrow> bool option" where
  "opt_bool (JBool b) = Some b"
| "opt_bool v = None"

fun array_items :: "js \<Rightarrow> js list" where
  "array_items (JArr vs) = vs"
| "array_items v = []"

definition decode_message :: "js \<Rightarrow> message" where
  "decode_message v =
     \<lparr>mtype = decode_type (js_get v ''type''), mdata = js_get v ''data'',
      peer_id = opt_string (js_get v ''peer_id''),
      video_enabled = opt_bool (js_get v ''video_enabled''),
      reportable = opt_bool (js_get v ''reportable''),
      session_id = opt_string (js_get v ''session_id''),
      session_token = opt_string (js_get v ''session_token''),
      common_interests = array_items (js_get v ''common_interests''),
      mreason = js_get v ''reason''\<rparr>"

definition BLOCKED_PHRASE_NOTICE :: string where
  "BLOCKED_PHRASE_NOTICE = ''This message was not sent due to containing a banned phrase.''"

definition BANNED_PHRASE_REASON :: string where
  "BANNED_PHRASE_REASON = ''banned_phrase''"

section \<open>The transcript\<close>

datatype sender = Me | Peer | System

datatype delivery = DPending | DSent | DBlocked | DFailed

record chat_message =
  cid :: nat
  body :: js
  sender :: sender
  timestamp :: nat
  deliveryStatus :: "delivery option"
  systemReason :: js

definition system_message :: "nat \<Rightarrow> nat \<Rightarrow> js \<Rightarrow> js \<Rightarrow> chat_message" where
  "system_message i t txt why =
     \<lparr>cid = i, body = txt, sender = System, timestamp = t, deliveryStatus = None, systemReason = why\<rparr>"

definition peer_message :: "nat \<Rightarrow> nat \<Rightarrow> js \<Rightarrow> chat_message" where
  "peer_message i t txt =
     \<lparr>cid = i, body = txt, sender = Peer, timestamp = t, deliveryStatus = None, systemReason = JUndef\<rparr>"

definition my_message :: "nat \<Rightarrow> nat \<Rightarrow> string \<Rightarrow> chat_message" where
  "my_message i t txt =
     \<lparr>cid = i, body = JStr txt, sender = Me, timestamp = t, deliveryStatus = Some DPending,
      systemReason = JUndef\<rparr>"

definition update_delivery ::
  "nat \<Rightarrow> delivery \<Rightarrow> js option \<Rightarrow> chat_message list \<Rightarrow> chat_message list" where
  "update_delivery i st replacement msgs =
     map (\<lambda>m. if cid m = i
              then m\<lparr>body := (case replacement of None \<Rightarrow> body m | Some t \<Rightarrow> t), deliveryStatus := Some st\<rparr>
              else m) msgs"

lemma system_message_sel [simp]:
  "cid (system_message i t txt why) = i" "body (system_message i t txt why) = txt"
  "sender (system_message i t txt why) = System"
  "deliveryStatus (system_message i t txt why) = None"
  by (simp_all add: system_message_def)

lemma peer_message_sel [simp]:
  "cid (peer_message i t txt) = i" "sender (peer_message i t txt) = Peer"
  "deliveryStatus (peer_message i t txt) = None"
  by (simp_all add: peer_message_def)

lemma my_message_sel [simp]:
  "cid (my_message i t txt) = i" "sender (my_message i t txt) = Me"
  "deliveryStatus (my_message i t txt) = Some DPending"
  by (simp_all add: my_message_def)

lemma length_update_delivery [simp]: "length (update_delivery i st r msgs) = length msgs"
  by (simp add: update_delivery_def)

lemma cids_update_delivery [simp]: "map cid (update_delivery i st r msgs) = map cid msgs"
  by (auto simp: update_delivery_def)

lemma update_delivery_unknown: "i \<notin> cid ` set msgs \<Longrightarrow> update_delivery i st r msgs = msgs"
  by (auto simp: update_delivery_def intro!: map_idI)

text \<open>
  A transcript grows by one message at its end and may drop messages at its front. What follows
  from that alone: the new message is last, the order of the rest is kept, and identities stay
  distinct when the new one is fresh.
\<close>

definition fresh_ids :: "nat \<Rightarrow> chat_message list \<Rightarrow> bool" where
  "fresh_ids n msgs \<longleftrightarrow> distinct (map cid msgs) \<and> (\<forall>c\<in>set (map cid msgs). c < n)"

locale transcript =
  fixes grow :: "chat_message list \<Rightarrow> chat_message \<Rightarrow> chat_message list"
  assumes grow_suffix: "\<exists>k. grow msgs m = drop k msgs @ [m]"
begin

lemma last_grow: "grow msgs m \<noteq> [] \<and> last (grow msgs m) = m"
  using grow_suffix [of msgs m] by auto

lemma set_grow: "set (grow msgs m) \<subseteq> insert m (set msgs)"
  using grow_suffix [of msgs m] set_drop_subset by fastforce

lemma subseq_grow: "subseq (grow msgs m) (msgs @ [m])"
proof -
  obtain k where "grow msgs m = drop k msgs @ [m]" using grow_suffix by blast
  moreover have "subseq (drop k msgs) msgs"
    by (metis append_take_drop_id list_emb_append2 subseq_order.refl)
  ultimately show ?thesis by (simp add: list_emb_append_mono)
qed

lemma fresh_grow:
  assumes "fresh_ids n msgs" and "cid m = n"
  shows "fresh_ids (Suc n) (grow msgs m)"
proof -
  obtain k where k: "grow msgs m = drop k msgs @ [m]" using grow_suffix by blast
  have "set (drop k msgs) \<subseteq> set msgs" by (rule set_drop_subset)
  moreover have "distinct (map cid (drop k msgs))"
    using assms(1) by (simp add: fresh_ids_def drop_map [symmetric])
  ultimately show ?thesis
    using assms by (fastforce simp: fresh_ids_def k)
qed

lemma grow_update:
  "cid m \<notin> {i} \<Longrightarrow> \<exists>k. update_delivery i st r (grow msgs m) = drop k (update_delivery i st r msgs) @ [m]"
  using grow_suffix [of msgs m] by (auto simp: update_delivery_def drop_map)

end

lemma fresh_ids_mono: "fresh_ids n msgs \<Longrightarrow> n \<le> n' \<Longrightarrow> fresh_ids n' msgs"
  by (auto simp: fresh_ids_def)

lemma fresh_ids_update [simp]: "fresh_ids n (update_delivery i st r msgs) = fresh_ids n msgs"
  by (simp only: fresh_ids_def cids_update_delivery)

lemma fresh_ids_Nil [simp]: "fresh_ids n []"
  by (simp add: fresh_ids_def)

section \<open>The state the two hooks share\<close>

datatype chat_status = Idle | Searching | Connected | Disconnected

text \<open>
  A suspended \<^verbatim>\<open>startSearch\<close> waits for a promise with its arguments; a suspended \<^verbatim>\<open>sendMessage\<close>
  waits for the reply with the message it sent and the epoch it sent it in.
\<close>

record start_task =
  startPromise :: nat
  startInterests :: string
  startToken :: "string option"

record reply_task =
  replyPromise :: nat
  replyMessage :: nat
  replyEpoch :: nat

record chat =
  connected :: bool
  peerId :: "string option"
  sessionId :: "string option"
  sessionToken :: "string option"
  reportPeerId :: "string option"
  status :: chat_status
  messages :: "chat_message list"
  peerTyping :: bool
  peerTypingTimeoutRef :: "nat option"
  showReconnectMessageRef :: bool
  chatEpochRef :: nat
  mounted :: bool
  awaitingSetup :: "nat option"
  awaitingStart :: "start_task list"
  awaitingReply :: "reply_task list"
  typingTimers :: "nat list"
  nextKey :: nat
  now :: nat
  ws :: "unit ws"
  health :: health
  outbox :: "unit ws_effect list"

text \<open>The optional fields of a request; an absent token is a field \<open>undefined\<close>.\<close>

definition js_opt :: "string option \<Rightarrow> js" where
  "js_opt v = (case v of None \<Rightarrow> JUndef | Some s \<Rightarrow> JStr s)"

definition start_payload :: "string \<Rightarrow> string option \<Rightarrow> string \<Rightarrow> js" where
  "start_payload mode token interests =
     JObj [(''token'', js_opt token),
           (''preferences'', JObj [(''mode'', JStr mode), (''interests'', JStr (js_trim interests))])]"

text \<open>\<open>a || b || c || ...\<close> over dynamic values.\<close>

fun js_first :: "js list \<Rightarrow> js" where
  "js_first [] = JUndef"
| "js_first [v] = v"
| "js_first (v # w # vs) = (if js_truthy v then v else js_first (w # vs))"

definition stringify_or_undef :: "js \<Rightarrow> js" where
  "stringify_or_undef v = (case json_stringify v of None \<Rightarrow> JUndef | Some t \<Rightarrow> JStr t)"

definition error_text :: "js \<Rightarrow> js" where
  "error_text d =
     js_first [js_get d ''message'', js_get d ''error'', js_get d ''reason'', stringify_or_undef d,
       JStr ''An error occurred'']"

definition reply_error_text :: "js \<Rightarrow> js" where
  "reply_error_text d =
     js_first [js_get d ''message'', js_get d ''error'', js_get d ''reason'',
       JStr ''Message could not be sent. Please try again.'']"

definition ban_reason :: "message \<Rightarrow> js" where
  "ban_reason m =
     js_first [js_get (mdata m) ''reason'', mreason m, JStr ''Banned by an administrator'']"

definition mentions_captcha :: "js \<Rightarrow> bool" where
  "mentions_captcha v = (case v of JStr t \<Rightarrow> js_includes t ''CAPTCHA'' | _ \<Rightarrow> False)"

text \<open>An element of \<^verbatim>\<open>Array.prototype.join\<close>: \<open>undefined\<close> and \<open>null\<close> are empty.\<close>

definition js_item :: "js \<Rightarrow> string" where
  "js_item v = (if v = JUndef \<or> v = JNull then [] else js_string v)"

text \<open>The introduction of a match: the shared interests, when there are any, then the greeting.\<close>

definition match_intro :: "message \<Rightarrow> string \<Rightarrow> string list" where
  "match_intro m greeting =
     (if common_interests m \<noteq> []
      then [''You both like: '' @ js_join '', '' (map js_item (common_interests m))] else [])
     @ [greeting]"

end
