(* ===== verification/Text_Chat.thy ===== *)
theory Text_Chat
  imports Chat_Types
begin

text \<open>
  The text chat hook (\<^verbatim>\<open>client/src/hooks/useTextChat.tsx\<close>): its state, every handler and action,
  the suspension points of its asynchronous functions, and the page as an event system together with
  its WebSocket client and the health context.

  An \<^verbatim>\<open>await\<close> stores a task and returns; the event that resumes the task runs the rest of the
  function, and only when the promise has settled. The effects of the client are delivered to the
  handlers of the hook in the order the client emits them; library calls go to \<open>outbox\<close>.
\<close>

section \<open>Small operations\<close>

definition initial_chat :: "health \<Rightarrow> chat" where
  "initial_chat h =
     \<lparr>connected = False, peerId = None, sessionId = None, sessionToken = None, reportPeerId = None,
      status = Idle, messages = [], peerTyping = False, peerTypingTimeoutRef = None,
      showReconnectMessageRef = False, chatEpochRef = 0, mounted = False, awaitingSetup = None,
      awaitingStart = [], awaitingReply = [], typingTimers = [], nextKey = 0, now = 0,
      ws = initial_ws, health = h, outbox = []\<rparr>"

definition setReconnectMessageVisible :: "bool \<Rightarrow> chat \<Rightarrow> chat" where
  "setReconnectMessageVisible visible s = s\<lparr>showReconnectMessageRef := visible\<rparr>"

definition beginNewChatEpoch :: "chat \<Rightarrow> chat" where
  "beginNewChatEpoch s = s\<lparr>chatEpochRef := Suc (chatEpochRef s)\<rparr>"

definition grow_text :: "chat_message list \<Rightarrow> chat_message \<Rightarrow> chat_message list" where
  "grow_text msgs m = msgs @ [m]"

definition pushSystemMessage :: "js \<Rightarrow> js \<Rightarrow> chat \<Rightarrow> chat" where
  "pushSystemMessage txt why s =
     s\<lparr>messages := grow_text (messages s) (system_message (nextKey s) (now s) txt why),
       nextKey := Suc (nextKey s)\<rparr>"

definition updateDeliveryStatus :: "nat \<Rightarrow> delivery \<Rightarrow> js option \<Rightarrow> chat \<Rightarrow> chat" where
  "updateDeliveryStatus i st replacement s =
     s\<lparr>messages := update_delivery i st replacement (messages s)\<rparr>"

definition showConnectionStatusMessage :: "string \<Rightarrow> chat \<Rightarrow> chat" where
  "showConnectionStatusMessage txt s =
     (if showReconnectMessageRef s then s
      else setReconnectMessageVisible True (pushSystemMessage (JStr txt) JUndef s))"

definition clearTypingTimeout :: "chat \<Rightarrow> chat" where
  "clearTypingTimeout s =
     (case peerTypingTimeoutRef s of
        None \<Rightarrow> s
      | Some t \<Rightarrow> s\<lparr>typingTimers := removeAll t (typingTimers s), peerTypingTimeoutRef := None\<rparr>)"

definition cleanup :: "chat \<Rightarrow> chat" where
  "cleanup s =
     clearTypingTimeout
       ((setReconnectMessageVisible False
          ((beginNewChatEpoch s)
             \<lparr>peerId := None, sessionId := None, sessionToken := None, reportPeerId := None,
              messages := []\<rparr>))
        \<lparr>peerTyping := False\<rparr>)"

section \<open>Messages from the server\<close>

fun numbered :: "nat \<Rightarrow> nat \<Rightarrow> string list \<Rightarrow> chat_message list" where
  "numbered k t [] = []"
| "numbered k t (x # xs) = system_message k t (JStr x) JUndef # numbered (Suc k) t xs"

definition onMatch :: "message \<Rightarrow> chat \<Rightarrow> chat" where
  "onMatch m s =
     (let s = (beginNewChatEpoch s)
            \<lparr>peerId := Some (if str_truthy (peer_id m) then the (peer_id m) else []),
             reportPeerId := (if reportable m \<noteq> Some False then str_or_null (peer_id m) else None),
             status := Connected\<rparr>;
          s = (setReconnectMessageVisible False s)\<lparr>peerTyping := False\<rparr>;
          s = clearTypingTimeout s;
          intro = match_intro m ''You are talking to a random stranger.''
      in s\<lparr>messages := numbered (nextKey s) (now s) intro, nextKey := nextKey s + length intro\<rparr>)"

definition onPeerMessage :: "message \<Rightarrow> chat \<Rightarrow> chat" where
  "onPeerMessage m s =
     (let content = js_get (mdata m) ''content''
      in if js_truthy content
         then s\<lparr>messages := grow_text (messages s) (peer_message (nextKey s) (now s) content),
                nextKey := Suc (nextKey s)\<rparr>
         else s)"

definition onSystemMessage :: "message \<Rightarrow> chat \<Rightarrow> chat" where
  "onSystemMessage m s =
     (if js_truthy (js_get (mdata m) ''message'')
      then pushSystemMessage (js_get (mdata m) ''message'') (js_get (mdata m) ''reason_code'') s
      else s)"

definition onPeerDisconnected :: "chat \<Rightarrow> chat" where
  "onPeerDisconnected s =
     pushSystemMessage (JStr ''Stranger has disconnected.'') JUndef
       (beginNewChatEpoch (s\<lparr>status := Disconnected, peerId := None, peerTyping := False\<rparr>))"

definition onBanned :: "message \<Rightarrow> chat \<Rightarrow> chat" where
  "onBanned m s =
     pushSystemMessage (JStr (''You have been banned: '' @ js_string (ban_reason m))) JUndef
       (beginNewChatEpoch (s\<lparr>status := Disconnected, peerTyping := False\<rparr>))"

definition onServerError :: "message \<Rightarrow> chat \<Rightarrow> chat" where
  "onServerError m s =
     (let err = error_text (mdata m);
          s = (if mentions_captcha err then s\<lparr>status := Idle\<rparr> else s)
      in pushSystemMessage (JStr (''Error: '' @ js_string err)) JUndef s)"

definition onTimeout :: "chat \<Rightarrow> chat" where
  "onTimeout s =
     pushSystemMessage (JStr ''Matchmaking timeout: No strangers are available right now.'') JUndef
       (beginNewChatEpoch (s\<lparr>status := Disconnected, peerId := None, peerTyping := False\<rparr>))"

definition onStopped :: "chat \<Rightarrow> chat" where
  "onStopped s =
     (beginNewChatEpoch s)
       \<lparr>status := Idle, peerId := None, sessionId := None, sessionToken := None,
        reportPeerId := None, messages := [], peerTyping := False\<rparr>"

definition onTyping :: "message \<Rightarrow> chat \<Rightarrow> chat" where
  "onTyping m s =
     (let typing = js_get (mdata m) ''typing''
      in if typing = JUndef then s
         else
           let s = clearTypingTimeout (s\<lparr>peerTyping := js_truthy typing\<rparr>)
           in if js_truthy typing
              then s\<lparr>peerTypingTimeoutRef := Some (nextKey s),
                     typingTimers := typingTimers s @ [nextKey s], nextKey := Suc (nextKey s)\<rparr>
              else s)"

definition typingTimerFires :: "nat \<Rightarrow> chat \<Rightarrow> chat" where
  "typingTimerFires t s =
     s\<lparr>typingTimers := removeAll t (typingTimers s), peerTyping := False,
       peerTypingTimeoutRef := None\<rparr>"

definition rememberSession :: "message \<Rightarrow> chat \<Rightarrow> chat" where
  "rememberSession m s =
     (let s = (if str_truthy (session_id m) then s\<lparr>sessionId := session_id m\<rparr> else s)
      in if str_truthy (session_token m) then s\<lparr>sessionToken := session_token m\<rparr> else s)"

definition handleMessage :: "message \<Rightarrow> chat \<Rightarrow> chat" where
  "handleMessage m s0 =
     (let s = rememberSession m s0
      in case mtype m of
           MMatch \<Rightarrow> onMatch m s
         | MMessage \<Rightarrow> onPeerMessage m s
         | MSystem \<Rightarrow> onSystemMessage m s
         | MDisconnected \<Rightarrow> onPeerDisconnected s
         | MBanned \<Rightarrow> onBanned m s
         | MError \<Rightarrow> onServerError m s
         | MTimeout \<Rightarrow> onTimeout s
         | MStopped \<Rightarrow> onStopped s
         | MTyping \<Rightarrow> onTyping m s
         | _ \<Rightarrow> s)"

section \<open>Handlers of the WebSocket client\<close>

definition channelName :: string where
  "channelName = ''phoenix:text''"

definition handleReconnecting :: "chat \<Rightarrow> chat" where
  "handleReconnecting s =
     (if mounted s then s\<lparr>health := setChannelStatus channelName SDegraded (health s)\<rparr> else s)"

definition handleMaxRetries :: "chat \<Rightarrow> chat" where
  "handleMaxRetries s =
     (if mounted s then s\<lparr>health := setChannelStatus channelName SOffline (health s)\<rparr> else s)"

definition handleOpen :: "chat \<Rightarrow> chat" where
  "handleOpen s =
     (if mounted s
      then let s = s\<lparr>health := setChannelStatus channelName SOk (health s), connected := True\<rparr>;
               s = setReconnectMessageVisible False s
           in s\<lparr>status := (if status s = Disconnected then Idle else status s)\<rparr>
      else s)"

definition handleClose :: "chat \<Rightarrow> chat" where
  "handleClose s =
     (if mounted s
      then let s = s\<lparr>connected := False\<rparr>;
               s = (if status s = Connected \<or> status s = Searching
                    then (showConnectionStatusMessage ''Connection to server lost. Reconnecting...'' s)
                           \<lparr>status := Disconnected\<rparr>
                    else s)
           in s\<lparr>peerId := None, sessionId := None, sessionToken := None, reportPeerId := None,
                peerTyping := False\<rparr>
      else s)"

fun deliver1 :: "unit ws_effect \<Rightarrow> chat \<Rightarrow> chat" where
  "deliver1 (InvokeMessage h m) s = (if mounted s then handleMessage (decode_message m) s else s)"
| "deliver1 (InvokeClose h) s = handleClose s"
| "deliver1 (InvokeOpen h) s = handleOpen s"
| "deliver1 (InvokeMaxRetries h) s = handleMaxRetries s"
| "deliver1 (InvokeReconnecting h) s = handleReconnecting s"
| "deliver1 eff s = s\<lparr>outbox := outbox s @ [eff]\<rparr>"

definition run_ws :: "unit ws_result \<Rightarrow> chat \<Rightarrow> chat" where
  "run_ws r s = fold deliver1 (snd r) (s\<lparr>ws := fst r\<rparr>)"

text \<open>\<open>None\<close> when \<^verbatim>\<open>send\<close> throws.\<close>

definition wsSend :: "string \<Rightarrow> js \<Rightarrow> chat \<Rightarrow> chat option" where
  "wsSend ty dat s =
     (case send ty dat (ws s) of None \<Rightarrow> None | Some es \<Rightarrow> Some (fold deliver1 es s))"

section \<open>Mounting and unmounting\<close>

definition setupEffect :: "lib_outcome \<Rightarrow> chat \<Rightarrow> chat" where
  "setupEffect lib s =
     (let (p, r) = connect lib (ws s)
      in run_ws r (s\<lparr>mounted := True, awaitingSetup := Some p\<rparr>))"

definition setup_continue :: "promise_state \<Rightarrow> chat \<Rightarrow> chat" where
  "setup_continue outcome s0 =
     (let s = s0\<lparr>awaitingSetup := None\<rparr>
      in case outcome of
           Pending \<Rightarrow> s0
         | Fulfilled v \<Rightarrow>
             (let s = (if mounted s then setReconnectMessageVisible False (s\<lparr>connected := True\<rparr>) else s)
              in s\<lparr>ws := onClose () (onOpen () (onMaxRetries () (onReconnecting () (onMessage () (ws s)))))\<rparr>)
         | Rejected err \<Rightarrow>
             (if mounted s
              then showConnectionStatusMessage ''Failed to connect to server. Please refresh the page.''
                     (s\<lparr>connected := False, status := Disconnected\<rparr>)
              else s))"

definition unmount :: "chat \<Rightarrow> chat" where
  "unmount s =
     (let s = cleanup (s\<lparr>mounted := False, health := removeChannel channelName (health s)\<rparr>)
      in run_ws (disconnect (ws s)) s)"

section \<open>Actions of the user\<close>

definition startSearch_send :: "string \<Rightarrow> string option \<Rightarrow> chat \<Rightarrow> chat" where
  "startSearch_send interests token s =
     (let s = beginNewChatEpoch (s\<lparr>messages := []\<rparr>);
          s = (setReconnectMessageVisible False s)\<lparr>reportPeerId := None, status := Searching\<rparr>
      in case wsSend ''start'' (start_payload ''text'' token interests) s of
           None \<Rightarrow> s\<lparr>status := Idle\<rparr>
         | Some s' \<Rightarrow> s')"

definition startSearch :: "lib_outcome \<Rightarrow> string \<Rightarrow> string option \<Rightarrow> chat \<Rightarrow> chat" where
  "startSearch lib interests token s =
     (if isConnected (ws s) then startSearch_send interests token s
      else let (p, r) = connect lib (ws s);
               task = \<lparr>startPromise = p, startInterests = interests, startToken = token\<rparr>
           in run_ws r (s\<lparr>awaitingStart := awaitingStart s @ [task]\<rparr>))"

definition startSearch_continue :: "start_task \<Rightarrow> promise_state \<Rightarrow> chat \<Rightarrow> chat" where
  "startSearch_continue task outcome s0 =
     (let s = s0\<lparr>awaitingStart := remove1 task (awaitingStart s0)\<rparr>
      in case outcome of
           Pending \<Rightarrow> s0
         | Fulfilled v \<Rightarrow> startSearch_send (startInterests task) (startToken task) (s\<lparr>connected := True\<rparr>)
         | Rejected err \<Rightarrow> s\<lparr>status := Idle\<rparr>)"

definition stopSearch :: "chat \<Rightarrow> chat" where
  "stopSearch s =
     (let s = s\<lparr>status := Idle, sessionId := None, sessionToken := None, reportPeerId := None\<rparr>
      in case wsSend ''stop'' (JObj []) s of None \<Rightarrow> s | Some s' \<Rightarrow> s')"

definition disconnectChat :: "chat \<Rightarrow> chat" where
  "disconnectChat s =
     (case wsSend ''disconnect'' (JObj []) s of
        None \<Rightarrow> s
      | Some s \<Rightarrow>
          pushSystemMessage (JStr ''You have disconnected.'') JUndef
            ((beginNewChatEpoch s)\<lparr>status := Disconnected, peerId := None, peerTyping := False\<rparr>))"

definition skip :: "chat \<Rightarrow> chat" where
  "skip s =
     (if status s = Connected
      then (case wsSend ''skip'' (JObj []) s of
              None \<Rightarrow> s
            | Some s \<Rightarrow>
                (beginNewChatEpoch s)
                  \<lparr>peerId := None, reportPeerId := None, messages := [], peerTyping := False,
                   status := Searching\<rparr>)
      else s)"

definition sendMessage :: "string \<Rightarrow> chat \<Rightarrow> chat" where
  "sendMessage txt s =
     (if js_trim txt \<noteq> [] \<and> status s = Connected
      then let messageId = nextKey s; chatEpoch = chatEpochRef s;
               s = s\<lparr>messages := grow_text (messages s) (my_message messageId (now s) txt),
                     nextKey := Suc (nextKey s)\<rparr>;
               (p, r) = sendWithResponse ''message'' (JObj [(''content'', JStr txt)]) (ws s);
               task = \<lparr>replyPromise = p, replyMessage = messageId, replyEpoch = chatEpoch\<rparr>
           in run_ws r (s\<lparr>awaitingReply := awaitingReply s @ [task]\<rparr>)
      else s)"

definition reply_received :: "nat \<Rightarrow> js \<Rightarrow> chat \<Rightarrow> chat" where
  "reply_received messageId payload s =
     (let d = js_get payload ''data''
      in if js_get payload ''type'' = JStr ''system'' then
           (if js_get d ''reason_code'' = JStr BANNED_PHRASE_REASON
               \<or> js_get d ''message'' = JStr BLOCKED_PHRASE_NOTICE
            then pushSystemMessage
                   (js_or (js_get d ''message'') (JStr BLOCKED_PHRASE_NOTICE))
                   (js_or (js_get d ''reason_code'') (JStr BANNED_PHRASE_REASON))
                   (updateDeliveryStatus messageId DBlocked None s)
            else s)
         else if js_get payload ''type'' = JStr ''error'' then
           pushSystemMessage
             (JStr (''Message could not be sent: '' @ js_string (reply_error_text d))) JUndef
             (updateDeliveryStatus messageId DFailed None s)
         else updateDeliveryStatus messageId DSent None s)"

definition reply_failed :: "nat \<Rightarrow> chat \<Rightarrow> chat" where
  "reply_failed messageId s =
     pushSystemMessage (JStr ''Message could not be sent right now. Please try again.'') JUndef
       (updateDeliveryStatus messageId DFailed None s)"

definition sendMessage_continue :: "reply_task \<Rightarrow> promise_state \<Rightarrow> chat \<Rightarrow> chat" where
  "sendMessage_continue task outcome s0 =
     (let s = s0\<lparr>awaitingReply := remove1 task (awaitingReply s0)\<rparr>
      in case outcome of
           Pending \<Rightarrow> s0
         | Fulfilled payload \<Rightarrow>
             (if chatEpochRef s \<noteq> replyEpoch task then s else reply_received (replyMessage task) payload s)
         | Rejected err \<Rightarrow>
             (if chatEpochRef s \<noteq> replyEpoch task then s else reply_failed (replyMessage task) s))"

definition sendTyping :: "bool \<Rightarrow> chat \<Rightarrow> chat" where
  "sendTyping isTyping s =
     (if status s = Connected
      then (case wsSend ''typing'' (JObj [(''typing'', JBool isTyping)]) s of None \<Rightarrow> s | Some s' \<Rightarrow> s')
      else s)"

section \<open>The page\<close>

text \<open>
  Events of the page. Its life starts with the effect that connects, which runs once. Promise
  continuations run when their promise has settled; the client's own events are those of the
  library, the calls being made by the hook.
\<close>

datatype chat_event =
    Unmount
  | Library ws_event
  | ResumeSetup
  | ResumeStart start_task
  | ResumeReply reply_task
  | TypingTimer nat
  | ClockTo nat
  | StartSearch lib_outcome string "string option"
  | StopSearch
  | DisconnectChat
  | Skip
  | SendMessage string
  | SendTyping bool

fun is_library :: "ws_event \<Rightarrow> bool" where
  "is_library (CallConnect lib) = False"
| "is_library CallDisconnect = False"
| "is_library (CallSend ty dat) = False"
| "is_library (CallSendWithResponse ty dat) = False"
| "is_library e = True"

fun chat_step :: "chat_event \<Rightarrow> chat \<Rightarrow> chat" where
  "chat_step Unmount s = unmount s"
| "chat_step (Library e) s = (if is_library e then run_ws (ws_step e (ws s)) s else s)"
| "chat_step ResumeSetup s =
     (case awaitingSetup s of None \<Rightarrow> s | Some p \<Rightarrow> setup_continue (promises (ws s) p) s)"
| "chat_step (ResumeStart task) s =
     (if task \<in> set (awaitingStart s)
      then startSearch_continue task (promises (ws s) (startPromise task)) s else s)"
| "chat_step (ResumeReply task) s =
     (if task \<in> set (awaitingReply s)
      then sendMessage_continue task (promises (ws s) (replyPromise task)) s else s)"
| "chat_step (TypingTimer t) s = (if t \<in> set (typingTimers s) then typingTimerFires t s else s)"
| "chat_step (ClockTo t) s = s\<lparr>now := t\<rparr>"
| "chat_step (StartSearch lib interests token) s = startSearch lib interests token s"
| "chat_step StopSearch s = stopSearch s"
| "chat_step DisconnectChat s = disconnectChat s"
| "chat_step Skip s = skip s"
| "chat_step (SendMessage txt) s = sendMessage txt s"
| "chat_step (SendTyping b) s = sendTyping b s"

definition text_page :: "lib_outcome \<Rightarrow> health \<Rightarrow> chat" where
  "text_page lib h = setupEffect lib (initial_chat h)"

section \<open>The transcript of the text page\<close>

interpretation text_log: transcript grow_text
  by unfold_locales (metis drop_0 grow_text_def)

section \<open>The invariant\<close>

definition chat_inv :: "chat \<Rightarrow> bool" where
  "chat_inv s \<longleftrightarrow>
     fresh_ids (nextKey s) (messages s) \<and>
     typingTimers s = (case peerTypingTimeoutRef s of None \<Rightarrow> [] | Some t \<Rightarrow> [t]) \<and>
     (\<forall>task\<in>set (awaitingReply s). replyMessage task < nextKey s \<and> replyEpoch task \<le> chatEpochRef s) \<and>
     (mounted s \<and> status s = Connected \<longrightarrow> peerId s \<noteq> None) \<and>
     ws_inv (ws s)"

lemma chat_inv_frame [simp]:
  "chat_inv (s\<lparr>connected := b\<rparr>) = chat_inv s"
  "chat_inv (s\<lparr>sessionId := v\<rparr>) = chat_inv s"
  "chat_inv (s\<lparr>sessionToken := v\<rparr>) = chat_inv s"
  "chat_inv (s\<lparr>reportPeerId := v\<rparr>) = chat_inv s"
  "chat_inv (s\<lparr>peerTyping := b\<rparr>) = chat_inv s"
  "chat_inv (s\<lparr>showReconnectMessageRef := b\<rparr>) = chat_inv s"
  "chat_inv (s\<lparr>awaitingSetup := a\<rparr>) = chat_inv s"
  "chat_inv (s\<lparr>awaitingStart := ts\<rparr>) = chat_inv s"
  "chat_inv (s\<lparr>now := n\<rparr>) = chat_inv s"
  "chat_inv (s\<lparr>health := h\<rparr>) = chat_inv s"
  "chat_inv (s\<lparr>outbox := out\<rparr>) = chat_inv s"
  by (simp_all add: chat_inv_def)

lemma chat_inv_ws: "chat_inv s \<Longrightarrow> ws_inv w \<Longrightarrow> chat_inv (s\<lparr>ws := w\<rparr>)"
  by (simp add: chat_inv_def)

lemma chat_inv_ws_inv: "chat_inv s \<Longrightarrow> ws_inv (ws s)"
  by (simp add: chat_inv_def)

lemma chat_inv_status: "chat_inv s \<Longrightarrow> st \<noteq> Connected \<Longrightarrow> chat_inv (s\<lparr>status := st\<rparr>)"
  by (simp add: chat_inv_def)

lemma chat_inv_no_peer: "chat_inv s \<Longrightarrow> mounted s \<longrightarrow> status s \<noteq> Connected \<Longrightarrow> chat_inv (s\<lparr>peerId := p\<rparr>)"
  by (auto simp: chat_inv_def)

lemma chat_inv_no_messages: "chat_inv s \<Longrightarrow> chat_inv (s\<lparr>messages := []\<rparr>)"
  by (simp add: chat_inv_def)

lemma chat_inv_epoch [keeps]: "chat_inv s \<Longrightarrow> chat_inv (beginNewChatEpoch s)"
  by (auto simp: chat_inv_def beginNewChatEpoch_def)

lemma chat_inv_visible [keeps]: "chat_inv s \<Longrightarrow> chat_inv (setReconnectMessageVisible b s)"
  by (simp add: setReconnectMessageVisible_def)

lemma chat_inv_grow:
  assumes "chat_inv s" and "cid m = nextKey s"
  shows "chat_inv (s\<lparr>messages := grow_text (messages s) m, nextKey := Suc (nextKey s)\<rparr>)"
  using assms text_log.fresh_grow [of "nextKey s" "messages s" m]
  by (auto simp: chat_inv_def)

lemma chat_inv_push [keeps]: "chat_inv s \<Longrightarrow> chat_inv (pushSystemMessage txt why s)"
  by (simp add: pushSystemMessage_def chat_inv_grow)

lemma chat_inv_update [keeps]: "chat_inv s \<Longrightarrow> chat_inv (updateDeliveryStatus i st r s)"
  by (simp add: chat_inv_def updateDeliveryStatus_def)

lemma chat_inv_clearTyping [keeps]: "chat_inv s \<Longrightarrow> chat_inv (clearTypingTimeout s)"
  by (auto simp: chat_inv_def clearTypingTimeout_def split: option.splits)

lemma chat_inv_show [keeps]: "chat_inv s \<Longrightarrow> chat_inv (showConnectionStatusMessage txt s)"
  by (simp add: showConnectionStatusMessage_def keeps)

lemma numbered_cids: "map cid (numbered k t xs) = [k..<k + length xs]"
  by (induction xs arbitrary: k) (simp_all add: upt_conv_Cons del: upt_Suc)

lemma fresh_numbered: "fresh_ids (k + length xs) (numbered k t xs)"
  by (simp add: fresh_ids_def numbered_cids)

text \<open>Fields the small operations leave alone.\<close>

lemma small_fields [simp]:
  "status (beginNewChatEpoch s) = status s" "mounted (beginNewChatEpoch s) = mounted s"
  "status (setReconnectMessageVisible b s) = status s"
  "mounted (setReconnectMessageVisible b s) = mounted s"
  "peerId (setReconnectMessageVisible b s) = peerId s"
  "status (pushSystemMessage txt why s) = status s" "mounted (pushSystemMessage txt why s) = mounted s"
  "peerId (pushSystemMessage txt why s) = peerId s"
  "status (clearTypingTimeout s) = status s" "mounted (clearTypingTimeout s) = mounted s"
  "peerId (clearTypingTimeout s) = peerId s"
  "status (updateDeliveryStatus i st r s) = status s"
  "ws (beginNewChatEpoch s) = ws s" "ws (setReconnectMessageVisible b s) = ws s"
  "ws (pushSystemMessage txt why s) = ws s" "ws (clearTypingTimeout s) = ws s"
  "ws (updateDeliveryStatus i st r s) = ws s"
  "awaitingReply (beginNewChatEpoch s) = awaitingReply s"
  "awaitingReply (setReconnectMessageVisible b s) = awaitingReply s"
  "awaitingReply (pushSystemMessage txt why s) = awaitingReply s"
  "awaitingReply (clearTypingTimeout s) = awaitingReply s"
  "awaitingReply (updateDeliveryStatus i st r s) = awaitingReply s"
  "chatEpochRef (beginNewChatEpoch s) = Suc (chatEpochRef s)"
  "chatEpochRef (setReconnectMessageVisible b s) = chatEpochRef s"
  "chatEpochRef (pushSystemMessage txt why s) = chatEpochRef s"
  "chatEpochRef (clearTypingTimeout s) = chatEpochRef s"
  "chatEpochRef (updateDeliveryStatus i st r s) = chatEpochRef s"
  by (simp_all add: beginNewChatEpoch_def setReconnectMessageVisible_def pushSystemMessage_def
      clearTypingTimeout_def updateDeliveryStatus_def split: option.splits)

lemma show_fields [simp]:
  "status (showConnectionStatusMessage txt s) = status s"
  "mounted (showConnectionStatusMessage txt s) = mounted s"
  "ws (showConnectionStatusMessage txt s) = ws s"
  "awaitingReply (showConnectionStatusMessage txt s) = awaitingReply s"
  "chatEpochRef (showConnectionStatusMessage txt s) = chatEpochRef s"
  by (simp_all add: showConnectionStatusMessage_def)

lemma chat_inv_match: "chat_inv s \<Longrightarrow> chat_inv (onMatch m s)"
proof -
  assume "chat_inv s"
  then have "chat_inv (beginNewChatEpoch s)" by (simp add: keeps)
  then have "chat_inv ((beginNewChatEpoch s)\<lparr>peerId := Some q, reportPeerId := r, status := Connected\<rparr>)" for q r
    by (simp add: chat_inv_def)
  then have base: "chat_inv (clearTypingTimeout ((setReconnectMessageVisible False
      ((beginNewChatEpoch s)\<lparr>peerId := Some q, reportPeerId := r, status := Connected\<rparr>))\<lparr>peerTyping := False\<rparr>))" for q r
    by (simp add: keeps)
  have "chat_inv (t\<lparr>messages := numbered (nextKey t) (now t) xs, nextKey := nextKey t + length xs\<rparr>)"
    if "chat_inv t" for t xs
    using that fresh_numbered [of "nextKey t" xs "now t"] by (fastforce simp: chat_inv_def)
  from this [OF base] show ?thesis by (simp add: onMatch_def Let_def)
qed

lemma chat_inv_handleMessage: "chat_inv s \<Longrightarrow> chat_inv (handleMessage m s)"
proof -
  assume inv: "chat_inv s"
  then have s: "chat_inv (rememberSession m s)"
    by (simp add: rememberSession_def Let_def)
  have typing: "chat_inv (onTyping m t)" if "chat_inv t" for t
  proof -
    have "chat_inv (clearTypingTimeout (t\<lparr>peerTyping := b\<rparr>))" for b
      using that by (simp add: keeps)
    moreover have "chat_inv (u\<lparr>peerTypingTimeoutRef := Some (nextKey u),
        typingTimers := typingTimers u @ [nextKey u], nextKey := Suc (nextKey u)\<rparr>)"
      if "chat_inv u" and "peerTypingTimeoutRef u = None" for u
      using that by (fastforce simp: chat_inv_def fresh_ids_def)
    moreover have "peerTypingTimeoutRef (clearTypingTimeout u) = None" for u
      by (simp add: clearTypingTimeout_def split: option.splits)
    ultimately show ?thesis
      using that by (simp add: onTyping_def Let_def)
  qed
  from s show ?thesis
    unfolding handleMessage_def Let_def
    by (cases "mtype m")
      (auto simp: chat_inv_match onPeerMessage_def onSystemMessage_def onPeerDisconnected_def
        onBanned_def onServerError_def onTimeout_def onStopped_def typing Let_def chat_inv_grow
        intro!: chat_inv_push chat_inv_epoch chat_inv_no_peer chat_inv_no_messages chat_inv_status)
qed

lemma chat_inv_handleOpen: "chat_inv s \<Longrightarrow> chat_inv (handleOpen s)"
  by (auto simp: handleOpen_def setReconnectMessageVisible_def chat_inv_def Let_def)

lemma chat_inv_handleClose: "chat_inv s \<Longrightarrow> chat_inv (handleClose s)"
  by (auto simp: handleClose_def Let_def intro!: chat_inv_no_peer chat_inv_status chat_inv_show)

lemma chat_inv_deliver1 [keeps]: "chat_inv s \<Longrightarrow> chat_inv (deliver1 e s)"
  by (cases e) (auto simp: chat_inv_handleMessage chat_inv_handleOpen chat_inv_handleClose
      handleMaxRetries_def handleReconnecting_def)

lemma chat_inv_deliver: "chat_inv s \<Longrightarrow> chat_inv (fold deliver1 es s)"
  by (induction es arbitrary: s) (simp_all add: keeps)

lemma chat_inv_run_ws: "chat_inv s \<Longrightarrow> ws_inv (fst r) \<Longrightarrow> chat_inv (run_ws r s)"
  by (simp add: run_ws_def chat_inv_deliver chat_inv_ws)

lemma chat_inv_wsSend: "chat_inv s \<Longrightarrow> wsSend ty dat s = Some s' \<Longrightarrow> chat_inv s'"
  by (auto simp: wsSend_def chat_inv_deliver split: option.splits)

text \<open>Every event keeps the invariant.\<close>

lemma chat_inv_setup_continue:
  assumes "chat_inv s"
  shows "chat_inv (setup_continue outcome s)"
proof -
  have ws: "ws_inv (onClose () (onOpen () (onMaxRetries () (onReconnecting () (onMessage () w)))))"
    if "ws_inv w" for w :: "unit ws"
    using that by (simp add: onClose_def onOpen_def onMaxRetries_def onReconnecting_def onMessage_def)
  show ?thesis
    using assms chat_inv_ws_inv [OF assms]
    by (cases outcome)
      (auto simp: setup_continue_def Let_def ws intro!: chat_inv_ws chat_inv_show chat_inv_visible chat_inv_status)
qed

lemma chat_inv_unmount:
  assumes "chat_inv s"
  shows "chat_inv (unmount s)"
proof -
  have "chat_inv (s\<lparr>mounted := False, health := h\<rparr>)" for h
    using assms by (simp add: chat_inv_def)
  then have "chat_inv (cleanup (s\<lparr>mounted := False, health := h\<rparr>))" for h
    by (auto simp: cleanup_def
        intro!: chat_inv_clearTyping chat_inv_visible chat_inv_no_messages chat_inv_no_peer chat_inv_epoch)
  then show ?thesis
    by (simp add: unmount_def Let_def chat_inv_run_ws ws_inv_disconnect chat_inv_ws_inv
        cleanup_def [symmetric])
qed

lemma chat_inv_startSearch_send: "chat_inv s \<Longrightarrow> chat_inv (startSearch_send interests token s)"
  by (auto simp: startSearch_send_def Let_def split: option.split
      intro!: chat_inv_status chat_inv_visible chat_inv_epoch chat_inv_no_messages
      elim!: chat_inv_wsSend [rotated])

lemma chat_inv_sendMessage:
  assumes "chat_inv s"
  shows "chat_inv (sendMessage txt s)"
proof -
  obtain p r where send: "sendWithResponse ''message'' (JObj [(''content'', JStr txt)]) (ws s) = (p, r)"
    by (metis surj_pair)
  then have "ws_inv (fst r)"
    using ws_inv_sendWithResponse [OF chat_inv_ws_inv [OF assms]] by (metis snd_conv)
  moreover have "chat_inv (s\<lparr>messages := grow_text (messages s) (my_message (nextKey s) (now s) txt),
      nextKey := Suc (nextKey s), awaitingReply := awaitingReply s @
        [\<lparr>replyPromise = p, replyMessage = nextKey s, replyEpoch = chatEpochRef s\<rparr>]\<rparr>)"
    using assms text_log.fresh_grow [of "nextKey s" "messages s" "my_message (nextKey s) (now s) txt"]
    by (auto simp: chat_inv_def)
  ultimately show ?thesis
    using assms by (simp add: sendMessage_def Let_def send chat_inv_run_ws)
qed

lemma chat_inv_sendMessage_continue:
  assumes "chat_inv s"
  shows "chat_inv (sendMessage_continue task outcome s)"
proof -
  have "chat_inv (s\<lparr>awaitingReply := remove1 task (awaitingReply s)\<rparr>)"
    using assms set_remove1_subset [of task "awaitingReply s"] by (auto simp: chat_inv_def)
  then show ?thesis
    using assms
    by (auto simp: sendMessage_continue_def reply_received_def reply_failed_def Let_def keeps
        split: promise_state.split)
qed

lemma chat_inv_startSearch:
  assumes "chat_inv s"
  shows "chat_inv (startSearch lib interests token s)"
proof -
  obtain p r where connect: "connect lib (ws s) = (p, r)" by (metis surj_pair)
  then have "ws_inv (fst r)"
    using ws_inv_connect [OF chat_inv_ws_inv [OF assms], of lib] by simp
  with assms show ?thesis
    by (simp add: startSearch_def connect Let_def chat_inv_startSearch_send chat_inv_run_ws)
qed

lemma chat_inv_setupEffect:
  assumes "chat_inv s" and "status s \<noteq> Connected"
  shows "chat_inv (setupEffect lib s)"
proof -
  obtain p r where connect: "connect lib (ws s) = (p, r)" by (metis surj_pair)
  then have "ws_inv (fst r)"
    using ws_inv_connect [OF chat_inv_ws_inv [OF assms(1)], of lib] by simp
  moreover have "chat_inv (s\<lparr>mounted := True, awaitingSetup := a\<rparr>)" for a
    using assms by (simp add: chat_inv_def)
  ultimately show ?thesis
    by (simp add: setupEffect_def connect chat_inv_run_ws)
qed

lemma chat_inv_actions:
  assumes "chat_inv s"
  shows "chat_inv (stopSearch s)" and "chat_inv (disconnectChat s)" and "chat_inv (skip s)"
    and "chat_inv (sendTyping b s)" and "t \<in> set (typingTimers s) \<Longrightarrow> chat_inv (typingTimerFires t s)"
proof -
  show "chat_inv (stopSearch s)"
    using assms
    by (auto simp: stopSearch_def Let_def chat_inv_status split: option.split
        elim!: chat_inv_wsSend [rotated])
  show "chat_inv (disconnectChat s)"
    using assms chat_inv_wsSend [OF assms]
    by (auto simp: disconnectChat_def split: option.split
        intro!: chat_inv_push chat_inv_no_peer chat_inv_status chat_inv_epoch)
  have "chat_inv (u\<lparr>peerId := None, reportPeerId := None, messages := [], peerTyping := False,
      status := Searching\<rparr>)" if "chat_inv u" for u
    using that by (auto simp: chat_inv_def)
  then show "chat_inv (skip s)"
    using assms chat_inv_wsSend [OF assms]
    by (auto simp: skip_def chat_inv_epoch split: option.split)
  show "chat_inv (sendTyping b s)"
    using assms chat_inv_wsSend [OF assms] by (auto simp: sendTyping_def split: option.split)
  show "chat_inv (typingTimerFires t s)" if "t \<in> set (typingTimers s)"
    using assms that by (auto simp: typingTimerFires_def chat_inv_def split: option.splits)
qed

lemma chat_inv_step: "chat_inv s \<Longrightarrow> chat_inv (chat_step e s)"
  using ws_inv_next [OF chat_inv_ws_inv, of s]
  by (cases e) (auto simp: chat_inv_unmount chat_inv_setup_continue chat_inv_startSearch chat_inv_actions
      chat_inv_sendMessage chat_inv_sendMessage_continue startSearch_continue_def
      chat_inv_startSearch_send chat_inv_status Let_def ws_next_def chat_inv_run_ws
      split: option.split promise_state.split)

lemma chat_inv_page: "chat_inv (text_page lib h)"
  unfolding text_page_def
  by (rule chat_inv_setupEffect) (simp_all add: chat_inv_def initial_chat_def initial_ws_inv)

interpretation text_sys: invariant_system chat_step "text_page lib h" chat_inv for lib h
  by unfold_locales (simp_all add: chat_inv_page chat_inv_step)

section \<open>Epochs\<close>

text \<open>No event lowers the epoch; every chat boundary raises it.\<close>

lemma epoch_frame [simp]:
  "chatEpochRef (rememberSession m s) = chatEpochRef s"
  "chatEpochRef (onTyping m s) = chatEpochRef s"
  by (simp_all add: rememberSession_def onTyping_def Let_def)

lemma epoch_handleMessage: "chatEpochRef s \<le> chatEpochRef (handleMessage m s)"
  by (cases "mtype m") (simp_all add: handleMessage_def onMatch_def onPeerMessage_def onSystemMessage_def
      onPeerDisconnected_def onBanned_def onServerError_def onTimeout_def onStopped_def Let_def)

lemma epoch_deliver1: "chatEpochRef s \<le> chatEpochRef (deliver1 e s)"
  by (cases e) (simp_all add: epoch_handleMessage handleClose_def handleOpen_def handleMaxRetries_def
      handleReconnecting_def Let_def)

lemma epoch_deliver: "chatEpochRef s \<le> chatEpochRef (fold deliver1 es s)"
  by (induction es arbitrary: s) (auto intro: order_trans [OF epoch_deliver1])

lemma epoch_run_ws: "chatEpochRef s \<le> chatEpochRef (run_ws r s)"
  using epoch_deliver [of "s\<lparr>ws := fst r\<rparr>" "snd r"] by (simp add: run_ws_def)

lemma epoch_wsSend: "wsSend ty dat s = Some s' \<Longrightarrow> chatEpochRef s \<le> chatEpochRef s'"
  by (auto simp: wsSend_def epoch_deliver split: option.splits)

lemma epoch_startSearch_send: "chatEpochRef s \<le> chatEpochRef (startSearch_send interests token s)"
  by (auto simp: startSearch_send_def Let_def split: option.split dest!: epoch_wsSend)

lemma epoch_step: "chatEpochRef s \<le> chatEpochRef (chat_step e s)"
proof -
  have run: "chatEpochRef s \<le> chatEpochRef (run_ws r t)" if "chatEpochRef s \<le> chatEpochRef t" for r t
    using that epoch_run_ws [of t r] by simp
  have "chatEpochRef s \<le> chatEpochRef (cleanup (s\<lparr>mounted := b, health := h\<rparr>))" for b h
    by (simp add: cleanup_def)
  then have unmount: "chatEpochRef s \<le> chatEpochRef (unmount s)"
    by (simp add: unmount_def run Let_def)
  have start: "chatEpochRef s \<le> chatEpochRef (startSearch lib i tok s)" for lib i tok
    by (simp add: startSearch_def epoch_startSearch_send run split_beta Let_def)
  have resume: "chatEpochRef s \<le> chatEpochRef (startSearch_continue task st s)" for task st
    using epoch_startSearch_send [of "s\<lparr>awaitingStart := ts, connected := True\<rparr>" for ts]
    by (auto simp: startSearch_continue_def Let_def split: promise_state.split)
  show ?thesis
    by (cases e) (auto simp: run unmount start resume epoch_run_ws setup_continue_def stopSearch_def
        disconnectChat_def skip_def sendMessage_def sendTyping_def sendMessage_continue_def
        reply_received_def reply_failed_def typingTimerFires_def Let_def split_beta
        split: option.split promise_state.split dest!: epoch_wsSend)
qed

lemma epoch_run: "chatEpochRef s \<le> chatEpochRef (run_events chat_step es s)"
  by (induction es arbitrary: s) (auto intro: order_trans [OF epoch_step])

section \<open>Deliveries that reach no handler\<close>

lemma deliver_none:
  "filter is_invocation es = [] \<Longrightarrow> fold deliver1 es s = s\<lparr>outbox := outbox s @ es\<rparr>"
proof (induction es arbitrary: s)
  case Nil
  then show ?case by simp
next
  case (Cons e es)
  then show ?case by (cases e) simp_all
qed

lemma deliver_unmounted:
  "\<not> mounted s \<Longrightarrow> \<exists>out. fold deliver1 es s = s\<lparr>outbox := out\<rparr>"
proof (induction es arbitrary: s)
  case Nil
  show ?case by (rule exI [of _ "outbox s"]) simp
next
  case (Cons e es)
  have "\<exists>out. deliver1 e s = s\<lparr>outbox := out\<rparr>"
    using Cons.prems
    by (cases e) (auto simp: handleClose_def handleOpen_def handleMaxRetries_def handleReconnecting_def
        intro: exI [of _ "outbox s"])
  then obtain out where "deliver1 e s = s\<lparr>outbox := out\<rparr>" ..
  with Cons.IH [of "s\<lparr>outbox := out\<rparr>"] Cons.prems show ?case by simp
qed

lemma run_ws_unmounted:
  assumes "\<not> mounted s"
  obtains out where "run_ws r s = s\<lparr>ws := fst r, outbox := out\<rparr>"
  using deliver_unmounted [of "s\<lparr>ws := fst r\<rparr>" "snd r"] assms that by (auto simp: run_ws_def)

lemma wsSend_outbox: "wsSend ty dat s = Some s' \<Longrightarrow> \<exists>out. s' = s\<lparr>outbox := out\<rparr>"
  by (auto simp: wsSend_def send_def split: if_splits)

lemma resume_stale:
  assumes "chatEpochRef s \<noteq> replyEpoch task"
  shows "\<exists>ts. chat_step (ResumeReply task) s = s\<lparr>awaitingReply := ts\<rparr>"
proof -
  have "sendMessage_continue task st s = s\<lparr>awaitingReply :=
      (if st = Pending then awaitingReply s else remove1 task (awaitingReply s))\<rparr>" for st
    using assms by (cases st) (simp_all add: sendMessage_continue_def Let_def)
  then have "chat_step (ResumeReply task) s = s\<lparr>awaitingReply :=
      (if task \<notin> set (awaitingReply s) \<or> promises (ws s) (replyPromise task) = Pending
       then awaitingReply s else remove1 task (awaitingReply s))\<rparr>"
    by simp
  then show ?thesis by blast
qed

section \<open>Properties\<close>

text \<open>
  In every run of the text page the messages on screen have distinct identities, the only armed
  typing timer is the one the page remembers, and a page that shows a connected chat knows its peer.
\<close>

theorem text_page_consistent:
  "let s = run_events chat_step es (text_page lib h)
   in distinct (map cid (messages s)) \<and>
      typingTimers s = (case peerTypingTimeoutRef s of None \<Rightarrow> [] | Some t \<Rightarrow> [t]) \<and>
      \<not> (mounted s \<and> status s = Connected \<and> peerId s = None)"
  using text_sys.inv_run [of es lib h] by (simp add: chat_inv_def fresh_ids_def Let_def)

text \<open>
  C8: a reply never reaches a later chat. If a message is awaiting its reply when the server
  announces a match, then whatever happens next, the reply, the error or the timeout that arrives
  for it changes nothing on the page.
\<close>

theorem stale_reply_ignored:
  fixes s :: chat
  defines "later es m \<equiv> run_events chat_step es (handleMessage m s)"
  assumes "s = run_events chat_step xs (text_page lib h)" and "task \<in> set (awaitingReply s)"
    and "mtype m = MMatch"
  shows "\<exists>ts. chat_step (ResumeReply task) (later es m) = (later es m)\<lparr>awaitingReply := ts\<rparr>"
proof -
  have "replyEpoch task \<le> chatEpochRef s"
    using assms(2,3) text_sys.inv_run [of xs lib h] by (simp add: chat_inv_def)
  also have "\<dots> < chatEpochRef (handleMessage m s)"
    using assms(4) by (simp add: handleMessage_def onMatch_def Let_def)
  also have "\<dots> \<le> chatEpochRef (later es m)"
    unfolding later_def by (rule epoch_run)
  finally have stale: "chatEpochRef (later es m) \<noteq> replyEpoch task" by simp
  then show ?thesis by (rule resume_stale)
qed

text \<open>
  A page that joined, was matched, sent a message and is matched again before the reply.
\<close>

definition js_match :: "string \<Rightarrow> js" where
  "js_match peer = JObj [(''type'', JStr ''match''), (''peer_id'', JStr peer)]"

lemmas text_run_defs = text_page_def initial_chat_def initial_ws_def setupEffect_def run_ws_def
  setup_continue_def startSearch_def startSearch_send_def wsSend_def send_def isConnected_def
  onMessage_def onClose_def onOpen_def onMaxRetries_def onReconnecting_def
  setReconnectMessageVisible_def beginNewChatEpoch_def handleMessage_def rememberSession_def
  onSendOk_def onSendError_def dispatchMessage_def decode_message_def js_match_def msg_types_def
  onMatch_def match_intro_def clearTypingTimeout_def sendMessage_def grow_text_def js_trim_def
  js_space_def handleOpen_def

definition chatting :: "chat_event list" where
  "chatting =
     [Library (JoinOk 2 0), ResumeSetup, StartSearch LibOk [] None,
      Library (SendReplyOk (js_match ''p1'')), SendMessage ''hi'']"

lemma chatting_state:
  "awaitingReply (run_events chat_step chatting (text_page LibOk initial_health)) =
    [\<lparr>replyPromise = 4, replyMessage = 1, replyEpoch = 2\<rparr>]"
  by (simp add: chatting_def text_run_defs ws_ops ws_next_def)

theorem stale_reply_ignored_witness:
  "\<exists>ts. let s = handleMessage (decode_message (js_match ''p2''))
         (run_events chat_step chatting (text_page LibOk initial_health))
     in chat_step (ResumeReply \<lparr>replyPromise = 4, replyMessage = 1, replyEpoch = 2\<rparr>) s = s\<lparr>awaitingReply := ts\<rparr>"
proof -
  have "mtype (decode_message (js_match ''p2'')) = MMatch"
    by (simp add: decode_message_def js_match_def msg_types_def)
  from stale_reply_ignored [OF refl _ this, where es = "[]"] show ?thesis
    by (simp add: chatting_state Let_def)
qed

text \<open>What a reply decides about the message it answers; \<open>None\<close> leaves it pending.\<close>

definition reply_verdict :: "promise_state \<Rightarrow> delivery option" where
  "reply_verdict outcome =
     (case outcome of
        Pending \<Rightarrow> None
      | Rejected err \<Rightarrow> Some DFailed
      | Fulfilled payload \<Rightarrow>
          (let d = js_get payload ''data'' in
           if js_get payload ''type'' = JStr ''error'' then Some DFailed
           else if js_get payload ''type'' \<noteq> JStr ''system'' then Some DSent
           else if js_get d ''reason_code'' = JStr BANNED_PHRASE_REASON
             \<or> js_get d ''message'' = JStr BLOCKED_PHRASE_NOTICE then Some DBlocked
           else None))"

definition deliver_verdict :: "nat \<Rightarrow> delivery option \<Rightarrow> chat_message \<Rightarrow> chat_message" where
  "deliver_verdict i v m = (if cid m = i \<and> v \<noteq> None then m\<lparr>deliveryStatus := v\<rparr> else m)"

lemma update_as_verdict: "update_delivery i d None msgs = map (deliver_verdict i (Some d)) msgs"
  by (simp add: update_delivery_def deliver_verdict_def)

lemma no_verdict: "map (deliver_verdict i None) msgs = msgs"
  by (simp add: deliver_verdict_def map_idI)

text \<open>
  C38: a reply that belongs to the current chat decides the fate of exactly the message it answers:
  sent, blocked or failed, the rest of the transcript untouched, and a notice follows exactly when
  it was blocked or failed. A \<^verbatim>\<open>system\<close> reply without the banned-phrase reason decides nothing:
  the message stays pending.
\<close>

theorem reply_decides_one_message:
  assumes "chatEpochRef s = replyEpoch task"
  shows "let s' = sendMessage_continue task outcome s; v = reply_verdict outcome
     in (\<exists>notice. messages s' = map (deliver_verdict (replyMessage task) v) (messages s) @ notice \<and>
            map sender notice = (if v = Some DBlocked \<or> v = Some DFailed then [System] else []))"
  using assms
  by (cases outcome)
    (auto simp: sendMessage_continue_def reply_verdict_def reply_received_def reply_failed_def Let_def
      no_verdict update_as_verdict pushSystemMessage_def updateDeliveryStatus_def grow_text_def)

theorem reply_decides_one_message_witness:
  "let s = run_events chat_step chatting (text_page LibOk initial_health);
       task = \<lparr>replyPromise = 4, replyMessage = 1, replyEpoch = 2\<rparr>
   in \<exists>notice. messages (sendMessage_continue task (Rejected JNull) s) =
        map (deliver_verdict 1 (Some DFailed)) (messages s) @ notice \<and> map sender notice = [System]"
proof -
  have "chatEpochRef (run_events chat_step chatting (text_page LibOk initial_health)) = 2"
    by (simp add: chatting_def text_run_defs ws_ops ws_next_def)
  then show ?thesis
    using reply_decides_one_message [of "run_events chat_step chatting (text_page LibOk initial_health)"
        "\<lparr>replyPromise = 4, replyMessage = 1, replyEpoch = 2\<rparr>" "Rejected JNull"]
    by (simp add: reply_verdict_def Let_def)
qed

text \<open>
  A message typed while the socket is down is never lost silently. It enters the transcript as
  pending, nothing is pushed, its promise is already rejected, and when the rejection is handled the
  message is marked failed and a notice says so.
\<close>

theorem offline_message_fails:
  assumes "chat_inv s" and "status s = Connected" and "js_trim txt \<noteq> []" and "\<not> isConnected (ws s)"
  shows "let s1 = sendMessage txt s; s2 = chat_step (ResumeReply (last (awaitingReply s1))) s1
     in messages s1 = messages s @ [my_message (nextKey s) (now s) txt] \<and> outbox s1 = outbox s \<and>
        messages s2 = messages s @
          [(my_message (nextKey s) (now s) txt)\<lparr>deliveryStatus := Some DFailed\<rparr>,
           system_message (Suc (nextKey s)) (now s)
             (JStr ''Message could not be sent right now. Please try again.'') JUndef]"
proof -
  obtain p w es where send: "sendWithResponse ''message'' (JObj [(''content'', JStr txt)]) (ws s) = (p, w, es)"
    by (metis prod_cases3)
  with ws_transport.request_offline [OF chat_inv_ws_inv [OF assms(1)] assms(4)]
  obtain err where es: "es = []" and p: "promises w p = Rejected err" by blast
  have new: "cid m \<noteq> nextKey s" if "m \<in> set (messages s)" for m
    using assms(1) that by (fastforce simp: chat_inv_def fresh_ids_def)
  have old: "update_delivery (nextKey s) d None (messages s) = messages s" for d
    by (rule update_delivery_unknown) (use new in fastforce)
  have "update_delivery (nextKey s) DFailed None (messages s @ [my_message (nextKey s) (now s) txt]) =
      messages s @ [(my_message (nextKey s) (now s) txt)\<lparr>deliveryStatus := Some DFailed\<rparr>]"
    using old [of DFailed] by (simp add: update_delivery_def)
  then show ?thesis
    using assms(2,3) p
    by (simp add: sendMessage_def send es run_ws_def sendMessage_continue_def reply_failed_def Let_def
        pushSystemMessage_def updateDeliveryStatus_def grow_text_def)
qed

theorem offline_message_fails_witness:
  "let s = run_events chat_step (chatting @ [Library (ChannelStateChange 2 ChErrored)])
         (text_page LibOk initial_health);
       s1 = sendMessage ''yo'' s; s2 = chat_step (ResumeReply (last (awaitingReply s1))) s1
   in deliveryStatus (messages s2 ! 2) = Some DFailed"
proof -
  let ?s = "run_events chat_step (chatting @ [Library (ChannelStateChange 2 ChErrored)])
    (text_page LibOk initial_health)"
  have st: "status ?s = Connected" "\<not> isConnected (ws ?s)" "length (messages ?s) = 2"
    by (simp_all add: chatting_def text_run_defs ws_ops ws_next_def numeral_2_eq_2)
  from offline_message_fails [OF text_sys.inv_run st(1) _ st(2), of "''yo''"] st(3) show ?thesis
    by (simp add: Let_def nth_append js_trim_def js_space_def)
qed

section \<open>After the page has gone\<close>

text \<open>Everything but the actions of the user.\<close>

fun is_async :: "chat_event \<Rightarrow> bool" where
  "is_async (Library e) = True"
| "is_async ResumeSetup = True"
| "is_async (ResumeStart task) = True"
| "is_async (ResumeReply task) = True"
| "is_async (TypingTimer t) = True"
| "is_async (ClockTo t) = True"
| "is_async e = False"

definition gone :: "chat \<Rightarrow> bool" where
  "gone s \<longleftrightarrow> \<not> mounted s \<and> messages s = [] \<and> peerId s = None \<and>
     (\<forall>task\<in>set (awaitingReply s). replyEpoch task < chatEpochRef s)"

lemma gone_frame [simp]:
  "gone (s\<lparr>connected := b\<rparr>) = gone s" "gone (s\<lparr>awaitingStart := ts\<rparr>) = gone s"
  "gone (s\<lparr>awaitingSetup := a\<rparr>) = gone s" "gone (s\<lparr>status := st\<rparr>) = gone s"
  "gone (s\<lparr>reportPeerId := r\<rparr>) = gone s" "gone (s\<lparr>ws := w\<rparr>) = gone s"
  "gone (s\<lparr>outbox := out\<rparr>) = gone s" "gone (s\<lparr>now := n\<rparr>) = gone s"
  "gone (setReconnectMessageVisible b s) = gone s" "gone (typingTimerFires t s) = gone s"
  by (simp_all add: gone_def setReconnectMessageVisible_def typingTimerFires_def)

lemma gone_epoch: "gone s \<Longrightarrow> gone (beginNewChatEpoch (s\<lparr>messages := []\<rparr>))"
  by (auto simp: gone_def beginNewChatEpoch_def)

lemma gone_run_ws: "gone s \<Longrightarrow> gone (run_ws r s)"
  by (rule run_ws_unmounted [of s r]) (simp_all add: gone_def)

lemma gone_startSearch_send: "gone s \<Longrightarrow> gone (startSearch_send interests token s)"
  using gone_epoch [of s]
  by (auto simp: startSearch_send_def Let_def split: option.split dest!: wsSend_outbox)

lemma gone_resume_reply:
  assumes "gone s"
  shows "gone (chat_step (ResumeReply task) s)"
proof (cases "task \<in> set (awaitingReply s)")
  case True
  then have "chatEpochRef s \<noteq> replyEpoch task"
    using assms by (auto simp: gone_def)
  then have "sendMessage_continue task st s =
      s\<lparr>awaitingReply := (if st = Pending then awaitingReply s else remove1 task (awaitingReply s))\<rparr>" for st
    by (cases st) (simp_all add: sendMessage_continue_def Let_def)
  with True assms set_remove1_subset [of task "awaitingReply s"] show ?thesis
    by (auto simp: gone_def)
qed (use assms in simp)

lemma gone_step: "is_async e \<Longrightarrow> gone s \<Longrightarrow> gone (chat_step e s)"
proof (cases e)
  case ResumeSetup
  moreover assume "gone s"
  ultimately show ?thesis
    by (auto simp: setup_continue_def Let_def gone_def split: option.split promise_state.split)
next
  case (ResumeReply task)
  moreover assume "gone s"
  ultimately show ?thesis using gone_resume_reply by blast
qed (auto simp: gone_run_ws startSearch_continue_def gone_startSearch_send Let_def
      split: promise_state.split)

lemma gone_run: "gone s \<Longrightarrow> gone (run_events chat_step (filter is_async es) s)"
  by (induction es arbitrary: s) (simp_all add: gone_step del: chat_step.simps)

lemma gone_unmount: "chat_inv s \<Longrightarrow> gone (unmount s)"
proof -
  assume "chat_inv s"
  then have "gone (cleanup (s\<lparr>mounted := False, health := h\<rparr>))" for h
    by (auto simp: gone_def cleanup_def clearTypingTimeout_def setReconnectMessageVisible_def
        beginNewChatEpoch_def chat_inv_def less_Suc_eq_le split: option.split)
  then show ?thesis by (simp add: unmount_def Let_def gone_run_ws)
qed

text \<open>
  C30: nothing that was in flight when the page unmounted reaches it. After the unmount, no library
  callback, settled promise or timer adds a message, sets a peer or revives the page.
\<close>

theorem unmounted_page_stays_empty:
  "let s = run_events chat_step (xs @ Unmount # filter is_async es) (text_page lib h)
   in messages s = [] \<and> peerId s = None \<and> \<not> mounted s"
  using gone_run [OF gone_unmount [OF text_sys.inv_run], of es xs lib h]
  by (simp add: run_events_append gone_def Let_def)

section \<open>A page that never hears its server\<close>

fun answers_join :: "nat \<Rightarrow> chat_event \<Rightarrow> bool" where
  "answers_join p (Library (JoinOk c q)) = (q = p)"
| "answers_join p (Library (JoinError c q err)) = (q = p)"
| "answers_join p e = False"

definition deaf :: "nat \<Rightarrow> chat \<Rightarrow> bool" where
  "deaf p s \<longleftrightarrow> unsettled p (ws s) \<and> ws_inv (ws s) \<and> silent (ws s) \<and> awaitingSetup s = Some p \<and>
     status s \<noteq> Connected"

lemma deaf_frame [simp]:
  "deaf p (s\<lparr>connected := b\<rparr>) = deaf p s" "deaf p (s\<lparr>awaitingStart := ts\<rparr>) = deaf p s"
  "deaf p (s\<lparr>reportPeerId := r\<rparr>) = deaf p s" "deaf p (s\<lparr>messages := ms\<rparr>) = deaf p s"
  "deaf p (s\<lparr>peerId := q\<rparr>) = deaf p s" "deaf p (s\<lparr>sessionId := q\<rparr>) = deaf p s"
  "deaf p (s\<lparr>sessionToken := q\<rparr>) = deaf p s" "deaf p (s\<lparr>peerTyping := b\<rparr>) = deaf p s"
  "deaf p (s\<lparr>outbox := out\<rparr>) = deaf p s" "deaf p (s\<lparr>now := n\<rparr>) = deaf p s"
  "deaf p (s\<lparr>awaitingReply := tasks\<rparr>) = deaf p s"
  "deaf p (setReconnectMessageVisible b s) = deaf p s" "deaf p (typingTimerFires t s) = deaf p s"
  "deaf p (beginNewChatEpoch s) = deaf p s" "deaf p (pushSystemMessage txt why s) = deaf p s"
  "deaf p (updateDeliveryStatus i d repl s) = deaf p s"
  by (simp_all add: deaf_def setReconnectMessageVisible_def typingTimerFires_def beginNewChatEpoch_def
      pushSystemMessage_def updateDeliveryStatus_def)

lemma deaf_connected: "deaf p s \<Longrightarrow> status s \<noteq> Connected"
  by (simp add: deaf_def)

lemma deaf_status: "deaf p s \<Longrightarrow> st \<noteq> Connected \<Longrightarrow> deaf p (s\<lparr>status := st\<rparr>)"
  by (simp add: deaf_def)

lemma deaf_run_ws:
  assumes "deaf p s" and "\<not> answers_join p (Library e)"
  shows "deaf p (run_ws (ws_step e (ws s)) s)"
proof -
  have "\<forall>c. e \<noteq> JoinOk c p" "\<forall>c err. e \<noteq> JoinError c p err"
    using assms(2) by auto
  then have "unsettled p (ws_next e (ws s))" "ws_inv (ws_next e (ws s))"
    using assms(1) unsettled_next ws_inv_next by (auto simp: deaf_def)
  moreover have "silent (ws_next e (ws s))" "filter is_invocation (snd (ws_step e (ws s))) = []"
    using assms(1) silent_step [of "ws s" e] by (simp_all add: deaf_def ws_next_def)
  ultimately show ?thesis
    using assms(1) by (simp add: run_ws_def deliver_none deaf_def ws_next_def)
qed

lemma deaf_startSearch_send: "deaf p s \<Longrightarrow> deaf p (startSearch_send interests token s)"
  by (auto simp: startSearch_send_def Let_def deaf_status split: option.split dest!: wsSend_outbox)

lemma deaf_unmount: "deaf p s \<Longrightarrow> deaf p (unmount s)"
proof -
  assume deaf: "deaf p s"
  let ?t = "cleanup (s\<lparr>mounted := False, health := removeChannel channelName (health s)\<rparr>)"
  have "deaf p ?t"
    using deaf by (simp add: deaf_def cleanup_def clearTypingTimeout_def setReconnectMessageVisible_def
        beginNewChatEpoch_def split: option.split)
  moreover have "ws ?t = ws s" by (simp add: cleanup_def)
  ultimately show ?thesis
    using deaf_run_ws [of p ?t CallDisconnect] by (simp add: unmount_def Let_def)
qed

lemma deaf_startSearch: "deaf p s \<Longrightarrow> deaf p (startSearch lib interests token s)"
proof -
  assume deaf: "deaf p s"
  obtain q r where connect: "connect lib (ws s) = (q, r)" by (metis surj_pair)
  have "deaf p (run_ws r (s\<lparr>awaitingStart := ts\<rparr>))" for ts
    using deaf deaf_run_ws [of p "s\<lparr>awaitingStart := ts\<rparr>" "CallConnect lib"] by (simp add: connect)
  with deaf show ?thesis
    by (simp add: startSearch_def connect deaf_startSearch_send Let_def)
qed

lemma deaf_step:
  assumes "\<not> answers_join p e" and deaf: "deaf p s"
  shows "deaf p (chat_step e s)"
proof (cases e)
  case (Library le)
  with assms show ?thesis using deaf_run_ws by simp
next
  case ResumeSetup
  with deaf show ?thesis by (simp add: setup_continue_def deaf_def unsettled_def)
next
  case (ResumeReply task)
  have "deaf p (sendMessage_continue task st s)" for st
    using deaf by (auto simp: sendMessage_continue_def reply_received_def reply_failed_def Let_def
        split: promise_state.split)
  with ResumeReply deaf show ?thesis by simp
next
  case (ResumeStart task)
  with deaf show ?thesis
    by (auto simp: startSearch_continue_def deaf_startSearch_send deaf_status Let_def
        split: promise_state.split)
next
  case StopSearch
  with deaf show ?thesis
    by (auto simp: stopSearch_def Let_def deaf_status split: option.split dest!: wsSend_outbox)
next
  case DisconnectChat
  with deaf show ?thesis
    by (auto simp: disconnectChat_def Let_def deaf_status split: option.split dest!: wsSend_outbox)
next
  case (SendMessage t)
  with deaf show ?thesis by (simp add: sendMessage_def deaf_def)
qed (use deaf in \<open>simp_all add: deaf_unmount deaf_startSearch skip_def sendTyping_def deaf_connected\<close>)

lemma deaf_run: "deaf p s \<Longrightarrow> deaf p (run_events chat_step (filter (\<lambda>e. \<not> answers_join p e) es) s)"
  by (induction es arbitrary: s) (simp_all add: deaf_step del: chat_step.simps)


end
