(* ===== verification/Video_State.thy ===== *)
theory Video_State
  imports Chat_Types Ice_Servers
begin

text \<open>
  The state of the video chat hook (\<^verbatim>\<open>client/src/hooks/useVideoChat.tsx\<close>) and its small
  operations: configuration, system messages, API health strikes, the signaling socket and the reset
  of the WebRTC transport.

  Browser objects (sockets, peer connections, transceivers, streams, timers, promises) are numbers
  from the supply \<open>nextKey\<close>. What the browser decides about them (\<open>goState\<close>, \<open>pcState\<close>)
  changes by events; what the hook asks of the browser is appended to \<open>browser\<close> in program
  order. A video element is an option of its \<^verbatim>\<open>srcObject\<close>, \<open>None\<close> while it is not mounted.
\<close>

section \<open>Configuration\<close>

text \<open>The build-time variables of \<^verbatim>\<open>import.meta.env\<close> that decide more than logging.\<close>

record env =
  VITE_TURN_MODE :: "string option"
  VITE_ENABLE_TURN :: "string option"
  VITE_FORCE_RELAY :: "string option"
  VITE_TURN_TRANSPORT :: "string option"
  VITE_STUN_SERVERS :: "string option"
  VITE_API_URL :: "string option"

text \<open>A build with no variable set.\<close>

definition plain_env :: env where
  "plain_env =
     \<lparr>VITE_TURN_MODE = None, VITE_ENABLE_TURN = None, VITE_FORCE_RELAY = None,
      VITE_TURN_TRANSPORT = None, VITE_STUN_SERVERS = None, VITE_API_URL = None\<rparr>"

definition isCallerSession :: "string \<Rightarrow> string \<Rightarrow> bool" where
  "isCallerSession own peer \<longleftrightarrow> own > peer"

definition MAX_MESSAGES :: nat where
  "MAX_MESSAGES = 200"

definition turnMode :: "env \<Rightarrow> string" where
  "turnMode c =
     (case VITE_TURN_MODE c of
        Some m \<Rightarrow> if m \<in> {''off'', ''cloudflare'', ''integrated'', ''auto''} then m
                  else if VITE_ENABLE_TURN c = Some ''false'' then ''off'' else ''auto''
      | None \<Rightarrow> if VITE_ENABLE_TURN c = Some ''false'' then ''off'' else ''auto'')"

definition turnEnabled :: "env \<Rightarrow> bool" where
  "turnEnabled c \<longleftrightarrow> turnMode c \<noteq> ''off''"

definition forceRelay :: "env \<Rightarrow> bool" where
  "forceRelay c \<longleftrightarrow> VITE_FORCE_RELAY c = Some ''true''"

definition turnTransportFilter :: "env \<Rightarrow> transport_filter" where
  "turnTransportFilter c =
     (if VITE_TURN_TRANSPORT c = Some ''udp'' then UdpOnly
      else if VITE_TURN_TRANSPORT c = Some ''tcp'' then TcpOnly
      else AllTransports)"

definition stun_server :: "string \<Rightarrow> ice_server" where
  "stun_server url = \<lparr>urls = JStr url, username = None, credential = None\<rparr>"

definition defaultStunServers :: "env \<Rightarrow> ice_server list" where
  "defaultStunServers c =
     (if str_truthy (VITE_STUN_SERVERS c)
      then map (\<lambda>url. stun_server (js_trim url)) (js_split (CHR '','') (the (VITE_STUN_SERVERS c)))
      else [stun_server ''stun:stun.cloudflare.com:3478'', stun_server ''stun:stun.l.google.com:19302''])"

definition goApiUrl :: "env \<Rightarrow> string" where
  "goApiUrl c = (if str_truthy (VITE_API_URL c) then the (VITE_API_URL c) else ''http://localhost:8082'')"

definition hasTurnServer :: "ice_server list \<Rightarrow> bool" where
  "hasTurnServer servers =
     list_ex (\<lambda>server. list_ex (\<lambda>url. case url of JStr u \<Rightarrow> isTurnUrl u | _ \<Rightarrow> False)
       (case urls server of JArr us \<Rightarrow> us | u \<Rightarrow> [u])) servers"

definition strip_scheme :: "string \<Rightarrow> string" where
  "strip_scheme url =
     (if js_startsWith url ''https://'' then drop 8 url
      else if js_startsWith url ''http://'' then drop 7 url else url)"

definition go_ws_url :: "env \<Rightarrow> string \<Rightarrow> string option \<Rightarrow> string" where
  "go_ws_url c session token =
     (if js_startsWith (goApiUrl c) ''https'' then ''wss:'' else ''ws:'') @ ''//'' @
     strip_scheme (goApiUrl c) @ ''/api/v1/webrtc/ws?session_id='' @ encodeURIComponent session @
     ''&session_token='' @ encodeURIComponent (case token of None \<Rightarrow> [] | Some t \<Rightarrow> t)"

section \<open>Browser objects\<close>

datatype ready_state = CONNECTING | OPEN | CLOSING | CLOSED

datatype signaling_state = Stable | HaveLocalOffer | HaveRemoteOffer | OtherSignaling | SigClosed

datatype connection_state = PcNew | PcConnecting | PcConnected | PcDisconnected | PcFailed | PcClosed

record rtc =
  connectionState :: connection_state
  signalingState :: signaling_state
  hasRemoteDescription :: bool

record stream =
  streamId :: nat
  audioTrack :: "nat option"
  videoTrack :: "nat option"

datatype signal_type = SOffer | SAnswer | SIce

record signal =
  sigType :: signal_type
  from_session_id :: string
  to_session_id :: string
  sigData :: js

datatype browser_effect =
    GoOpen nat string
  | GoSend nat signal
  | GoShut nat
  | PcCreate nat "ice_server list" bool
  | PcClose nat
  | PcSetConfiguration nat "ice_server list"
  | PcRestartIce nat
  | PcAddTransceiver nat nat
  | PcReplaceTrack nat "nat option"
  | PcDirectionSendrecv nat
  | PcCreateOffer nat bool
  | PcCreateAnswer nat
  | PcSetLocal nat js
  | PcRollback nat
  | PcSetRemote nat js
  | PcAddIce nat js
  | PlayRemote
  | StopTrack nat
  | AskCamera
  | FetchTurn nat string string

section \<open>Suspended functions\<close>

text \<open>
  One constructor for each \<^verbatim>\<open>await\<close>: what the rest of the function still needs. A negotiation has
  its target and epoch; an answer its peer, epoch and description; replacing tracks has the senders
  still to do.
\<close>

datatype neg_stage =
    NegTurn
  | NegAttach nat "(nat \<times> nat option) list"
  | NegOffer nat
  | NegLocal nat js

datatype ans_stage =
    AnsRollback nat
  | AnsTurn
  | AnsRemote nat
  | AnsFlush nat
  | AnsAttach nat "(nat \<times> nat option) list"
  | AnsCreate nat
  | AnsLocal nat js

datatype search_stage =
    SearchCamera
  | SearchStream
  | SearchConnect nat

datatype task =
    Negotiate string nat neg_stage
  | Answer string nat js ans_stage
  | ApplyAnswer nat
  | FlushAfterAnswer nat
  | RestartOffer nat string nat
  | RestartLocal nat string nat js
  | Upgrade nat string nat nat
  | ReadyTurn nat
  | Prefetch nat nat
  | FetchResponse nat nat string string
  | FetchBody nat nat string string
  | Search string "string option" search_stage

section \<open>State\<close>

record media_chat = chat +
  config :: env
  cameraError :: "string option"
  isVideoConnecting :: bool
  localVideoRef :: "nat option option"
  remoteVideoRef :: "nat option option"
  localStreamRef :: "stream option"
  mockVideoTimerRef :: "nat option"
  mockTimers :: "nat list"
  peerIdRef :: "string option"
  sessionIdRef :: "string option"
  sessionTokenRef :: "string option"
  seenPeerId :: "string option"
  seenSessionId :: "string option"
  seenSessionToken :: "string option"
  browser :: "browser_effect list"
  tasks :: "task list"

record go_chat = media_chat +
  webrtcWsRef :: "nat option"
  goState :: "nat \<Rightarrow> ready_state"
  goSockets :: "(nat \<times> string) list"
  webrtcWsQueueRef :: "signal list"
  webrtcSocketOpenRef :: bool
  signalingReadySentRef :: bool
  pendingWebrtcStartRef :: "string option"
  goWsConnectTimeoutRef :: "nat option"
  connectTimers :: "(nat \<times> nat) list"
  goWsReconnectTimeoutRef :: "nat option"
  goReconnectTimers :: "(nat \<times> string \<times> string option \<times> nat) list"
  goWsReconnectExhaustedRef :: bool
  apiRetryCountRef :: nat
  serverRejectionCountRef :: nat
  apiSuccessTimeoutRef :: "nat option"
  apiTimers :: "(nat \<times> nat option) list"

record video = go_chat +
  peerConnectionRef :: "nat option"
  pcState :: "nat \<Rightarrow> rtc"
  pcHandlers :: "(nat \<times> string \<times> nat) list"
  transceiverAudio :: "nat option"
  transceiverVideo :: "nat option"
  pendingIceCandidatesRef :: "js list"
  iceRestartPendingRef :: bool
  negotiationStartedRef :: bool
  turnServersRef :: "ice_server list"
  turnFetchedRef :: bool
  turnFetchPromiseRef :: "nat option"
  turnFetchGenerationRef :: nat
  turnResults :: "nat \<Rightarrow> ice_server list option option"

section \<open>Small operations\<close>

definition perform :: "browser_effect list \<Rightarrow> video \<Rightarrow> video" where
  "perform es s = s\<lparr>browser := browser s @ es\<rparr>"

definition fresh_key :: "video \<Rightarrow> nat \<times> video" where
  "fresh_key s = (nextKey s, s\<lparr>nextKey := Suc (nextKey s)\<rparr>)"

definition setReconnectMessageVisible_v :: "bool \<Rightarrow> video \<Rightarrow> video" where
  "setReconnectMessageVisible_v visible s = s\<lparr>showReconnectMessageRef := visible\<rparr>"

definition beginNewChatEpoch_v :: "video \<Rightarrow> video" where
  "beginNewChatEpoch_v s = s\<lparr>chatEpochRef := Suc (chatEpochRef s)\<rparr>"

definition grow_capped :: "chat_message list \<Rightarrow> chat_message \<Rightarrow> chat_message list" where
  "grow_capped msgs m =
     (let nxt = msgs @ [m]
      in if length nxt > MAX_MESSAGES then js_slice_last MAX_MESSAGES nxt else nxt)"

definition pushSystemMessage_v :: "js \<Rightarrow> js \<Rightarrow> video \<Rightarrow> video" where
  "pushSystemMessage_v txt why s =
     s\<lparr>messages := grow_capped (messages s) (system_message (nextKey s) (now s) txt why),
       nextKey := Suc (nextKey s)\<rparr>"

definition updateDeliveryStatus_v :: "nat \<Rightarrow> delivery \<Rightarrow> js option \<Rightarrow> video \<Rightarrow> video" where
  "updateDeliveryStatus_v i st replacement s =
     s\<lparr>messages := update_delivery i st replacement (messages s)\<rparr>"

definition showConnectionStatusMessage_v :: "string \<Rightarrow> video \<Rightarrow> video" where
  "showConnectionStatusMessage_v txt s =
     (if showReconnectMessageRef s then s
      else setReconnectMessageVisible_v True (pushSystemMessage_v (JStr txt) JUndef s))"

definition showVideoSignalingUnavailable :: "string \<Rightarrow> video \<Rightarrow> video" where
  "showVideoSignalingUnavailable txt s =
     (let s = s\<lparr>pendingWebrtcStartRef := None, isVideoConnecting := False\<rparr>
      in if list_ex (\<lambda>m. sender m = System \<and> body m = JStr txt) (messages s) then s
         else s\<lparr>messages := messages s @ [system_message (nextKey s) (now s) (JStr txt) JUndef],
                nextKey := Suc (nextKey s)\<rparr>)"

definition clearTypingTimeout_v :: "video \<Rightarrow> video" where
  "clearTypingTimeout_v s =
     (case peerTypingTimeoutRef s of
        None \<Rightarrow> s
      | Some t \<Rightarrow> s\<lparr>typingTimers := removeAll t (typingTimers s), peerTypingTimeoutRef := None\<rparr>)"

section \<open>API health\<close>

definition set_api :: "service_status \<Rightarrow> video \<Rightarrow> video" where
  "set_api st s = s\<lparr>health := setApiStatus st (health s)\<rparr>"

definition clearApiSuccessTimeout :: "video \<Rightarrow> video" where
  "clearApiSuccessTimeout s =
     (case apiSuccessTimeoutRef s of
        None \<Rightarrow> s
      | Some t \<Rightarrow> s\<lparr>apiTimers := filter (\<lambda>a. fst a \<noteq> t) (apiTimers s), apiSuccessTimeoutRef := None\<rparr>)"

definition reportApiError :: "video \<Rightarrow> video" where
  "reportApiError s =
     (let s = clearApiSuccessTimeout s;
          s = s\<lparr>apiRetryCountRef := Suc (apiRetryCountRef s)\<rparr>
      in if apiRetryCountRef s = 1 then set_api SDegraded s
         else if apiRetryCountRef s \<ge> 5 then set_api SOffline s
         else s)"

text \<open>
  \<^verbatim>\<open>reportApiSuccess(isStillHealthy)\<close>: the closure is kept with the timer, the socket it watches
  or \<open>None\<close> for the closure of the TURN fetch.
\<close>

definition reportApiSuccess :: "nat option \<Rightarrow> video \<Rightarrow> video" where
  "reportApiSuccess watched s =
     (let s = (case apiSuccessTimeoutRef s of None \<Rightarrow> s
               | Some t \<Rightarrow> s\<lparr>apiTimers := filter (\<lambda>a. fst a \<noteq> t) (apiTimers s)\<rparr>);
          (t, s) = fresh_key s
      in s\<lparr>apiSuccessTimeoutRef := Some t, apiTimers := apiTimers s @ [(t, watched)]\<rparr>)"

definition isStillHealthy :: "nat option \<Rightarrow> video \<Rightarrow> bool" where
  "isStillHealthy watched s =
     (case watched of
        Some g \<Rightarrow> webrtcWsRef s = Some g \<and> goState s g = OPEN
      | None \<Rightarrow> \<not> goWsReconnectExhaustedRef s \<or> webrtcSocketOpenRef s)"

definition apiSuccessTimer :: "nat option \<Rightarrow> video \<Rightarrow> video" where
  "apiSuccessTimer watched s =
     (if \<not> isStillHealthy watched s then s
      else if apiRetryCountRef s > 0 \<or> serverRejectionCountRef s > 0
      then set_api SOk (s\<lparr>apiRetryCountRef := 0, serverRejectionCountRef := 0\<rparr>)
      else s)"

section \<open>The signaling socket\<close>

definition canOpenGoWebSocket :: "video \<Rightarrow> bool" where
  "canOpenGoWebSocket s \<longleftrightarrow> \<not> goWsReconnectExhaustedRef s"

definition clearGoWsConnectTimeout :: "video \<Rightarrow> video" where
  "clearGoWsConnectTimeout s =
     (case goWsConnectTimeoutRef s of
        None \<Rightarrow> s
      | Some t \<Rightarrow> s\<lparr>connectTimers := filter (\<lambda>c. fst c \<noteq> t) (connectTimers s),
                   goWsConnectTimeoutRef := None\<rparr>)"

definition clearGoWsReconnectTimeout :: "video \<Rightarrow> video" where
  "clearGoWsReconnectTimeout s =
     (case goWsReconnectTimeoutRef s of
        None \<Rightarrow> s
      | Some t \<Rightarrow> s\<lparr>goReconnectTimers := filter (\<lambda>c. fst c \<noteq> t) (goReconnectTimers s),
                   goWsReconnectTimeoutRef := None\<rparr>)"

text \<open>
  The set of suppressed sockets only decides what is logged; it is not part of the state. A socket
  without handlers is not in \<open>goSockets\<close>.
\<close>

definition shut_socket :: "nat \<Rightarrow> video \<Rightarrow> video" where
  "shut_socket g s =
     perform [GoShut g]
       (s\<lparr>goState := (goState s)(g := if goState s g = CLOSED then CLOSED else CLOSING)\<rparr>)"

definition closeGoWebSocket :: "video \<Rightarrow> video" where
  "closeGoWebSocket s =
     (case webrtcWsRef s of
        None \<Rightarrow> s
      | Some g \<Rightarrow>
          (let s = s\<lparr>webrtcWsRef := None, webrtcSocketOpenRef := False, signalingReadySentRef := False\<rparr>;
               s = clearGoWsConnectTimeout s
           in shut_socket g (s\<lparr>goSockets := filter (\<lambda>h. fst h \<noteq> g) (goSockets s)\<rparr>)))"

section \<open>The peer connection and the media\<close>

definition close_pc :: "nat \<Rightarrow> video \<Rightarrow> video" where
  "close_pc pc s =
     perform [PcClose pc]
       (s\<lparr>pcHandlers := filter (\<lambda>h. fst h \<noteq> pc) (pcHandlers s),
          pcState := (pcState s)(pc := (pcState s pc)\<lparr>connectionState := PcClosed, signalingState := SigClosed\<rparr>),
          peerConnectionRef := None\<rparr>)"

definition closePeerConnection :: "video \<Rightarrow> video" where
  "closePeerConnection s = (case peerConnectionRef s of None \<Rightarrow> s | Some pc \<Rightarrow> close_pc pc s)"

definition stream_tracks :: "stream \<Rightarrow> nat list" where
  "stream_tracks st =
     (case audioTrack st of None \<Rightarrow> [] | Some t \<Rightarrow> [t]) @ (case videoTrack st of None \<Rightarrow> [] | Some t \<Rightarrow> [t])"

definition stopLocalStream :: "video \<Rightarrow> video" where
  "stopLocalStream s =
     (case localStreamRef s of
        None \<Rightarrow> s
      | Some st \<Rightarrow> perform (map StopTrack (stream_tracks st)) (s\<lparr>localStreamRef := None\<rparr>))"

definition forget_turn :: "video \<Rightarrow> video" where
  "forget_turn s =
     s\<lparr>turnFetchGenerationRef := Suc (turnFetchGenerationRef s),
       turnServersRef := defaultStunServers (config s),
       turnFetchedRef := False,
       turnFetchPromiseRef := None\<rparr>"

definition resetWebRTCTransport :: "bool \<Rightarrow> video \<Rightarrow> video" where
  "resetWebRTCTransport keepLocalMedia s =
     (let s = s\<lparr>iceRestartPendingRef := False, pendingWebrtcStartRef := None,
                signalingReadySentRef := False, negotiationStartedRef := False\<rparr>;
          s = closePeerConnection (closeGoWebSocket (forget_turn s));
          s = s\<lparr>transceiverAudio := None, transceiverVideo := None, pendingIceCandidatesRef := [],
                webrtcWsQueueRef := [], isVideoConnecting := False,
                remoteVideoRef := map_option (\<lambda>_. None) (remoteVideoRef s)\<rparr>
      in if keepLocalMedia then s
         else let s = stopLocalStream s
           in s\<lparr>localVideoRef := map_option (\<lambda>_. None) (localVideoRef s)\<rparr>)"

text \<open>The transcript of the video page drops its oldest messages.\<close>

interpretation video_log: transcript grow_capped
proof
  fix msgs :: "chat_message list" and m
  show "\<exists>k. grow_capped msgs m = drop k msgs @ [m]"
  proof (cases "length (msgs @ [m]) > MAX_MESSAGES")
    case True
    then have "grow_capped msgs m = drop (Suc (length msgs) - MAX_MESSAGES) msgs @ [m]"
      by (simp add: grow_capped_def js_slice_last_def MAX_MESSAGES_def)
    then show ?thesis by blast
  next
    case False
    then have "grow_capped msgs m = drop 0 msgs @ [m]" by (simp add: grow_capped_def)
    then show ?thesis by blast
  qed
qed

lemma length_grow_capped: "length (grow_capped msgs m) \<le> MAX_MESSAGES"
  by (simp add: grow_capped_def length_js_slice_last Let_def)

end
