(* ===== verification/Video_Signaling.thy ===== *)
theory Video_Signaling
  imports Video_State
begin

text \<open>
  WebRTC signaling of the video hook: which incoming signals are ignored, how outgoing ones are
  guarded, the initial offer, the peer connection's handlers, TURN credentials and the queue of early
  ICE candidates.

  A function that awaits returns after storing its \<open>task\<close>; the definitions named \<open>\<dots>_continue\<close>
  are the rest of the function, run when the awaited promise settles. What the browser delivers (a
  description, an error, a response) is their argument.
\<close>

section \<open>Guards\<close>

definition add_task :: "task \<Rightarrow> video \<Rightarrow> video" where
  "add_task t s = s\<lparr>tasks := tasks s @ [t]\<rparr>"

definition shouldIgnoreIncomingSignal :: "string option \<Rightarrow> video \<Rightarrow> bool" where
  "shouldIgnoreIncomingSignal incomingPeerId s \<longleftrightarrow>
     \<not> str_truthy incomingPeerId \<or> \<not> str_truthy (peerIdRef s) \<or> incomingPeerId \<noteq> peerIdRef s"

definition sendWebRTC :: "signal_type \<Rightarrow> js \<Rightarrow> string \<Rightarrow> video \<Rightarrow> video" where
  "sendWebRTC eventType payload currentPeerId s =
     (case (sessionIdRef s, webrtcWsRef s) of
        (Some session, Some g) \<Rightarrow>
          if session = [] \<or> currentPeerId = [] then s
          else if peerIdRef s \<noteq> Some currentPeerId then s
          else
            let messagePayload = \<lparr>sigType = eventType, from_session_id = session,
                                  to_session_id = currentPeerId, sigData = payload\<rparr>
            in if goState s g = OPEN then perform [GoSend g messagePayload] s
               else if goState s g = CONNECTING
               then s\<lparr>webrtcWsQueueRef := webrtcWsQueueRef s @ [messagePayload]\<rparr>
               else s
      | _ \<Rightarrow> s)"

text \<open>Library calls of the Phoenix client that only emit pushes.\<close>

definition push_phoenix :: "string \<Rightarrow> js \<Rightarrow> video \<Rightarrow> video option" where
  "push_phoenix ty dat s =
     (case send ty dat (ws s) of None \<Rightarrow> None | Some es \<Rightarrow> Some (s\<lparr>outbox := outbox s @ es\<rparr>))"

definition maybeSendWebRTCReady :: "string option \<Rightarrow> video \<Rightarrow> video" where
  "maybeSendWebRTCReady targetPeerId s =
     (if \<not> str_truthy targetPeerId \<or> \<not> str_truthy (sessionIdRef s) \<or> webrtcWsRef s = None
         \<or> \<not> webrtcSocketOpenRef s \<or> signalingReadySentRef s then s
      else case push_phoenix ''webrtc_ready'' (JObj []) s of
             None \<Rightarrow> s
           | Some s \<Rightarrow> s\<lparr>signalingReadySentRef := True\<rparr>)"

section \<open>Local tracks\<close>

text \<open>
  \<^verbatim>\<open>attachLocalTracks\<close> reads tracks and senders before its first \<^verbatim>\<open>await\<close>, then replaces one
  track after the other. The list holds the calls still to make.
\<close>

definition attach_plan :: "video \<Rightarrow> (nat \<times> nat option) list" where
  "attach_plan s =
     (let audioTrk = (case localStreamRef s of None \<Rightarrow> None | Some st \<Rightarrow> audioTrack st);
          videoTrk = (case localStreamRef s of None \<Rightarrow> None | Some st \<Rightarrow> videoTrack st)
      in (case transceiverAudio s of None \<Rightarrow> [] | Some t \<Rightarrow> [(t, audioTrk)]) @
         (case transceiverVideo s of None \<Rightarrow> [] | Some t \<Rightarrow> [(t, videoTrk)]))"

fun attach_next :: "(nat \<times> nat option) list \<Rightarrow> video \<Rightarrow> (nat \<times> nat option) list \<times> video" where
  "attach_next [] s = ([], s)"
| "attach_next ((t, track) # rest) s = (rest, perform [PcReplaceTrack t track] s)"

section \<open>Creating a peer connection\<close>

definition new_rtc :: rtc where
  "new_rtc = \<lparr>connectionState = PcNew, signalingState = Stable, hasRemoteDescription = False\<rparr>"

definition createPeerConnection :: "string \<Rightarrow> video \<Rightarrow> nat \<times> video" where
  "createPeerConnection targetPeerId s =
     (let connectionEpoch = chatEpochRef s;
          (pc, s) = fresh_key s;
          s = perform [PcCreate pc (turnServersRef s) (forceRelay (config s))] s
      in (pc, s\<lparr>peerConnectionRef := Some pc, pcState := (pcState s)(pc := new_rtc),
                pcHandlers := pcHandlers s @ [(pc, targetPeerId, connectionEpoch)]\<rparr>))"

definition isCurrentPeerConnection :: "nat \<Rightarrow> string \<Rightarrow> nat \<Rightarrow> video \<Rightarrow> bool" where
  "isCurrentPeerConnection pc targetPeerId connectionEpoch s \<longleftrightarrow>
     peerConnectionRef s = Some pc \<and> peerIdRef s = Some targetPeerId \<and> chatEpochRef s = connectionEpoch"

section \<open>The initial offer\<close>

definition is_current :: "nat \<Rightarrow> nat \<Rightarrow> string \<Rightarrow> video \<Rightarrow> bool" where
  "is_current epoch pc peer s \<longleftrightarrow>
     chatEpochRef s = epoch \<and> peerConnectionRef s = Some pc \<and> peerIdRef s = Some peer"

definition negotiation_attach ::
  "string \<Rightarrow> nat \<Rightarrow> nat \<Rightarrow> (nat \<times> nat option) list \<Rightarrow> video \<Rightarrow> video" where
  "negotiation_attach targetPeerId epoch pc plan s =
     (let (rest, s) = attach_next plan s in add_task (Negotiate targetPeerId epoch (NegAttach pc rest)) s)"

definition add_transceivers :: "nat \<Rightarrow> video \<Rightarrow> video" where
  "add_transceivers pc s =
     (let (a, s) = fresh_key s;
          s = perform [PcAddTransceiver pc a] (s\<lparr>transceiverAudio := Some a\<rparr>);
          (v, s) = fresh_key s;
          s = perform [PcAddTransceiver pc v] (s\<lparr>transceiverVideo := Some v\<rparr>)
      in case localStreamRef s of
           None \<Rightarrow> s
         | Some st \<Rightarrow>
             perform
               ((case audioTrack st of None \<Rightarrow> [] | Some t \<Rightarrow> [PcReplaceTrack a (Some t)]) @
                (case videoTrack st of None \<Rightarrow> [] | Some t \<Rightarrow> [PcReplaceTrack v (Some t)])) s)"

definition negotiate_from :: "string \<Rightarrow> nat \<Rightarrow> nat \<Rightarrow> video \<Rightarrow> video" where
  "negotiate_from targetPeerId epoch pc s = negotiation_attach targetPeerId epoch pc (attach_plan s) s"

section \<open>TURN credentials\<close>

definition settle_turn :: "nat \<Rightarrow> ice_server list option \<Rightarrow> video \<Rightarrow> video" where
  "settle_turn p r s = s\<lparr>turnResults := (turnResults s)(p := Some r)\<rparr>"

text \<open>
  The body of the fetch runs until its first \<^verbatim>\<open>await\<close> before the promise is stored. Without session
  credentials it has already finished, and its \<^verbatim>\<open>finally\<close> has already cleared the reference.
\<close>

definition fetchTurnServers :: "video \<Rightarrow> nat \<times> video" where
  "fetchTurnServers s =
     (if \<not> turnEnabled (config s) then
        (let (p, s) = fresh_key s in (p, settle_turn p None s))
      else case turnFetchPromiseRef s of
        Some p \<Rightarrow> (p, s)
      | None \<Rightarrow>
          let (p, s) = fresh_key s;
              s = (case (str_or_null (sessionIdRef s), str_or_null (sessionTokenRef s)) of
                     (Some session, Some token) \<Rightarrow>
                       add_task (FetchResponse p (turnFetchGenerationRef s) session token)
                         (perform [FetchTurn p session token] s)
                   | _ \<Rightarrow> settle_turn p None (s\<lparr>turnFetchPromiseRef := None\<rparr>))
          in (p, s\<lparr>turnFetchPromiseRef := Some p\<rparr>))"

definition fetch_done :: "nat \<Rightarrow> ice_server list option \<Rightarrow> video \<Rightarrow> video" where
  "fetch_done p r s = settle_turn p r (s\<lparr>turnFetchPromiseRef := None\<rparr>)"

datatype fetch_outcome = HttpOk | HttpError nat | FetchTypeError | FetchOtherError

definition fetch_response ::
  "nat \<Rightarrow> nat \<Rightarrow> string \<Rightarrow> string \<Rightarrow> fetch_outcome \<Rightarrow> video \<Rightarrow> video" where
  "fetch_response p generation session token outcome s =
     (case outcome of
        HttpOk \<Rightarrow> add_task (FetchBody p generation session token) (reportApiSuccess None s)
      | HttpError st \<Rightarrow> fetch_done p None (reportApiError s)
      | FetchTypeError \<Rightarrow> fetch_done p None (reportApiError s)
      | FetchOtherError \<Rightarrow> fetch_done p None s)"

text \<open>
  The parsed body: the mode when it is a string, the servers when they are an array. A body that is
  not an object at all is a \<^verbatim>\<open>TypeError\<close> and counts as an outage.
\<close>

datatype turn_body =
    TurnServers "string option" "ice_server list"
  | TurnNoServers
  | TurnTypeError
  | TurnSyntaxError

definition fetch_body ::
  "(nat \<Rightarrow> string list \<Rightarrow> string list) \<Rightarrow> nat \<Rightarrow> nat \<Rightarrow> string \<Rightarrow> string \<Rightarrow> turn_body \<Rightarrow> video \<Rightarrow> video" where
  "fetch_body shuffle p generation session token turnbody s =
     (if turnbody = TurnSyntaxError then fetch_done p None s
      else if turnFetchGenerationRef s \<noteq> generation \<or> sessionIdRef s \<noteq> Some session
         \<or> sessionTokenRef s \<noteq> Some token
      then fetch_done p None s
      else case turnbody of
        TurnServers mode servers \<Rightarrow>
          fetch_done p
            (Some (normalizeIceServersForBootstrap shuffle servers
               (Some (case mode of Some m \<Rightarrow> m | None \<Rightarrow> turnMode (config s)))
               (Some (turnTransportFilter (config s))))) s
      | TurnTypeError \<Rightarrow> fetch_done p None (reportApiError s)
      | _ \<Rightarrow> fetch_done p None s)"

definition applyTurnServers :: "ice_server list \<Rightarrow> video \<Rightarrow> video" where
  "applyTurnServers servers s =
     (let s = s\<lparr>turnServersRef := servers\<rparr>
      in if hasTurnServer servers then s\<lparr>turnFetchedRef := True\<rparr> else s)"

definition prefetchTurnServers :: "video \<Rightarrow> nat \<times> video" where
  "prefetchTurnServers s =
     (let (fetch, s) = fetchTurnServers s;
          (p, s) = fresh_key s
      in (p, add_task (Prefetch p fetch) s))"

definition prefetch_continue :: "nat \<Rightarrow> ice_server list option \<Rightarrow> video \<Rightarrow> video" where
  "prefetch_continue p r s =
     settle_turn p r (case r of None \<Rightarrow> s | Some servers \<Rightarrow> applyTurnServers servers s)"

text \<open>
  \<^verbatim>\<open>waitForInitialTurnPrefetch\<close>: the state after it was started. The race against the timer only
  decides what is logged, so its caller may resume at any later moment.
\<close>

definition waitForInitialTurnPrefetch :: "video \<Rightarrow> video" where
  "waitForInitialTurnPrefetch s =
     (if \<not> turnEnabled (config s) \<or> hasTurnServer (turnServersRef s) then s
      else snd (prefetchTurnServers s))"

definition fetchAndApplyTURN :: "nat \<Rightarrow> string \<Rightarrow> nat \<Rightarrow> video \<Rightarrow> video" where
  "fetchAndApplyTURN pc targetPeerId connectionEpoch s =
     (if \<not> isCurrentPeerConnection pc targetPeerId connectionEpoch s then s
      else if turnFetchedRef s then s
      else let (p, s) = prefetchTurnServers (s\<lparr>turnFetchedRef := True\<rparr>)
        in add_task (Upgrade pc targetPeerId connectionEpoch p) s)"

text \<open>The last argument says whether the peer connection accepts the new configuration.\<close>

definition upgrade_continue ::
  "nat \<Rightarrow> string \<Rightarrow> nat \<Rightarrow> ice_server list option \<Rightarrow> bool \<Rightarrow> video \<Rightarrow> video" where
  "upgrade_continue pc targetPeerId connectionEpoch r accepted s =
     (if \<not> isCurrentPeerConnection pc targetPeerId connectionEpoch s then s
      else case r of
        None \<Rightarrow> s\<lparr>turnFetchedRef := False\<rparr>
      | Some servers \<Rightarrow>
          if \<not> hasTurnServer servers then s\<lparr>turnFetchedRef := False\<rparr>
          else if accepted
          then perform [PcSetConfiguration pc servers, PcRestartIce pc] (s\<lparr>iceRestartPendingRef := True\<rparr>)
          else s\<lparr>iceRestartPendingRef := False, turnFetchedRef := False\<rparr>)"

section \<open>Negotiation\<close>

definition startNegotiationIfNeeded :: "string \<Rightarrow> video \<Rightarrow> video" where
  "startNegotiationIfNeeded targetPeerId s =
     (if \<not> str_truthy (sessionIdRef s) \<or> negotiationStartedRef s then s
      else if peerIdRef s \<noteq> Some targetPeerId then s
      else if \<not> isCallerSession (the (sessionIdRef s)) targetPeerId then s
      else
        let s = s\<lparr>negotiationStartedRef := True\<rparr>; epoch = chatEpochRef s
        in case peerConnectionRef s of
             None \<Rightarrow> add_task (Negotiate targetPeerId epoch NegTurn) (waitForInitialTurnPrefetch s)
           | Some pc \<Rightarrow> negotiate_from targetPeerId epoch pc s)"

definition abort_negotiation :: "video \<Rightarrow> video" where
  "abort_negotiation s = s\<lparr>negotiationStartedRef := False\<rparr>"

text \<open>What an awaited call of the peer connection delivers.\<close>

datatype pc_outcome = PcDone | PcThrows | PcDescription js

text \<open>Every stage re-checks the epoch, the connection and the peer before it goes on.\<close>

fun negotiate_continue ::
  "string \<Rightarrow> nat \<Rightarrow> neg_stage \<Rightarrow> pc_outcome \<Rightarrow> video \<Rightarrow> video" where
  "negotiate_continue peer epoch NegTurn outcome s =
     (if chatEpochRef s \<noteq> epoch \<or> peerIdRef s \<noteq> Some peer then abort_negotiation s
      else let (pc, s) = createPeerConnection peer s in negotiate_from peer epoch pc (add_transceivers pc s))"
| "negotiate_continue peer epoch (NegAttach pc plan) outcome s =
     (if outcome = PcThrows then abort_negotiation s
      else if plan \<noteq> [] then negotiation_attach peer epoch pc plan s
      else if \<not> is_current epoch pc peer s then abort_negotiation s
      else add_task (Negotiate peer epoch (NegOffer pc)) (perform [PcCreateOffer pc False] s))"
| "negotiate_continue peer epoch (NegOffer pc) outcome s =
     (case outcome of
        PcDescription offer \<Rightarrow>
          add_task (Negotiate peer epoch (NegLocal pc offer)) (perform [PcSetLocal pc offer] s)
      | _ \<Rightarrow> abort_negotiation s)"
| "negotiate_continue peer epoch (NegLocal pc offer) outcome s =
     (if outcome = PcThrows then abort_negotiation s
      else if \<not> is_current epoch pc peer s then abort_negotiation s
      else sendWebRTC SOffer (JObj [(''sdp'', offer)]) peer s)"

section \<open>Handlers of the peer connection\<close>

definition onIceCandidate :: "nat \<Rightarrow> string \<Rightarrow> nat \<Rightarrow> js option \<Rightarrow> video \<Rightarrow> video" where
  "onIceCandidate pc targetPeerId epoch candidate s =
     (if \<not> isCurrentPeerConnection pc targetPeerId epoch s then s
      else case candidate of
        None \<Rightarrow> s
      | Some c \<Rightarrow> sendWebRTC SIce (JObj [(''candidate'', c)]) targetPeerId s)"

datatype ice_state = IceFailed | IceDisconnected | IceOther

definition onIceConnectionStateChange :: "nat \<Rightarrow> string \<Rightarrow> nat \<Rightarrow> ice_state \<Rightarrow> video \<Rightarrow> video" where
  "onIceConnectionStateChange pc targetPeerId epoch ice s =
     (if \<not> isCurrentPeerConnection pc targetPeerId epoch s then s
      else if turnEnabled (config s) \<and> (ice = IceFailed \<or> ice = IceDisconnected)
      then fetchAndApplyTURN pc targetPeerId epoch s else s)"

definition onConnectionStateChange :: "nat \<Rightarrow> string \<Rightarrow> nat \<Rightarrow> video \<Rightarrow> video" where
  "onConnectionStateChange pc targetPeerId epoch s =
     (if \<not> isCurrentPeerConnection pc targetPeerId epoch s then s
      else case connectionState (pcState s pc) of
        PcConnected \<Rightarrow> s\<lparr>isVideoConnecting := False\<rparr>
      | PcConnecting \<Rightarrow> s\<lparr>isVideoConnecting := True\<rparr>
      | _ \<Rightarrow> s)"

definition onNegotiationNeeded :: "nat \<Rightarrow> string \<Rightarrow> nat \<Rightarrow> video \<Rightarrow> video" where
  "onNegotiationNeeded pc targetPeerId epoch s =
     (if \<not> isCurrentPeerConnection pc targetPeerId epoch s then s
      else if \<not> iceRestartPendingRef s then s
      else if \<not> str_truthy (sessionIdRef s) \<or> targetPeerId = [] then s
      else if signalingState (pcState s pc) \<noteq> Stable then s
      else add_task (RestartOffer pc targetPeerId epoch) (perform [PcCreateOffer pc True] s))"

definition restart_offer_continue :: "nat \<Rightarrow> string \<Rightarrow> nat \<Rightarrow> pc_outcome \<Rightarrow> video \<Rightarrow> video" where
  "restart_offer_continue pc targetPeerId epoch outcome s =
     (case outcome of
        PcDescription offer \<Rightarrow>
          add_task (RestartLocal pc targetPeerId epoch offer) (perform [PcSetLocal pc offer] s)
      | _ \<Rightarrow> s\<lparr>iceRestartPendingRef := False\<rparr>)"

definition restart_local_continue ::
  "nat \<Rightarrow> string \<Rightarrow> nat \<Rightarrow> js \<Rightarrow> pc_outcome \<Rightarrow> video \<Rightarrow> video" where
  "restart_local_continue pc targetPeerId epoch offer outcome s =
     (let current = isCurrentPeerConnection pc targetPeerId epoch s;
          s = s\<lparr>iceRestartPendingRef := False\<rparr>
      in if outcome = PcThrows \<or> \<not> current then s
         else sendWebRTC SOffer (JObj [(''sdp'', offer)]) targetPeerId s)"

text \<open>The first stream of the event, when it has one; the element's own or a new stream otherwise.\<close>

definition onTrack :: "nat \<Rightarrow> string \<Rightarrow> nat \<Rightarrow> nat option \<Rightarrow> video \<Rightarrow> video" where
  "onTrack pc targetPeerId epoch eventStream s =
     (if \<not> isCurrentPeerConnection pc targetPeerId epoch s then s
      else
        let s = (case remoteVideoRef s of
                   None \<Rightarrow> s
                 | Some src \<Rightarrow>
                     (case (eventStream, src) of
                        (Some st, _) \<Rightarrow> perform [PlayRemote] (s\<lparr>remoteVideoRef := Some (Some st)\<rparr>)
                      | (None, Some st) \<Rightarrow> perform [PlayRemote] s
                      | (None, None) \<Rightarrow>
                          (let (st, s) = fresh_key s
                           in perform [PlayRemote] (s\<lparr>remoteVideoRef := Some (Some st)\<rparr>))))
        in s\<lparr>isVideoConnecting := False\<rparr>)"

section \<open>Early ICE candidates\<close>

text \<open>
  One turn of the loop of \<^verbatim>\<open>flushIceCandidates\<close>: \<open>None\<close> when the queue is empty, otherwise the
  state after the next candidate was taken and handed over.
\<close>

fun flush_next :: "nat \<Rightarrow> video \<Rightarrow> video option" where
  "flush_next pc s =
     (case pendingIceCandidatesRef s of
        [] \<Rightarrow> None
      | c # rest \<Rightarrow> Some (perform [PcAddIce pc c] (s\<lparr>pendingIceCandidatesRef := rest\<rparr>)))"

section \<open>Answering an offer\<close>

definition sdp_text_ok :: "js \<Rightarrow> bool" where
  "sdp_text_ok sdp =
     (case js_get sdp ''sdp'' of JUndef \<Rightarrow> True | JNull \<Rightarrow> True | JStr t \<Rightarrow> True | _ \<Rightarrow> False)"

text \<open>
  The description in the message: reading it throws when there is no data, and so does the log line
  when its text is not a string.
\<close>

definition description_of :: "js \<Rightarrow> js option" where
  "description_of d =
     (if d = JUndef \<or> d = JNull \<or> \<not> sdp_text_ok (js_get d ''sdp'') then None
      else Some (js_get d ''sdp''))"

definition answer_with :: "string \<Rightarrow> nat \<Rightarrow> js \<Rightarrow> nat \<Rightarrow> video \<Rightarrow> video" where
  "answer_with peer epoch d pc s =
     (case description_of d of
        None \<Rightarrow> s
      | Some sdp \<Rightarrow> add_task (Answer peer epoch d (AnsRemote pc)) (perform [PcSetRemote pc sdp] s))"

definition answer_fresh :: "string \<Rightarrow> nat \<Rightarrow> js \<Rightarrow> video \<Rightarrow> video" where
  "answer_fresh peer epoch d s = add_task (Answer peer epoch d AnsTurn) (waitForInitialTurnPrefetch s)"

definition onOffer :: "message \<Rightarrow> video \<Rightarrow> video" where
  "onOffer m s =
     (if \<not> str_truthy (peer_id m) then s
      else if shouldIgnoreIncomingSignal (peer_id m) s then s
      else
        let peer = the (peer_id m); epoch = chatEpochRef s
        in case peerConnectionRef s of
             None \<Rightarrow> answer_fresh peer epoch (mdata m) s
           | Some pc \<Rightarrow>
               if connectionState (pcState s pc) \<noteq> PcClosed \<and> signalingState (pcState s pc) = HaveLocalOffer
               then add_task (Answer peer epoch (mdata m) (AnsRollback pc)) (perform [PcRollback pc] s)
               else if connectionState (pcState s pc) = PcClosed \<or> signalingState (pcState s pc) \<noteq> Stable
               then answer_fresh peer epoch (mdata m) (resetWebRTCTransport True s)
               else answer_with peer epoch (mdata m) pc s)"

definition answer_attach ::
  "string \<Rightarrow> nat \<Rightarrow> js \<Rightarrow> nat \<Rightarrow> (nat \<times> nat option) list \<Rightarrow> video \<Rightarrow> video" where
  "answer_attach peer epoch d pc plan s =
     (let (rest, s) = attach_next plan s in add_task (Answer peer epoch d (AnsAttach pc rest)) s)"

text \<open>After the flush: the transceivers the browser made from the offer are adopted.\<close>

definition adopt_transceivers ::
  "string \<Rightarrow> nat \<Rightarrow> js \<Rightarrow> nat \<Rightarrow> nat option \<times> nat option \<Rightarrow> video \<Rightarrow> video" where
  "adopt_transceivers peer epoch d pc made s =
     (let s = s\<lparr>transceiverAudio := fst made, transceiverVideo := snd made\<rparr>;
          s = perform ((case fst made of None \<Rightarrow> [] | Some a \<Rightarrow> [PcDirectionSendrecv a]) @
                       (case snd made of None \<Rightarrow> [] | Some v \<Rightarrow> [PcDirectionSendrecv v])) s
      in answer_attach peer epoch d pc (attach_plan s) s)"

definition answer_flush ::
  "string \<Rightarrow> nat \<Rightarrow> js \<Rightarrow> nat \<Rightarrow> nat option \<times> nat option \<Rightarrow> video \<Rightarrow> video" where
  "answer_flush peer epoch d pc made s =
     (case flush_next pc s of
        None \<Rightarrow> adopt_transceivers peer epoch d pc made s
      | Some s \<Rightarrow> add_task (Answer peer epoch d (AnsFlush pc)) s)"

fun answer_continue ::
  "string \<Rightarrow> nat \<Rightarrow> js \<Rightarrow> ans_stage \<Rightarrow> pc_outcome \<Rightarrow> nat option \<times> nat option \<Rightarrow> video \<Rightarrow> video" where
  "answer_continue peer epoch d (AnsRollback pc) outcome made s =
     (if outcome = PcThrows then answer_fresh peer epoch d (resetWebRTCTransport True s)
      else answer_with peer epoch d pc (s\<lparr>iceRestartPendingRef := False\<rparr>))"
| "answer_continue peer epoch d AnsTurn outcome made s =
     (if chatEpochRef s \<noteq> epoch \<or> peerIdRef s \<noteq> Some peer then s
      else let (pc, s) = createPeerConnection peer s in answer_with peer epoch d pc s)"
| "answer_continue peer epoch d (AnsRemote pc) outcome made s =
     (if outcome = PcThrows then s
      else if \<not> is_current epoch pc peer s then s
      else if hasRemoteDescription (pcState s pc) then answer_flush peer epoch d pc made s
      else adopt_transceivers peer epoch d pc made s)"
| "answer_continue peer epoch d (AnsFlush pc) outcome made s = answer_flush peer epoch d pc made s"
| "answer_continue peer epoch d (AnsAttach pc plan) outcome made s =
     (if outcome = PcThrows then s
      else if plan \<noteq> [] then answer_attach peer epoch d pc plan s
      else if \<not> is_current epoch pc peer s then s
      else add_task (Answer peer epoch d (AnsCreate pc)) (perform [PcCreateAnswer pc] s))"
| "answer_continue peer epoch d (AnsCreate pc) outcome made s =
     (case outcome of
        PcDescription answer \<Rightarrow>
          add_task (Answer peer epoch d (AnsLocal pc answer)) (perform [PcSetLocal pc answer] s)
      | _ \<Rightarrow> s)"
| "answer_continue peer epoch d (AnsLocal pc answer) outcome made s =
     (if outcome = PcThrows then s
      else if \<not> is_current epoch pc peer s then s
      else sendWebRTC SAnswer (JObj [(''sdp'', answer)]) peer s)"

section \<open>Answers and candidates from the peer\<close>

definition onAnswer :: "message \<Rightarrow> video \<Rightarrow> video" where
  "onAnswer m s =
     (if str_truthy (peer_id m) \<and> shouldIgnoreIncomingSignal (peer_id m) s then s
      else case peerConnectionRef s of
        None \<Rightarrow> s
      | Some pc \<Rightarrow>
          if signalingState (pcState s pc) \<noteq> HaveLocalOffer then s
          else case description_of (mdata m) of
            None \<Rightarrow> s
          | Some sdp \<Rightarrow> add_task (ApplyAnswer pc) (perform [PcSetRemote pc sdp] s))"

definition flush_after_answer :: "nat \<Rightarrow> video \<Rightarrow> video" where
  "flush_after_answer pc s =
     (case flush_next pc s of None \<Rightarrow> s | Some s \<Rightarrow> add_task (FlushAfterAnswer pc) s)"

definition apply_answer_continue :: "pc_outcome \<Rightarrow> video \<Rightarrow> video" where
  "apply_answer_continue outcome s =
     (if outcome = PcThrows then s
      else case peerConnectionRef s of
        None \<Rightarrow> s
      | Some pc \<Rightarrow> if hasRemoteDescription (pcState s pc) then flush_after_answer pc s else s)"

definition candidate_text_ok :: "js \<Rightarrow> bool" where
  "candidate_text_ok candidate =
     (case js_get candidate ''candidate'' of JStr t \<Rightarrow> True | v \<Rightarrow> \<not> js_truthy v)"

definition onIce :: "message \<Rightarrow> video \<Rightarrow> video" where
  "onIce m s =
     (let candidate = js_get (mdata m) ''candidate''
      in if \<not> js_truthy candidate then s
         else if str_truthy (peer_id m) \<and> shouldIgnoreIncomingSignal (peer_id m) s then s
         else if \<not> candidate_text_ok candidate then s
         else case peerConnectionRef s of
           None \<Rightarrow> s\<lparr>pendingIceCandidatesRef := pendingIceCandidatesRef s @ [candidate]\<rparr>
         | Some pc \<Rightarrow>
             if connectionState (pcState s pc) = PcClosed then s
             else if hasRemoteDescription (pcState s pc) then perform [PcAddIce pc candidate] s
             else s\<lparr>pendingIceCandidatesRef := pendingIceCandidatesRef s @ [candidate]\<rparr>)"

end
