(* ===== verification/Video_Chat.thy ===== *)
theory Video_Chat
  imports Video_Signaling
begin

text \<open>
  The video chat page: the signaling socket to the Go service, every message of the server, the
  actions of the user, and the event system they form with the Phoenix client, the browser and the
  suspended functions.
\<close>

section \<open>The signaling socket\<close>

text \<open>
  \<^verbatim>\<open>handleMessage\<close> of a \<^verbatim>\<open>searching\<close> or \<^verbatim>\<open>connected\<close> message. The reconnect paths clear
  \<open>sessionIdRef\<close> and call it themselves.
\<close>

definition onSession :: "string option \<Rightarrow> string option \<Rightarrow> video \<Rightarrow> video" where
  "onSession session token s =
     (if str_truthy session \<and> session \<noteq> sessionIdRef s then
        (let s = s\<lparr>goWsReconnectExhaustedRef := False, sessionId := session, sessionIdRef := session\<rparr>;
             s = (if str_truthy token then s\<lparr>sessionToken := token, sessionTokenRef := token\<rparr> else s);
             s = closeGoWebSocket s
         in if \<not> canOpenGoWebSocket s then s
            else
              let (g, s) = fresh_key s;
                  s = perform [GoOpen g (go_ws_url (config s) (the session) token)] s;
                  s = s\<lparr>goState := (goState s)(g := CONNECTING), goSockets := goSockets s @ [(g, the session)],
                        webrtcWsRef := Some g, webrtcSocketOpenRef := False\<rparr>;
                  (t, s) = fresh_key s
              in s\<lparr>goWsConnectTimeoutRef := Some t, connectTimers := connectTimers s @ [(t, g)]\<rparr>)
      else s)"

definition connect_timed_out :: string where
  "connect_timed_out =
     ''Video signaling connection timed out. Text chat is still active. Refresh the page before searching again.''"

definition signaling_unavailable :: string where
  "signaling_unavailable =
     ''Video signaling is unavailable right now. Text chat is still active. Try refreshing the page.''"

definition connectTimerFires :: "nat \<Rightarrow> nat \<Rightarrow> video \<Rightarrow> video" where
  "connectTimerFires t g s0 =
     (let s = s0\<lparr>connectTimers := filter (\<lambda>c. fst c \<noteq> t) (connectTimers s0)\<rparr>
      in if webrtcWsRef s = Some g \<and> \<not> webrtcSocketOpenRef s
         then showVideoSignalingUnavailable connect_timed_out s else s)"

definition flush_queue :: "nat \<Rightarrow> video \<Rightarrow> video" where
  "flush_queue g s = perform (map (GoSend g) (webrtcWsQueueRef s)) (s\<lparr>webrtcWsQueueRef := []\<rparr>)"

definition onGoOpen :: "nat \<Rightarrow> video \<Rightarrow> video" where
  "onGoOpen g s =
     (if webrtcWsRef s \<noteq> Some g then shut_socket g s
      else
        let s = clearGoWsConnectTimeout (s\<lparr>webrtcSocketOpenRef := True\<rparr>);
            s = flush_queue g (reportApiSuccess (Some g) s);
            s = maybeSendWebRTCReady (peerIdRef s) s
        in if str_truthy (pendingWebrtcStartRef s)
           then startNegotiationIfNeeded (the (pendingWebrtcStartRef s)) (s\<lparr>pendingWebrtcStartRef := None\<rparr>)
           else s)"

definition schedule_go_reconnect :: "string \<Rightarrow> nat \<Rightarrow> video \<Rightarrow> video" where
  "schedule_go_reconnect session delay s =
     (let token = str_or_null (sessionTokenRef s);
          s = (case goWsReconnectTimeoutRef s of None \<Rightarrow> s
               | Some t \<Rightarrow> s\<lparr>goReconnectTimers := filter (\<lambda>c. fst c \<noteq> t) (goReconnectTimers s)\<rparr>);
          (t, s) = fresh_key s
      in s\<lparr>goWsReconnectTimeoutRef := Some t,
           goReconnectTimers := goReconnectTimers s @ [(t, session, token, delay)]\<rparr>)"

definition onGoLost :: "string \<Rightarrow> video \<Rightarrow> video" where
  "onGoLost session s =
     (let s = reportApiError s
      in if apiRetryCountRef s < 5 then schedule_go_reconnect session (2000 * apiRetryCountRef s) s else s)"

definition onGoRejected :: "string \<Rightarrow> video \<Rightarrow> video" where
  "onGoRejected session s0 =
     (let s = s0\<lparr>serverRejectionCountRef := Suc (serverRejectionCountRef s0)\<rparr>
      in if serverRejectionCountRef s \<le> 3
         then schedule_go_reconnect session (3000 * serverRejectionCountRef s) s
         else showVideoSignalingUnavailable signaling_unavailable
                (set_api SOffline (clearGoWsReconnectTimeout (s\<lparr>goWsReconnectExhaustedRef := True\<rparr>))))"

definition onGoClose :: "nat \<Rightarrow> string \<Rightarrow> nat \<Rightarrow> video \<Rightarrow> video" where
  "onGoClose g session code s =
     (if webrtcWsRef s \<noteq> Some g then s
      else
        let s = clearGoWsConnectTimeout
              (s\<lparr>webrtcWsRef := None, webrtcSocketOpenRef := False, signalingReadySentRef := False\<rparr>)
        in if code \<noteq> 1008 then onGoLost session s else onGoRejected session s)"

definition goReconnectTimerFires :: "string \<Rightarrow> string option \<Rightarrow> nat \<Rightarrow> video \<Rightarrow> video" where
  "goReconnectTimerFires session token t s0 =
     (let s = s0\<lparr>goReconnectTimers := filter (\<lambda>c. fst c \<noteq> t) (goReconnectTimers s0),
                 goWsReconnectTimeoutRef := None\<rparr>
      in if \<not> mounted s then s
         else if sessionIdRef s \<noteq> Some session then s
         else if \<not> canOpenGoWebSocket s then s
         else onSession (Some session) token ((closeGoWebSocket s)\<lparr>sessionIdRef := None\<rparr>))"

section \<open>Messages of the server\<close>

fun numbered_v :: "nat \<Rightarrow> nat \<Rightarrow> string list \<Rightarrow> chat_message list" where
  "numbered_v k t [] = []"
| "numbered_v k t (x # xs) = system_message k t (JStr x) JUndef # numbered_v (Suc k) t xs"

definition match_intro_v :: "message \<Rightarrow> string list" where
  "match_intro_v m =
     match_intro m
       (if video_enabled m \<noteq> Some False then ''You are talking to a random stranger.''
        else ''You are talking to a random stranger. Their camera is currently off.'')"

definition match_reset :: "video \<Rightarrow> video" where
  "match_reset s =
     (let s = beginNewChatEpoch_v s;
          s = (case peerConnectionRef s of
                 None \<Rightarrow> s
               | Some pc \<Rightarrow> (close_pc pc s)\<lparr>transceiverAudio := None, transceiverVideo := None\<rparr>)
      in s\<lparr>remoteVideoRef := map_option (\<lambda>_. None) (remoteVideoRef s),
           pendingIceCandidatesRef := [], pendingWebrtcStartRef := None\<rparr>)"

definition match_peer :: "message \<Rightarrow> video \<Rightarrow> video" where
  "match_peer m s =
     clearTypingTimeout_v
       (s\<lparr>peerId := Some (if str_truthy (peer_id m) then the (peer_id m) else []),
          reportPeerId := (if reportable m \<noteq> Some False then str_or_null (peer_id m) else None),
          status := Connected, isVideoConnecting := (video_enabled m \<noteq> Some False),
          peerTyping := False, signalingReadySentRef := False, negotiationStartedRef := False,
          peerIdRef := str_or_null (peer_id m)\<rparr>)"

definition match_signaling :: "message \<Rightarrow> video \<Rightarrow> video" where
  "match_signaling m s =
     (if webrtcSocketOpenRef s then
        maybeSendWebRTCReady (str_or_null (peer_id m))
          (if turnEnabled (config s) \<and> \<not> turnFetchedRef s then snd (prefetchTurnServers s) else s)
      else if webrtcWsRef s = None \<and> str_truthy (sessionIdRef s) \<and> canOpenGoWebSocket s then
        onSession (sessionIdRef s) (str_or_null (sessionTokenRef s)) (s\<lparr>sessionIdRef := None\<rparr>)
      else if \<not> canOpenGoWebSocket s then showVideoSignalingUnavailable signaling_unavailable s
      else s)"

definition onMatch_v :: "message \<Rightarrow> video \<Rightarrow> video" where
  "onMatch_v m s =
     (let s = match_peer m (match_reset s);
          intro = match_intro_v m;
          s = s\<lparr>messages := numbered_v (nextKey s) (now s) intro, nextKey := nextKey s + length intro\<rparr>
      in if video_enabled m = Some False then resetWebRTCTransport False s else match_signaling m s)"

definition onWebrtcReady :: "video \<Rightarrow> video" where
  "onWebrtcReady s =
     (if turnEnabled (config s) \<and> \<not> turnFetchedRef s
      then let (p, s) = prefetchTurnServers s in add_task (ReadyTurn p) s else s)"

definition ready_continue :: "ice_server list option \<Rightarrow> video \<Rightarrow> video" where
  "ready_continue r s =
     (case (r, peerConnectionRef s) of
        (Some servers, Some pc) \<Rightarrow> perform [PcSetConfiguration pc servers] s
      | _ \<Rightarrow> s)"

definition onWebrtcStart :: "message \<Rightarrow> video \<Rightarrow> video" where
  "onWebrtcStart m s =
     (if \<not> str_truthy (peer_id m) then s
      else if shouldIgnoreIncomingSignal (peer_id m) s then s
      else if webrtcSocketOpenRef s then startNegotiationIfNeeded (the (peer_id m)) s
      else s\<lparr>pendingWebrtcStartRef := peer_id m\<rparr>)"

definition onPeerMessage_v :: "message \<Rightarrow> video \<Rightarrow> video" where
  "onPeerMessage_v m s =
     (let content = js_get (mdata m) ''content''
      in if js_truthy content
         then s\<lparr>messages := grow_capped (messages s) (peer_message (nextKey s) (now s) content),
                nextKey := Suc (nextKey s)\<rparr>
         else s)"

definition onSystemMessage_v :: "message \<Rightarrow> video \<Rightarrow> video" where
  "onSystemMessage_v m s =
     (if js_truthy (js_get (mdata m) ''message'')
      then pushSystemMessage_v (js_get (mdata m) ''message'') (js_get (mdata m) ''reason_code'') s
      else s)"

definition onTyping_v :: "message \<Rightarrow> video \<Rightarrow> video" where
  "onTyping_v m s =
     (let typing = js_get (mdata m) ''typing''
      in if typing = JUndef then s
         else
           let s = clearTypingTimeout_v (s\<lparr>peerTyping := js_truthy typing\<rparr>)
           in if js_truthy typing
              then s\<lparr>peerTypingTimeoutRef := Some (nextKey s),
                     typingTimers := typingTimers s @ [nextKey s], nextKey := Suc (nextKey s)\<rparr>
              else s)"

definition typingTimerFires_v :: "nat \<Rightarrow> video \<Rightarrow> video" where
  "typingTimerFires_v t s =
     s\<lparr>typingTimers := removeAll t (typingTimers s), peerTyping := False, peerTypingTimeoutRef := None\<rparr>"

definition onPeerDisconnected_v :: "video \<Rightarrow> video" where
  "onPeerDisconnected_v s =
     resetWebRTCTransport True
       (pushSystemMessage_v (JStr ''Stranger has disconnected.'') JUndef
         (beginNewChatEpoch_v
           (s\<lparr>status := Disconnected, isVideoConnecting := False, peerId := None, peerTyping := False\<rparr>)))"

definition onBanned_v :: "message \<Rightarrow> video \<Rightarrow> video" where
  "onBanned_v m s =
     resetWebRTCTransport True
       (pushSystemMessage_v (JStr (''You have been banned: '' @ js_string (ban_reason m))) JUndef
         (beginNewChatEpoch_v (s\<lparr>status := Disconnected, isVideoConnecting := False, peerTyping := False\<rparr>)))"

text \<open>
  \<^verbatim>\<open>errorMessage.includes(e)\<close>: \<open>None\<close> when it throws, which a value without such a method does.
\<close>

definition includes_call :: "js \<Rightarrow> string \<Rightarrow> bool option" where
  "includes_call v e =
     (case v of JStr t \<Rightarrow> Some (js_includes t e) | JArr xs \<Rightarrow> Some (JStr e \<in> set xs) | _ \<Rightarrow> None)"

definition is_benign :: "js \<Rightarrow> bool option" where
  "is_benign err =
     (case includes_call err ''No partner'' of
        None \<Rightarrow> None
      | Some True \<Rightarrow> Some True
      | Some False \<Rightarrow> includes_call err ''No partner to skip'')"

definition onServerError_v :: "message \<Rightarrow> video \<Rightarrow> video" where
  "onServerError_v m s =
     (let err = error_text (mdata m);
          s = (if mentions_captcha err then s\<lparr>status := Idle\<rparr> else s)
      in if is_benign err = Some False
         then pushSystemMessage_v (JStr (''Error: '' @ js_string err)) JUndef s else s)"

definition onTimeout_v :: "video \<Rightarrow> video" where
  "onTimeout_v s =
     resetWebRTCTransport True
       (pushSystemMessage_v (JStr ''Matchmaking timeout: No strangers are available right now.'') JUndef
         (beginNewChatEpoch_v
           (s\<lparr>status := Disconnected, isVideoConnecting := False, peerId := None, peerTyping := False\<rparr>)))"

definition onStopped_v :: "video \<Rightarrow> video" where
  "onStopped_v s =
     (let s = (beginNewChatEpoch_v s)\<lparr>status := Idle, isVideoConnecting := False, peerId := None\<rparr>;
          s = forget_turn s
      in resetWebRTCTransport True
           (s\<lparr>sessionId := None, sessionToken := None, sessionTokenRef := None, reportPeerId := None,
              messages := [], peerTyping := False\<rparr>))"

definition handleMessage_v :: "message \<Rightarrow> video \<Rightarrow> video" where
  "handleMessage_v m s =
     (case mtype m of
        MSearching \<Rightarrow> onSession (session_id m) (session_token m) s
      | MConnected \<Rightarrow> onSession (session_id m) (session_token m) s
      | MMatch \<Rightarrow> onMatch_v m s
      | MWebrtcReady \<Rightarrow> onWebrtcReady s
      | MWebrtcStart \<Rightarrow> onWebrtcStart m s
      | MMessage \<Rightarrow> onPeerMessage_v m s
      | MSystem \<Rightarrow> onSystemMessage_v m s
      | MTyping \<Rightarrow> onTyping_v m s
      | MOffer \<Rightarrow> onOffer m s
      | MAnswer \<Rightarrow> onAnswer m s
      | MIce \<Rightarrow> onIce m s
      | MDisconnect \<Rightarrow> onPeerDisconnected_v s
      | MDisconnected \<Rightarrow> onPeerDisconnected_v s
      | MBanned \<Rightarrow> onBanned_v m s
      | MError \<Rightarrow> onServerError_v m s
      | MTimeout \<Rightarrow> onTimeout_v s
      | MStopped \<Rightarrow> onStopped_v s
      | _ \<Rightarrow> s)"

section \<open>Handlers of the Phoenix client\<close>

definition channelName_v :: string where
  "channelName_v = ''phoenix:video''"

definition handleReconnecting_v :: "video \<Rightarrow> video" where
  "handleReconnecting_v s =
     (if mounted s then s\<lparr>health := setChannelStatus channelName_v SDegraded (health s)\<rparr> else s)"

definition handleMaxRetries_v :: "video \<Rightarrow> video" where
  "handleMaxRetries_v s =
     (if mounted s then s\<lparr>health := setChannelStatus channelName_v SOffline (health s)\<rparr> else s)"

definition handleOpen_v :: "video \<Rightarrow> video" where
  "handleOpen_v s =
     (if mounted s
      then let s = s\<lparr>health := setChannelStatus channelName_v SOk (health s), connected := True\<rparr>;
               s = setReconnectMessageVisible_v False s
           in s\<lparr>status := (if status s = Disconnected then Idle else status s)\<rparr>
      else s)"

definition handleClose_v :: "video \<Rightarrow> video" where
  "handleClose_v s =
     (if mounted s
      then let s = s\<lparr>connected := False\<rparr>;
               s = (if status s = Connected \<or> status s = Searching
                    then (showConnectionStatusMessage_v ''Connection to server lost. Reconnecting...'' s)
                           \<lparr>status := Disconnected\<rparr>
                    else s)
           in resetWebRTCTransport True
                (s\<lparr>peerId := None, sessionId := None, sessionToken := None, sessionTokenRef := None,
                   reportPeerId := None, peerTyping := False, peerIdRef := None, sessionIdRef := None\<rparr>)
      else s)"

fun deliver1_v :: "unit ws_effect \<Rightarrow> video \<Rightarrow> video" where
  "deliver1_v (InvokeMessage h m) s = (if mounted s then handleMessage_v (decode_message m) s else s)"
| "deliver1_v (InvokeClose h) s = handleClose_v s"
| "deliver1_v (InvokeOpen h) s = handleOpen_v s"
| "deliver1_v (InvokeMaxRetries h) s = handleMaxRetries_v s"
| "deliver1_v (InvokeReconnecting h) s = handleReconnecting_v s"
| "deliver1_v eff s = s\<lparr>outbox := outbox s @ [eff]\<rparr>"

definition run_ws_v :: "unit ws_result \<Rightarrow> video \<Rightarrow> video" where
  "run_ws_v r s = fold deliver1_v (snd r) (s\<lparr>ws := fst r\<rparr>)"

section \<open>Mounting and unmounting\<close>

definition initial_video :: "env \<Rightarrow> health \<Rightarrow> video" where
  "initial_video c h =
     \<lparr>connected = False, peerId = None, sessionId = None, sessionToken = None, reportPeerId = None,
      status = Idle, messages = [], peerTyping = False, peerTypingTimeoutRef = None,
      showReconnectMessageRef = False, chatEpochRef = 0, mounted = False, awaitingSetup = None,
      awaitingStart = [], awaitingReply = [], typingTimers = [], nextKey = 0, now = 0,
      ws = initial_ws, health = h, outbox = [],
      config = c, cameraError = None, isVideoConnecting = False, localVideoRef = None,
      remoteVideoRef = None, localStreamRef = None, mockVideoTimerRef = None, mockTimers = [],
      peerIdRef = None, sessionIdRef = None, sessionTokenRef = None, seenPeerId = None,
      seenSessionId = None, seenSessionToken = None, browser = [], tasks = [],
      webrtcWsRef = None, goState = (\<lambda>_. CLOSED), goSockets = [], webrtcWsQueueRef = [],
      webrtcSocketOpenRef = False, signalingReadySentRef = False, pendingWebrtcStartRef = None,
      goWsConnectTimeoutRef = None, connectTimers = [], goWsReconnectTimeoutRef = None,
      goReconnectTimers = [], goWsReconnectExhaustedRef = False, apiRetryCountRef = 0,
      serverRejectionCountRef = 0, apiSuccessTimeoutRef = None, apiTimers = [],
      peerConnectionRef = None, pcState = (\<lambda>_. new_rtc), pcHandlers = [], transceiverAudio = None,
      transceiverVideo = None, pendingIceCandidatesRef = [], iceRestartPendingRef = False,
      negotiationStartedRef = False, turnServersRef = defaultStunServers c, turnFetchedRef = False,
      turnFetchPromiseRef = None, turnFetchGenerationRef = 0, turnResults = (\<lambda>_. None)\<rparr>"

definition setupEffect_v :: "lib_outcome \<Rightarrow> video \<Rightarrow> video" where
  "setupEffect_v lib s =
     (let (p, r) = connect lib (ws s)
      in run_ws_v r (s\<lparr>mounted := True, awaitingSetup := Some p\<rparr>))"

definition setup_continue_v :: "promise_state \<Rightarrow> video \<Rightarrow> video" where
  "setup_continue_v outcome s0 =
     (let s = s0\<lparr>awaitingSetup := None\<rparr>
      in case outcome of
           Pending \<Rightarrow> s0
         | Fulfilled v \<Rightarrow>
             (let s = (if mounted s then setReconnectMessageVisible_v False (s\<lparr>connected := True\<rparr>) else s)
              in s\<lparr>ws := onClose () (onOpen () (onMaxRetries () (onReconnecting () (onMessage () (ws s)))))\<rparr>)
         | Rejected err \<Rightarrow>
             (if mounted s
              then showConnectionStatusMessage_v ''Failed to connect to server. Please refresh the page.''
                     (s\<lparr>connected := False, status := Disconnected\<rparr>)
              else s))"

text \<open>
  The three effects that copy a state to its reference run after a commit in which it changed.
\<close>

definition commit_refs :: "video \<Rightarrow> video" where
  "commit_refs s =
     (let s = (if sessionId s = seenSessionId s then s
               else s\<lparr>sessionIdRef := sessionId s, seenSessionId := sessionId s\<rparr>);
          s = (if peerId s = seenPeerId s then s
               else s\<lparr>peerIdRef := peerId s, seenPeerId := peerId s\<rparr>)
      in if sessionToken s = seenSessionToken s then s
         else s\<lparr>sessionTokenRef := sessionToken s, seenSessionToken := sessionToken s\<rparr>)"

definition stopMockVideo :: "video \<Rightarrow> video" where
  "stopMockVideo s =
     (case mockVideoTimerRef s of
        None \<Rightarrow> s
      | Some t \<Rightarrow> s\<lparr>mockTimers := removeAll t (mockTimers s), mockVideoTimerRef := None\<rparr>)"

definition cleanup_v :: "video \<Rightarrow> video" where
  "cleanup_v s =
     (let s = (beginNewChatEpoch_v s)\<lparr>peerIdRef := None, sessionIdRef := None, sessionTokenRef := None\<rparr>;
          s = clearTypingTimeout_v (setReconnectMessageVisible_v False s);
          s = clearGoWsReconnectTimeout (clearApiSuccessTimeout s);
          s = stopMockVideo (clearGoWsConnectTimeout s)
      in resetWebRTCTransport False s)"

definition unmount_v :: "video \<Rightarrow> video" where
  "unmount_v s =
     (let s = s\<lparr>mounted := False, health := removeChannel channelName_v (health s)\<rparr>;
          s = cleanup_v (set_api SOk s)
      in run_ws_v (disconnect (ws s)) s)"

section \<open>The camera\<close>

text \<open>
  What \<^verbatim>\<open>getUserMedia\<close> decides: a stream, a refusal, or no device, in which case the mock canvas is
  tried; the last two flags are whether it has a drawing context and whether it can be captured.
\<close>

datatype camera_outcome =
    CameraStream nat nat
  | CameraDenied
  | CameraMissing bool bool

definition camera_blocked :: string where
  "camera_blocked =
     ''Camera access is blocked. Please click the lock icon in your URL bar to unblock it, if in mobile, check app settings, then refresh.''"

definition use_stream :: "nat option \<Rightarrow> nat option \<Rightarrow> video \<Rightarrow> video" where
  "use_stream audio videoTrk s =
     (let (st, s) = fresh_key s
      in s\<lparr>localStreamRef := Some \<lparr>streamId = st, audioTrack = audio, videoTrack = videoTrk\<rparr>,
           localVideoRef := map_option (\<lambda>_. Some st) (localVideoRef s)\<rparr>)"

text \<open>The rest of \<^verbatim>\<open>getLocalStream\<close>; \<open>None\<close> when it throws.\<close>

definition camera_continue :: "camera_outcome \<Rightarrow> video \<Rightarrow> bool \<times> video" where
  "camera_continue outcome s =
     (case outcome of
        CameraStream a v \<Rightarrow> (True, use_stream (Some a) (Some v) s)
      | CameraDenied \<Rightarrow> (True, s\<lparr>cameraError := Some camera_blocked\<rparr>)
      | CameraMissing drawable capturable \<Rightarrow>
          (let s = (if drawable
                    then let (t, s) = fresh_key s
                      in s\<lparr>mockVideoTimerRef := Some t, mockTimers := mockTimers s @ [t]\<rparr>
                    else s)
           in if capturable then (let (v, s) = fresh_key s in (True, use_stream None (Some v) s))
              else (False, s)))"

definition getLocalStream :: "video \<Rightarrow> bool \<times> video" where
  "getLocalStream s =
     (if localStreamRef s \<noteq> None then (True, s)
      else (False, perform [AskCamera] (s\<lparr>cameraError := None\<rparr>)))"

section \<open>Actions of the user\<close>

definition startSearch_reset :: "video \<Rightarrow> video" where
  "startSearch_reset s =
     (let s = forget_turn s;
          s = s\<lparr>iceRestartPendingRef := False, signalingReadySentRef := False,
                negotiationStartedRef := False, goWsReconnectExhaustedRef := False, messages := []\<rparr>;
          s = setReconnectMessageVisible_v False (beginNewChatEpoch_v s)
      in s\<lparr>reportPeerId := None, isVideoConnecting := False, status := Searching\<rparr>)"

definition startSearch_v :: "string \<Rightarrow> string option \<Rightarrow> video \<Rightarrow> video" where
  "startSearch_v interests token s =
     (let (ready, s) = getLocalStream (startSearch_reset s)
      in add_task (Search interests token (if ready then SearchStream else SearchCamera)) s)"

definition startSearch_send_v :: "string \<Rightarrow> string option \<Rightarrow> video \<Rightarrow> video" where
  "startSearch_send_v interests token s =
     (case push_phoenix ''start'' (start_payload ''video'' token interests) s of
        None \<Rightarrow> s\<lparr>status := Idle\<rparr>
      | Some s \<Rightarrow> s)"

definition startSearch_connect :: "lib_outcome \<Rightarrow> string \<Rightarrow> string option \<Rightarrow> video \<Rightarrow> video" where
  "startSearch_connect lib interests token s =
     (if isConnected (ws s) then startSearch_send_v interests token s
      else let (p, r) = connect lib (ws s)
        in run_ws_v r (add_task (Search interests token (SearchConnect p)) s))"

definition startSearch_camera ::
  "lib_outcome \<Rightarrow> string \<Rightarrow> string option \<Rightarrow> camera_outcome \<Rightarrow> video \<Rightarrow> video" where
  "startSearch_camera lib interests token outcome s =
     (let (ok, s) = camera_continue outcome s
      in if ok then startSearch_connect lib interests token s else s\<lparr>status := Idle\<rparr>)"

definition startSearch_connected :: "string \<Rightarrow> string option \<Rightarrow> promise_state \<Rightarrow> video \<Rightarrow> video" where
  "startSearch_connected interests token outcome s =
     (case outcome of
        Rejected err \<Rightarrow> s\<lparr>status := Idle\<rparr>
      | _ \<Rightarrow> startSearch_send_v interests token (s\<lparr>connected := True\<rparr>))"

definition stopSearch_v :: "video \<Rightarrow> video" where
  "stopSearch_v s =
     (let s = forget_turn (beginNewChatEpoch_v s);
          s = s\<lparr>peerIdRef := None, sessionIdRef := None, sessionTokenRef := None, peerId := None,
                messages := [], peerTyping := False\<rparr>;
          s = resetWebRTCTransport True (setReconnectMessageVisible_v False s);
          s = s\<lparr>isVideoConnecting := False, status := Idle, sessionId := None, sessionToken := None,
                reportPeerId := None\<rparr>
      in case push_phoenix ''stop'' (JObj []) s of None \<Rightarrow> s | Some s \<Rightarrow> s)"

text \<open>\<^verbatim>\<open>skip\<close> and \<^verbatim>\<open>disconnect\<close> do not catch the error of \<^verbatim>\<open>send\<close>: nothing more runs.\<close>

definition skip_v :: "video \<Rightarrow> video" where
  "skip_v s =
     (if status s = Connected
      then (case push_phoenix ''skip'' (JObj []) s of
              None \<Rightarrow> s
            | Some s \<Rightarrow>
                (resetWebRTCTransport True
                   ((beginNewChatEpoch_v s)
                      \<lparr>peerId := None, reportPeerId := None, messages := [], peerTyping := False,
                       isVideoConnecting := False, status := Searching\<rparr>))
                  \<lparr>goWsReconnectExhaustedRef := False\<rparr>)
      else s)"

definition disconnect_v :: "video \<Rightarrow> video" where
  "disconnect_v s =
     (case push_phoenix ''disconnect'' (JObj []) s of
        None \<Rightarrow> s
      | Some s \<Rightarrow>
          cleanup_v
            (pushSystemMessage_v (JStr ''You have disconnected.'') JUndef
              ((beginNewChatEpoch_v s)
                 \<lparr>status := Disconnected, isVideoConnecting := False, peerId := None, peerTyping := False\<rparr>)))"

definition sendMessage_v :: "string \<Rightarrow> video \<Rightarrow> video" where
  "sendMessage_v txt s =
     (if js_trim txt \<noteq> [] \<and> status s = Connected
      then let messageId = nextKey s; chatEpoch = chatEpochRef s;
               s = s\<lparr>messages := grow_capped (messages s) (my_message messageId (now s) txt),
                     nextKey := Suc (nextKey s)\<rparr>;
               (p, r) = sendWithResponse ''message'' (JObj [(''content'', JStr txt)]) (ws s);
               task = \<lparr>replyPromise = p, replyMessage = messageId, replyEpoch = chatEpoch\<rparr>
           in run_ws_v r (s\<lparr>awaitingReply := awaitingReply s @ [task]\<rparr>)
      else s)"

definition reply_received_v :: "nat \<Rightarrow> js \<Rightarrow> video \<Rightarrow> video" where
  "reply_received_v messageId payload s =
     (let d = js_get payload ''data''
      in if js_get payload ''type'' = JStr ''system'' then
           (if js_get d ''reason_code'' = JStr BANNED_PHRASE_REASON
               \<or> js_get d ''message'' = JStr BLOCKED_PHRASE_NOTICE
            then pushSystemMessage_v
                   (js_or (js_get d ''message'') (JStr BLOCKED_PHRASE_NOTICE))
                   (js_or (js_get d ''reason_code'') (JStr BANNED_PHRASE_REASON))
                   (updateDeliveryStatus_v messageId DBlocked None s)
            else s)
         else if js_get payload ''type'' = JStr ''error'' then
           pushSystemMessage_v
             (JStr (''Message could not be sent: '' @ js_string (reply_error_text d))) JUndef
             (updateDeliveryStatus_v messageId DFailed None s)
         else updateDeliveryStatus_v messageId DSent None s)"

definition reply_failed_v :: "nat \<Rightarrow> video \<Rightarrow> video" where
  "reply_failed_v messageId s =
     pushSystemMessage_v (JStr ''Message could not be sent right now. Please try again.'') JUndef
       (updateDeliveryStatus_v messageId DFailed None s)"

definition sendMessage_continue_v :: "reply_task \<Rightarrow> promise_state \<Rightarrow> video \<Rightarrow> video" where
  "sendMessage_continue_v task outcome s0 =
     (let s = s0\<lparr>awaitingReply := remove1 task (awaitingReply s0)\<rparr>
      in case outcome of
           Pending \<Rightarrow> s0
         | Fulfilled payload \<Rightarrow>
             (if chatEpochRef s \<noteq> replyEpoch task then s else reply_received_v (replyMessage task) payload s)
         | Rejected err \<Rightarrow>
             (if chatEpochRef s \<noteq> replyEpoch task then s else reply_failed_v (replyMessage task) s))"

definition sendTyping_v :: "bool \<Rightarrow> video \<Rightarrow> video" where
  "sendTyping_v isTyping s =
     (if status s = Connected
      then (case push_phoenix ''typing'' (JObj [(''typing'', JBool isTyping)]) s of None \<Rightarrow> s | Some s \<Rightarrow> s)
      else s)"

end
