(* ===== verification/Video_Page.thy ===== *)
theory Video_Page
  imports Video_Chat
begin

text \<open>
  The video page as an event system: what can happen to it, one step function, and its invariant.

  \<^item> The Phoenix client, as for the text page; its calls are made by the hook.
  \<^item> The signaling sockets and peer connections: a state change is an event of its own, and a
    handler only runs while it is attached to its object.
  \<^item> Suspended functions: a task resumes when what it awaits has happened. The result of a TURN
    promise is read from \<open>turnResults\<close>; what a peer connection, a response or the camera delivers
    is part of the event.
  \<^item> Commits of React, mounting of the two video elements, and the clock.
\<close>

section \<open>Events\<close>

datatype video_event =
    VUnmount
  | VLibrary ws_event
  | VResumeSetup
  | VResumeReply reply_task
  | VTypingTimer nat
  | VClockTo nat
  | VCommit
  | VElements "nat option option" "nat option option"
  | VStartSearch string "string option"
  | VStopSearch
  | VDisconnectChat
  | VSkip
  | VSendMessage string
  | VSendTyping bool
  | GoStateChange nat ready_state
  | GoOpened nat
  | GoClosed nat nat
  | GoMessage nat js
  | GoConnectTimer nat
  | GoReconnectTimer nat
  | ApiTimer nat
  | PcChange nat rtc
  | PcCandidate nat "js option"
  | PcIceState nat ice_state
  | PcConnection nat
  | PcNegotiation nat
  | PcTrack nat "nat option"
  | ResumePc task pc_outcome "nat option \<times> nat option"
  | ResumeTurn task bool
  | FetchResponds task fetch_outcome
  | FetchReads task "nat \<Rightarrow> string list \<Rightarrow> string list" turn_body
  | ResumeSearch task lib_outcome camera_outcome

definition drop_task :: "task \<Rightarrow> video \<Rightarrow> video" where
  "drop_task t s = s\<lparr>tasks := remove1 t (tasks s)\<rparr>"

fun resume_pc :: "task \<Rightarrow> pc_outcome \<Rightarrow> nat option \<times> nat option \<Rightarrow> video \<Rightarrow> video" where
  "resume_pc (Negotiate peer epoch stage) outcome made s =
     negotiate_continue peer epoch stage outcome (drop_task (Negotiate peer epoch stage) s)"
| "resume_pc (Answer peer epoch d stage) outcome made s =
     answer_continue peer epoch d stage outcome made (drop_task (Answer peer epoch d stage) s)"
| "resume_pc (ApplyAnswer pc) outcome made s = apply_answer_continue outcome (drop_task (ApplyAnswer pc) s)"
| "resume_pc (FlushAfterAnswer pc) outcome made s = flush_after_answer pc (drop_task (FlushAfterAnswer pc) s)"
| "resume_pc (RestartOffer pc peer epoch) outcome made s =
     restart_offer_continue pc peer epoch outcome (drop_task (RestartOffer pc peer epoch) s)"
| "resume_pc (RestartLocal pc peer epoch offer) outcome made s =
     restart_local_continue pc peer epoch offer outcome (drop_task (RestartLocal pc peer epoch offer) s)"
| "resume_pc t outcome made s = s"

fun resume_turn :: "task \<Rightarrow> bool \<Rightarrow> video \<Rightarrow> video" where
  "resume_turn (Upgrade pc peer epoch p) accepted s =
     (case turnResults s p of
        None \<Rightarrow> s
      | Some r \<Rightarrow> upgrade_continue pc peer epoch r accepted (drop_task (Upgrade pc peer epoch p) s))"
| "resume_turn (ReadyTurn p) accepted s =
     (case turnResults s p of None \<Rightarrow> s | Some r \<Rightarrow> ready_continue r (drop_task (ReadyTurn p) s))"
| "resume_turn (Prefetch p fetch) accepted s =
     (case turnResults s fetch of None \<Rightarrow> s | Some r \<Rightarrow> prefetch_continue p r (drop_task (Prefetch p fetch) s))"
| "resume_turn t accepted s = s"

fun fetch_responds :: "task \<Rightarrow> fetch_outcome \<Rightarrow> video \<Rightarrow> video" where
  "fetch_responds (FetchResponse p generation session token) outcome s =
     fetch_response p generation session token outcome (drop_task (FetchResponse p generation session token) s)"
| "fetch_responds t outcome s = s"

fun fetch_reads :: "task \<Rightarrow> (nat \<Rightarrow> string list \<Rightarrow> string list) \<Rightarrow> turn_body \<Rightarrow> video \<Rightarrow> video" where
  "fetch_reads (FetchBody p generation session token) shuffle turnbody s =
     fetch_body shuffle p generation session token turnbody (drop_task (FetchBody p generation session token) s)"
| "fetch_reads t shuffle turnbody s = s"

fun resume_search :: "task \<Rightarrow> lib_outcome \<Rightarrow> camera_outcome \<Rightarrow> video \<Rightarrow> video" where
  "resume_search (Search interests token SearchCamera) lib camera s =
     startSearch_camera lib interests token camera (drop_task (Search interests token SearchCamera) s)"
| "resume_search (Search interests token SearchStream) lib camera s =
     startSearch_connect lib interests token (drop_task (Search interests token SearchStream) s)"
| "resume_search (Search interests token (SearchConnect p)) lib camera s =
     (if promises (ws s) p = Pending then s
      else startSearch_connected interests token (promises (ws s) p)
             (drop_task (Search interests token (SearchConnect p)) s))"
| "resume_search t lib camera s = s"

definition with_pc :: "nat \<Rightarrow> (nat \<Rightarrow> string \<Rightarrow> nat \<Rightarrow> video \<Rightarrow> video) \<Rightarrow> video \<Rightarrow> video" where
  "with_pc pc f s =
     (case map_of (pcHandlers s) pc of None \<Rightarrow> s | Some (peer, epoch) \<Rightarrow> f pc peer epoch s)"

fun is_library_v :: "ws_event \<Rightarrow> bool" where
  "is_library_v (CallConnect lib) = False"
| "is_library_v CallDisconnect = False"
| "is_library_v (CallSend ty dat) = False"
| "is_library_v (CallSendWithResponse ty dat) = False"
| "is_library_v e = True"

fun video_step :: "video_event \<Rightarrow> video \<Rightarrow> video" where
  "video_step VUnmount s = unmount_v s"
| "video_step (VLibrary e) s = (if is_library_v e then run_ws_v (ws_step e (ws s)) s else s)"
| "video_step VResumeSetup s =
     (case awaitingSetup s of None \<Rightarrow> s | Some p \<Rightarrow> setup_continue_v (promises (ws s) p) s)"
| "video_step (VResumeReply task) s =
     (if task \<in> set (awaitingReply s)
      then sendMessage_continue_v task (promises (ws s) (replyPromise task)) s else s)"
| "video_step (VTypingTimer t) s = (if t \<in> set (typingTimers s) then typingTimerFires_v t s else s)"
| "video_step (VClockTo t) s = s\<lparr>now := t\<rparr>"
| "video_step VCommit s = commit_refs s"
| "video_step (VElements l r) s = s\<lparr>localVideoRef := l, remoteVideoRef := r\<rparr>"
| "video_step (VStartSearch interests token) s = startSearch_v interests token s"
| "video_step VStopSearch s = stopSearch_v s"
| "video_step VDisconnectChat s = disconnect_v s"
| "video_step VSkip s = skip_v s"
| "video_step (VSendMessage txt) s = sendMessage_v txt s"
| "video_step (VSendTyping b) s = sendTyping_v b s"
| "video_step (GoStateChange g st) s = s\<lparr>goState := (goState s)(g := st)\<rparr>"
| "video_step (GoOpened g) s = (if g \<in> fst ` set (goSockets s) then onGoOpen g s else s)"
| "video_step (GoClosed g code) s =
     (case map_of (goSockets s) g of None \<Rightarrow> s | Some session \<Rightarrow> onGoClose g session code s)"
| "video_step (GoMessage g v) s =
     (if g \<in> fst ` set (goSockets s) then handleMessage_v (decode_message v) s else s)"
| "video_step (GoConnectTimer t) s =
     (case map_of (connectTimers s) t of None \<Rightarrow> s | Some g \<Rightarrow> connectTimerFires t g s)"
| "video_step (GoReconnectTimer t) s =
     (case map_of (goReconnectTimers s) t of
        None \<Rightarrow> s | Some (session, token, delay) \<Rightarrow> goReconnectTimerFires session token t s)"
| "video_step (ApiTimer t) s =
     (case map_of (apiTimers s) t of
        None \<Rightarrow> s
      | Some watched \<Rightarrow> apiSuccessTimer watched (s\<lparr>apiTimers := filter (\<lambda>a. fst a \<noteq> t) (apiTimers s)\<rparr>))"
| "video_step (PcChange pc st) s = s\<lparr>pcState := (pcState s)(pc := st)\<rparr>"
| "video_step (PcCandidate pc c) s = with_pc pc (\<lambda>pc peer epoch. onIceCandidate pc peer epoch c) s"
| "video_step (PcIceState pc st) s = with_pc pc (\<lambda>pc peer epoch. onIceConnectionStateChange pc peer epoch st) s"
| "video_step (PcConnection pc) s = with_pc pc onConnectionStateChange s"
| "video_step (PcNegotiation pc) s = with_pc pc onNegotiationNeeded s"
| "video_step (PcTrack pc st) s = with_pc pc (\<lambda>pc peer epoch. onTrack pc peer epoch st) s"
| "video_step (ResumePc t outcome made) s =
     (if t \<in> set (tasks s) then resume_pc t outcome made s else s)"
| "video_step (ResumeTurn t accepted) s = (if t \<in> set (tasks s) then resume_turn t accepted s else s)"
| "video_step (FetchResponds t outcome) s = (if t \<in> set (tasks s) then fetch_responds t outcome s else s)"
| "video_step (FetchReads t shuffle turnbody) s =
     (if t \<in> set (tasks s) then fetch_reads t shuffle turnbody s else s)"
| "video_step (ResumeSearch t lib camera) s =
     (if t \<in> set (tasks s) then resume_search t lib camera s else s)"

definition video_page :: "lib_outcome \<Rightarrow> env \<Rightarrow> health \<Rightarrow> video" where
  "video_page lib c h = setupEffect_v lib (initial_video c h)"

end
