(* ===== verification/Video_Frame.thy ===== *)
theory Video_Frame
  imports Video_Page
begin

text \<open>
  What the operations of the video page leave alone. \<open>calm s t\<close> says that nothing of the chat
  proper (transcript, epoch, status, peer, typing timer, outstanding replies, Phoenix client) differs
  between two states; every signaling and transport operation is calm. \<open>sends\<close> is the sequence of signals
  handed to a signaling socket; only two operations extend it.
\<close>

section \<open>Calm operations\<close>

definition calm :: "video \<Rightarrow> video \<Rightarrow> bool" where
  "calm s t \<longleftrightarrow> messages t = messages s \<and> chatEpochRef t = chatEpochRef s \<and>
     typingTimers t = typingTimers s \<and> peerTypingTimeoutRef t = peerTypingTimeoutRef s \<and>
     awaitingReply t = awaitingReply s \<and> ws t = ws s \<and> mounted t = mounted s \<and>
     status t = status s \<and> peerId t = peerId s \<and> nextKey s \<le> nextKey t"

lemma calm_refl [simp]: "calm s s"
  by (simp add: calm_def)

lemma calm_trans: "calm s t \<Longrightarrow> calm t u \<Longrightarrow> calm s u"
  by (auto simp: calm_def)

lemma calm_shared [simp]:
  "calm s (t\<lparr>connected := b\<rparr>) = calm s t"
  "calm s (t\<lparr>sessionId := p\<rparr>) = calm s t" "calm s (t\<lparr>sessionToken := p\<rparr>) = calm s t"
  "calm s (t\<lparr>reportPeerId := p\<rparr>) = calm s t"
  "calm s (t\<lparr>peerTyping := b\<rparr>) = calm s t" "calm s (t\<lparr>showReconnectMessageRef := b\<rparr>) = calm s t"
  "calm s (t\<lparr>awaitingSetup := a\<rparr>) = calm s t" "calm s (t\<lparr>now := n\<rparr>) = calm s t"
  "calm s (t\<lparr>health := h\<rparr>) = calm s t" "calm s (t\<lparr>outbox := out\<rparr>) = calm s t"
  by (simp_all add: calm_def)

lemma calm_media [simp]:
  "calm s (t\<lparr>cameraError := e\<rparr>) = calm s t" "calm s (t\<lparr>isVideoConnecting := b\<rparr>) = calm s t"
  "calm s (t\<lparr>localVideoRef := v\<rparr>) = calm s t" "calm s (t\<lparr>remoteVideoRef := v\<rparr>) = calm s t"
  "calm s (t\<lparr>localStreamRef := st\<rparr>) = calm s t" "calm s (t\<lparr>mockVideoTimerRef := m\<rparr>) = calm s t"
  "calm s (t\<lparr>mockTimers := ms\<rparr>) = calm s t" "calm s (t\<lparr>peerIdRef := p\<rparr>) = calm s t"
  "calm s (t\<lparr>sessionIdRef := p\<rparr>) = calm s t" "calm s (t\<lparr>sessionTokenRef := p\<rparr>) = calm s t"
  "calm s (t\<lparr>seenPeerId := p\<rparr>) = calm s t" "calm s (t\<lparr>seenSessionId := p\<rparr>) = calm s t"
  "calm s (t\<lparr>seenSessionToken := p\<rparr>) = calm s t" "calm s (t\<lparr>browser := es\<rparr>) = calm s t"
  "calm s (t\<lparr>tasks := ts\<rparr>) = calm s t"
  by (simp_all add: calm_def)

lemma calm_go [simp]:
  "calm s (t\<lparr>webrtcWsRef := g\<rparr>) = calm s t" "calm s (t\<lparr>goState := f\<rparr>) = calm s t"
  "calm s (t\<lparr>goSockets := gs\<rparr>) = calm s t" "calm s (t\<lparr>webrtcWsQueueRef := q\<rparr>) = calm s t"
  "calm s (t\<lparr>webrtcSocketOpenRef := b\<rparr>) = calm s t" "calm s (t\<lparr>signalingReadySentRef := b\<rparr>) = calm s t"
  "calm s (t\<lparr>pendingWebrtcStartRef := p\<rparr>) = calm s t" "calm s (t\<lparr>goWsConnectTimeoutRef := r\<rparr>) = calm s t"
  "calm s (t\<lparr>connectTimers := ct\<rparr>) = calm s t" "calm s (t\<lparr>goWsReconnectTimeoutRef := r\<rparr>) = calm s t"
  "calm s (t\<lparr>goReconnectTimers := rt\<rparr>) = calm s t" "calm s (t\<lparr>goWsReconnectExhaustedRef := b\<rparr>) = calm s t"
  "calm s (t\<lparr>apiRetryCountRef := n\<rparr>) = calm s t" "calm s (t\<lparr>serverRejectionCountRef := n\<rparr>) = calm s t"
  "calm s (t\<lparr>apiSuccessTimeoutRef := r\<rparr>) = calm s t" "calm s (t\<lparr>apiTimers := ats\<rparr>) = calm s t"
  by (simp_all add: calm_def)

lemma calm_rtc [simp]:
  "calm s (t\<lparr>peerConnectionRef := p\<rparr>) = calm s t" "calm s (t\<lparr>pcState := f2\<rparr>) = calm s t"
  "calm s (t\<lparr>pcHandlers := hs\<rparr>) = calm s t" "calm s (t\<lparr>transceiverAudio := r\<rparr>) = calm s t"
  "calm s (t\<lparr>transceiverVideo := r\<rparr>) = calm s t" "calm s (t\<lparr>pendingIceCandidatesRef := cs\<rparr>) = calm s t"
  "calm s (t\<lparr>iceRestartPendingRef := b\<rparr>) = calm s t" "calm s (t\<lparr>negotiationStartedRef := b\<rparr>) = calm s t"
  "calm s (t\<lparr>turnServersRef := is\<rparr>) = calm s t" "calm s (t\<lparr>turnFetchedRef := b\<rparr>) = calm s t"
  "calm s (t\<lparr>turnFetchPromiseRef := r\<rparr>) = calm s t" "calm s (t\<lparr>turnFetchGenerationRef := n\<rparr>) = calm s t"
  "calm s (t\<lparr>turnResults := tr\<rparr>) = calm s t"
  by (simp_all add: calm_def)

lemma calm_nextKey: "calm s t \<Longrightarrow> calm s (t\<lparr>nextKey := Suc (nextKey t)\<rparr>)"
  by (simp add: calm_def)

lemma calm_small [simp]:
  "calm s (perform es t) = calm s t"
  "calm s (set_api st t) = calm s t"
  "calm s (setReconnectMessageVisible_v b t) = calm s t"
  "calm s (add_task tk t) = calm s t"
  "calm s (drop_task tk t) = calm s t"
  "calm s (settle_turn p r t) = calm s t"
  "calm s (fetch_done p r t) = calm s t"
  "calm s (abort_negotiation t) = calm s t"
  "calm s (forget_turn t) = calm s t"
  "calm s (clearApiSuccessTimeout t) = calm s t"
  "calm s (reportApiError t) = calm s t"
  "calm s (apiSuccessTimer w t) = calm s t"
  "calm s (clearGoWsConnectTimeout t) = calm s t"
  "calm s (clearGoWsReconnectTimeout t) = calm s t"
  "calm s (shut_socket g t) = calm s t"
  "calm s (close_pc pc t) = calm s t"
  "calm s (stopLocalStream t) = calm s t"
  "calm s (stopMockVideo t) = calm s t"
  "calm s (flush_queue g t) = calm s t"
  "calm s (applyTurnServers svs t) = calm s t"
  "calm s (commit_refs t) = calm s t"
  by (simp_all add: perform_def set_api_def setReconnectMessageVisible_v_def add_task_def drop_task_def
      settle_turn_def fetch_done_def abort_negotiation_def forget_turn_def clearApiSuccessTimeout_def
      reportApiError_def apiSuccessTimer_def clearGoWsConnectTimeout_def clearGoWsReconnectTimeout_def
      shut_socket_def close_pc_def stopLocalStream_def stopMockVideo_def flush_queue_def
      applyTurnServers_def commit_refs_def Let_def split: option.split)

lemma calm_transport [simp]:
  "calm s (closeGoWebSocket t) = calm s t"
  "calm s (closePeerConnection t) = calm s t"
  by (simp_all add: closeGoWebSocket_def closePeerConnection_def Let_def split: option.split)

lemma calm_reset [simp]: "calm s (resetWebRTCTransport keep t) = calm s t"
  by (simp add: resetWebRTCTransport_def Let_def)

lemma calm_push_phoenix: "push_phoenix ty d t = Some u \<Longrightarrow> calm s u = calm s t"
  by (auto simp: push_phoenix_def split: option.splits)

text \<open>Operations that draw from the supply of keys.\<close>

named_theorems calms

declare calm_nextKey [calms]

lemma calm_fresh [calms]: "calm s t \<Longrightarrow> calm s (snd (fresh_key t))"
  by (simp add: fresh_key_def calm_nextKey)

lemma calm_sendWebRTC [calms]: "calm s t \<Longrightarrow> calm s (sendWebRTC ty d peer t)"
  by (simp add: sendWebRTC_def Let_def split: option.split)

lemma calm_ready [calms]: "calm s t \<Longrightarrow> calm s (maybeSendWebRTCReady p t)"
  by (auto simp: maybeSendWebRTCReady_def calm_push_phoenix split: option.split)

lemma calm_apiSuccess [calms]: "calm s t \<Longrightarrow> calm s (reportApiSuccess w t)"
  by (auto simp: reportApiSuccess_def fresh_key_def Let_def calm_def split: option.split)

lemma calm_fetch [calms]: "calm s t \<Longrightarrow> calm s (snd (fetchTurnServers t))"
  by (auto simp: fetchTurnServers_def fresh_key_def Let_def calms split: option.split)

lemma calm_prefetch [calms]: "calm s t \<Longrightarrow> calm s (snd (prefetchTurnServers t))"
  by (simp add: prefetchTurnServers_def fresh_key_def Let_def split_beta calms)

lemma calm_wait [calms]: "calm s t \<Longrightarrow> calm s (waitForInitialTurnPrefetch t)"
  by (simp add: waitForInitialTurnPrefetch_def calms)

lemma calm_create [calms]: "calm s t \<Longrightarrow> calm s (snd (createPeerConnection peer t))"
  by (simp add: createPeerConnection_def fresh_key_def Let_def calms)

lemma calm_attach_next [simp]: "calm s (snd (attach_next plan t)) = calm s t"
  by (cases "(plan, t)" rule: attach_next.cases) simp_all

lemma calm_negotiate_from [simp]:
  "calm s (negotiation_attach peer epoch pc plan t) = calm s t"
  "calm s (negotiate_from peer epoch pc t) = calm s t"
  "calm s (answer_attach peer epoch d pc plan t) = calm s t"
  "calm s (answer_with peer epoch d pc t) = calm s t"
  "calm s (adopt_transceivers peer epoch d pc made t) = calm s t"
  by (simp_all add: negotiation_attach_def negotiate_from_def answer_attach_def answer_with_def
      adopt_transceivers_def split_beta Let_def split: option.split)

lemma calm_add_transceivers [calms]: "calm s t \<Longrightarrow> calm s (add_transceivers pc t)"
  by (auto simp: add_transceivers_def fresh_key_def Let_def calm_def perform_def split: option.split)

lemma calm_startNegotiation [calms]: "calm s t \<Longrightarrow> calm s (startNegotiationIfNeeded peer t)"
  by (simp add: startNegotiationIfNeeded_def Let_def calms split: option.split)

lemma calm_negotiate [calms]: "calm s t \<Longrightarrow> calm s (negotiate_continue peer epoch stage outcome t)"
  by (cases stage) (auto simp: split_beta calms Let_def split: pc_outcome.split)

lemma calm_upgrade [calms]:
  "calm s t \<Longrightarrow> calm s (fetchAndApplyTURN pc peer epoch t)"
  "calm s t \<Longrightarrow> calm s (upgrade_continue pc peer epoch r b t)"
  "calm s t \<Longrightarrow> calm s (prefetch_continue p r t)"
  "calm s t \<Longrightarrow> calm s (ready_continue r t)"
  "calm s t \<Longrightarrow> calm s (fetch_response p gen se tok out t)"
  "calm s t \<Longrightarrow> calm s (fetch_body sh p gen se tok bd t)"
  by (auto simp: fetchAndApplyTURN_def upgrade_continue_def prefetch_continue_def ready_continue_def
      fetch_response_def fetch_body_def split_beta calms Let_def
      split: option.split fetch_outcome.split turn_body.split)

lemma calm_pc_handlers [calms]:
  "calm s t \<Longrightarrow> calm s (onIceCandidate pc peer epoch c t)"
  "calm s t \<Longrightarrow> calm s (onIceConnectionStateChange pc peer epoch st t)"
  "calm s t \<Longrightarrow> calm s (onConnectionStateChange pc peer epoch t)"
  "calm s t \<Longrightarrow> calm s (onNegotiationNeeded pc peer epoch t)"
  "calm s t \<Longrightarrow> calm s (restart_offer_continue pc peer epoch out t)"
  "calm s t \<Longrightarrow> calm s (restart_local_continue pc peer epoch offer out t)"
  "calm s t \<Longrightarrow> calm s (onTrack pc peer epoch est t)"
  by (auto simp: onIceCandidate_def onIceConnectionStateChange_def onConnectionStateChange_def
      onNegotiationNeeded_def restart_offer_continue_def restart_local_continue_def onTrack_def
      fresh_key_def calms Let_def split: option.split connection_state.split pc_outcome.split)

lemma calm_flush: "flush_next pc t = Some u \<Longrightarrow> calm s u = calm s t"
  by (auto split: list.splits)

lemma calm_answering [calms]:
  "calm s t \<Longrightarrow> calm s (answer_fresh peer epoch d t)"
  "calm s t \<Longrightarrow> calm s (answer_flush peer epoch d pc made t)"
  "calm s t \<Longrightarrow> calm s (flush_after_answer pc t)"
  by (auto simp: answer_fresh_def answer_flush_def flush_after_answer_def calms calm_flush
      simp del: flush_next.simps split: option.split)

lemma calm_signals [calms]:
  "calm s t \<Longrightarrow> calm s (onOffer m t)"
  "calm s t \<Longrightarrow> calm s (answer_continue peer epoch d stage out made t)"
  "calm s t \<Longrightarrow> calm s (onAnswer m t)"
  "calm s t \<Longrightarrow> calm s (apply_answer_continue out t)"
  "calm s t \<Longrightarrow> calm s (onIce m t)"
     apply (simp add: onOffer_def Let_def calms split: option.split)
    apply (cases stage; auto simp: split_beta calms Let_def split: pc_outcome.split)
   apply (simp_all add: onAnswer_def apply_answer_continue_def onIce_def Let_def calms split: option.split)
  done

lemma calm_session [calms]:
  "calm s t \<Longrightarrow> calm s (onSession se tok t)"
  "calm s t \<Longrightarrow> calm s (onWebrtcReady t)"
  "calm s t \<Longrightarrow> calm s (onWebrtcStart m t)"
  "calm s t \<Longrightarrow> calm s (onGoOpen g t)"
  "calm s t \<Longrightarrow> calm s (goReconnectTimerFires ses tok tm t)"
  by (auto simp: onSession_def onWebrtcReady_def onWebrtcStart_def onGoOpen_def goReconnectTimerFires_def
      Let_def split_beta calms)

lemma calm_schedule [calms]:
  "calm s t \<Longrightarrow> calm s (schedule_go_reconnect ses n t)"
  "calm s t \<Longrightarrow> calm s (onGoLost ses t)"
  by (auto simp: schedule_go_reconnect_def onGoLost_def fresh_key_def Let_def calms calm_nextKey
      split: option.split)

lemma calm_camera [calms]:
  "calm s t \<Longrightarrow> calm s (use_stream a v t)"
  "calm s t \<Longrightarrow> calm s (snd (camera_continue cam t))"
  "calm s t \<Longrightarrow> calm s (snd (getLocalStream t))"
  "calm s t \<Longrightarrow> calm s (sendTyping_v b t)"
  by (auto simp: use_stream_def camera_continue_def getLocalStream_def sendTyping_v_def
      split_beta Let_def calms calm_push_phoenix split: option.split camera_outcome.split)

text \<open>Sending the search changes nothing but the status, when it fails.\<close>

lemma calm_startSearch_send:
  "startSearch_send_v i tok t = t\<lparr>status := Idle\<rparr> \<or> calm t (startSearch_send_v i tok t)"
  by (auto simp: startSearch_send_v_def Let_def calm_push_phoenix split: option.split)

section \<open>Quiet operations\<close>

fun go_sends :: "browser_effect list \<Rightarrow> (nat \<times> signal) list" where
  "go_sends [] = []"
| "go_sends (GoSend g m # es) = (g, m) # go_sends es"
| "go_sends (e # es) = go_sends es"

lemma go_sends_append [simp]: "go_sends (xs @ ys) = go_sends xs @ go_sends ys"
  by (induction xs rule: go_sends.induct) simp_all

lemma go_sends_map [simp]: "go_sends (map (GoSend g) ms) = map (Pair g) ms"
  by (induction ms) simp_all

lemma go_sends_stops [simp]: "go_sends (map StopTrack ts) = []"
  by (induction ts) simp_all

text \<open>Nothing sent to a signaling socket and nothing new queued for one.\<close>

definition quiet :: "video \<Rightarrow> video \<Rightarrow> bool" where
  "quiet s t \<longleftrightarrow> go_sends (browser t) = go_sends (browser s) \<and>
     set (webrtcWsQueueRef t) \<subseteq> set (webrtcWsQueueRef s)"

lemma quiet_refl [simp]: "quiet s s"
  by (simp add: quiet_def)

lemma quiet_trans: "quiet s t \<Longrightarrow> quiet t u \<Longrightarrow> quiet s u"
  by (auto simp: quiet_def)

named_theorems quiets

lemma quiet_shared [simp]:
  "quiet s (t\<lparr>connected := b\<rparr>) = quiet s t" "quiet s (t\<lparr>peerId := p\<rparr>) = quiet s t"
  "quiet s (t\<lparr>sessionId := p\<rparr>) = quiet s t" "quiet s (t\<lparr>sessionToken := p\<rparr>) = quiet s t"
  "quiet s (t\<lparr>reportPeerId := p\<rparr>) = quiet s t" "quiet s (t\<lparr>status := st\<rparr>) = quiet s t"
  "quiet s (t\<lparr>messages := ms\<rparr>) = quiet s t" "quiet s (t\<lparr>nextKey := n\<rparr>) = quiet s t"
  "quiet s (t\<lparr>peerTyping := b\<rparr>) = quiet s t" "quiet s (t\<lparr>showReconnectMessageRef := b\<rparr>) = quiet s t"
  "quiet s (t\<lparr>awaitingSetup := a\<rparr>) = quiet s t" "quiet s (t\<lparr>now := n\<rparr>) = quiet s t"
  "quiet s (t\<lparr>health := h\<rparr>) = quiet s t" "quiet s (t\<lparr>outbox := out\<rparr>) = quiet s t"
  "quiet s (t\<lparr>mounted := b\<rparr>) = quiet s t" "quiet s (t\<lparr>awaitingReply := ar\<rparr>) = quiet s t"
  "quiet s (t\<lparr>typingTimers := tt\<rparr>) = quiet s t" "quiet s (t\<lparr>peerTypingTimeoutRef := r\<rparr>) = quiet s t"
  "quiet s (t\<lparr>chatEpochRef := n\<rparr>) = quiet s t" "quiet s (t\<lparr>ws := w\<rparr>) = quiet s t"
  by (simp_all add: quiet_def)

lemma quiet_media [simp]:
  "quiet s (t\<lparr>cameraError := e\<rparr>) = quiet s t" "quiet s (t\<lparr>isVideoConnecting := b\<rparr>) = quiet s t"
  "quiet s (t\<lparr>localVideoRef := v\<rparr>) = quiet s t" "quiet s (t\<lparr>remoteVideoRef := v\<rparr>) = quiet s t"
  "quiet s (t\<lparr>localStreamRef := str\<rparr>) = quiet s t" "quiet s (t\<lparr>mockVideoTimerRef := m\<rparr>) = quiet s t"
  "quiet s (t\<lparr>mockTimers := mts\<rparr>) = quiet s t" "quiet s (t\<lparr>peerIdRef := p\<rparr>) = quiet s t"
  "quiet s (t\<lparr>sessionIdRef := p\<rparr>) = quiet s t" "quiet s (t\<lparr>sessionTokenRef := p\<rparr>) = quiet s t"
  "quiet s (t\<lparr>seenPeerId := p\<rparr>) = quiet s t" "quiet s (t\<lparr>seenSessionId := p\<rparr>) = quiet s t"
  "quiet s (t\<lparr>seenSessionToken := p\<rparr>) = quiet s t" "quiet s (t\<lparr>tasks := ts\<rparr>) = quiet s t"
  by (simp_all add: quiet_def)

lemma quiet_go [simp]:
  "quiet s (t\<lparr>webrtcWsRef := g\<rparr>) = quiet s t" "quiet s (t\<lparr>goState := f\<rparr>) = quiet s t"
  "quiet s (t\<lparr>goSockets := gs\<rparr>) = quiet s t" "quiet s t \<Longrightarrow> quiet s (t\<lparr>webrtcWsQueueRef := []\<rparr>)"
  "quiet s (t\<lparr>webrtcSocketOpenRef := b\<rparr>) = quiet s t" "quiet s (t\<lparr>signalingReadySentRef := b\<rparr>) = quiet s t"
  "quiet s (t\<lparr>pendingWebrtcStartRef := p\<rparr>) = quiet s t" "quiet s (t\<lparr>goWsConnectTimeoutRef := r\<rparr>) = quiet s t"
  "quiet s (t\<lparr>connectTimers := ct\<rparr>) = quiet s t" "quiet s (t\<lparr>goWsReconnectTimeoutRef := r\<rparr>) = quiet s t"
  "quiet s (t\<lparr>goReconnectTimers := rt\<rparr>) = quiet s t" "quiet s (t\<lparr>goWsReconnectExhaustedRef := b\<rparr>) = quiet s t"
  "quiet s (t\<lparr>apiRetryCountRef := n\<rparr>) = quiet s t" "quiet s (t\<lparr>serverRejectionCountRef := n\<rparr>) = quiet s t"
  "quiet s (t\<lparr>apiSuccessTimeoutRef := r\<rparr>) = quiet s t" "quiet s (t\<lparr>apiTimers := ats\<rparr>) = quiet s t"
  by (simp_all add: quiet_def)

lemma quiet_rtc [simp]:
  "quiet s (t\<lparr>peerConnectionRef := p\<rparr>) = quiet s t" "quiet s (t\<lparr>pcState := f2\<rparr>) = quiet s t"
  "quiet s (t\<lparr>pcHandlers := hs\<rparr>) = quiet s t" "quiet s (t\<lparr>transceiverAudio := r\<rparr>) = quiet s t"
  "quiet s (t\<lparr>transceiverVideo := r\<rparr>) = quiet s t" "quiet s (t\<lparr>pendingIceCandidatesRef := cs\<rparr>) = quiet s t"
  "quiet s (t\<lparr>iceRestartPendingRef := b\<rparr>) = quiet s t" "quiet s (t\<lparr>negotiationStartedRef := b\<rparr>) = quiet s t"
  "quiet s (t\<lparr>turnServersRef := svs\<rparr>) = quiet s t" "quiet s (t\<lparr>turnFetchedRef := b\<rparr>) = quiet s t"
  "quiet s (t\<lparr>turnFetchPromiseRef := r\<rparr>) = quiet s t" "quiet s (t\<lparr>turnFetchGenerationRef := n\<rparr>) = quiet s t"
  "quiet s (t\<lparr>turnResults := tr\<rparr>) = quiet s t"
  by (simp_all add: quiet_def)

lemma quiet_perform [simp]: "go_sends es = [] \<Longrightarrow> quiet s (perform es t) = quiet s t"
  by (simp add: quiet_def perform_def)

lemma quiet_small [simp]:
  "quiet s (set_api st t) = quiet s t"
  "quiet s (setReconnectMessageVisible_v b t) = quiet s t"
  "quiet s (beginNewChatEpoch_v t) = quiet s t"
  "quiet s (pushSystemMessage_v txt why t) = quiet s t"
  "quiet s (updateDeliveryStatus_v i d repl t) = quiet s t"
  "quiet s (showConnectionStatusMessage_v m t) = quiet s t"
  "quiet s (showVideoSignalingUnavailable m t) = quiet s t"
  "quiet s (clearTypingTimeout_v t) = quiet s t"
  "quiet s (snd (fresh_key t)) = quiet s t"
  "quiet s (add_task tk t) = quiet s t"
  "quiet s (drop_task tk t) = quiet s t"
  "quiet s (settle_turn p r t) = quiet s t"
  "quiet s (fetch_done p r t) = quiet s t"
  "quiet s (abort_negotiation t) = quiet s t"
  "quiet s (forget_turn t) = quiet s t"
  "quiet s (clearApiSuccessTimeout t) = quiet s t"
  "quiet s (reportApiError t) = quiet s t"
  "quiet s (reportApiSuccess w t) = quiet s t"
  "quiet s (apiSuccessTimer w t) = quiet s t"
  "quiet s (clearGoWsConnectTimeout t) = quiet s t"
  "quiet s (clearGoWsReconnectTimeout t) = quiet s t"
  "quiet s (shut_socket g t) = quiet s t"
  "quiet s (close_pc pc t) = quiet s t"
  "quiet s (stopLocalStream t) = quiet s t"
  "quiet s (stopMockVideo t) = quiet s t"
  "quiet s (applyTurnServers svs t) = quiet s t"
  "quiet s (commit_refs t) = quiet s t"
  "quiet s (schedule_go_reconnect ses n t) = quiet s t"
  by (simp_all add: set_api_def setReconnectMessageVisible_v_def add_task_def drop_task_def
      beginNewChatEpoch_v_def pushSystemMessage_v_def updateDeliveryStatus_v_def fresh_key_def
      showConnectionStatusMessage_v_def showVideoSignalingUnavailable_def clearTypingTimeout_v_def
      settle_turn_def fetch_done_def abort_negotiation_def forget_turn_def clearApiSuccessTimeout_def
      reportApiError_def reportApiSuccess_def apiSuccessTimer_def clearGoWsConnectTimeout_def
      clearGoWsReconnectTimeout_def shut_socket_def close_pc_def stopLocalStream_def stopMockVideo_def
      applyTurnServers_def commit_refs_def schedule_go_reconnect_def Let_def split: option.split)

lemma quiet_transport [simp]:
  "quiet s (closeGoWebSocket t) = quiet s t"
  "quiet s (closePeerConnection t) = quiet s t"
  by (simp_all add: closeGoWebSocket_def closePeerConnection_def Let_def split: option.split)

lemma quiet_reset [quiets]: "quiet s t \<Longrightarrow> quiet s (resetWebRTCTransport keep t)"
  by (simp add: resetWebRTCTransport_def Let_def)

lemma quiet_push_phoenix: "push_phoenix ty d t = Some u \<Longrightarrow> quiet s u = quiet s t"
  by (auto simp: push_phoenix_def split: option.splits)

lemma quiet_ready [simp]: "quiet s (maybeSendWebRTCReady p t) = quiet s t"
  by (auto simp: maybeSendWebRTCReady_def quiet_push_phoenix split: option.split)

lemma quiet_turn [simp]:
  "quiet s (snd (fetchTurnServers t)) = quiet s t"
  by (auto simp: fetchTurnServers_def split_beta Let_def split: option.split)

lemma quiet_prefetch [simp]:
  "quiet s (snd (prefetchTurnServers t)) = quiet s t"
  "quiet s (waitForInitialTurnPrefetch t) = quiet s t"
  by (simp_all add: prefetchTurnServers_def waitForInitialTurnPrefetch_def split_beta Let_def)

lemma quiet_attach_next [simp]: "quiet s (snd (attach_next plan t)) = quiet s t"
  by (cases "(plan, t)" rule: attach_next.cases) simp_all

lemma quiet_negotiation [simp]:
  "quiet s (snd (createPeerConnection peer t)) = quiet s t"
  "quiet s (add_transceivers pc t) = quiet s t"
  "quiet s (negotiation_attach peer epoch pc plan t) = quiet s t"
  "quiet s (negotiate_from peer epoch pc t) = quiet s t"
  "quiet s (answer_attach peer epoch d pc plan t) = quiet s t"
  "quiet s (answer_with peer epoch d pc t) = quiet s t"
  "quiet s (adopt_transceivers peer epoch d pc made t) = quiet s t"
  "quiet s (answer_fresh peer epoch d t) = quiet s t"
  by (simp_all add: createPeerConnection_def add_transceivers_def negotiation_attach_def negotiate_from_def
      answer_attach_def answer_with_def adopt_transceivers_def answer_fresh_def split_beta Let_def
      split: option.split)

lemma quiet_start [simp]: "quiet s (startNegotiationIfNeeded peer t) = quiet s t"
  by (simp add: startNegotiationIfNeeded_def Let_def split: option.split)

lemma quiet_flush_next: "flush_next pc t = Some u \<Longrightarrow> quiet s u = quiet s t"
  by (auto split: list.splits)

lemma quiet_flush [simp]:
  "quiet s (answer_flush peer epoch d pc made t) = quiet s t"
  "quiet s (flush_after_answer pc t) = quiet s t"
  "quiet s (apply_answer_continue out t) = quiet s t"
  by (auto simp: answer_flush_def flush_after_answer_def apply_answer_continue_def quiet_flush_next
      simp del: flush_next.simps split: option.split)

lemma quiet_upgrade [simp]:
  "quiet s (fetchAndApplyTURN pc peer epoch t) = quiet s t"
  "quiet s (upgrade_continue pc peer epoch r b t) = quiet s t"
  "quiet s (prefetch_continue p r t) = quiet s t"
  "quiet s (ready_continue r t) = quiet s t"
  "quiet s (fetch_response p gen se tok out t) = quiet s t"
  "quiet s (fetch_body sh p gen se tok bd t) = quiet s t"
  by (auto simp: fetchAndApplyTURN_def upgrade_continue_def prefetch_continue_def ready_continue_def
      fetch_response_def fetch_body_def split_beta Let_def
      split: option.split fetch_outcome.split turn_body.split)

lemma quiet_pc_handlers [simp]:
  "quiet s (onIceConnectionStateChange pc peer epoch st t) = quiet s t"
  "quiet s (onConnectionStateChange pc peer epoch t) = quiet s t"
  "quiet s (onNegotiationNeeded pc peer epoch t) = quiet s t"
  "quiet s (restart_offer_continue pc peer epoch out t) = quiet s t"
  "quiet s (onTrack pc peer epoch est t) = quiet s t"
  by (auto simp: onIceConnectionStateChange_def onConnectionStateChange_def onNegotiationNeeded_def
      restart_offer_continue_def onTrack_def split_beta Let_def
      split: option.split connection_state.split pc_outcome.split)

lemma quiet_signals [quiets]:
  "quiet s t \<Longrightarrow> quiet s (onOffer m t)"
  "quiet s t \<Longrightarrow> quiet s (onAnswer m t)"
  "quiet s t \<Longrightarrow> quiet s (onIce m t)"
  "quiet s t \<Longrightarrow> quiet s (onSession se tok t)"
  "quiet s t \<Longrightarrow> quiet s (onWebrtcReady t)"
  "quiet s t \<Longrightarrow> quiet s (onWebrtcStart m t)"
  "quiet s t \<Longrightarrow> quiet s (onGoLost ses t)"
  "quiet s t \<Longrightarrow> quiet s (onGoRejected ses t)"
  by (auto simp: onOffer_def onAnswer_def onIce_def onSession_def onWebrtcReady_def onWebrtcStart_def
      onGoLost_def onGoRejected_def split_beta Let_def quiets split: option.split)

lemma quiet_go_events [quiets]:
  "quiet s t \<Longrightarrow> quiet s (connectTimerFires tm g t)"
  "quiet s t \<Longrightarrow> quiet s (onGoClose g ses code t)"
  "quiet s t \<Longrightarrow> quiet s (goReconnectTimerFires ses tok tm t)"
  by (simp_all add: connectTimerFires_def onGoClose_def goReconnectTimerFires_def Let_def quiets)

lemma quiet_match [quiets]: "quiet s t \<Longrightarrow> quiet s (onMatch_v m t)"
  by (simp add: onMatch_v_def match_signaling_def match_peer_def match_reset_def Let_def quiets
      split: option.split)

lemma quiet_handleMessage [quiets]: "quiet s t \<Longrightarrow> quiet s (handleMessage_v m t)"
  by (cases "mtype m") (simp_all add: handleMessage_v_def quiets onPeerMessage_v_def onSystemMessage_v_def
      onTyping_v_def onPeerDisconnected_v_def onBanned_v_def onServerError_v_def onTimeout_v_def
      onStopped_v_def Let_def)

lemma quiet_deliver1 [quiets]: "quiet s t \<Longrightarrow> quiet s (deliver1_v e t)"
  by (cases e) (simp_all add: quiets handleClose_v_def handleOpen_v_def handleMaxRetries_v_def
      handleReconnecting_v_def Let_def)

lemma quiet_deliver [quiets]: "quiet s t \<Longrightarrow> quiet s (fold deliver1_v es t)"
  by (induction es arbitrary: t) (simp_all add: quiets)

lemma quiet_run_ws [quiets]: "quiet s t \<Longrightarrow> quiet s (run_ws_v r t)"
  by (simp add: run_ws_v_def quiets)

lemma quiet_page [quiets]:
  "quiet s t \<Longrightarrow> quiet s (setup_continue_v st t)"
  "quiet s t \<Longrightarrow> quiet s (cleanup_v t)"
  "quiet s t \<Longrightarrow> quiet s (unmount_v t)"
  "quiet s t \<Longrightarrow> quiet s (setupEffect_v lib t)"
  by (simp_all add: setup_continue_v_def cleanup_v_def unmount_v_def setupEffect_v_def split_beta Let_def quiets
      split: promise_state.split)

lemma quiet_search [quiets]:
  "quiet s t \<Longrightarrow> quiet s (snd (getLocalStream t))"
  "quiet s t \<Longrightarrow> quiet s (snd (camera_continue cam t))"
  "quiet s t \<Longrightarrow> quiet s (startSearch_reset t)"
  "quiet s t \<Longrightarrow> quiet s (startSearch_send_v i tok t)"
  "quiet s t \<Longrightarrow> quiet s (startSearch_connect lib i tok t)"
  by (simp_all add: getLocalStream_def camera_continue_def use_stream_def startSearch_reset_def
      startSearch_send_v_def startSearch_connect_def split_beta Let_def quiets quiet_push_phoenix
      split: camera_outcome.split option.split)

lemma quiet_actions [quiets]:
  "quiet s t \<Longrightarrow> quiet s (startSearch_v i tok t)"
  "quiet s t \<Longrightarrow> quiet s (startSearch_camera lib i tok cam t)"
  "quiet s t \<Longrightarrow> quiet s (startSearch_connected i tok st t)"
  "quiet s t \<Longrightarrow> quiet s (stopSearch_v t)"
  "quiet s t \<Longrightarrow> quiet s (skip_v t)"
  "quiet s t \<Longrightarrow> quiet s (disconnect_v t)"
  "quiet s t \<Longrightarrow> quiet s (sendMessage_v txt t)"
  "quiet s t \<Longrightarrow> quiet s (sendTyping_v b t)"
  "quiet s t \<Longrightarrow> quiet s (sendMessage_continue_v task st t)"
  by (auto simp: startSearch_v_def startSearch_camera_def startSearch_connected_def stopSearch_v_def
      skip_v_def disconnect_v_def sendMessage_v_def sendTyping_v_def sendMessage_continue_v_def
      reply_received_v_def reply_failed_v_def split_beta Let_def quiets quiet_push_phoenix
      split: option.split promise_state.split)

end
