(* ===== verification/Video_Props.thy ===== *)
theory Video_Props
  imports Video_Frame
begin

text \<open>
  The invariant of the video page and its properties: the transcript's cap, whom signals reach,
  what a superseded negotiation may still do, the retries of the signaling socket, and the runs that
  show where the hook falls short.
\<close>

section \<open>The cap on the transcript\<close>

definition notices :: "string list" where
  "notices = [connect_timed_out, signaling_unavailable]"

definition shown :: "chat_message list \<Rightarrow> string \<Rightarrow> bool" where
  "shown msgs n = list_ex (\<lambda>m. sender m = System \<and> body m = JStr n) msgs"

definition capped :: "chat_message list \<Rightarrow> bool" where
  "capped msgs \<longleftrightarrow> length msgs \<le> MAX_MESSAGES + length (filter (shown msgs) notices)"

lemma capped_short: "length msgs \<le> MAX_MESSAGES \<Longrightarrow> capped msgs"
  by (simp add: capped_def)

lemma capped_Nil [simp]: "capped []"
  by (simp add: capped_short)

lemma capped_grow [simp]: "capped (grow_capped msgs m)"
  by (rule capped_short) (rule length_grow_capped)

lemma shown_update [simp]: "shown (update_delivery i st None msgs) n = shown msgs n"
  unfolding shown_def update_delivery_def
  by (induction msgs) auto

lemma capped_update [simp]: "capped (update_delivery i st None msgs) = capped msgs"
proof -
  have "shown (update_delivery i st None msgs) = shown msgs" by (rule ext) simp
  then show ?thesis by (simp add: capped_def)
qed

lemma shown_snoc: "shown (msgs @ [system_message k t (JStr n) why]) n' \<longleftrightarrow> shown msgs n' \<or> n = n'"
  by (auto simp: shown_def)

lemma notices_differ: "connect_timed_out \<noteq> signaling_unavailable"
  by (simp add: connect_timed_out_def signaling_unavailable_def)

lemma capped_notice:
  assumes "capped msgs" and "\<not> shown msgs n" and "n \<in> set notices"
  shows "capped (msgs @ [system_message k t (JStr n) JUndef])"
  using assms notices_differ by (auto simp: capped_def notices_def shown_snoc)

section \<open>The invariant\<close>

definition video_inv :: "video \<Rightarrow> bool" where
  "video_inv s \<longleftrightarrow>
     fresh_ids (nextKey s) (messages s) \<and> capped (messages s) \<and>
     typingTimers s = (case peerTypingTimeoutRef s of None \<Rightarrow> [] | Some t \<Rightarrow> [t]) \<and>
     (\<forall>task\<in>set (awaitingReply s). replyMessage task < nextKey s \<and> replyEpoch task \<le> chatEpochRef s) \<and>
     ws_inv (ws s)"

lemma video_inv_calm: "video_inv s \<Longrightarrow> calm s t \<Longrightarrow> video_inv t"
  unfolding video_inv_def calm_def by (elim conjE) (simp, fastforce intro: fresh_ids_mono)

lemma video_inv_frame [simp]:
  "video_inv (s\<lparr>connected := b\<rparr>) = video_inv s" "video_inv (s\<lparr>peerId := p\<rparr>) = video_inv s"
  "video_inv (s\<lparr>sessionId := p\<rparr>) = video_inv s" "video_inv (s\<lparr>sessionToken := p\<rparr>) = video_inv s"
  "video_inv (s\<lparr>reportPeerId := p\<rparr>) = video_inv s" "video_inv (s\<lparr>status := st\<rparr>) = video_inv s"
  "video_inv (s\<lparr>peerTyping := b\<rparr>) = video_inv s" "video_inv (s\<lparr>awaitingSetup := a\<rparr>) = video_inv s"
  "video_inv (s\<lparr>mounted := b\<rparr>) = video_inv s" "video_inv (s\<lparr>now := n\<rparr>) = video_inv s"
  "video_inv (s\<lparr>health := h\<rparr>) = video_inv s" "video_inv (s\<lparr>outbox := out\<rparr>) = video_inv s"
  "video_inv (s\<lparr>isVideoConnecting := b\<rparr>) = video_inv s" "video_inv (s\<lparr>peerIdRef := p\<rparr>) = video_inv s"
  "video_inv (s\<lparr>sessionIdRef := p\<rparr>) = video_inv s" "video_inv (s\<lparr>sessionTokenRef := p\<rparr>) = video_inv s"
  "video_inv (s\<lparr>localVideoRef := v\<rparr>) = video_inv s" "video_inv (s\<lparr>remoteVideoRef := v\<rparr>) = video_inv s"
  "video_inv (s\<lparr>pendingIceCandidatesRef := cs\<rparr>) = video_inv s"
  "video_inv (s\<lparr>pendingWebrtcStartRef := p\<rparr>) = video_inv s"
  "video_inv (s\<lparr>signalingReadySentRef := b\<rparr>) = video_inv s"
  "video_inv (s\<lparr>iceRestartPendingRef := b\<rparr>) = video_inv s"
  "video_inv (s\<lparr>negotiationStartedRef := b\<rparr>) = video_inv s"
  "video_inv (s\<lparr>transceiverAudio := r\<rparr>) = video_inv s" "video_inv (s\<lparr>transceiverVideo := r\<rparr>) = video_inv s"
  "video_inv (s\<lparr>goWsReconnectExhaustedRef := b\<rparr>) = video_inv s"
  "video_inv (s\<lparr>serverRejectionCountRef := n\<rparr>) = video_inv s"
  "video_inv (s\<lparr>connectTimers := ct\<rparr>) = video_inv s"
  "video_inv (s\<lparr>webrtcWsRef := g\<rparr>) = video_inv s" "video_inv (s\<lparr>webrtcSocketOpenRef := b\<rparr>) = video_inv s"
  "video_inv (s\<lparr>apiTimers := ats\<rparr>) = video_inv s" "video_inv (s\<lparr>pcState := f\<rparr>) = video_inv s"
  "video_inv (s\<lparr>goState := g2\<rparr>) = video_inv s"
  by (simp_all add: video_inv_def)

lemma video_inv_ops [simp]:
  "video_inv s \<Longrightarrow> video_inv (resetWebRTCTransport keep s)"
  "video_inv s \<Longrightarrow> video_inv (forget_turn s)"
  "video_inv s \<Longrightarrow> video_inv (set_api st s)"
  "video_inv s \<Longrightarrow> video_inv (setReconnectMessageVisible_v b s)"
  "video_inv s \<Longrightarrow> video_inv (clearGoWsConnectTimeout s)"
  "video_inv s \<Longrightarrow> video_inv (clearGoWsReconnectTimeout s)"
  "video_inv s \<Longrightarrow> video_inv (clearApiSuccessTimeout s)"
  "video_inv s \<Longrightarrow> video_inv (stopMockVideo s)"
  "video_inv s \<Longrightarrow> video_inv (close_pc pc s)"
  "video_inv s \<Longrightarrow> video_inv (add_task tk s)"
  "video_inv s \<Longrightarrow> video_inv (drop_task tk s)"
  "video_inv s \<Longrightarrow> video_inv (onSession se tok s)"
  "video_inv s \<Longrightarrow> video_inv (snd (prefetchTurnServers s))"
  "video_inv s \<Longrightarrow> video_inv (maybeSendWebRTCReady p s)"
  "video_inv s \<Longrightarrow> video_inv (snd (getLocalStream s))"
  "video_inv s \<Longrightarrow> video_inv (snd (camera_continue cam s))"
  "video_inv s \<Longrightarrow> video_inv (onGoLost ses s)"
  "video_inv s \<Longrightarrow> video_inv (schedule_go_reconnect ses n s)"
  by (rule video_inv_calm, assumption, simp add: calms)+

lemma video_inv_startSearch_send [simp]: "video_inv s \<Longrightarrow> video_inv (startSearch_send_v i tk2 s)"
  using calm_startSearch_send [of i tk2 s] video_inv_calm by fastforce

lemma video_inv_phoenix: "push_phoenix ty d s = Some t \<Longrightarrow> video_inv s \<Longrightarrow> video_inv t"
  by (auto simp: push_phoenix_def split: option.splits)

lemma video_inv_messages:
  "video_inv s \<Longrightarrow> video_inv (s\<lparr>messages := []\<rparr>)"
  by (simp add: video_inv_def)

lemma video_inv_grow:
  assumes "video_inv s" and "cid m = nextKey s"
  shows "video_inv (s\<lparr>messages := grow_capped (messages s) m, nextKey := Suc (nextKey s)\<rparr>)"
  using assms video_log.fresh_grow [of "nextKey s" "messages s" m] by (auto simp: video_inv_def)

lemma video_inv_edit [simp]:
  "video_inv s \<Longrightarrow> video_inv (pushSystemMessage_v txt why s)"
  "video_inv s \<Longrightarrow> video_inv (updateDeliveryStatus_v i st None s)"
  "video_inv s \<Longrightarrow> video_inv (beginNewChatEpoch_v s)"
  "video_inv s \<Longrightarrow> video_inv (clearTypingTimeout_v s)"
  "video_inv s \<Longrightarrow> video_inv (showConnectionStatusMessage_v note s)"
proof -
  show push: "video_inv (pushSystemMessage_v txt2 why s)" if "video_inv s" for txt2 why
    using that by (simp add: pushSystemMessage_v_def video_inv_grow)
  show "video_inv s \<Longrightarrow> video_inv (showConnectionStatusMessage_v note s)"
    by (simp add: showConnectionStatusMessage_v_def push)
  show "video_inv s \<Longrightarrow> video_inv (updateDeliveryStatus_v i st None s)"
    by (simp add: video_inv_def updateDeliveryStatus_v_def)
  show "video_inv s \<Longrightarrow> video_inv (beginNewChatEpoch_v s)"
    by (auto simp: video_inv_def beginNewChatEpoch_v_def)
  show "video_inv s \<Longrightarrow> video_inv (clearTypingTimeout_v s)"
    by (auto simp: video_inv_def clearTypingTimeout_v_def split: option.splits)
qed

lemma video_inv_unavailable:
  assumes "video_inv s" and "n \<in> set notices"
  shows "video_inv (showVideoSignalingUnavailable n s)"
proof -
  have "fresh_ids (Suc k) (ms @ [system_message k t (JStr n) JUndef])" if "fresh_ids k ms" for k t ms
    using that by (fastforce simp: fresh_ids_def)
  then show ?thesis
    using assms capped_notice [of "messages s" n]
    by (fastforce simp: showVideoSignalingUnavailable_def video_inv_def shown_def Let_def)
qed

section \<open>Every event keeps the invariant\<close>

lemma numbered_v_cids: "map cid (numbered_v k t xs) = [k..<k + length xs]"
  by (induction xs arbitrary: k) (simp_all add: upt_conv_Cons del: upt_Suc)

lemma length_numbered_v [simp]: "length (numbered_v k t xs) = length xs"
  by (induction xs arbitrary: k) simp_all

lemma length_match_intro: "length (match_intro_v m) \<le> 2"
  by (simp add: match_intro_v_def match_intro_def)

lemma video_inv_intro:
  assumes "video_inv s" and "length xs \<le> 2"
  shows "video_inv (s\<lparr>messages := numbered_v (nextKey s) (now s) xs, nextKey := nextKey s + length xs\<rparr>)"
proof -
  have "fresh_ids (nextKey s + length xs) (numbered_v (nextKey s) (now s) xs)"
    by (simp add: fresh_ids_def numbered_v_cids)
  moreover have "capped (numbered_v (nextKey s) (now s) xs)"
    using assms(2) by (simp add: capped_short MAX_MESSAGES_def)
  ultimately show ?thesis using assms(1) by (fastforce simp: video_inv_def)
qed

lemma video_inv_match: "video_inv s \<Longrightarrow> video_inv (onMatch_v m s)"
proof -
  assume "video_inv s"
  then have "video_inv (match_reset s)"
    by (simp add: match_reset_def Let_def split: option.split)
  then have "video_inv (match_peer m (match_reset s))"
    by (simp add: match_peer_def)
  from video_inv_intro [OF this length_match_intro, of m]
  show ?thesis
    by (simp add: onMatch_v_def match_signaling_def Let_def video_inv_unavailable notices_def)
qed

lemma video_inv_signals [simp]:
  "video_inv s \<Longrightarrow> video_inv (onWebrtcReady s)"
  "video_inv s \<Longrightarrow> video_inv (onWebrtcStart m s)"
  "video_inv s \<Longrightarrow> video_inv (onOffer m s)"
  "video_inv s \<Longrightarrow> video_inv (onAnswer m s)"
  "video_inv s \<Longrightarrow> video_inv (onIce m s)"
  by (rule video_inv_calm, assumption, simp add: calms)+

lemma video_inv_typing: "video_inv s \<Longrightarrow> video_inv (onTyping_v m s)"
proof -
  assume "video_inv s"
  then have "video_inv (clearTypingTimeout_v (s\<lparr>peerTyping := b\<rparr>))" for b by simp
  moreover have "peerTypingTimeoutRef (clearTypingTimeout_v u) = None" for u
    by (simp add: clearTypingTimeout_v_def split: option.split)
  moreover have "video_inv (u\<lparr>peerTypingTimeoutRef := Some (nextKey u),
      typingTimers := typingTimers u @ [nextKey u], nextKey := Suc (nextKey u)\<rparr>)"
    if "video_inv u" and "peerTypingTimeoutRef u = None" for u
    using that by (fastforce simp: video_inv_def intro: fresh_ids_mono)
  ultimately show ?thesis
    using \<open>video_inv s\<close> by (simp add: onTyping_v_def Let_def)
qed

lemma video_inv_handleMessage: "video_inv s \<Longrightarrow> video_inv (handleMessage_v m s)"
  by (cases "mtype m") (simp_all add: handleMessage_v_def video_inv_match video_inv_typing
      video_inv_messages video_inv_grow onPeerMessage_v_def onSystemMessage_v_def onPeerDisconnected_v_def
      onBanned_v_def onServerError_v_def onTimeout_v_def onStopped_v_def Let_def)

lemma video_inv_deliver1: "video_inv s \<Longrightarrow> video_inv (deliver1_v e s)"
  by (cases e) (simp_all add: video_inv_handleMessage handleClose_v_def handleOpen_v_def
      handleMaxRetries_v_def handleReconnecting_v_def Let_def)

lemma video_inv_deliver: "video_inv s \<Longrightarrow> video_inv (fold deliver1_v es s)"
  by (induction es arbitrary: s) (simp_all add: video_inv_deliver1)

lemma video_inv_run_ws: "video_inv s \<Longrightarrow> ws_inv (fst r) \<Longrightarrow> video_inv (run_ws_v r s)"
  unfolding run_ws_v_def by (rule video_inv_deliver) (simp add: video_inv_def)

lemma video_inv_ws: "video_inv s \<Longrightarrow> ws_inv (ws s)"
  by (simp add: video_inv_def)

lemma video_inv_cleanup: "video_inv s \<Longrightarrow> video_inv (cleanup_v s)"
  by (simp add: cleanup_v_def Let_def)

lemma video_inv_unmount: "video_inv s \<Longrightarrow> video_inv (unmount_v s)"
  by (simp add: unmount_v_def Let_def video_inv_run_ws ws_inv_disconnect video_inv_ws video_inv_cleanup)

lemma video_inv_setup: "video_inv s \<Longrightarrow> video_inv (setup_continue_v outcome s)"
proof (cases outcome)
  case (Fulfilled v)
  moreover assume "video_inv s"
  moreover have "video_inv (u\<lparr>ws := onClose () (onOpen () (onMaxRetries () (onReconnecting () (onMessage () (ws u)))))\<rparr>)"
    if "video_inv u" for u
    using that by (simp add: video_inv_def onClose_def onOpen_def onMaxRetries_def onReconnecting_def onMessage_def)
  ultimately show ?thesis by (simp add: setup_continue_v_def Let_def)
qed (simp_all add: setup_continue_v_def Let_def)

lemma video_inv_connect:
  "video_inv s \<Longrightarrow> video_inv t \<Longrightarrow> video_inv (run_ws_v (snd (connect lib (ws s))) t)"
  using ws_inv_connect [OF video_inv_ws, of s lib] by (simp add: video_inv_run_ws)

lemma video_inv_search:
  "video_inv s \<Longrightarrow> video_inv (startSearch_v i tok s)"
  "video_inv s \<Longrightarrow> video_inv (startSearch_connect lib i tok s)"
  "video_inv s \<Longrightarrow> video_inv (startSearch_camera lib i tok cam s)"
  "video_inv s \<Longrightarrow> video_inv (startSearch_connected i tok out s)"
proof -
  show start: "video_inv s \<Longrightarrow> video_inv (startSearch_v i tok s)"
    by (simp add: startSearch_v_def startSearch_reset_def split_beta Let_def video_inv_messages)
  show conn: "video_inv (startSearch_connect lib i tok s)" if "video_inv s" for s
    using that by (simp add: startSearch_connect_def split_beta video_inv_connect)
  show "video_inv s \<Longrightarrow> video_inv (startSearch_camera lib i tok cam s)"
    by (simp add: startSearch_camera_def split_beta conn)
  show "video_inv s \<Longrightarrow> video_inv (startSearch_connected i tok out s)"
    by (cases out) (simp_all add: startSearch_connected_def)
qed

lemma video_inv_sendMessage:
  assumes "video_inv s"
  shows "video_inv (sendMessage_v txt s)"
proof -
  obtain p r where sent: "sendWithResponse ''message'' (JObj [(''content'', JStr txt)]) (ws s) = (p, r)"
    by (metis surj_pair)
  then have "ws_inv (fst r)"
    using ws_inv_sendWithResponse [OF video_inv_ws [OF assms]] by (metis snd_conv)
  moreover have "video_inv (s\<lparr>messages := grow_capped (messages s) (my_message (nextKey s) (now s) txt),
      nextKey := Suc (nextKey s), awaitingReply := awaitingReply s @
        [\<lparr>replyPromise = p, replyMessage = nextKey s, replyEpoch = chatEpochRef s\<rparr>]\<rparr>)"
    using assms video_log.fresh_grow [of "nextKey s" "messages s" "my_message (nextKey s) (now s) txt"]
    by (auto simp: video_inv_def)
  ultimately show ?thesis
    using assms by (simp add: sendMessage_v_def Let_def sent video_inv_run_ws)
qed

lemma video_inv_reply:
  assumes "video_inv s"
  shows "video_inv (sendMessage_continue_v task outcome s)"
proof -
  have "video_inv (s\<lparr>awaitingReply := remove1 task (awaitingReply s)\<rparr>)"
    using assms set_remove1_subset [of task "awaitingReply s"] by (auto simp: video_inv_def)
  then show ?thesis
    using assms
    by (auto simp: sendMessage_continue_v_def reply_received_v_def reply_failed_v_def Let_def
        split: promise_state.split)
qed

lemma video_inv_actions:
  "video_inv s \<Longrightarrow> video_inv (stopSearch_v s)"
  "video_inv s \<Longrightarrow> video_inv (skip_v s)"
  "video_inv s \<Longrightarrow> video_inv (disconnect_v s)"
  by (auto simp: stopSearch_v_def skip_v_def disconnect_v_def Let_def video_inv_messages video_inv_cleanup
      split: option.split dest!: video_inv_phoenix)

lemma video_inv_go:
  "video_inv s \<Longrightarrow> video_inv (onGoClose g ses code s)"
  "video_inv s \<Longrightarrow> video_inv (connectTimerFires tm g s)"
  by (simp_all add: onGoClose_def onGoRejected_def connectTimerFires_def Let_def
      video_inv_unavailable notices_def)

lemma video_inv_typing_timer: "video_inv s \<Longrightarrow> t \<in> set (typingTimers s) \<Longrightarrow> video_inv (typingTimerFires_v t s)"
  by (auto simp: typingTimerFires_v_def video_inv_def split: option.splits)

text \<open>The events that are calm.\<close>

lemma calm_resume [calms]:
  "calm s t \<Longrightarrow> calm s (resume_pc tk out made t)"
  "calm s t \<Longrightarrow> calm s (resume_turn tk b t)"
  "calm s t \<Longrightarrow> calm s (fetch_responds tk fo t)"
  "calm s t \<Longrightarrow> calm s (fetch_reads tk sh tb t)"
  by (cases tk; simp add: calms split: option.split)+

lemma calm_with_pc:
  "(\<And>p peer epoch. calm s (f p peer epoch t)) \<Longrightarrow> calm s t \<Longrightarrow> calm s (with_pc pc f t)"
  by (simp add: with_pc_def split: option.split)

fun is_calm :: "video_event \<Rightarrow> bool" where
  "is_calm (VClockTo t) = True"
| "is_calm VCommit = True"
| "is_calm (VElements l r) = True"
| "is_calm (VSendTyping b) = True"
| "is_calm (GoStateChange g st) = True"
| "is_calm (GoOpened g) = True"
| "is_calm (GoReconnectTimer t) = True"
| "is_calm (ApiTimer t) = True"
| "is_calm (PcChange pc st) = True"
| "is_calm (PcCandidate pc c) = True"
| "is_calm (PcIceState pc ice) = True"
| "is_calm (PcConnection pc) = True"
| "is_calm (PcNegotiation pc) = True"
| "is_calm (PcTrack pc st) = True"
| "is_calm (ResumePc t outcome made) = True"
| "is_calm (ResumeTurn t b) = True"
| "is_calm (FetchResponds t fo) = True"
| "is_calm (FetchReads t sh tb) = True"
| "is_calm e = False"

lemma calm_step: "is_calm e \<Longrightarrow> calm s (video_step e s)"
  by (cases e) (auto simp: calms calm_with_pc split: option.split)

lemma video_inv_search_resume: "video_inv s \<Longrightarrow> video_inv (resume_search tk lib cam s)"
  by (cases "(tk, lib, cam, s)" rule: resume_search.cases) (simp_all add: video_inv_search)

lemma video_inv_step:
  assumes "video_inv s"
  shows "video_inv (video_step e s)"
proof (cases "is_calm e")
  case True
  then show ?thesis using video_inv_calm [OF assms calm_step] by simp
next
  case False
  with assms ws_inv_next [OF video_inv_ws [OF assms]] show ?thesis
    by (cases e) (auto simp: video_inv_unmount video_inv_setup video_inv_search video_inv_sendMessage
        video_inv_reply video_inv_actions video_inv_go video_inv_typing_timer video_inv_handleMessage
        video_inv_search_resume ws_next_def video_inv_run_ws split: option.split)
qed

lemma video_inv_initial: "video_inv (initial_video c h)"
  by (simp add: video_inv_def initial_video_def initial_ws_inv)

lemma video_inv_page: "video_inv (video_page lib c h)"
  using video_inv_initial [of c h] by (simp add: video_page_def setupEffect_v_def split_beta video_inv_connect)

interpretation video_sys: invariant_system video_step "video_page lib c h" video_inv for lib c h
  by unfold_locales (simp_all add: video_inv_page video_inv_step)

end
