(* ===== verification/Video_Signals.thy ===== *)
theory Video_Signals
  imports Video_Props
begin

text \<open>
  Properties of the video page: the transcript's cap, whom the signals reach, what a superseded
  function may still do and who makes the first offer.
\<close>

text \<open>
  C29: the transcript of the video page stays within its cap of 200 messages plus the unavailability
  notices it shows. The two notices are appended without trimming, so a page can hold 202 messages
  and no more, in every run; identities stay distinct throughout.
\<close>

theorem video_transcript_bounded:
  "let s = run_events video_step es (video_page lib c h)
   in length (messages s) \<le> 200 + length (filter (shown (messages s)) notices) \<and>
      length (messages s) \<le> 202 \<and> distinct (map cid (messages s))"
proof -
  let ?m = "messages (run_events video_step es (video_page lib c h))"
  have "capped ?m" and ids: "distinct (map cid ?m)"
    using video_sys.inv_run [of es lib c h] by (simp_all add: video_inv_def fresh_ids_def)
  then have "length ?m \<le> 200 + length (filter (shown ?m) notices)"
    by (simp add: capped_def MAX_MESSAGES_def)
  moreover have "length (filter (shown ?m) notices) \<le> 2"
    using length_filter_le [of "shown ?m" notices] by (simp add: notices_def)
  ultimately show ?thesis using ids by (simp add: Let_def)
qed

section \<open>Whom signals reach\<close>

definition addressed :: "signal \<Rightarrow> video \<Rightarrow> bool" where
  "addressed m s \<longleftrightarrow> sessionIdRef s = Some (from_session_id m) \<and> peerIdRef s = Some (to_session_id m) \<and>
     from_session_id m \<noteq> [] \<and> to_session_id m \<noteq> []"

text \<open>At most one signal, to the open socket in use, from this session to the current peer.\<close>

definition polite :: "video \<Rightarrow> video \<Rightarrow> bool" where
  "polite s t \<longleftrightarrow>
     (\<exists>new. go_sends (browser t) = go_sends (browser s) @ new \<and>
        (new = [] \<or> (\<exists>g m. new = [(g, m)] \<and> webrtcWsRef t = Some g \<and> goState t g = OPEN \<and> addressed m t))) \<and>
     set (webrtcWsQueueRef t) \<subseteq> set (webrtcWsQueueRef s) \<union> {m. addressed m t}"

lemma polite_quiet: "quiet s t \<Longrightarrow> polite s t"
  by (auto simp: quiet_def polite_def)

lemma polite_send: "quiet s u \<Longrightarrow> polite s (sendWebRTC ty d peer u)"
  by (auto simp: sendWebRTC_def polite_def quiet_def perform_def addressed_def Let_def split: option.split)

lemma polite_continue:
  "quiet s t \<Longrightarrow> polite s (negotiate_continue peer epoch stage outcome t)"
  "quiet s t \<Longrightarrow> polite s (answer_continue peer epoch d astage outcome made t)"
  "quiet s t \<Longrightarrow> polite s (restart_local_continue pc peer epoch d outcome t)"
  "quiet s t \<Longrightarrow> polite s (onIceCandidate pc peer epoch c t)"
     apply (cases stage; auto simp: split_beta Let_def intro!: polite_quiet polite_send split: pc_outcome.split)
    apply (cases astage; auto simp: split_beta Let_def quiets intro!: polite_quiet polite_send split: pc_outcome.split)
   apply (auto simp: restart_local_continue_def onIceCandidate_def Let_def
      intro!: polite_quiet polite_send split: option.split)
  done

lemma polite_resume_pc: "quiet s t \<Longrightarrow> polite s (resume_pc tk outcome made t)"
  by (cases tk) (auto intro: polite_continue polite_quiet)

lemma quiet_resume [quiets]:
  "quiet s t \<Longrightarrow> quiet s (resume_turn tk b t)"
  "quiet s t \<Longrightarrow> quiet s (fetch_responds tk fo t)"
  "quiet s t \<Longrightarrow> quiet s (fetch_reads tk sh tb t)"
  by (cases tk; simp split: option.split)+

lemma quiet_resume_search [quiets]: "quiet s t \<Longrightarrow> quiet s (resume_search tk lib cam t)"
  by (cases "(tk, lib, cam, t)" rule: resume_search.cases) (simp_all add: quiets)

lemma quiet_with_pc:
  "(\<And>p peer epoch. quiet s (f p peer epoch t)) \<Longrightarrow> quiet s t \<Longrightarrow> quiet s (with_pc pc f t)"
  by (simp add: with_pc_def split: option.split)

lemma quiet_others [quiets]:
  "quiet s t \<Longrightarrow> quiet s (typingTimerFires_v tm t)"
  "quiet s t \<Longrightarrow> quiet s (t\<lparr>apiTimers := ats\<rparr>)"
  by (simp_all add: typingTimerFires_v_def)

fun may_send :: "video_event \<Rightarrow> bool" where
  "may_send (GoOpened g) = True"
| "may_send (PcCandidate pc c) = True"
| "may_send (ResumePc t outcome made) = True"
| "may_send e = False"

lemma quiet_step: "\<not> may_send e \<Longrightarrow> quiet s (video_step e s)"
  by (cases e) (auto simp: quiets quiet_with_pc split: option.split)

lemma polite_step:
  assumes "\<And>g. e \<noteq> GoOpened g"
  shows "polite s (video_step e s)"
proof (cases "may_send e")
  case False
  then show ?thesis by (intro polite_quiet quiet_step)
next
  case True
  with assms show ?thesis
    by (cases e) (auto simp: polite_resume_pc with_pc_def polite_quiet polite_continue split: option.split)
qed

lemma opened_sends:
  "go_sends (browser (onGoOpen g s)) = go_sends (browser s) @
     (if webrtcWsRef s = Some g then map (Pair g) (webrtcWsQueueRef s) else []) \<and>
   set (webrtcWsQueueRef (onGoOpen g s)) \<subseteq> set (webrtcWsQueueRef s)"
proof (cases "webrtcWsRef s = Some g")
  case True
  define u where "u = reportApiSuccess (Some g) (clearGoWsConnectTimeout (s\<lparr>webrtcSocketOpenRef := True\<rparr>))"
  have u: "browser u = browser s" "webrtcWsQueueRef u = webrtcWsQueueRef s"
    by (simp_all add: u_def reportApiSuccess_def clearGoWsConnectTimeout_def fresh_key_def Let_def split: option.split)
  have "quiet (flush_queue g u) (onGoOpen g s)"
    using True by (simp add: onGoOpen_def u_def Let_def)
  with True show ?thesis
    by (auto simp: quiet_def flush_queue_def perform_def u)
next
  case False
  then have "quiet s (onGoOpen g s)" by (simp add: onGoOpen_def)
  with False show ?thesis by (simp add: quiet_def)
qed


section \<open>Superseded functions\<close>

text \<open>Every event keeps or raises the epoch.\<close>

lemma calm_epoch: "calm s t \<Longrightarrow> chatEpochRef t = chatEpochRef s"
  by (simp add: calm_def)

named_theorems epochs

lemma epoch_calm_ops [simp]:
  "chatEpochRef (resetWebRTCTransport keep s) = chatEpochRef s"
  "chatEpochRef (forget_turn s) = chatEpochRef s"
  "chatEpochRef (onSession se tok s) = chatEpochRef s"
  "chatEpochRef (maybeSendWebRTCReady p s) = chatEpochRef s"
  "chatEpochRef (snd (prefetchTurnServers s)) = chatEpochRef s"
  "chatEpochRef (onWebrtcReady s) = chatEpochRef s"
  "chatEpochRef (onWebrtcStart m s) = chatEpochRef s"
  "chatEpochRef (onOffer m s) = chatEpochRef s"
  "chatEpochRef (onAnswer m s) = chatEpochRef s"
  "chatEpochRef (onIce m s) = chatEpochRef s"
  "chatEpochRef (set_api st s) = chatEpochRef s"
  "chatEpochRef (close_pc pc s) = chatEpochRef s"
  "chatEpochRef (clearApiSuccessTimeout s) = chatEpochRef s"
  "chatEpochRef (clearGoWsConnectTimeout s) = chatEpochRef s"
  "chatEpochRef (clearGoWsReconnectTimeout s) = chatEpochRef s"
  "chatEpochRef (stopMockVideo s) = chatEpochRef s"
  "chatEpochRef (add_task tk s) = chatEpochRef s"
  "chatEpochRef (drop_task tk s) = chatEpochRef s"
  "chatEpochRef (snd (getLocalStream s)) = chatEpochRef s"
  "chatEpochRef (snd (camera_continue cam s)) = chatEpochRef s"
  "chatEpochRef (onGoLost ses s) = chatEpochRef s"
  "chatEpochRef (schedule_go_reconnect ses n s) = chatEpochRef s"
  by (rule calm_epoch; simp add: calms)+

lemma epoch_startSearch_send_v [simp]: "chatEpochRef (startSearch_send_v i tok s) = chatEpochRef s"
  using calm_startSearch_send [of i tok s] calm_epoch by fastforce

lemma epoch_edit [simp]:
  "chatEpochRef (beginNewChatEpoch_v s) = Suc (chatEpochRef s)"
  "chatEpochRef (setReconnectMessageVisible_v b s) = chatEpochRef s"
  "chatEpochRef (pushSystemMessage_v m why s) = chatEpochRef s"
  "chatEpochRef (updateDeliveryStatus_v i d repl s) = chatEpochRef s"
  "chatEpochRef (showConnectionStatusMessage_v n s) = chatEpochRef s"
  "chatEpochRef (showVideoSignalingUnavailable n s) = chatEpochRef s"
  "chatEpochRef (clearTypingTimeout_v s) = chatEpochRef s"
  "chatEpochRef (match_reset s) = Suc (chatEpochRef s)"
  "chatEpochRef (match_peer m2 s) = chatEpochRef s"
  "chatEpochRef (match_signaling m2 s) = chatEpochRef s"
  by (simp_all add: beginNewChatEpoch_v_def setReconnectMessageVisible_v_def pushSystemMessage_v_def
      updateDeliveryStatus_v_def showConnectionStatusMessage_v_def showVideoSignalingUnavailable_def
      clearTypingTimeout_v_def match_reset_def match_peer_def match_signaling_def Let_def split: option.split)

lemma epoch_match [simp]: "chatEpochRef (onMatch_v m s) = Suc (chatEpochRef s)"
  by (simp add: onMatch_v_def Let_def)

lemma epoch_handleMessage_v: "chatEpochRef s \<le> chatEpochRef (handleMessage_v m s)"
  by (cases "mtype m") (simp_all add: handleMessage_v_def onPeerMessage_v_def onSystemMessage_v_def
      onTyping_v_def onPeerDisconnected_v_def onBanned_v_def onServerError_v_def onTimeout_v_def
      onStopped_v_def Let_def)

lemma epoch_deliver1_v: "chatEpochRef s \<le> chatEpochRef (deliver1_v e s)"
  by (cases e) (simp_all add: epoch_handleMessage_v handleClose_v_def handleOpen_v_def
      handleMaxRetries_v_def handleReconnecting_v_def Let_def)

lemma epoch_deliver_v: "chatEpochRef s \<le> chatEpochRef (fold deliver1_v es s)"
  by (induction es arbitrary: s) (auto intro: order_trans [OF epoch_deliver1_v])

lemma epoch_run_ws_v: "n \<le> chatEpochRef s \<Longrightarrow> n \<le> chatEpochRef (run_ws_v r s)"
  using epoch_deliver_v [of "s\<lparr>ws := fst r\<rparr>" "snd r"] by (simp add: run_ws_v_def)

lemma epoch_cleanup_v [simp]: "chatEpochRef (cleanup_v s) = Suc (chatEpochRef s)"
  by (simp add: cleanup_v_def Let_def)

lemma epoch_phoenix: "push_phoenix ty d s = Some t \<Longrightarrow> chatEpochRef t = chatEpochRef s"
  by (auto simp: push_phoenix_def split: option.splits)

lemma epoch_resume_search: "chatEpochRef s \<le> chatEpochRef (resume_search tk lib cam s)"
  by (cases "(tk, lib, cam, s)" rule: resume_search.cases)
    (auto simp: startSearch_camera_def startSearch_connect_def startSearch_connected_def split_beta
      intro!: epoch_run_ws_v split: promise_state.split)

lemma epoch_step_v: "chatEpochRef s \<le> chatEpochRef (video_step e s)"
proof (cases "is_calm e")
  case True
  then show ?thesis using calm_epoch [OF calm_step [of e s]] by simp
next
  case False
  then show ?thesis
    by (cases e) (auto simp: unmount_v_def setup_continue_v_def sendMessage_continue_v_def
        reply_received_v_def reply_failed_v_def typingTimerFires_v_def startSearch_v_def startSearch_reset_def
        stopSearch_v_def disconnect_v_def skip_v_def sendMessage_v_def onGoClose_def onGoRejected_def
        connectTimerFires_def epoch_handleMessage_v epoch_resume_search split_beta Let_def
        intro!: epoch_run_ws_v split: option.split promise_state.split dest!: epoch_phoenix)
qed

lemma epoch_run_v: "chatEpochRef s \<le> chatEpochRef (run_events video_step es s)"
  by (induction es arbitrary: s) (auto intro: order_trans [OF epoch_step_v])

fun task_epoch :: "task \<Rightarrow> nat option" where
  "task_epoch (Negotiate peer epoch stage) = Some epoch"
| "task_epoch (Answer peer epoch d stage) = Some epoch"
| "task_epoch (RestartOffer pc peer epoch) = Some epoch"
| "task_epoch (RestartLocal pc peer epoch offer) = Some epoch"
| "task_epoch t = None"

lemma stale_resume_quiet:
  assumes "task_epoch t = Some epoch" and "chatEpochRef s \<noteq> epoch"
  shows "quiet s (video_step (ResumePc t outcome made) s)"
proof -
  have epoch: "chatEpochRef (drop_task t s) = chatEpochRef s" by simp
  show ?thesis
  proof (cases t)
    case (Negotiate peer e stage)
    with assms epoch show ?thesis
      by (cases stage) (auto simp: is_current_def split: pc_outcome.split)
  next
    case (Answer peer e d stage)
    with assms epoch show ?thesis
      by (cases stage) (auto simp: is_current_def quiets split: pc_outcome.split)
  next
    case (RestartLocal pc peer e offer)
    with assms epoch show ?thesis
      by (auto simp: restart_local_continue_def isCurrentPeerConnection_def Let_def)
  qed (use assms in auto)
qed

text \<open>
  C5: a negotiation, an answer or an ICE restart that was under way when a new match arrives never
  reaches the new peer or anyone else. Whatever happens afterwards and however the browser settles
  what it awaits, it sends no signal and queues none.
\<close>

theorem superseded_negotiation_is_silent:
  assumes "task_epoch t = Some epoch" and "epoch \<le> chatEpochRef s" and "mtype m = MMatch"
  shows "let u = run_events video_step es (handleMessage_v m s); v = video_step (ResumePc t outcome made) u
     in go_sends (browser v) = go_sends (browser u) \<and> set (webrtcWsQueueRef v) \<subseteq> set (webrtcWsQueueRef u)"
proof -
  have "epoch < chatEpochRef (handleMessage_v m s)"
    using assms(2,3) by (simp add: handleMessage_v_def)
  also have "\<dots> \<le> chatEpochRef (run_events video_step es (handleMessage_v m s))"
    by (rule epoch_run_v)
  finally have "chatEpochRef (run_events video_step es (handleMessage_v m s)) \<noteq> epoch" by simp
  from stale_resume_quiet [OF assms(1) this, of outcome made] show ?thesis
    by (simp add: quiet_def Let_def del: video_step.simps)
qed

theorem superseded_negotiation_is_silent_witness:
  "let u = handleMessage_v (decode_message (JObj [(''type'', JStr ''match''), (''peer_id'', JStr ''p2'')]))
         ((initial_video plain_env initial_health)\<lparr>tasks := [Negotiate ''p1'' 0 (NegLocal 7 JNull)]\<rparr>);
       v = video_step (ResumePc (Negotiate ''p1'' 0 (NegLocal 7 JNull)) PcDone (None, None)) u
   in go_sends (browser v) = go_sends (browser u)"
proof -
  have "mtype (decode_message (JObj [(''type'', JStr ''match''), (''peer_id'', JStr ''p2'')])) = MMatch"
    by (simp add: decode_message_def msg_types_def)
  from superseded_negotiation_is_silent [OF _ _ this, of "Negotiate ''p1'' 0 (NegLocal 7 JNull)" 0
      "(initial_video plain_env initial_health)\<lparr>tasks := [Negotiate ''p1'' 0 (NegLocal 7 JNull)]\<rparr>" "[]" PcDone "(None, None)"]
  show ?thesis by (simp add: Let_def)
qed

end
