(* ===== verification/Video_Runs.thy ===== *)
theory Video_Runs
  imports Video_Signals
begin

text \<open>
  Runs of the video page: the retries of its signaling socket, who makes the first offer, and the
  situations in which the hook leaves the camera, the socket or the queue in a state its code does
  not mean.
\<close>

section \<open>Retries of the signaling socket\<close>

text \<open>
  The socket in use, attached for the session the page is in, before any strike; a browser never
  hands out an identity twice.
\<close>

definition signaling_up :: "string \<Rightarrow> video \<Rightarrow> bool" where
  "signaling_up session s \<longleftrightarrow>
     mounted s \<and> session \<noteq> [] \<and> sessionIdRef s = Some session \<and> \<not> goWsReconnectExhaustedRef s \<and>
     goReconnectTimers s = [] \<and> goWsReconnectTimeoutRef s = None \<and>
     (\<forall>h\<in>set (goSockets s). fst h < nextKey s) \<and>
     (case webrtcWsRef s of None \<Rightarrow> False | Some g \<Rightarrow> map_of (goSockets s) g = Some session)"

text \<open>The socket closes with a code and the reconnect timer fires, over and over.\<close>

definition go_closed :: "nat \<Rightarrow> video \<Rightarrow> video" where
  "go_closed code s = video_step (GoClosed (the (webrtcWsRef s)) code) s"

fun go_outage :: "nat \<Rightarrow> nat \<Rightarrow> video \<Rightarrow> video" where
  "go_outage code 0 s = s"
| "go_outage code (Suc k) s =
     (let c = go_closed code (go_outage code k s)
      in video_step (GoReconnectTimer (the (goWsReconnectTimeoutRef c))) c)"

lemma fields_after_close [simp]:
  "goReconnectTimers (clearGoWsConnectTimeout s) = goReconnectTimers s"
  "goWsReconnectTimeoutRef (clearGoWsConnectTimeout s) = goWsReconnectTimeoutRef s"
  "goSockets (clearGoWsConnectTimeout s) = goSockets s"
  "webrtcWsRef (clearGoWsConnectTimeout s) = webrtcWsRef s"
  "sessionIdRef (clearGoWsConnectTimeout s) = sessionIdRef s"
  "sessionTokenRef (clearGoWsConnectTimeout s) = sessionTokenRef s"
  "mounted (clearGoWsConnectTimeout s) = mounted s"
  "nextKey (clearGoWsConnectTimeout s) = nextKey s"
  "goWsReconnectExhaustedRef (clearGoWsConnectTimeout s) = goWsReconnectExhaustedRef s"
  "apiRetryCountRef (clearGoWsConnectTimeout s) = apiRetryCountRef s"
  "serverRejectionCountRef (clearGoWsConnectTimeout s) = serverRejectionCountRef s"
  "goReconnectTimers (reportApiError s) = goReconnectTimers s"
  "goWsReconnectTimeoutRef (reportApiError s) = goWsReconnectTimeoutRef s"
  "goSockets (reportApiError s) = goSockets s"
  "webrtcWsRef (reportApiError s) = webrtcWsRef s"
  "sessionIdRef (reportApiError s) = sessionIdRef s"
  "sessionTokenRef (reportApiError s) = sessionTokenRef s"
  "mounted (reportApiError s) = mounted s"
  "nextKey (reportApiError s) = nextKey s"
  "goWsReconnectExhaustedRef (reportApiError s) = goWsReconnectExhaustedRef s"
  "apiRetryCountRef (reportApiError s) = Suc (apiRetryCountRef s)"
  "serverRejectionCountRef (reportApiError s) = serverRejectionCountRef s"
  by (simp_all add: clearGoWsConnectTimeout_def reportApiError_def clearApiSuccessTimeout_def set_api_def
      Let_def split: option.split)

lemma api_offline: "Suc (apiRetryCountRef s) \<ge> 5 \<Longrightarrow> apiStatus (health (reportApiError s)) = SOffline"
  by (simp add: reportApiError_def clearApiSuccessTimeout_def set_api_def setApiStatus_def Let_def
      split: option.split)

text \<open>One strike: what a close schedules, and what the timer brings back.\<close>

lemma go_close_schedules:
  assumes "signaling_up session s" and "code \<noteq> 1008 \<Longrightarrow> Suc (apiRetryCountRef s) < 5"
    and "code = 1008 \<Longrightarrow> Suc (serverRejectionCountRef s) \<le> 3"
  shows "goReconnectTimers (go_closed code s) =
      [(nextKey s, session, str_or_null (sessionTokenRef s),
        if code = 1008 then 3000 * Suc (serverRejectionCountRef s) else 2000 * Suc (apiRetryCountRef s))]"
    and "goWsReconnectTimeoutRef (go_closed code s) = Some (nextKey s)"
    and "apiRetryCountRef (go_closed code s) =
      (if code = 1008 then apiRetryCountRef s else Suc (apiRetryCountRef s))"
    and "serverRejectionCountRef (go_closed code s) =
      (if code = 1008 then Suc (serverRejectionCountRef s) else serverRejectionCountRef s)"
    and "mounted (go_closed code s)" and "sessionIdRef (go_closed code s) = Some session"
    and "\<not> goWsReconnectExhaustedRef (go_closed code s)" and "webrtcWsRef (go_closed code s) = None"
    and "goSockets (go_closed code s) = goSockets s" and "nextKey (go_closed code s) = Suc (nextKey s)"
  using assms
  by (auto simp: signaling_up_def go_closed_def onGoClose_def onGoLost_def onGoRejected_def
      schedule_go_reconnect_def fresh_key_def Let_def split: option.splits)

lemma go_timer_reopens:
  assumes "goReconnectTimers c = [(t, session, token, d)]" and "mounted c" and "session \<noteq> []"
    and "sessionIdRef c = Some session" and "\<not> goWsReconnectExhaustedRef c" and "webrtcWsRef c = None"
    and "\<forall>h\<in>set (goSockets c). fst h < nextKey c"
  defines "u \<equiv> video_step (GoReconnectTimer t) c"
  shows "signaling_up session u" and "apiRetryCountRef u = apiRetryCountRef c"
    and "serverRejectionCountRef u = serverRejectionCountRef c"
proof -
  have fresh: "map_of (goSockets c) (nextKey c) = None"
    using assms(7) by (auto simp: map_of_eq_None_iff)
  have "\<forall>h\<in>set (goSockets c). fst h < Suc (Suc (nextKey c))"
    using assms(7) by fastforce
  with fresh show "signaling_up session u" "apiRetryCountRef u = apiRetryCountRef c"
    "serverRejectionCountRef u = serverRejectionCountRef c"
    using assms(1-6)
    by (auto simp: u_def goReconnectTimerFires_def canOpenGoWebSocket_def closeGoWebSocket_def
        onSession_def fresh_key_def perform_def signaling_up_def Let_def map_add_def)
qed

lemma go_outage_state:
  assumes "signaling_up session s" and "apiRetryCountRef s = 0" and "serverRejectionCountRef s = 0"
  shows "k \<le> (if code = 1008 then 3 else 4) \<Longrightarrow> signaling_up session (go_outage code k s) \<and>
    apiRetryCountRef (go_outage code k s) = (if code = 1008 then 0 else k) \<and>
    serverRejectionCountRef (go_outage code k s) = (if code = 1008 then k else 0)"
proof (induction k)
  case 0
  then show ?case using assms by simp
next
  case (Suc k)
  let ?s = "go_outage code k s"
  have ih: "signaling_up session ?s" "apiRetryCountRef ?s = (if code = 1008 then 0 else k)"
    "serverRejectionCountRef ?s = (if code = 1008 then k else 0)"
    using Suc by auto
  have k: "code \<noteq> 1008 \<Longrightarrow> Suc (apiRetryCountRef ?s) < 5" "code = 1008 \<Longrightarrow> Suc (serverRejectionCountRef ?s) \<le> 3"
    using Suc.prems ih by auto
  note c = go_close_schedules [OF ih(1) k]
  have ne: "session \<noteq> []" and old: "\<forall>h\<in>set (goSockets (go_closed code ?s)). fst h < nextKey (go_closed code ?s)"
    using ih(1) by (auto simp: signaling_up_def c(9,10))
  note u = go_timer_reopens [OF c(1,5) ne c(6,7,8) old]
  have "go_outage code (Suc k) s = video_step (GoReconnectTimer (nextKey ?s)) (go_closed code ?s)"
    by (simp add: Let_def c(2) del: video_step.simps)
  with u c(3,4) ih show ?case
    by (cases "code = 1008") (simp_all del: video_step.simps go_outage.simps)
qed

text \<open>
  C27: the signaling socket backs off and gives up. Unexpected closes are retried after 2, 4, 6 and 8
  seconds; the fifth takes the API status offline and schedules nothing. Rejections of a duplicate
  session are retried after 3, 6 and 9 seconds; the fourth takes the API status offline, schedules
  nothing and bars the socket until a new session or search.
\<close>

theorem signaling_retries_bounded:
  assumes "signaling_up session s" and "apiRetryCountRef s = 0" and "serverRejectionCountRef s = 0"
    and "code \<noteq> 1008"
  defines "delays c \<equiv> map (\<lambda>(t, ses, tok, delay). delay) (goReconnectTimers c)"
  shows "(\<forall>k<4. delays (go_closed code (go_outage code k s)) = [2000 * Suc k]) \<and>
    (let c = go_closed code (go_outage code 4 s) in delays c = [] \<and> apiStatus (health c) = SOffline) \<and>
    (\<forall>k<3. delays (go_closed 1008 (go_outage 1008 k s)) = [3000 * Suc k]) \<and>
    (let c = go_closed 1008 (go_outage 1008 3 s)
     in delays c = [] \<and> apiStatus (health c) = SOffline \<and> \<not> canOpenGoWebSocket c)"
proof (intro conjI allI impI)
  fix k :: nat
  assume "k < 4"
  then have u: "signaling_up session (go_outage code k s)" "apiRetryCountRef (go_outage code k s) = k"
    using go_outage_state [OF assms(1-3), of k code] assms(4) by simp_all
  show "delays (go_closed code (go_outage code k s)) = [2000 * Suc k]"
    using go_close_schedules(1) [OF u(1), of code] u(2) \<open>k < 4\<close> assms(4) by (simp add: delays_def)
next
  fix k :: nat
  assume "k < 3"
  then have u: "signaling_up session (go_outage 1008 k s)" "serverRejectionCountRef (go_outage 1008 k s) = k"
    using go_outage_state [OF assms(1-3), of k 1008] by simp_all
  show "delays (go_closed 1008 (go_outage 1008 k s)) = [3000 * Suc k]"
    using go_close_schedules(1) [OF u(1), of 1008] u(2) \<open>k < 3\<close> by (simp add: delays_def)
next
  let ?u = "go_outage code 4 s"
  have u: "signaling_up session ?u" "apiRetryCountRef ?u = 4"
    using go_outage_state [OF assms(1-3), of 4 code] assms(4) by simp_all
  then show "let c = go_closed code ?u in delays c = [] \<and> apiStatus (health c) = SOffline"
    using assms(4)
    by (auto simp: delays_def signaling_up_def go_closed_def onGoClose_def onGoLost_def api_offline Let_def
        split: option.splits)
next
  let ?u = "go_outage 1008 3 s"
  have "signaling_up session ?u" "serverRejectionCountRef ?u = 3"
    using go_outage_state [OF assms(1-3), of 3 1008] by simp_all
  then show "let c = go_closed 1008 ?u
     in delays c = [] \<and> apiStatus (health c) = SOffline \<and> \<not> canOpenGoWebSocket c"
    by (auto simp: delays_def signaling_up_def go_closed_def onGoClose_def onGoRejected_def
        showVideoSignalingUnavailable_def set_api_def setApiStatus_def clearGoWsReconnectTimeout_def
        canOpenGoWebSocket_def Let_def split: option.splits)
qed

definition up_page :: video where
  "up_page =
     (initial_video plain_env initial_health)
       \<lparr>mounted := True, sessionIdRef := Some ''s'', webrtcWsRef := Some 0, goSockets := [(0, ''s'')],
        nextKey := 1\<rparr>"

theorem signaling_retries_bounded_witness:
  "map (\<lambda>(t, ses, tok, delay). delay) (goReconnectTimers (go_closed 1006 up_page)) = [2000]"
proof -
  have "signaling_up ''s'' up_page" "apiRetryCountRef up_page = 0"
    "serverRejectionCountRef up_page = 0" "(1006 :: nat) \<noteq> 1008"
    by (simp_all add: signaling_up_def up_page_def initial_video_def)
  from signaling_retries_bounded [OF this] show ?thesis by force
qed

section \<open>Who makes the first offer\<close>

text \<open>
  Of two pages that were matched with each other exactly one starts the negotiation, so there is
  an initial offer and no glare.
\<close>

theorem exactly_one_caller:
  assumes "x \<noteq> y" and "x \<noteq> []" and "y \<noteq> []"
    and "sessionIdRef a = Some x" and "peerIdRef a = Some y" and "\<not> negotiationStartedRef a"
    and "sessionIdRef b = Some y" and "peerIdRef b = Some x" and "\<not> negotiationStartedRef b"
  shows "negotiationStartedRef (startNegotiationIfNeeded y a) \<noteq>
    negotiationStartedRef (startNegotiationIfNeeded x b)"
proof -
  have started: "negotiationStartedRef (waitForInitialTurnPrefetch s) = negotiationStartedRef s"
    "negotiationStartedRef (negotiate_from peer epoch pc s) = negotiationStartedRef s" for s peer epoch pc
    by (auto simp: waitForInitialTurnPrefetch_def prefetchTurnServers_def fetchTurnServers_def fresh_key_def
        add_task_def perform_def settle_turn_def negotiate_from_def negotiation_attach_def attach_plan_def
        split_beta Let_def split: option.split)
  have "negotiationStartedRef (startNegotiationIfNeeded peer s) = isCallerSession own peer"
    if "sessionIdRef s = Some own" "own \<noteq> []" "peerIdRef s = Some peer" "\<not> negotiationStartedRef s" for s own peer
    using that by (simp add: startNegotiationIfNeeded_def add_task_def started Let_def split: option.split)
  then have "negotiationStartedRef (startNegotiationIfNeeded y a) = isCallerSession x y"
    "negotiationStartedRef (startNegotiationIfNeeded x b) = isCallerSession y x"
    using assms by blast+
  moreover have "isCallerSession x y \<noteq> isCallerSession y x"
    using assms(1) by (auto simp: isCallerSession_def not_less)
  ultimately show ?thesis by simp
qed

theorem exactly_one_caller_witness:
  "negotiationStartedRef (startNegotiationIfNeeded ''b''
      ((initial_video plain_env initial_health)\<lparr>sessionIdRef := Some ''a'', peerIdRef := Some ''b''\<rparr>)) \<noteq>
    negotiationStartedRef (startNegotiationIfNeeded ''a''
      ((initial_video plain_env initial_health)\<lparr>sessionIdRef := Some ''b'', peerIdRef := Some ''a''\<rparr>))"
  by (rule exactly_one_caller) (simp_all add: initial_video_def)

section \<open>Leaving during the camera prompt\<close>

lemmas video_run_defs = video_page_def initial_video_def initial_ws_def setupEffect_v_def run_ws_v_def
  setup_continue_v_def startSearch_v_def startSearch_reset_def startSearch_camera_def
  startSearch_connect_def startSearch_connected_def startSearch_send_v_def getLocalStream_def
  camera_continue_def use_stream_def push_phoenix_def send_def isConnected_def add_task_def
  drop_task_def onMessage_def onClose_def onOpen_def onMaxRetries_def onReconnecting_def
  setReconnectMessageVisible_v_def beginNewChatEpoch_v_def perform_def fresh_key_def forget_turn_def
  unmount_v_def cleanup_v_def set_api_def clearTypingTimeout_v_def clearApiSuccessTimeout_def
  clearGoWsConnectTimeout_def clearGoWsReconnectTimeout_def stopMockVideo_def resetWebRTCTransport_def
  closeGoWebSocket_def closePeerConnection_def stopLocalStream_def stream_tracks_def handleOpen_v_def

text \<open>Fields the steps of the teardown leave alone.\<close>

lemma teardown_fields [simp]:
  "tasks (beginNewChatEpoch_v s) = tasks s" "outbox (beginNewChatEpoch_v s) = outbox s"
  "ws (beginNewChatEpoch_v s) = ws s" "mounted (beginNewChatEpoch_v s) = mounted s"
  "localStreamRef (beginNewChatEpoch_v s) = localStreamRef s"
  "browser (beginNewChatEpoch_v s) = browser s"
  "webrtcWsRef (beginNewChatEpoch_v s) = webrtcWsRef s"
  "peerConnectionRef (beginNewChatEpoch_v s) = peerConnectionRef s"
  "tasks (setReconnectMessageVisible_v b s) = tasks s"
  "outbox (setReconnectMessageVisible_v b s) = outbox s"
  "ws (setReconnectMessageVisible_v b s) = ws s"
  "mounted (setReconnectMessageVisible_v b s) = mounted s"
  "localStreamRef (setReconnectMessageVisible_v b s) = localStreamRef s"
  "browser (setReconnectMessageVisible_v b s) = browser s"
  "webrtcWsRef (setReconnectMessageVisible_v b s) = webrtcWsRef s"
  "peerConnectionRef (setReconnectMessageVisible_v b s) = peerConnectionRef s"
  "tasks (clearTypingTimeout_v s) = tasks s" "outbox (clearTypingTimeout_v s) = outbox s"
  "ws (clearTypingTimeout_v s) = ws s" "mounted (clearTypingTimeout_v s) = mounted s"
  "localStreamRef (clearTypingTimeout_v s) = localStreamRef s"
  "browser (clearTypingTimeout_v s) = browser s"
  "webrtcWsRef (clearTypingTimeout_v s) = webrtcWsRef s"
  "peerConnectionRef (clearTypingTimeout_v s) = peerConnectionRef s"
  "tasks (clearApiSuccessTimeout s) = tasks s" "outbox (clearApiSuccessTimeout s) = outbox s"
  "ws (clearApiSuccessTimeout s) = ws s" "mounted (clearApiSuccessTimeout s) = mounted s"
  "localStreamRef (clearApiSuccessTimeout s) = localStreamRef s"
  "browser (clearApiSuccessTimeout s) = browser s"
  "webrtcWsRef (clearApiSuccessTimeout s) = webrtcWsRef s"
  "peerConnectionRef (clearApiSuccessTimeout s) = peerConnectionRef s"
  "tasks (clearGoWsReconnectTimeout s) = tasks s" "outbox (clearGoWsReconnectTimeout s) = outbox s"
  "ws (clearGoWsReconnectTimeout s) = ws s" "mounted (clearGoWsReconnectTimeout s) = mounted s"
  "localStreamRef (clearGoWsReconnectTimeout s) = localStreamRef s"
  "browser (clearGoWsReconnectTimeout s) = browser s"
  "webrtcWsRef (clearGoWsReconnectTimeout s) = webrtcWsRef s"
  "peerConnectionRef (clearGoWsReconnectTimeout s) = peerConnectionRef s"
  "tasks (stopMockVideo s) = tasks s" "outbox (stopMockVideo s) = outbox s"
  "ws (stopMockVideo s) = ws s" "mounted (stopMockVideo s) = mounted s"
  "localStreamRef (stopMockVideo s) = localStreamRef s" "browser (stopMockVideo s) = browser s"
  "webrtcWsRef (stopMockVideo s) = webrtcWsRef s"
  "peerConnectionRef (stopMockVideo s) = peerConnectionRef s" "tasks (set_api st s) = tasks s"
  "outbox (set_api st s) = outbox s" "ws (set_api st s) = ws s" "mounted (set_api st s) = mounted s"
  "localStreamRef (set_api st s) = localStreamRef s" "browser (set_api st s) = browser s"
  "webrtcWsRef (set_api st s) = webrtcWsRef s"
  "peerConnectionRef (set_api st s) = peerConnectionRef s" "tasks (forget_turn s) = tasks s"
  "outbox (forget_turn s) = outbox s" "ws (forget_turn s) = ws s"
  "mounted (forget_turn s) = mounted s" "localStreamRef (forget_turn s) = localStreamRef s"
  "browser (forget_turn s) = browser s" "webrtcWsRef (forget_turn s) = webrtcWsRef s"
  "peerConnectionRef (forget_turn s) = peerConnectionRef s"
  "tasks (clearGoWsConnectTimeout s) = tasks s" "outbox (clearGoWsConnectTimeout s) = outbox s"
  "ws (clearGoWsConnectTimeout s) = ws s"
  "localStreamRef (clearGoWsConnectTimeout s) = localStreamRef s"
  "browser (clearGoWsConnectTimeout s) = browser s"
  "peerConnectionRef (clearGoWsConnectTimeout s) = peerConnectionRef s"
  by (simp_all add: beginNewChatEpoch_v_def setReconnectMessageVisible_v_def clearTypingTimeout_v_def
      clearApiSuccessTimeout_def clearGoWsReconnectTimeout_def stopMockVideo_def set_api_def
      forget_turn_def clearGoWsConnectTimeout_def split: option.split)

lemma cleanup_idle:
  assumes "webrtcWsRef s = None" and "peerConnectionRef s = None" and "localStreamRef s = None"
  shows "tasks (cleanup_v s) = tasks s" "outbox (cleanup_v s) = outbox s" "ws (cleanup_v s) = ws s"
    "mounted (cleanup_v s) = mounted s" "browser (cleanup_v s) = browser s" "localStreamRef (cleanup_v s) = None"
  using assms
  by (simp_all add: cleanup_v_def resetWebRTCTransport_def closeGoWebSocket_def closePeerConnection_def
      stopLocalStream_def Let_def)

text \<open>
  A page that is left while the browser asks for the camera comes back to life. When the user
  then allows it, the stream is stored and nothing stops its tracks; the torn-down client opens a
  new socket, and once that has joined the search is sent for a page that no longer exists.
\<close>

theorem leaving_during_camera_prompt:
  "let s = run_events video_step
         [VLibrary (JoinOk 2 0), VResumeSetup, VStartSearch [] None, VUnmount,
          ResumeSearch (Search [] None SearchCamera) LibOk (CameraStream a v),
          VLibrary (JoinOk 6 4), ResumeSearch (Search [] None (SearchConnect 4)) LibOk CameraDenied]
         (video_page LibOk c h)
   in \<not> mounted s \<and> map_option stream_tracks (localStreamRef s) = Some [a, v] \<and>
      browser s = [AskCamera] \<and> isConnected (ws s) \<and>
      outbox s = [ConnectSocket 1, JoinChannel 2, LeaveChannel 2, DisconnectSocket 1,
        ConnectSocket 5, JoinChannel 6,
        PushChannel 6 ''start'' (JObj [(''data'', start_payload ''video'' None [])])]"
proof -
  note defs = video_run_defs
  define w :: "unit ws" where "w = onClose () (onOpen () (onMaxRetries () (onReconnecting () (onMessage ()
    (fst (onJoinOk 2 0 (fst (snd (connect LibOk initial_ws)))))))))"
  define s1 where "s1 = run_events video_step [VLibrary (JoinOk 2 0), VResumeSetup] (video_page LibOk c h)"
  have s1: "mounted s1" "localStreamRef s1 = None" "browser s1 = []" "tasks s1 = []"
    "outbox s1 = [ConnectSocket 1, JoinChannel 2]" "ws s1 = w"
    "webrtcWsRef s1 = None" "peerConnectionRef s1 = None"
    "peerTypingTimeoutRef s1 = None" "apiSuccessTimeoutRef s1 = None" "goWsReconnectTimeoutRef s1 = None"
    "goWsConnectTimeoutRef s1 = None" "mockVideoTimerRef s1 = None"
    by (simp_all add: s1_def w_def defs ws_ops)
  define s2 where "s2 = video_step (VStartSearch [] None) s1"
  have s2: "mounted s2" "localStreamRef s2 = None" "browser s2 = [AskCamera]"
    "tasks s2 = [Search [] None SearchCamera]" "outbox s2 = [ConnectSocket 1, JoinChannel 2]" "ws s2 = w"
    "webrtcWsRef s2 = None" "peerConnectionRef s2 = None"
    "peerTypingTimeoutRef s2 = None" "apiSuccessTimeoutRef s2 = None" "goWsReconnectTimeoutRef s2 = None"
    "goWsConnectTimeoutRef s2 = None" "mockVideoTimerRef s2 = None"
    using s1 by (simp_all add: s2_def defs)
  have "disconnect w = (fst (disconnect w), [LeaveChannel 2, DisconnectSocket 1])"
    by (simp add: w_def defs ws_ops)
  moreover define w3 where "w3 = fst (disconnect w)"
  ultimately have w3: "disconnect w = (w3, [LeaveChannel 2, DisconnectSocket 1])" by simp
  define s3 where "s3 = video_step VUnmount s2"
  have s3: "\<not> mounted s3" "localStreamRef s3 = None" "browser s3 = [AskCamera]"
    "tasks s3 = [Search [] None SearchCamera]" "ws s3 = w3"
    "outbox s3 = [ConnectSocket 1, JoinChannel 2, LeaveChannel 2, DisconnectSocket 1]"
    using s2 by (simp_all add: s3_def unmount_v_def cleanup_idle run_ws_v_def w3 Let_def)
  define w4 where "w4 = fst (snd (connect LibOk w3))"
  have w4: "connect LibOk w3 = (4, w4, [ConnectSocket 5, JoinChannel 6])" "\<not> isConnected w3"
    by (simp_all add: w4_def w3_def w_def defs ws_ops)
  define s4 where "s4 = video_step (ResumeSearch (Search [] None SearchCamera) LibOk (CameraStream a v)) s3"
  have s4: "\<not> mounted s4" "map_option stream_tracks (localStreamRef s4) = Some [a, v]"
    "browser s4 = [AskCamera]" "tasks s4 = [Search [] None (SearchConnect 4)]" "ws s4 = w4"
    "outbox s4 = [ConnectSocket 1, JoinChannel 2, LeaveChannel 2, DisconnectSocket 1,
      ConnectSocket 5, JoinChannel 6]"
    using s3 w4 by (simp_all add: s4_def startSearch_camera_def startSearch_connect_def camera_continue_def
        use_stream_def fresh_key_def drop_task_def add_task_def run_ws_v_def stream_tracks_def)
  define w5 where "w5 = fst (ws_step (JoinOk 6 4) w4)"
  have w5: "ws_step (JoinOk 6 4) w4 = (w5, [])" "promises w5 4 = Fulfilled JUndef"
    "isConnected w5" "channel w5 = Some 6"
    by (simp_all add: w5_def w4_def w3_def w_def defs ws_ops)
  define s5 where "s5 = video_step (VLibrary (JoinOk 6 4)) s4"
  have s5: "\<not> mounted s5" "localStreamRef s5 = localStreamRef s4"
    "browser s5 = [AskCamera]" "tasks s5 = [Search [] None (SearchConnect 4)]" "ws s5 = w5"
    "outbox s5 = outbox s4"
    using s4 w5(1) by (simp_all add: s5_def run_ws_v_def)
  let ?s6 = "video_step (ResumeSearch (Search [] None (SearchConnect 4)) LibOk CameraDenied) s5"
  have s6: "\<not> mounted ?s6" "localStreamRef ?s6 = localStreamRef s4" "browser ?s6 = [AskCamera]"
    "ws ?s6 = w5" "outbox ?s6 = outbox s4 @
      [PushChannel 6 ''start'' (JObj [(''data'', start_payload ''video'' None [])])]"
    using s5 w5 by (simp_all add: startSearch_connected_def startSearch_send_v_def push_phoenix_def
        send_def drop_task_def)
  have "run_events video_step
      [VLibrary (JoinOk 2 0), VResumeSetup, VStartSearch [] None, VUnmount,
       ResumeSearch (Search [] None SearchCamera) LibOk (CameraStream a v),
       VLibrary (JoinOk 6 4), ResumeSearch (Search [] None (SearchConnect 4)) LibOk CameraDenied]
      (video_page LibOk c h) = ?s6"
    by (simp only: s5_def s4_def s3_def s2_def s1_def run_events.simps)
  then show ?thesis using s4 s6 w5(3) by (simp del: video_step.simps run_events.simps)
qed

section \<open>An offer in an unexpected state\<close>

lemma wait_keeps:
  "webrtcWsRef (waitForInitialTurnPrefetch s) = webrtcWsRef s"
  "goSockets (waitForInitialTurnPrefetch s) = goSockets s"
  "goReconnectTimers (waitForInitialTurnPrefetch s) = goReconnectTimers s"
  by (auto simp: waitForInitialTurnPrefetch_def prefetchTurnServers_def fetchTurnServers_def fresh_key_def
      add_task_def perform_def settle_turn_def split_beta Let_def split: option.split)

lemma close_parts:
  "webrtcWsRef (closeGoWebSocket s) = None"
  "goSockets (closeGoWebSocket s) =
    (case webrtcWsRef s of None \<Rightarrow> goSockets s | Some g \<Rightarrow> filter (\<lambda>h. fst h \<noteq> g) (goSockets s))"
  "goReconnectTimers (closeGoWebSocket s) = goReconnectTimers s"
  "webrtcWsRef (closePeerConnection s) = webrtcWsRef s"
  "goSockets (closePeerConnection s) = goSockets s"
  "goReconnectTimers (closePeerConnection s) = goReconnectTimers s"
  "webrtcWsRef (stopLocalStream s) = webrtcWsRef s"
  "goSockets (stopLocalStream s) = goSockets s"
  "goReconnectTimers (stopLocalStream s) = goReconnectTimers s"
  "goSockets (forget_turn s) = goSockets s"
  "goReconnectTimers (forget_turn s) = goReconnectTimers s"
  by (simp_all add: closeGoWebSocket_def closePeerConnection_def close_pc_def stopLocalStream_def
      forget_turn_def shut_socket_def perform_def Let_def split: option.split)

lemma reset_socket:
  "webrtcWsRef (resetWebRTCTransport keep s) = None"
  "goSockets (resetWebRTCTransport keep s) =
    (case webrtcWsRef s of None \<Rightarrow> goSockets s | Some g \<Rightarrow> filter (\<lambda>h. fst h \<noteq> g) (goSockets s))"
  "goReconnectTimers (resetWebRTCTransport keep s) = goReconnectTimers s"
  by (simp_all add: resetWebRTCTransport_def close_parts Let_def split: option.split)


definition answering_page :: video where
  "answering_page =
     (initial_video plain_env initial_health)
       \<lparr>peerIdRef := Some ''p'', sessionIdRef := Some ''s'', webrtcWsRef := Some 1, goSockets := [(1, ''s'')],
        peerConnectionRef := Some 2, nextKey := 3,
        pcState := (\<lambda>_. \<lparr>connectionState = PcConnecting, signalingState = HaveRemoteOffer,
          hasRemoteDescription = True\<rparr>)\<rparr>"


section \<open>TURN credentials that were missing once\<close>

text \<open>
  A TURN fetch attempted before the session has its token is never repeated. The body of the
  fetch has finished, and its \<^verbatim>\<open>finally\<close> has run, before the promise is stored, so the
  settled promise stays in the reference: when the credentials arrive, every later fetch hands out
  that promise, whose result is null, and no request is made.
\<close>

theorem missing_credentials_stick:
  assumes "turnEnabled (config s)" and "turnFetchPromiseRef s = None" and "\<not> str_truthy (sessionTokenRef s)"
  shows "let (p, s') = fetchTurnServers s;
       later = s'\<lparr>sessionIdRef := Some session, sessionTokenRef := Some token\<rparr>
     in turnResults later p = Some None \<and> fetchTurnServers later = (p, later)"
proof -
  have none: "str_or_null (sessionTokenRef s) = None"
    using assms(3) by (simp add: str_or_null_def)
  have "fetchTurnServers s = (nextKey s,
      s\<lparr>nextKey := Suc (nextKey s), turnFetchPromiseRef := Some (nextKey s),
        turnResults := (turnResults s)(nextKey s := Some None)\<rparr>)"
    using assms(1,2) none
    by (simp add: fetchTurnServers_def fresh_key_def settle_turn_def Let_def split: option.split)
  then show ?thesis
    using assms(1) by (simp add: fetchTurnServers_def Let_def)
qed

theorem missing_credentials_stick_witness:
  "let (p, s') = fetchTurnServers (initial_video plain_env initial_health);
       later = s'\<lparr>sessionIdRef := Some ''s'', sessionTokenRef := Some ''t''\<rparr>
   in fetchTurnServers later = (p, later)"
proof -
  have "turnEnabled (config (initial_video plain_env initial_health))"
    "turnFetchPromiseRef (initial_video plain_env initial_health) = None"
    "\<not> str_truthy (sessionTokenRef (initial_video plain_env initial_health))"
    by (simp_all add: initial_video_def turnEnabled_def turnMode_def plain_env_def)
  from missing_credentials_stick [OF this, where session = "''s''" and token = "''t''"] show ?thesis
    by (simp add: Let_def split_beta)
qed

section \<open>Signals queued for the previous peer\<close>

lemma match_reset_keeps [simp]:
  "webrtcWsQueueRef (match_reset s) = webrtcWsQueueRef s" "webrtcWsRef (match_reset s) = webrtcWsRef s"
  "goSockets (match_reset s) = goSockets s" "webrtcSocketOpenRef (match_reset s) = webrtcSocketOpenRef s"
  "go_sends (browser (match_reset s)) = go_sends (browser s)"
  by (simp_all add: match_reset_def beginNewChatEpoch_v_def close_pc_def perform_def Let_def split: option.split)

lemma match_peer_keeps [simp]:
  "webrtcWsQueueRef (match_peer m s) = webrtcWsQueueRef s" "webrtcWsRef (match_peer m s) = webrtcWsRef s"
  "goSockets (match_peer m s) = goSockets s" "webrtcSocketOpenRef (match_peer m s) = webrtcSocketOpenRef s"
  "browser (match_peer m s) = browser s" "peerIdRef (match_peer m s) = str_or_null (peer_id m)"
  by (simp_all add: match_peer_def clearTypingTimeout_v_def split: option.split)

lemma unavailable_keeps [simp]:
  "webrtcWsQueueRef (showVideoSignalingUnavailable n s) = webrtcWsQueueRef s"
  "webrtcWsRef (showVideoSignalingUnavailable n s) = webrtcWsRef s"
  "goSockets (showVideoSignalingUnavailable n s) = goSockets s"
  "browser (showVideoSignalingUnavailable n s) = browser s"
  "peerIdRef (showVideoSignalingUnavailable n s) = peerIdRef s"
  by (simp_all add: showVideoSignalingUnavailable_def Let_def)

lemma match_keeps_socket:
  assumes "video_enabled m \<noteq> Some False" and "webrtcWsRef s = Some g" and "\<not> webrtcSocketOpenRef s"
  shows "webrtcWsQueueRef (onMatch_v m s) = webrtcWsQueueRef s" and "webrtcWsRef (onMatch_v m s) = Some g"
    and "goSockets (onMatch_v m s) = goSockets s" and "go_sends (browser (onMatch_v m s)) = go_sends (browser s)"
    and "peerIdRef (onMatch_v m s) = str_or_null (peer_id m)"
  using assms by (simp_all add: onMatch_v_def match_signaling_def Let_def)

text \<open>
  What was queued for the previous peer is sent after the next match. A match closes the old
  connection and drops the early candidates, but not the queue of signals waiting for the socket to
  open: when it opens, all of them go out, still addressed to the session that has been left.
\<close>

theorem match_keeps_stale_queue:
  assumes "video_enabled m \<noteq> Some False" and "webrtcWsRef s = Some g" and "\<not> webrtcSocketOpenRef s"
    and "g \<in> fst ` set (goSockets s)" and "mtype m = MMatch"
  shows "let s' = run_events video_step [GoStateChange g OPEN, GoOpened g] (handleMessage_v m s)
     in go_sends (browser s') = go_sends (browser s) @ map (Pair g) (webrtcWsQueueRef s) \<and>
        peerIdRef (handleMessage_v m s) = str_or_null (peer_id m)"
proof -
  let ?u = "onMatch_v m s"
  have m: "handleMessage_v m s = ?u" using assms(5) by (simp add: handleMessage_v_def)
  note keep = match_keeps_socket [OF assms(1-3)]
  have "go_sends (browser (onGoOpen g (?u\<lparr>goState := f\<rparr>))) =
      go_sends (browser s) @ map (Pair g) (webrtcWsQueueRef s)" for f
    using opened_sends [of g "?u\<lparr>goState := f\<rparr>"] keep by simp
  then show ?thesis
    using keep assms(4) by (simp add: m Let_def)
qed

theorem match_keeps_stale_queue_witness:
  "let sig = \<lparr>sigType = SIce, from_session_id = ''s'', to_session_id = ''old'', sigData = JNull\<rparr>;
       s = (initial_video plain_env initial_health)\<lparr>webrtcWsRef := Some 1, goSockets := [(1, ''s'')], webrtcWsQueueRef := [sig]\<rparr>;
       m = decode_message (JObj [(''type'', JStr ''match''), (''peer_id'', JStr ''new'')]);
       s' = run_events video_step [GoStateChange 1 OPEN, GoOpened 1] (handleMessage_v m s)
   in go_sends (browser s') = [(1, sig)] \<and> peerIdRef (handleMessage_v m s) = Some ''new''"
proof -
  let ?sig = "\<lparr>sigType = SIce, from_session_id = ''s'', to_session_id = ''old'', sigData = JNull\<rparr>"
  let ?s = "(initial_video plain_env initial_health)\<lparr>webrtcWsRef := Some 1, goSockets := [(1, ''s'')], webrtcWsQueueRef := [?sig]\<rparr>"
  let ?m = "decode_message (JObj [(''type'', JStr ''match''), (''peer_id'', JStr ''new'')])"
  have "video_enabled ?m \<noteq> Some False" "webrtcWsRef ?s = Some 1" "\<not> webrtcSocketOpenRef ?s"
    "(1::nat) \<in> fst ` set (goSockets ?s)" "mtype ?m = MMatch"
    by (simp_all add: decode_message_def msg_types_def initial_video_def)
  note run = match_keeps_stale_queue [OF this]
  have "str_or_null (peer_id ?m) = Some ''new''" "go_sends (browser ?s) = []" "webrtcWsQueueRef ?s = [?sig]"
    by (simp_all add: decode_message_def initial_video_def)
  with run show ?thesis by (simp only: Let_def append_Nil list.map)
qed

end
