(* ===== verification/Admin_Utils.thy ===== *)
theory Admin_Utils
  imports Pairline_Prelude Complex_Main
begin

text \<open>
  The helpers of the admin panel (\<^verbatim>\<open>admin/src/components/admin-panel/utils.ts\<close> and the
  functions above the component in \<^verbatim>\<open>AdminPanelRuntime.tsx\<close>): the remembered session, labels
  and sizes, and the parsing of bot forms and scripts.

  \<^item> Web storage is two finite maps. A JavaScript number is a \<open>number\<close>: a rational, an infinity
    or NaN. The rounding of doubles is not modelled; the values here are counts, sizes and decimal
    input, whose divisions by powers of two are exact.
  \<^item> A byte size is a number or missing.
\<close>

section \<open>Web storage\<close>

record storage =
  localStorage :: "string \<rightharpoonup> string"
  sessionStorage :: "string \<rightharpoonup> string"

definition buildAdminHeaders :: "bool \<Rightarrow> storage \<Rightarrow> (string \<times> string) list" where
  "buildAdminHeaders includeJSON st =
     (let csrfToken = (case sessionStorage st ''admin_csrf'' of None \<Rightarrow> [] | Some t \<Rightarrow> t)
      in (if includeJSON then [(''Content-Type'', ''application/json'')] else []) @
         (if csrfToken \<noteq> [] then [(''X-CSRF-Token'', csrfToken)] else []))"

text \<open>The arguments come from a response of the server; \<^verbatim>\<open>setItem\<close> stores their text.\<close>

definition persistAdminSession :: "js \<Rightarrow> js \<Rightarrow> js \<Rightarrow> storage \<Rightarrow> storage" where
  "persistAdminSession username role csrfToken st =
     (let l = (localStorage st)(''admin_auth'' \<mapsto> ''true'', ''admin_role'' \<mapsto> js_string role);
          l = (if js_truthy username then l(''admin_username'' \<mapsto> js_string username) else l)
      in st\<lparr>localStorage := l,
            sessionStorage := (if js_truthy csrfToken
              then (sessionStorage st)(''admin_csrf'' \<mapsto> js_string csrfToken) else sessionStorage st)\<rparr>)"

definition clearAdminSession :: "storage \<Rightarrow> storage" where
  "clearAdminSession st =
     st\<lparr>localStorage := (localStorage st)
          (''admin_auth'' := None, ''admin_role'' := None, ''admin_username'' := None),
        sessionStorage := (sessionStorage st)(''admin_csrf'' := None)\<rparr>"

section \<open>Labels\<close>

datatype tone = Emerald | Rose | Amber | Cyan | Muted

text \<open>The class strings are named by their colour.\<close>

definition reportStatusClass :: "string \<Rightarrow> tone" where
  "reportStatusClass st =
     (if st = ''approved'' then Emerald else if st = ''rejected'' then Rose else Amber)"

definition autoModerationStateClass :: "string option \<Rightarrow> tone" where
  "autoModerationStateClass st =
     (if st = Some ''completed'' then Emerald
      else if st = Some ''processing'' then Cyan
      else if st = Some ''failed'' then Rose else Amber)"

definition autoModerationDecisionClass :: "string option \<Rightarrow> tone" where
  "autoModerationDecisionClass d =
     (if d = Some ''approved'' then Emerald
      else if d = Some ''rejected'' then Rose
      else if d = Some ''escalate'' then Amber else Muted)"

text \<open>\<^verbatim>\<open>replace(/[_-]+/g, ' ')\<close>: every run of underscores and hyphens becomes one space.\<close>

definition is_sep :: "char \<Rightarrow> bool" where
  "is_sep c \<longleftrightarrow> c = CHR ''_'' \<or> c = CHR ''-''"

fun despace :: "bool \<Rightarrow> string \<Rightarrow> string" where
  "despace inside [] = []"
| "despace inside (c # s) =
     (if is_sep c then (if inside then despace True s else CHR '' '' # despace True s)
      else c # despace False s)"

definition humanizeAutoModerationState :: "string option \<Rightarrow> string" where
  "humanizeAutoModerationState st =
     (if \<not> str_truthy st then ''Pending''
      else if st = Some ''processing'' then ''Processing''
      else if st = Some ''completed'' then ''Completed''
      else if st = Some ''failed'' then ''Failed''
      else despace False (the st))"

definition humanizeAutoModerationDecision :: "string option \<Rightarrow> string" where
  "humanizeAutoModerationDecision d =
     (if \<not> str_truthy d then ''No Decision''
      else if d = Some ''approved'' then ''Auto Approved''
      else if d = Some ''rejected'' then ''Auto Rejected''
      else if d = Some ''escalate'' then ''Escalated''
      else despace False (the d))"

definition healthStatusClass :: "string option \<Rightarrow> tone" where
  "healthStatusClass st =
     (if st = Some ''ok'' then Emerald else if st = Some ''degraded'' then Amber else Rose)"

section \<open>Sizes\<close>

fun decimal :: "nat \<Rightarrow> string" where
  "decimal n = (if n < 10 then [char_of (48 + n)] else decimal (n div 10) @ [char_of (48 + n mod 10)])"

declare decimal.simps [simp del]

definition size_units :: "string list" where
  "size_units = [''B'', ''KB'', ''MB'', ''GB'', ''TB'']"

text \<open>\<^verbatim>\<open>toFixed(0)\<close> and \<^verbatim>\<open>toFixed(1)\<close>: the nearest, ties upwards.\<close>

definition fixed0 :: "rat \<Rightarrow> string" where
  "fixed0 x = decimal (nat \<lfloor>x + 1 / 2\<rfloor>)"

definition fixed1 :: "rat \<Rightarrow> string" where
  "fixed1 x =
     (let tenths = nat \<lfloor>10 * x + 1 / 2\<rfloor> in decimal (tenths div 10) @ ''.'' @ decimal (tenths mod 10))"

text \<open>
  The loop divides by 1024 while it can, which is exact in doubles too. The first argument is the
  number of units left.
\<close>

fun scale_loop :: "nat \<Rightarrow> rat \<Rightarrow> nat \<Rightarrow> rat \<times> nat" where
  "scale_loop 0 x i = (x, i)"
| "scale_loop (Suc left) x i = (if x \<ge> 1024 then scale_loop left (x / 1024) (Suc i) else (x, i))"

datatype number = NaN | Infinite bool | Fin rat

definition formatBytes :: "number option \<Rightarrow> string" where
  "formatBytes sz =
     (case sz of
        Some (Fin bytes) \<Rightarrow>
          if bytes \<le> 0 then ''0 B''
          else
            let (x, i) = scale_loop (length size_units - 1) bytes 0
            in (if x \<ge> 10 \<or> i = 0 then fixed0 x else fixed1 x) @ '' '' @ size_units ! i
      | _ \<Rightarrow> ''0 B'')"

section \<open>Numbers typed by the user\<close>

definition is_digit :: "char \<Rightarrow> bool" where
  "is_digit c \<longleftrightarrow> (of_char c :: nat) \<in> {48..57}"

definition digits_value :: "string \<Rightarrow> nat" where
  "digits_value ds = fold (\<lambda>c n. 10 * n + (of_char c - 48)) ds 0"

text \<open>
  \<^verbatim>\<open>Number(text)\<close> for decimal literals and \<^verbatim>\<open>Infinity\<close>, with surrounding white space. The
  prefixed literals (\<^verbatim>\<open>0x\<close>, \<^verbatim>\<open>0o\<close>, \<^verbatim>\<open>0b\<close>) are read as NaN.
\<close>

definition split_sign :: "string \<Rightarrow> bool \<times> string" where
  "split_sign s =
     (case s of
        [] \<Rightarrow> (False, s)
      | c # rest \<Rightarrow> if c = CHR ''-'' then (True, rest) else if c = CHR ''+'' then (False, rest) else (False, s))"

definition scale10 :: "rat \<Rightarrow> bool \<Rightarrow> nat \<Rightarrow> rat" where
  "scale10 x down k = (if down then x / 10 ^ k else x * 10 ^ k)"

definition exponent_of :: "string \<Rightarrow> (bool \<times> nat) option" where
  "exponent_of s =
     (case s of
        [] \<Rightarrow> Some (False, 0)
      | c # rest \<Rightarrow>
          if c = CHR ''e'' \<or> c = CHR ''E''
          then let (down, ds) = split_sign rest
            in if ds \<noteq> [] \<and> list_all is_digit ds then Some (down, digits_value ds) else None
          else None)"

definition unsigned_number :: "string \<Rightarrow> number" where
  "unsigned_number s =
     (if s = ''Infinity'' then Infinite False
      else
        let int_part = takeWhile is_digit s; rest = dropWhile is_digit s;
            dotted = (case rest of c # r \<Rightarrow> c = CHR ''.'' | [] \<Rightarrow> False);
            frac = (if dotted then takeWhile is_digit (tl rest) else []);
            rest = (if dotted then dropWhile is_digit (tl rest) else rest)
        in if int_part = [] \<and> frac = [] then NaN
           else case exponent_of rest of
             None \<Rightarrow> NaN
           | Some (down, k) \<Rightarrow>
               Fin (scale10 (of_nat (digits_value int_part) +
                             of_nat (digits_value frac) / 10 ^ length frac) down k))"

definition js_number :: "string \<Rightarrow> number" where
  "js_number txt =
     (let s = js_trim txt; (negative, body) = split_sign s
      in if s = [] then Fin 0
         else case unsigned_number body of
           Fin x \<Rightarrow> Fin (if negative then - x else x)
         | Infinite b \<Rightarrow> Infinite negative
         | NaN \<Rightarrow> NaN)"

text \<open>A latency is printed as it is when it is a positive finite number.\<close>

definition formatLatency :: "js \<Rightarrow> string" where
  "formatLatency ms =
     (case ms of
        JNum t \<Rightarrow> (case js_number t of Fin q \<Rightarrow> if q \<le> 0 then ''0ms'' else t @ ''ms'' | _ \<Rightarrow> ''0ms'')
      | _ \<Rightarrow> ''0ms'')"

text \<open>
  The expiry of a temporary ban. \<^verbatim>\<open>setHours\<close> and \<^verbatim>\<open>setDate\<close> truncate their argument to
  an integer. The clock and the calendar of the browser are the argument \<open>later\<close>: the timestamp that
  many whole hours, or days, from now, \<open>None\<close> when the date is out of range and
  \<^verbatim>\<open>toISOString\<close> throws.
\<close>

datatype expiry = NoExpiry | ExpiryThrows | ExpiresAt string

definition buildExpiryDate :: "(nat \<Rightarrow> string \<Rightarrow> string option) \<Rightarrow> string \<Rightarrow> string \<Rightarrow> expiry" where
  "buildExpiryDate later durationValue durationUnit =
     (case js_number durationValue of
        Fin amount \<Rightarrow>
          if amount \<le> 0 then NoExpiry
          else (case later (nat (floor amount)) durationUnit of
                  None \<Rightarrow> ExpiryThrows | Some t \<Rightarrow> ExpiresAt t)
      | _ \<Rightarrow> NoExpiry)"

section \<open>Reading bot scripts\<close>

text \<open>Property reads of a record: a missing field is \<open>undefined\<close>.\<close>

definition parseConversationLines :: "string \<Rightarrow> string list" where
  "parseConversationLines value =
     filter (\<lambda>l. l \<noteq> []) (map js_trim (js_split (char_of (10::nat)) value))"

definition strings_of :: "js list \<Rightarrow> string list" where
  "strings_of vs = concat (map (\<lambda>v. case v of JStr t \<Rightarrow> [t] | _ \<Rightarrow> []) vs)"

definition readScriptLines :: "js \<Rightarrow> string \<Rightarrow> string list" where
  "readScriptLines script key = (case js_get script key of JArr vs \<Rightarrow> strings_of vs | _ \<Rightarrow> [])"

definition readScriptString :: "js \<Rightarrow> string \<Rightarrow> string" where
  "readScriptString script key = (case js_get script key of JStr t \<Rightarrow> t | _ \<Rightarrow> [])"

definition readScriptTriggers :: "js \<Rightarrow> (string \<times> string) list" where
  "readScriptTriggers script =
     (case js_get script ''triggers'' of
        JArr vs \<Rightarrow>
          concat (map (\<lambda>v. case (js_get v ''regex'', js_get v ''reply'') of
              (JStr r, JStr t) \<Rightarrow> [(r, t)] | _ \<Rightarrow> []) vs)
      | _ \<Rightarrow> [])"

text \<open>The presets of the runtime settings: value, label, the two priorities.\<close>

definition botPriorityPresets :: "(string \<times> string \<times> nat \<times> nat) list" where
  "botPriorityPresets =
     [(''balanced'', ''Balanced'', 100, 100), (''prefer_engagement'', ''Prefer Engagement'', 200, 100),
      (''strong_engagement'', ''Strong Engagement'', 400, 100), (''prefer_ai'', ''Prefer AI'', 100, 200),
      (''strong_ai'', ''Strong AI'', 100, 400)]"

text \<open>
  The preset whose priorities are the given ones; the two tests stand for \<^verbatim>\<open>===\<close> with each
  priority. Absent settings read as 100.
\<close>

definition preset_mode :: "(nat \<Rightarrow> bool) \<Rightarrow> (nat \<Rightarrow> bool) \<Rightarrow> string" where
  "preset_mode engagement ai =
     (case filter (\<lambda>(v, l, e, a). engagement e \<and> ai a) botPriorityPresets of
        [] \<Rightarrow> ''custom'' | preset # _ \<Rightarrow> fst preset)"

definition priority_is :: "js \<Rightarrow> nat \<Rightarrow> bool" where
  "priority_is v n \<longleftrightarrow>
     (case v of JNum t \<Rightarrow> js_number t = Fin (of_nat n) | _ \<Rightarrow> js_nullish v \<and> n = 100)"

definition getBotSelectionMode :: "js \<Rightarrow> string" where
  "getBotSelectionMode settings =
     preset_mode (priority_is (js_get settings ''engagement_priority''))
       (priority_is (js_get settings ''ai_priority''))"

section \<open>Lemmas\<close>

lemma despace_no_sep: "list_all (\<lambda>c. \<not> is_sep c) (despace inside s)"
proof (induction inside s rule: despace.induct)
  case (2 inside c s)
  moreover have "\<not> is_sep (CHR '' '')" by (simp add: is_sep_def)
  ultimately show ?case by simp
qed simp

lemma scale_loop_spec:
  assumes "scale_loop left x i = (y, j)" and "0 < x"
  shows "i \<le> j \<and> j \<le> i + left \<and> x = y * 1024 ^ (j - i) \<and> (i < j \<longrightarrow> 1 \<le> y) \<and> (j < i + left \<longrightarrow> y < 1024)"
  using assms
proof (induction left x i rule: scale_loop.induct)
  case (2 left x i)
  show ?case
  proof (cases "x \<ge> 1024")
    case True
    with 2(2) have "scale_loop left (x / 1024) (Suc i) = (y, j)" by simp
    from 2(1) [OF True this] 2(3)
    have IH: "Suc i \<le> j" "j \<le> Suc i + left" "x / 1024 = y * 1024 ^ (j - Suc i)"
      "Suc i < j \<longrightarrow> 1 \<le> y" "j < Suc i + left \<longrightarrow> y < 1024" by auto
    from IH(1) have "(1024::rat) ^ (j - i) = 1024 * 1024 ^ (j - Suc i)"
      by (metis Suc_diff_Suc Suc_le_lessD power_Suc)
    with IH(3) have "x = y * 1024 ^ (j - i)" by simp
    moreover have "1 \<le> y"
      using IH True by (cases "j = Suc i") auto
    ultimately show ?thesis using IH by auto
  next
    case False
    with 2(2) show ?thesis by auto
  qed
qed auto

text \<open>The memory figures of the services' health reports, whose details may be anything.\<close>

definition asRecord :: "js \<Rightarrow> js option" where
  "asRecord v = (case v of JObj fs \<Rightarrow> Some (JObj fs) | _ \<Rightarrow> None)"

definition asNumber :: "js \<Rightarrow> number option" where
  "asNumber v =
     (case v of
        JNum t \<Rightarrow> (case js_number t of Fin x \<Rightarrow> Some (Fin x) | _ \<Rightarrow> None)
      | JStr t \<Rightarrow> (case js_number t of Fin x \<Rightarrow> Some (Fin x) | _ \<Rightarrow> None)
      | _ \<Rightarrow> None)"

definition number_or_zero :: "number option \<Rightarrow> number" where
  "number_or_zero n = (case n of Some x \<Rightarrow> x | None \<Rightarrow> Fin 0)"

definition goMemorySummary :: "js \<Rightarrow> (string \<times> string \<times> number) option" where
  "goMemorySummary details =
     (case asRecord (js_get details ''memory'') of
        None \<Rightarrow> None
      | Some memory \<Rightarrow>
          Some (formatBytes (asNumber (js_get memory ''heap_alloc_bytes'')),
            formatBytes (asNumber (js_get memory ''sys_bytes'')),
            number_or_zero (asNumber (js_get memory ''goroutines''))))"

definition phoenixMemorySummary :: "js \<Rightarrow> (string \<times> string \<times> number) option" where
  "phoenixMemorySummary details =
     (case asRecord (js_get details ''memory'') of
        None \<Rightarrow> None
      | Some memory \<Rightarrow>
          Some (formatBytes (asNumber (js_get memory ''total_bytes'')),
            formatBytes (asNumber (js_get memory ''binary_bytes'')),
            number_or_zero (asNumber (js_get memory ''process_count''))))"

definition topRedisCommandStats :: "'a list option \<Rightarrow> 'a list" where
  "topRedisCommandStats command_stats = take 8 (case command_stats of None \<Rightarrow> [] | Some xs \<Rightarrow> xs)"

text \<open>Whatever the service sent, the figures are finite numbers.\<close>

lemma asNumber_finite: "\<exists>x. number_or_zero (asNumber v) = Fin x"
proof -
  have "\<exists>x. number_or_zero (case js_number t of Fin x \<Rightarrow> Some (Fin x) | _ \<Rightarrow> None) = Fin x" for t
    by (cases "js_number t") (simp_all add: number_or_zero_def)
  then show ?thesis by (cases v) (simp_all add: asNumber_def number_or_zero_def)
qed

lemma summary_numbers:
  "goMemorySummary details = Some (a, b, n) \<Longrightarrow> \<exists>x. n = Fin x"
  "phoenixMemorySummary details = Some (a, b, n) \<Longrightarrow> \<exists>x. n = Fin x"
  using asNumber_finite
  by (auto simp: goMemorySummary_def phoenixMemorySummary_def split: option.splits)

section \<open>Properties\<close>

text \<open>
  The unit of a size. For a positive number of bytes the unit chosen is the greatest one that is
  not larger than the size, capped at terabytes, and the number in front of it is that quotient,
  rounded to an integer from ten units on (and for bytes), to one decimal below.
\<close>

theorem formatBytes_unit:
  assumes "0 < bytes"
  shows "\<exists>k\<le>4. (0 < k \<longrightarrow> 1024 ^ k \<le> bytes) \<and> (k < 4 \<longrightarrow> bytes < 1024 ^ Suc k) \<and>
    formatBytes (Some (Fin bytes)) =
      (let x = bytes / 1024 ^ k in if x \<ge> 10 \<or> k = 0 then fixed0 x else fixed1 x) @ '' '' @ size_units ! k"
proof -
  obtain x k where xk: "scale_loop 4 bytes 0 = (x, k)" by fastforce
  from scale_loop_spec [OF this assms]
  have k: "k \<le> 4" "bytes = x * 1024 ^ k" "0 < k \<longrightarrow> 1 \<le> x" "k < 4 \<longrightarrow> x < 1024" by auto
  then have "x = bytes / 1024 ^ k" by simp
  moreover have "length size_units - 1 = 4" by (simp add: size_units_def)
  ultimately show ?thesis
    using assms xk k by (intro exI [of _ k]) (simp add: formatBytes_def)
qed

lemma decimal_1024: "decimal 1024 = ''1024''"
  by code_simp

theorem formatBytes_unit_witness: "formatBytes (Some (Fin 1048575)) = ''1024 KB''"
proof -
  obtain k where k: "k \<le> 4" "0 < k \<longrightarrow> 1024 ^ k \<le> (1048575::rat)" "k < 4 \<longrightarrow> (1048575::rat) < 1024 ^ Suc k"
    and eq: "formatBytes (Some (Fin 1048575)) =
      (let x = 1048575 / 1024 ^ k in if x \<ge> 10 \<or> k = 0 then fixed0 x else fixed1 x) @ '' '' @ size_units ! k"
    using formatBytes_unit [of 1048575] by auto
  have "k = 1"
  proof -
    have "k \<in> {0, 1, 2, 3, 4}" using k(1) by auto
    then show ?thesis using k(2,3) by auto
  qed
  moreover have "fixed0 (1048575 / 1024) = ''1024''"
  proof -
    have "\<lfloor>(1048575 / 1024 + 1 / 2 :: rat)\<rfloor> = 1024" by (simp add: floor_eq_iff)
    then show ?thesis by (simp add: fixed0_def decimal_1024)
  qed
  ultimately show ?thesis using eq by (simp add: size_units_def)
qed

text \<open>
  A duration below one hour, or one day, is accepted and has no effect: any positive amount
  smaller than one passes the check, is truncated to zero, and the ban expires the moment it is made.
\<close>

theorem fraction_expires_at_once:
  assumes "js_number durationValue = Fin amount" and "0 < amount" and "amount < 1"
    and "later 0 durationUnit = Some present"
  shows "buildExpiryDate later durationValue durationUnit = ExpiresAt present"
proof -
  have "floor amount = 0" using assms(2,3) by (simp add: floor_eq_iff)
  then show ?thesis using assms by (simp add: buildExpiryDate_def)
qed

theorem fraction_expires_at_once_witness:
  "buildExpiryDate (\<lambda>n u. Some (if n = 0 then ''now'' else ''later'')) ''0.5'' ''hours'' = ExpiresAt ''now''"
proof -
  have "js_number ''0.5'' = Fin (5 / 10)"
    by (simp add: js_number_def js_trim_def js_space_def split_sign_def unsigned_number_def is_digit_def
        digits_value_def exponent_of_def scale10_def)
  then show ?thesis
    by (rule fraction_expires_at_once) simp_all
qed

end
