(* ===== verification/Admin_State.thy ===== *)
theory Admin_State
  imports Admin_Utils
begin

text \<open>
  The state of the admin panel (\<^verbatim>\<open>admin/src/components/AdminPanelRuntime.tsx\<close>) and what is
  computed from it on every render.

  \<^item> A \<open>scope\<close> is what a closure of one render sees: the React state. An \<open>admin\<close> adds what is
    shared by all closures: web storage, calls in flight, the requests sent, alerts, navigations and
    the dependencies of the effects that last ran.
  \<^item> A handler that awaits keeps the scope it was called in: \<open>scope.truncate s\<close> at the call.
  \<^item> Values the server sends are \<open>js\<close>, because the code does not check them. A value that a
    text field holds is a string.
  \<^item> The build-time prefix \<^verbatim>\<open>VITE_API_URL\<close> is left out of the paths.
\<close>

section \<open>Forms\<close>

record ban_modal =
  modalOpen :: bool
  banSessionId :: string
  banIp :: string
  sourceReportId :: string
  banTarget :: string
  banReason :: string
  banMode :: string
  durationValue :: string
  durationUnit :: string
  clearManualInputsOnSubmit :: bool

definition closed_ban_modal :: ban_modal where
  "closed_ban_modal =
     \<lparr>modalOpen = False, banSessionId = [], banIp = [], sourceReportId = [], banTarget = ''session'',
      banReason = [], banMode = ''permanent'', durationValue = ''24'', durationUnit = ''hours'',
      clearManualInputsOnSubmit = False\<rparr>"

record bot_form =
  editingBotId :: "string option"
  botName :: string
  botSlug :: string
  botDescription :: string
  botType :: string
  botCount :: string
  botTrafficWeight :: string
  botOpeningMessages :: string
  botReplyMessages :: string
  botFallbackMessage :: string
  botClosingMessage :: string
  botSupportsText :: bool
  botSupportsVideo :: bool
  botMessageLimit :: number
  botSessionTtl :: number
  botIdleTimeout :: number
  botTriggers :: "(string \<times> string) list"
  botAIProvider :: string
  botAIApiUrl :: string
  botAIApiToken :: string
  botAIModel :: string
  botAISystemPrompt :: string
  botAITemperature :: string
  botAIMaxTokens :: string

definition defaultBotAISystemPrompt :: string where
  "defaultBotAISystemPrompt =
     ''You are a friendly anonymous chat partner. Keep replies short, natural, and safe for a general audience.''"

definition empty_bot_form :: bot_form where
  "empty_bot_form =
     \<lparr>editingBotId = None, botName = [], botSlug = [], botDescription = [], botType = ''engagement'',
      botCount = ''1'', botTrafficWeight = ''100'', botOpeningMessages = ''hey'',
      botReplyMessages = ''nice'' @ [char_of (10::nat)] @ '' tell me more'',
      botFallbackMessage = ''tell me more'', botClosingMessage = ''gotta go'', botSupportsText = True,
      botSupportsVideo = False, botMessageLimit = Fin 4, botSessionTtl = Fin 300,
      botIdleTimeout = Fin 45, botTriggers = [], botAIProvider = ''openai-compatible'',
      botAIApiUrl = [], botAIApiToken = [], botAIModel = [],
      botAISystemPrompt = defaultBotAISystemPrompt, botAITemperature = ''0.7'', botAIMaxTokens = ''300''\<rparr>"

record bot_draft =
  rollout_percent :: number
  max_concurrent_runs :: number
  draft_engagement_priority :: number
  draft_ai_priority :: number

text \<open>\<open>settings?.k ?? d\<close>, used as a number.\<close>

fun js_to_number :: "js \<Rightarrow> number" where
  "js_to_number (JNum t) = js_number t"
| "js_to_number (JStr t) = js_number t"
| "js_to_number (JBool b) = Fin (if b then 1 else 0)"
| "js_to_number JNull = Fin 0"
| "js_to_number v = NaN"

definition setting_or :: "js \<Rightarrow> string \<Rightarrow> rat \<Rightarrow> number" where
  "setting_or settings k d =
     (let v = js_get settings k in if js_nullish v then Fin d else js_to_number v)"

definition buildBotRuntimeSettingsDraft :: "js \<Rightarrow> bot_draft" where
  "buildBotRuntimeSettingsDraft settings =
     \<lparr>rollout_percent = setting_or settings ''rollout_percent'' 0,
      max_concurrent_runs = setting_or settings ''max_concurrent_runs'' 100,
      draft_engagement_priority = setting_or settings ''engagement_priority'' 100,
      draft_ai_priority = setting_or settings ''ai_priority'' 100\<rparr>"

section \<open>React state\<close>

datatype tab = Reports_tab | Bans_tab | Words_tab | Bots_tab | Accounts_tab | Infra_tab

record scope =
  isAuthenticated :: bool
  authReady :: bool
  role :: js
  currentAdminUsername :: js
  username :: string
  password :: string
  reports :: "js list"
  serverReportMetrics :: js
  selectedReports :: "js list"
  reportStatusFilter :: string
  reportReviewSourceFilter :: string
  reportLimit :: string
  bans :: js
  serverBanMetrics :: js
  banFilter :: string
  banLimit :: string
  banSearch :: string
  deferredBanSearch :: string
  manualBanSessionId :: string
  manualBanIP :: string
  manualBanReason :: string
  banModal :: ban_modal
  submittingBan :: bool
  bannedWords :: js
  bannedWordTotal :: nat
  bannedWordsEnabled :: bool
  updatingBannedWordsEnabled :: bool
  bannedWordInput :: string
  bannedWordSearch :: string
  deferredBannedWordSearch :: string
  bannedWordLimit :: string
  autoModerationSettings :: js
  updatingAutoModerationEnabled :: bool
  isSeedingReports :: bool
  botSettings :: js
  botDefinitions :: js
  isBotSettingsModalOpen :: bool
  botSettingsDraft :: bot_draft
  isBotModalOpen :: bool
  botForm :: bot_form
  accounts :: js
  accountTotal :: nat
  accountUsername :: string
  accountPassword :: string
  accountRole :: string
  accountSearch :: string
  deferredAccountSearch :: string
  accountLimit :: string
  accountPage :: nat
  submittingAccount :: bool
  infraHealth :: js
  isRedisModalOpen :: bool
  currentTab :: tab
  expandedReport :: js
  viewingDescription :: js
  isUserMenuOpen :: bool
  isMobileMenuOpen :: bool
  showLoginPassword :: bool
  showCreateAccountPassword :: bool

definition initial_scope :: scope where
  "initial_scope =
     \<lparr>isAuthenticated = False, authReady = False, role = JNull, currentAdminUsername = JStr [],
      username = [], password = [], reports = [],
      serverReportMetrics = JObj [(''pending'', JNum ''0''), (''approved'', JNum ''0''), (''rejected'', JNum ''0'')],
      selectedReports = [], reportStatusFilter = ''pending'', reportReviewSourceFilter = ''all'',
      reportLimit = ''10'', bans = JArr [],
      serverBanMetrics = JObj [(''active'', JNum ''0''), (''inactive'', JNum ''0''), (''total'', JNum ''0'')],
      banFilter = ''active'', banLimit = ''10'', banSearch = [], deferredBanSearch = [],
      manualBanSessionId = [], manualBanIP = [], manualBanReason = [], banModal = closed_ban_modal,
      submittingBan = False, bannedWords = JArr [], bannedWordTotal = 0, bannedWordsEnabled = True,
      updatingBannedWordsEnabled = False, bannedWordInput = [], bannedWordSearch = [],
      deferredBannedWordSearch = [], bannedWordLimit = ''25'', autoModerationSettings = JNull,
      updatingAutoModerationEnabled = False, isSeedingReports = False, botSettings = JNull,
      botDefinitions = JArr [], isBotSettingsModalOpen = False,
      botSettingsDraft = buildBotRuntimeSettingsDraft JNull, isBotModalOpen = False,
      botForm = empty_bot_form, accounts = JArr [], accountTotal = 0, accountUsername = [],
      accountPassword = [], accountRole = ''moderator'', accountSearch = [], deferredAccountSearch = [],
      accountLimit = ''25'', accountPage = 1, submittingAccount = False, infraHealth = JNull,
      isRedisModalOpen = False, currentTab = Reports_tab, expandedReport = JNull,
      viewingDescription = JNull, isUserMenuOpen = False, isMobileMenuOpen = False,
      showLoginPassword = False, showCreateAccountPassword = False\<rparr>"

section \<open>Permissions\<close>

definition has_role :: "string list \<Rightarrow> js \<Rightarrow> bool" where
  "has_role names r \<longleftrightarrow> r \<in> JStr ` set names"

definition canCreateBans :: "js \<Rightarrow> bool" where
  "canCreateBans r = has_role [''moderator'', ''admin'', ''root''] r"

definition canManageBans :: "js \<Rightarrow> bool" where
  "canManageBans r = has_role [''admin'', ''root''] r"

definition canManageBannedWords :: "js \<Rightarrow> bool" where
  "canManageBannedWords r = has_role [''moderator'', ''admin'', ''root''] r"

definition canManageAutoModeration :: "js \<Rightarrow> bool" where
  "canManageAutoModeration r = has_role [''moderator'', ''admin'', ''root''] r"

definition canViewBots :: "js \<Rightarrow> bool" where
  "canViewBots r = has_role [''moderator'', ''admin'', ''root''] r"

definition canManageBots :: "js \<Rightarrow> bool" where
  "canManageBots r = has_role [''admin'', ''root''] r"

definition canManageAccounts :: "js \<Rightarrow> bool" where
  "canManageAccounts r = has_role [''admin'', ''root''] r"

definition canViewInfraHealth :: "js \<Rightarrow> bool" where
  "canViewInfraHealth r = has_role [''root''] r"

section \<open>Reports shown\<close>

definition is_pending :: "js \<Rightarrow> bool" where
  "is_pending report \<longleftrightarrow> js_get report ''status'' = JStr ''pending''"

definition auto_reviewed :: "js \<Rightarrow> bool" where
  "auto_reviewed report \<longleftrightarrow> js_get report ''reviewed_by_username'' = JStr ''auto-moderation''"

definition human_reviewed :: "js \<Rightarrow> bool" where
  "human_reviewed report \<longleftrightarrow>
     \<not> is_pending report \<and> js_truthy (js_get report ''reviewed_by_username'') \<and> \<not> auto_reviewed report"

definition visibleReports :: "('a) scope_scheme \<Rightarrow> js list" where
  "visibleReports s =
     filter (\<lambda>report.
       if reportReviewSourceFilter s = ''awaitingHuman'' then is_pending report
       else if reportReviewSourceFilter s = ''autoReviewed'' then auto_reviewed report
       else if reportReviewSourceFilter s = ''humanReviewed'' then human_reviewed report
       else True) (reports s)"

definition selectableVisibleReports :: "('a) scope_scheme \<Rightarrow> js list" where
  "selectableVisibleReports s = filter is_pending (visibleReports s)"

abbreviation report_id :: "js \<Rightarrow> js" where
  "report_id report \<equiv> js_get report ''id''"

definition selectedPendingReportIds :: "('a) scope_scheme \<Rightarrow> js list" where
  "selectedPendingReportIds s =
     map report_id (filter (\<lambda>r. report_id r \<in> set (selectedReports s)) (selectableVisibleReports s))"

definition allVisibleReportsSelected :: "('a) scope_scheme \<Rightarrow> bool" where
  "allVisibleReportsSelected s \<longleftrightarrow>
     selectableVisibleReports s \<noteq> [] \<and>
     list_all (\<lambda>r. report_id r \<in> set (selectedReports s)) (selectableVisibleReports s)"

text \<open>The counters beside the queue: auto reviewed, human reviewed, awaiting a human.\<close>

definition review_counts :: "('a) scope_scheme \<Rightarrow> nat \<times> nat \<times> nat" where
  "review_counts s =
     (length (filter auto_reviewed (reports s)), length (filter human_reviewed (reports s)),
      length (filter is_pending (reports s)))"

text \<open>A JavaScript set keeps its elements in the order of insertion.\<close>

definition set_add :: "'a \<Rightarrow> 'a list \<Rightarrow> 'a list" where
  "set_add x xs = (if x \<in> set xs then xs else xs @ [x])"

section \<open>Pages of accounts\<close>

text \<open>The limit is one of 10, 25, 50 and all; \<open>Number\<close> reads the first three.\<close>

definition accountPageSize :: "('a) scope_scheme \<Rightarrow> nat" where
  "accountPageSize s =
     (if accountLimit s = ''all''
      then max (max (accountTotal s) (case accounts s of JArr xs \<Rightarrow> length xs | _ \<Rightarrow> 0)) 1
      else (case js_number (accountLimit s) of Fin q \<Rightarrow> nat (floor q) | _ \<Rightarrow> 0))"

definition accountTotalPages :: "('a) scope_scheme \<Rightarrow> nat" where
  "accountTotalPages s =
     max 1 ((accountTotal s + accountPageSize s - 1) div accountPageSize s)"

section \<open>Calls in flight\<close>

record ban_request =
  reqReason :: string
  reqReportId :: "string option"
  reqSessionId :: "string option"
  reqIp :: "string option"
  reqExpiry :: "string option"

record bot_payload =
  payloadName :: string
  payloadSlug :: string
  payloadType :: string
  payloadDescription :: string
  payloadModes :: "string list"
  payloadCount :: number
  payloadWeight :: number
  payloadMessageLimit :: number
  payloadTtl :: number
  payloadIdle :: number
  payloadScript :: "(string list \<times> string list \<times> string \<times> string \<times> (string \<times> string) list) option"
  payloadAI :: "(bool \<times> string \<times> string \<times> string \<times> string \<times> string \<times> number \<times> number) option"

datatype setting = Flag bool | Quantity number

text \<open>The object a handler passes to \<^verbatim>\<open>JSON.stringify\<close> for the body.\<close>

datatype payload =
    StatusBody string
  | BanBody ban_request
  | WordBody string
  | EnabledBody bool
  | AccountBody string string string
  | SettingsBody "(string \<times> setting) list"
  | BotBody bot_payload
  | CredentialsBody string string

record request =
  verb :: string
  path :: string
  body :: "payload option"

text \<open>One constructor per handler that awaits a request, with the arguments its continuation needs.\<close>

datatype op =
    FetchReports | FetchBans | FetchBannedWords | FetchBannedWordsSettings
  | FetchAutoModerationSettings | FetchAccounts | FetchBotSettings | FetchBotDefinitions
  | FetchInfraHealth | UpdateReportStatus | CreateBan | CreateBannedWord | DeleteBannedWord
  | UpdateBannedWordsEnabled | UpdateAutoModerationEnabled | SeedTestReports | Unban | CreateAccount
  | DeleteAccount | UpdateBotSettings bool | CreateBotDefinition | UpdateBotDefinition
  | SetBotActiveState | DeleteBotDefinition | Login | Logout | Bootstrap

text \<open>
  Where a call is suspended: at its first request, at the refresh request and its body after a 401,
  at the repeated request, at the body of a good response, or at the body of a failed one.
\<close>

datatype stage = Requested | Refreshing | RefreshBody | Retried | OkBody | ErrorBody

record call =
  callOp :: op
  callRequest :: request
  callScope :: scope
  callStage :: stage

record sent_request =
  sentBy :: nat
  sentStage :: stage
  sentRequest :: request
  sentHeaders :: "(string \<times> string) list"

record admin = scope +
  store :: storage
  calls :: "nat \<rightharpoonup> call"
  nextCall :: nat
  sentLog :: "sent_request list"
  alerts :: "string list"
  navigations :: "string list"
  effectDeps :: "js list list"

abbreviation scope_of :: "admin \<Rightarrow> scope" where
  "scope_of s \<equiv> scope.truncate s"

definition initial_admin :: "storage \<Rightarrow> admin" where
  "initial_admin st =
     scope.extend initial_scope
       \<lparr>store = st, calls = Map.empty, nextCall = 0, sentLog = [], alerts = [], navigations = [],
        effectDeps = []\<rparr>"

record response =
  status :: nat
  csrf_header :: "string option"

definition response_ok :: "response \<Rightarrow> bool" where
  "response_ok r \<longleftrightarrow> 200 \<le> status r \<and> status r \<le> 299"

end
