(* ===== verification/Admin_Actions.thy ===== *)
theory Admin_Actions
  imports Admin_State
begin

text \<open>
  The handlers of the admin panel. A handler that awaits is split: the definition with its name
  checks the guards and issues the request, the one ending in \<open>_continue\<close> is what it does with a good
  response (with its parsed body \<open>data\<close> where it reads one). \<open>sc\<close> is the scope captured at the
  call, \<open>s\<close> the state when the code runs. An exception after the first state change (a body of the
  wrong shape) ends the handler where it is thrown; such errors are only logged.
\<close>

record panel_env =
  loginRoute :: string
  json_parse :: "string \<Rightarrow> js option"

section \<open>Requests\<close>

definition log_request :: "nat \<Rightarrow> stage \<Rightarrow> request \<Rightarrow> (string \<times> string) list \<Rightarrow> admin \<Rightarrow> admin" where
  "log_request n stg req headers s =
     s\<lparr>sentLog := sentLog s @
        [\<lparr>sentBy = n, sentStage = stg, sentRequest = req, sentHeaders = headers\<rparr>]\<rparr>"

definition start_call :: "op \<Rightarrow> request \<Rightarrow> (string \<times> string) list \<Rightarrow> stage \<Rightarrow> scope \<Rightarrow> admin \<Rightarrow> admin" where
  "start_call f req headers stg sc s =
     (let s = log_request (nextCall s) stg req headers s
      in s\<lparr>calls := (calls s)(nextCall s \<mapsto>
             \<lparr>callOp = f, callRequest = req, callScope = sc, callStage = stg\<rparr>),
           nextCall := Suc (nextCall s)\<rparr>)"

text \<open>\<^verbatim>\<open>{ ...buildAdminHeaders(Boolean(init.body)) }\<close>; no caller passes headers of its own.\<close>

definition admin_headers :: "request \<Rightarrow> admin \<Rightarrow> (string \<times> string) list" where
  "admin_headers req s = buildAdminHeaders (body req \<noteq> None) (store s)"

definition adminFetch :: "op \<Rightarrow> request \<Rightarrow> scope \<Rightarrow> admin \<Rightarrow> admin" where
  "adminFetch f req sc s = start_call f req (admin_headers req s) Requested sc s"

definition GET :: "string \<Rightarrow> request" where
  "GET p = \<lparr>verb = ''GET'', path = p, body = None\<rparr>"

definition show_alert :: "string \<Rightarrow> admin \<Rightarrow> admin" where
  "show_alert m s = s\<lparr>alerts := alerts s @ [m]\<rparr>"

definition login :: "scope \<Rightarrow> admin \<Rightarrow> admin" where
  "login sc s =
     start_call Login
       \<lparr>verb = ''POST'', path = ''/api/v1/admin/login'',
        body = Some (CredentialsBody (js_trim (username sc)) (js_trim (password sc)))\<rparr>
       [(''Content-Type'', ''application/json'')] Requested sc s"

definition logout :: "scope \<Rightarrow> admin \<Rightarrow> admin" where
  "logout sc s =
     start_call Logout \<lparr>verb = ''POST'', path = ''/api/v1/admin/logout'', body = None\<rparr>
       (buildAdminHeaders False (store s)) Requested sc s"

definition logout_continue :: "panel_env \<Rightarrow> admin \<Rightarrow> admin" where
  "logout_continue c s =
     s\<lparr>isAuthenticated := False, role := JNull, currentAdminUsername := JStr [],
        store := clearAdminSession (store s), reports := [], bans := JArr [], bannedWords := JArr [],
        bannedWordsEnabled := True, updatingBannedWordsEnabled := False,
        autoModerationSettings := JNull, updatingAutoModerationEnabled := False, accounts := JArr [],
        infraHealth := JNull, isRedisModalOpen := False, selectedReports := [],
        navigations := navigations s @ [loginRoute c]\<rparr>"

section \<open>Fetching\<close>

definition js_or_0 :: "js \<Rightarrow> string \<Rightarrow> js" where
  "js_or_0 v k = js_or (js_get v k) (JNum ''0'')"

text \<open>\<open>Number(v || 0)\<close> for a count.\<close>

definition count_of :: "js \<Rightarrow> nat" where
  "count_of v = (case js_to_number (js_or v (JNum ''0'')) of Fin q \<Rightarrow> nat (floor q) | _ \<Rightarrow> 0)"

definition optional_q :: "string \<Rightarrow> (string \<times> string) list" where
  "optional_q text = (if js_trim text \<noteq> [] then [(''q'', js_trim text)] else [])"

definition fetchReports :: "scope \<Rightarrow> admin \<Rightarrow> admin" where
  "fetchReports sc s =
     adminFetch FetchReports
       (GET (''/api/v1/admin/reports?status='' @ reportStatusFilter sc @ ''&limit='' @ reportLimit sc)) sc s"

definition fields_of :: "js \<Rightarrow> (string \<times> js) list" where
  "fields_of v = (case v of JObj fs \<Rightarrow> fs | _ \<Rightarrow> [])"

definition parsed_chat_log :: "panel_env \<Rightarrow> js \<Rightarrow> js" where
  "parsed_chat_log c r =
     (case js_get r ''chat_log'' of
        JStr t \<Rightarrow> (case json_parse c t of Some v \<Rightarrow> v | None \<Rightarrow> JArr [])
      | v \<Rightarrow> js_or v (JArr []))"

definition parsed_categories :: "panel_env \<Rightarrow> js \<Rightarrow> js" where
  "parsed_categories c r =
     (case js_get r ''auto_moderation_categories'' of
        JArr vs \<Rightarrow> JArr vs
      | JStr t \<Rightarrow>
          if t = [] then JArr []
          else (case json_parse c t of
                  Some (JArr vs) \<Rightarrow> JArr (map JStr (strings_of vs))
                | _ \<Rightarrow> JArr [])
      | _ \<Rightarrow> JArr [])"

definition normalize_report :: "panel_env \<Rightarrow> js \<Rightarrow> js" where
  "normalize_report c r =
     js_spread (fields_of r)
       (JObj [(''chat_log'', parsed_chat_log c r),
              (''auto_moderation_categories'', parsed_categories c r)])"

text \<open>The updater keeps a selected report only while it is pending in the new list.\<close>

definition prune_selection :: "js list \<Rightarrow> js list \<Rightarrow> js list" where
  "prune_selection normalized current =
     filter (\<lambda>i. i \<in> set (map report_id (filter is_pending normalized))) current"

definition fetchReports_continue :: "panel_env \<Rightarrow> js \<Rightarrow> admin \<Rightarrow> admin" where
  "fetchReports_continue c data s =
     (if js_nullish data then s
      else
        let m = js_get data ''metrics'';
            s = (if js_truthy m
                 then s\<lparr>serverReportMetrics := JObj [(''pending'', js_or_0 m ''pending''),
                        (''approved'', js_or_0 m ''approved''), (''rejected'', js_or_0 m ''rejected'')]\<rparr>
                 else s)
        in case js_or (js_get data ''reports'') (JArr []) of
             JArr rows \<Rightarrow>
               if list_ex js_nullish rows then s
               else let normalized = map (normalize_report c) rows
                 in s\<lparr>reports := normalized, selectedReports := prune_selection normalized (selectedReports s)\<rparr>
           | _ \<Rightarrow> s)"

definition fetchBans :: "scope \<Rightarrow> admin \<Rightarrow> admin" where
  "fetchBans sc s =
     adminFetch FetchBans
       (GET (''/api/v1/admin/bans?'' @ search_params
          ([(''status'', banFilter sc), (''limit'', banLimit sc)] @ optional_q (deferredBanSearch sc)))) sc s"

definition fetchBans_continue :: "js \<Rightarrow> admin \<Rightarrow> admin" where
  "fetchBans_continue data s =
     (if js_nullish data then s
      else
        let m = js_get data ''metrics'';
            s = (if js_truthy m
                 then s\<lparr>serverBanMetrics := JObj [(''active'', js_or_0 m ''active''),
                        (''inactive'', js_or_0 m ''inactive''), (''total'', js_or_0 m ''total'')]\<rparr>
                 else s)
        in s\<lparr>bans := js_or (js_get data ''bans'') (JArr [])\<rparr>)"

definition fetchBannedWords :: "scope \<Rightarrow> admin \<Rightarrow> admin" where
  "fetchBannedWords sc s =
     (if \<not> canManageBannedWords (role sc) then s
      else adminFetch FetchBannedWords
        (GET (''/api/v1/admin/banned-words?'' @ search_params
          ([(''limit'', bannedWordLimit sc)] @ optional_q (deferredBannedWordSearch sc)))) sc s)"

definition fetchBannedWords_continue :: "js \<Rightarrow> admin \<Rightarrow> admin" where
  "fetchBannedWords_continue data s =
     (if js_nullish data then s
      else s\<lparr>bannedWords := js_or (js_get data ''words'') (JArr []),
             bannedWordTotal := count_of (js_get data ''total'')\<rparr>)"

definition fetchBannedWordsSettings :: "scope \<Rightarrow> admin \<Rightarrow> admin" where
  "fetchBannedWordsSettings sc s =
     (if \<not> canManageBannedWords (role sc) then s
      else adminFetch FetchBannedWordsSettings (GET ''/api/v1/admin/banned-words/settings'') sc s)"

definition fetchBannedWordsSettings_continue :: "js \<Rightarrow> admin \<Rightarrow> admin" where
  "fetchBannedWordsSettings_continue data s =
     (if js_nullish data then s
      else s\<lparr>bannedWordsEnabled := (js_get data ''enabled'' \<noteq> JBool False)\<rparr>)"

definition fetchAutoModerationSettings :: "scope \<Rightarrow> admin \<Rightarrow> admin" where
  "fetchAutoModerationSettings sc s =
     (if \<not> canManageAutoModeration (role sc) then s
      else adminFetch FetchAutoModerationSettings (GET ''/api/v1/admin/auto-moderation/settings'') sc s)"

definition fetchAccounts :: "scope \<Rightarrow> admin \<Rightarrow> admin" where
  "fetchAccounts sc s =
     (if \<not> canManageAccounts (role sc) then s
      else adminFetch FetchAccounts
        (GET (''/api/v1/admin/accounts?'' @ search_params
          ([(''page'', decimal (accountPage sc)), (''limit'', accountLimit sc)]
           @ optional_q (deferredAccountSearch sc)))) sc s)"

definition fetchAccounts_continue :: "js \<Rightarrow> admin \<Rightarrow> admin" where
  "fetchAccounts_continue data s =
     (if js_nullish data then s
      else s\<lparr>accounts := js_or (js_get data ''accounts'') (JArr []),
             accountTotal := count_of (js_get data ''total'')\<rparr>)"

definition fetchBotSettings :: "scope \<Rightarrow> admin \<Rightarrow> admin" where
  "fetchBotSettings sc s =
     (if \<not> canViewBots (role sc) then s
      else adminFetch FetchBotSettings (GET ''/api/v1/admin/bots/settings'') sc s)"

definition fetchBotDefinitions :: "scope \<Rightarrow> admin \<Rightarrow> admin" where
  "fetchBotDefinitions sc s =
     (if \<not> canViewBots (role sc) then s
      else adminFetch FetchBotDefinitions (GET ''/api/v1/admin/bots?limit=100'') sc s)"

definition fetchBotDefinitions_continue :: "js \<Rightarrow> admin \<Rightarrow> admin" where
  "fetchBotDefinitions_continue data s =
     (if js_nullish data then s else s\<lparr>botDefinitions := js_or (js_get data ''bots'') (JArr [])\<rparr>)"

definition fetchInfraHealth :: "scope \<Rightarrow> admin \<Rightarrow> admin" where
  "fetchInfraHealth sc s =
     (if \<not> canViewInfraHealth (role sc) then s
      else adminFetch FetchInfraHealth (GET ''/api/v1/admin/infra/health'') sc s)"

section \<open>Reports\<close>

definition updateReportStatus :: "js \<Rightarrow> string \<Rightarrow> scope \<Rightarrow> admin \<Rightarrow> admin" where
  "updateReportStatus reportId newStatus sc s =
     adminFetch UpdateReportStatus
       \<lparr>verb = ''PUT'', path = ''/api/v1/admin/reports/'' @ js_string reportId,
        body = Some (StatusBody newStatus)\<rparr> sc s"

definition handleSingleReportAction :: "js \<Rightarrow> string \<Rightarrow> scope \<Rightarrow> admin \<Rightarrow> admin" where
  "handleSingleReportAction reportId newStatus sc s =
     updateReportStatus reportId newStatus sc
       (s\<lparr>selectedReports := filter (\<lambda>i. i \<noteq> reportId) (selectedReports s)\<rparr>)"

definition toggle_selection :: "js list \<Rightarrow> js list \<Rightarrow> js list" where
  "toggle_selection selectable current =
     (if selectable = [] then current
      else if list_all (\<lambda>r. report_id r \<in> set current) selectable
      then filter (\<lambda>i. i \<notin> set (map report_id selectable)) current
      else fold (\<lambda>r ids. set_add (report_id r) ids) selectable current)"

definition toggleSelectAllVisibleReports :: "scope \<Rightarrow> admin \<Rightarrow> admin" where
  "toggleSelectAllVisibleReports sc s =
     s\<lparr>selectedReports := toggle_selection (selectableVisibleReports sc) (selectedReports s)\<rparr>"

text \<open>The checkbox of a pending report, and the two buttons that decide the selected ones.\<close>

definition checkReport :: "js \<Rightarrow> bool \<Rightarrow> admin \<Rightarrow> admin" where
  "checkReport i checked s =
     s\<lparr>selectedReports :=
        (if checked then set_add i (selectedReports s) else filter (\<lambda>j. j \<noteq> i) (selectedReports s))\<rparr>"

definition bulkUpdate :: "string \<Rightarrow> scope \<Rightarrow> admin \<Rightarrow> admin" where
  "bulkUpdate newStatus sc s =
     (fold (\<lambda>i. updateReportStatus i newStatus sc) (selectedPendingReportIds sc) s)\<lparr>selectedReports := []\<rparr>"

definition seedTestReports :: "scope \<Rightarrow> admin \<Rightarrow> admin" where
  "seedTestReports sc s =
     (if isSeedingReports sc then s
      else adminFetch SeedTestReports
        \<lparr>verb = ''POST'', path = ''/api/v1/admin/test/seed-reports'', body = None\<rparr> sc
        (s\<lparr>isSeedingReports := True\<rparr>))"

definition seedTestReports_continue :: "js \<Rightarrow> scope \<Rightarrow> admin \<Rightarrow> admin" where
  "seedTestReports_continue data sc s =
     (let s = (if js_nullish data then show_alert ''Failed to seed test reports'' s
               else fetchReports sc (show_alert (''Successfully seeded '' @ js_string (js_get data ''count'')
                      @ '' test reports.'') s))
      in s\<lparr>isSeedingReports := False\<rparr>)"

section \<open>Bans\<close>

definition openBanModal :: "string \<Rightarrow> string \<Rightarrow> string \<Rightarrow> string option \<Rightarrow> string \<Rightarrow> bool \<Rightarrow> admin \<Rightarrow> admin" where
  "openBanModal sessionId ip reportId target reason clearManual s =
     s\<lparr>banModal :=
        \<lparr>modalOpen = True, banSessionId = sessionId, banIp = ip, sourceReportId = reportId,
         banTarget = (if str_truthy target then the target
                      else if sessionId \<noteq> [] then ''session'' else ''ip''),
         banReason = reason, banMode = ''permanent'', durationValue = ''24'', durationUnit = ''hours'',
         clearManualInputsOnSubmit = clearManual\<rparr>\<rparr>"

text \<open>The form above the list of bans.\<close>

definition applyManualBan :: "scope \<Rightarrow> admin \<Rightarrow> admin" where
  "applyManualBan sc s =
     (if manualBanSessionId sc = [] \<and> manualBanIP sc = []
      then show_alert ''Please enter either Session ID or IP Address'' s
      else if js_trim (manualBanReason sc) = [] then show_alert ''Please enter a reason'' s
      else openBanModal (manualBanSessionId sc) (manualBanIP sc) []
        (Some (if manualBanSessionId sc \<noteq> [] then ''session'' else ''ip'')) (manualBanReason sc) True s)"

definition closeBanModal :: "scope \<Rightarrow> admin \<Rightarrow> admin" where
  "closeBanModal sc s =
     (if submittingBan sc then s else s\<lparr>banModal := (banModal s)\<lparr>modalOpen := False\<rparr>\<rparr>)"

text \<open>The request of the dialog, or the alert it ends in; \<open>None\<close> when the date throws.\<close>

definition ban_request_of :: "(nat \<Rightarrow> string \<Rightarrow> string option) \<Rightarrow> ban_modal \<Rightarrow> (string + ban_request) option" where
  "ban_request_of later m =
     (let targetValue = (if banTarget m = ''session'' then banSessionId m else banIp m)
      in if targetValue = []
         then Some (Inl (''Missing '' @ (if banTarget m = ''session'' then ''session ID'' else ''IP address'') @ '' for ban''))
         else if js_trim (banReason m) = [] then Some (Inl ''Please enter a reason'')
         else
           let req = \<lparr>reqReason = js_trim (banReason m),
                 reqReportId = (if sourceReportId m \<noteq> [] then Some (sourceReportId m) else None),
                 reqSessionId = (if banTarget m = ''session'' then Some (js_trim (banSessionId m)) else None),
                 reqIp = (if banTarget m = ''session'' \<and> banIp m = [] then None else Some (js_trim (banIp m))),
                 reqExpiry = None\<rparr>
           in if banMode m = ''temporary''
              then (case buildExpiryDate later (durationValue m) (durationUnit m) of
                      NoExpiry \<Rightarrow> Some (Inl ''Please enter a valid duration'')
                    | ExpiryThrows \<Rightarrow> None
                    | ExpiresAt t \<Rightarrow> Some (Inr (req\<lparr>reqExpiry := Some t\<rparr>)))
              else Some (Inr req))"

text \<open>\<open>createBan\<close> without the permission returns false before any request.\<close>

definition createBan :: "ban_request \<Rightarrow> scope \<Rightarrow> admin \<Rightarrow> admin" where
  "createBan req sc s =
     (if \<not> canCreateBans (role sc) then s\<lparr>submittingBan := False\<rparr>
      else adminFetch CreateBan
        \<lparr>verb = ''POST'', path = ''/api/v1/admin/ban'', body = Some (BanBody req)\<rparr> sc s)"

definition submitBanModal :: "(nat \<Rightarrow> string \<Rightarrow> string option) \<Rightarrow> scope \<Rightarrow> admin \<Rightarrow> admin" where
  "submitBanModal later sc s =
     (case ban_request_of later (banModal sc) of
        None \<Rightarrow> s
      | Some (Inl m) \<Rightarrow> show_alert m s
      | Some (Inr req) \<Rightarrow> createBan req sc (s\<lparr>submittingBan := True\<rparr>))"

definition submitBanModal_continue :: "scope \<Rightarrow> admin \<Rightarrow> admin" where
  "submitBanModal_continue sc s =
     (let s = (fetchReports sc (fetchBans sc s))\<lparr>submittingBan := False\<rparr>;
          s = (if clearManualInputsOnSubmit (banModal sc)
               then s\<lparr>manualBanSessionId := [], manualBanIP := [], manualBanReason := []\<rparr> else s)
      in closeBanModal sc s)"

definition unban :: "js \<Rightarrow> scope \<Rightarrow> admin \<Rightarrow> admin" where
  "unban banId sc s =
     (if \<not> canManageBans (role sc) then s
      else adminFetch Unban
        \<lparr>verb = ''DELETE'', path = ''/api/v1/admin/ban/'' @ js_string banId, body = None\<rparr> sc s)"

definition unban_continue :: "scope \<Rightarrow> admin \<Rightarrow> admin" where
  "unban_continue sc s = fetchReports sc (fetchBans sc s)"

section \<open>Banned words and auto moderation\<close>

definition createBannedWord :: "scope \<Rightarrow> admin \<Rightarrow> admin" where
  "createBannedWord sc s =
     (if \<not> canManageBannedWords (role sc) then s
      else
        let word = js_trim (bannedWordInput sc)
        in if word = [] then show_alert ''Please enter a banned word or phrase'' s
           else adminFetch CreateBannedWord
             \<lparr>verb = ''POST'', path = ''/api/v1/admin/banned-words'', body = Some (WordBody word)\<rparr> sc s)"

definition createBannedWord_continue :: "scope \<Rightarrow> admin \<Rightarrow> admin" where
  "createBannedWord_continue sc s = fetchBannedWords sc (s\<lparr>bannedWordInput := []\<rparr>)"

definition deleteBannedWord :: "js \<Rightarrow> scope \<Rightarrow> admin \<Rightarrow> admin" where
  "deleteBannedWord i sc s =
     (if \<not> canManageBannedWords (role sc) then s
      else adminFetch DeleteBannedWord
        \<lparr>verb = ''DELETE'', path = ''/api/v1/admin/banned-words/'' @ js_string i, body = None\<rparr> sc s)"

definition updateBannedWordsEnabled :: "bool \<Rightarrow> scope \<Rightarrow> admin \<Rightarrow> admin" where
  "updateBannedWordsEnabled enabled sc s =
     (if \<not> canManageBannedWords (role sc) \<or> updatingBannedWordsEnabled sc then s
      else adminFetch UpdateBannedWordsEnabled
        \<lparr>verb = ''PUT'', path = ''/api/v1/admin/banned-words/settings'', body = Some (EnabledBody enabled)\<rparr> sc
        (s\<lparr>updatingBannedWordsEnabled := True\<rparr>))"

definition updateBannedWordsEnabled_continue :: "js \<Rightarrow> admin \<Rightarrow> admin" where
  "updateBannedWordsEnabled_continue data s =
     (let s = (if js_nullish data then show_alert ''Failed to update banned words enforcement'' s
               else s\<lparr>bannedWordsEnabled := (js_get data ''enabled'' \<noteq> JBool False)\<rparr>)
      in s\<lparr>updatingBannedWordsEnabled := False\<rparr>)"

definition updateAutoModerationEnabled :: "bool \<Rightarrow> scope \<Rightarrow> admin \<Rightarrow> admin" where
  "updateAutoModerationEnabled enabled sc s =
     (if \<not> canManageAutoModeration (role sc) \<or> updatingAutoModerationEnabled sc then s
      else adminFetch UpdateAutoModerationEnabled
        \<lparr>verb = ''PUT'', path = ''/api/v1/admin/auto-moderation/settings'', body = Some (EnabledBody enabled)\<rparr> sc
        (s\<lparr>updatingAutoModerationEnabled := True\<rparr>))"

definition updateAutoModerationEnabled_continue :: "js \<Rightarrow> admin \<Rightarrow> admin" where
  "updateAutoModerationEnabled_continue data s =
     s\<lparr>autoModerationSettings := data, updatingAutoModerationEnabled := False\<rparr>"

section \<open>Accounts\<close>

definition createAccount :: "scope \<Rightarrow> admin \<Rightarrow> admin" where
  "createAccount sc s =
     (if \<not> canManageAccounts (role sc) then s
      else adminFetch CreateAccount
        \<lparr>verb = ''POST'', path = ''/api/v1/admin/accounts'',
         body = Some (AccountBody (js_trim (accountUsername sc)) (js_trim (accountPassword sc)) (accountRole sc))\<rparr> sc
        (s\<lparr>submittingAccount := True\<rparr>))"

definition createAccount_continue :: "scope \<Rightarrow> admin \<Rightarrow> admin" where
  "createAccount_continue sc s =
     (fetchAccounts sc (s\<lparr>accountUsername := [], accountPassword := [], accountPage := 1\<rparr>))
       \<lparr>submittingAccount := False\<rparr>"

definition deleteAccount :: "string \<Rightarrow> bool \<Rightarrow> scope \<Rightarrow> admin \<Rightarrow> admin" where
  "deleteAccount targetUsername confirmed sc s =
     (if \<not> canManageAccounts (role sc) \<or> \<not> confirmed then s
      else adminFetch DeleteAccount
        \<lparr>verb = ''DELETE'', path = ''/api/v1/admin/accounts/'' @ encodeURIComponent targetUsername, body = None\<rparr> sc s)"

section \<open>Bots\<close>

definition updateBotSettings :: "bool \<Rightarrow> (string \<times> setting) list \<Rightarrow> scope \<Rightarrow> admin \<Rightarrow> admin" where
  "updateBotSettings from_modal updates sc s =
     (if \<not> canManageBots (role sc) then s
      else adminFetch (UpdateBotSettings from_modal)
        \<lparr>verb = ''PUT'', path = ''/api/v1/admin/bots/settings'', body = Some (SettingsBody updates)\<rparr> sc s)"

definition updateBotSettings_continue :: "bool \<Rightarrow> js \<Rightarrow> admin \<Rightarrow> admin" where
  "updateBotSettings_continue from_modal data s =
     (if from_modal then s\<lparr>botSettings := data, isBotSettingsModalOpen := False\<rparr>
      else s\<lparr>botSettings := data\<rparr>)"

definition openBotSettingsModal :: "scope \<Rightarrow> admin \<Rightarrow> admin" where
  "openBotSettingsModal sc s =
     s\<lparr>botSettingsDraft := buildBotRuntimeSettingsDraft (botSettings sc), isBotSettingsModalOpen := True\<rparr>"

text \<open>\<^verbatim>\<open>Math.round\<close>, \<^verbatim>\<open>Math.max\<close> and \<^verbatim>\<open>Math.min\<close> with a finite bound.\<close>

fun num_round :: "number \<Rightarrow> number" where
  "num_round (Fin q) = Fin (of_int (floor (q + 1 / 2)))"
| "num_round n = n"

fun num_max :: "rat \<Rightarrow> number \<Rightarrow> number" where
  "num_max b (Fin q) = Fin (max b q)"
| "num_max b (Infinite negative) = (if negative then Fin b else Infinite False)"
| "num_max b NaN = NaN"

fun num_min :: "rat \<Rightarrow> number \<Rightarrow> number" where
  "num_min b (Fin q) = Fin (min b q)"
| "num_min b (Infinite negative) = (if negative then Infinite True else Fin b)"
| "num_min b NaN = NaN"

definition clamped_settings :: "bot_draft \<Rightarrow> (string \<times> setting) list" where
  "clamped_settings d =
     [(''rollout_percent'', Quantity (num_min 100 (num_max 0 (num_round (rollout_percent d))))),
      (''max_concurrent_runs'', Quantity (num_min 100000 (num_max 1 (num_round (max_concurrent_runs d))))),
      (''engagement_priority'', Quantity (num_max 1 (num_round (draft_engagement_priority d)))),
      (''ai_priority'', Quantity (num_max 1 (num_round (draft_ai_priority d))))]"

definition saveBotSettingsModal :: "scope \<Rightarrow> admin \<Rightarrow> admin" where
  "saveBotSettingsModal sc s =
     (if \<not> canManageBots (role sc) then s
      else updateBotSettings True (clamped_settings (botSettingsDraft sc)) sc s)"

definition resetBotForm :: "admin \<Rightarrow> admin" where
  "resetBotForm s = s\<lparr>botForm := empty_bot_form\<rparr>"

definition openCreateBotModal :: "admin \<Rightarrow> admin" where
  "openCreateBotModal s = (resetBotForm s)\<lparr>isBotModalOpen := True\<rparr>"

definition closeBotModal :: "admin \<Rightarrow> admin" where
  "closeBotModal s = s\<lparr>isBotModalOpen := False, botForm := (botForm s)\<lparr>editingBotId := None\<rparr>\<rparr>"

text \<open>A number prints as its text; a field of another type takes the default.\<close>

definition string_field :: "js \<Rightarrow> string \<Rightarrow> string \<Rightarrow> string" where
  "string_field v k d = (case js_get v k of JStr t \<Rightarrow> t | _ \<Rightarrow> d)"

definition number_field :: "js \<Rightarrow> string \<Rightarrow> string \<Rightarrow> string" where
  "number_field v k d = (case js_get v k of JNum t \<Rightarrow> t | _ \<Rightarrow> d)"

definition str_or :: "string \<Rightarrow> string \<Rightarrow> string" where
  "str_or a b = (if a \<noteq> [] then a else b)"

definition line_break :: char where
  "line_break = char_of (10::nat)"

definition edit_form :: "js \<Rightarrow> bot_form" where
  "edit_form row =
     (let script = js_get row ''script_json''; config = js_get row ''ai_config_json'';
          modes = (case js_get row ''match_modes_json'' of JArr vs \<Rightarrow> strings_of vs | _ \<Rightarrow> [])
      in \<lparr>editingBotId = Some (js_string (js_get row ''id'')),
          botName = js_string (js_get row ''name''), botSlug = js_string (js_get row ''slug''),
          botDescription = (if js_nullish (js_get row ''description'') then []
                            else js_string (js_get row ''description'')),
          botType = js_string (js_get row ''bot_type''),
          botCount = js_string (js_get row ''bot_count''),
          botTrafficWeight = js_string (js_get row ''traffic_weight''),
          botOpeningMessages = js_join [line_break] (readScriptLines script ''opening_messages''),
          botReplyMessages = js_join [line_break] (readScriptLines script ''reply_messages''),
          botFallbackMessage = readScriptString script ''fallback_message'',
          botClosingMessage = readScriptString script ''closing_message'',
          botSupportsText = (''text'' \<in> set modes), botSupportsVideo = (''video'' \<in> set modes),
          botMessageLimit = js_to_number (js_get row ''message_limit''),
          botSessionTtl = js_to_number (js_get row ''session_ttl_seconds''),
          botIdleTimeout = js_to_number (js_get row ''idle_timeout_seconds''),
          botTriggers = readScriptTriggers script,
          botAIProvider = str_or (string_field config ''provider'' ''openai-compatible'') ''openai-compatible'',
          botAIApiUrl = string_field config ''api_url'' [],
          botAIApiToken = string_field config ''api_token'' [],
          botAIModel = string_field config ''model'' [],
          botAISystemPrompt = str_or (string_field config ''system_prompt'' []) defaultBotAISystemPrompt,
          botAITemperature = number_field config ''temperature'' ''0.7'',
          botAIMaxTokens = number_field config ''max_tokens'' ''300''\<rparr>)"

definition openEditBotModal :: "js \<Rightarrow> admin \<Rightarrow> admin" where
  "openEditBotModal row s = s\<lparr>botForm := edit_form row, isBotModalOpen := True\<rparr>"

text \<open>\<open>Number(t) || d\<close> and \<open>Math.max(1, Number(t) || d)\<close>.\<close>

definition number_or :: "string \<Rightarrow> rat \<Rightarrow> number" where
  "number_or t d = (case js_number t of NaN \<Rightarrow> Fin d | Fin q \<Rightarrow> Fin (if q = 0 then d else q) | n \<Rightarrow> n)"

definition buildBotDefinitionPayload :: "bot_form \<Rightarrow> string + bot_payload" where
  "buildBotDefinitionPayload f =
     (let matchModes = (if botSupportsText f then [''text''] else []) @ (if botSupportsVideo f then [''video''] else []);
          openingMessages = parseConversationLines (botOpeningMessages f);
          replyMessages = parseConversationLines (botReplyMessages f);
          fallbackMessage = js_trim (botFallbackMessage f);
          closingMessage = js_trim (botClosingMessage f)
      in if matchModes = [] then Inl ''Select at least one conversation mode.''
         else if botType f = ''engagement'' \<and> openingMessages = [] \<and> replyMessages = []
                 \<and> fallbackMessage = [] \<and> closingMessage = []
         then Inl ''Add at least one conversation line for the engagement bot.''
         else if botType f = ''ai'' \<and> (js_trim (botAIApiUrl f) = [] \<or> js_trim (botAIApiToken f) = []
                 \<or> js_trim (botAIModel f) = [])
         then Inl ''AI bots require an API URL, API token, and model name.''
         else Inr
           \<lparr>payloadName = js_trim (botName f), payloadSlug = js_trim (botSlug f), payloadType = botType f,
            payloadDescription = js_trim (botDescription f), payloadModes = matchModes,
            payloadCount = num_max 1 (number_or (botCount f) 1),
            payloadWeight = num_max 1 (number_or (botTrafficWeight f) 100),
            payloadMessageLimit = botMessageLimit f, payloadTtl = botSessionTtl f,
            payloadIdle = botIdleTimeout f,
            payloadScript =
              (if botType f = ''engagement''
               then Some (openingMessages, replyMessages, fallbackMessage, closingMessage,
                 filter (\<lambda>(regex, reply). js_trim regex \<noteq> [] \<and> js_trim reply \<noteq> []) (botTriggers f))
               else None),
            payloadAI =
              (if botType f = ''ai''
               then Some (True, str_or (js_trim (botAIProvider f)) ''openai-compatible'', js_trim (botAIApiUrl f),
                 js_trim (botAIApiToken f), js_trim (botAIModel f), js_trim (botAISystemPrompt f),
                 number_or (botAITemperature f) 0, number_or (botAIMaxTokens f) 0)
               else None)\<rparr>)"

definition send_definition :: "op \<Rightarrow> string \<Rightarrow> string \<Rightarrow> scope \<Rightarrow> admin \<Rightarrow> admin" where
  "send_definition f v p sc s =
     (if \<not> canManageBots (role sc) then s
      else case buildBotDefinitionPayload (botForm sc) of
        Inl m \<Rightarrow> show_alert m s
      | Inr payload \<Rightarrow> adminFetch f \<lparr>verb = v, path = p, body = Some (BotBody payload)\<rparr> sc s)"

definition createBotDefinition :: "scope \<Rightarrow> admin \<Rightarrow> admin" where
  "createBotDefinition sc s = send_definition CreateBotDefinition ''POST'' ''/api/v1/admin/bots'' sc s"

definition updateBotDefinition :: "string \<Rightarrow> scope \<Rightarrow> admin \<Rightarrow> admin" where
  "updateBotDefinition i sc s = send_definition UpdateBotDefinition ''PUT'' (''/api/v1/admin/bots/'' @ i) sc s"

text \<open>The button of the dialog; the continuation closes the dialog when the call returned true.\<close>

definition saveBotDefinition :: "scope \<Rightarrow> admin \<Rightarrow> admin" where
  "saveBotDefinition sc s =
     (case editingBotId (botForm sc) of
        Some i \<Rightarrow> if i \<noteq> [] then updateBotDefinition i sc s else createBotDefinition sc s
      | None \<Rightarrow> createBotDefinition sc s)"

definition saveBotDefinition_continue :: "scope \<Rightarrow> admin \<Rightarrow> admin" where
  "saveBotDefinition_continue sc s = (fetchBotDefinitions sc (resetBotForm s))\<lparr>isBotModalOpen := False\<rparr>"

definition setBotActiveState :: "js \<Rightarrow> bool \<Rightarrow> scope \<Rightarrow> admin \<Rightarrow> admin" where
  "setBotActiveState i nextActive sc s =
     (if \<not> canManageBots (role sc) then s
      else adminFetch SetBotActiveState
        \<lparr>verb = ''POST'',
         path = ''/api/v1/admin/bots/'' @ js_string i @ (if nextActive then ''/activate'' else ''/deactivate''),
         body = None\<rparr> sc s)"

definition deleteBotDefinition :: "js \<Rightarrow> bool \<Rightarrow> scope \<Rightarrow> admin \<Rightarrow> admin" where
  "deleteBotDefinition i confirmed sc s =
     (if \<not> canManageBots (role sc) then s
      else if \<not> confirmed then s
      else adminFetch DeleteBotDefinition
        \<lparr>verb = ''DELETE'', path = ''/api/v1/admin/bots/'' @ js_string i, body = None\<rparr> sc s)"

section \<open>Descriptions\<close>

definition describeAutoModerationStatus :: "js \<Rightarrow> js \<Rightarrow> js" where
  "describeAutoModerationStatus settings report =
     (let state = js_get report ''auto_moderation_state''
      in if js_truthy (js_get report ''auto_moderation_error'') then js_get report ''auto_moderation_error''
         else if js_truthy (js_get report ''auto_moderation_summary'') then js_get report ''auto_moderation_summary''
         else JStr (if state = JStr ''processing'' then ''Auto moderation is currently analyzing this report.''
         else if state = JStr ''failed''
         then let maxAttempts = count_of (js_get settings ''max_attempts'');
                  attempts = count_of (js_get report ''auto_moderation_attempts'')
              in if maxAttempts > 0 \<and> attempts < maxAttempts
                 then ''Auto moderation hit a transient error and will retry automatically.''
                 else ''Auto moderation could not complete and this report needs a human decision.''
         else if state = JStr ''completed'' then ''Auto moderation completed without a summary.''
         else ''Waiting for auto moderation to pick up this report.''))"

definition reviewSourceLabel :: "js \<Rightarrow> string" where
  "reviewSourceLabel report =
     (let who = js_get report ''reviewed_by_username''
      in if who = JStr ''auto-moderation'' then ''Auto reviewed''
         else if js_truthy who then ''Reviewed by '' @ js_string who
         else ''Awaiting human review'')"

end
