(* ===== verification/Admin_Panel.thy ===== *)
theory Admin_Panel
  imports Admin_Actions
begin

text \<open>
  The admin panel as an event system: how a call goes on when its request is answered or its body
  read, the bootstrap of the session, the effects that run after a commit, and the user's actions.

  \<^item> A call that is refused with 401 refreshes the session and repeats its request once
    (\<^verbatim>\<open>adminFetch\<close>); when the refresh fails, or the repeated request is refused too, it logs out.
  \<^item> \<open>Replied n None\<close> is a request that failed without an answer, \<open>BodyRead n None\<close> a body that
    is not JSON.
  \<^item> An effect runs on a commit when one of its dependencies changed since the last one. Deferred
    values catch up in an event of their own. The user acts on what was committed, so an action's
    scope is the state it finds.
\<close>

section \<open>Ends of a call\<close>

definition is_fetch :: "op \<Rightarrow> bool" where
  "is_fetch f \<longleftrightarrow> f \<in> {FetchReports, FetchBans, FetchBannedWords, FetchBannedWordsSettings,
     FetchAutoModerationSettings, FetchAccounts, FetchBotSettings, FetchBotDefinitions, FetchInfraHealth}"

fun failure_text :: "op \<Rightarrow> string" where
  "failure_text UpdateReportStatus = ''Failed to update report''"
| "failure_text CreateBan = ''Failed to create ban''"
| "failure_text CreateBannedWord = ''Failed to create banned word''"
| "failure_text DeleteBannedWord = ''Failed to delete banned word''"
| "failure_text UpdateBannedWordsEnabled = ''Failed to update banned words enforcement''"
| "failure_text UpdateAutoModerationEnabled = ''Failed to update auto moderation''"
| "failure_text SeedTestReports = ''Failed to seed test reports''"
| "failure_text Unban = ''Failed to unban''"
| "failure_text CreateAccount = ''Failed to create account''"
| "failure_text DeleteAccount = ''Failed to delete account''"
| "failure_text (UpdateBotSettings m) = ''Failed to update bot settings''"
| "failure_text CreateBotDefinition = ''Failed to create bot definition''"
| "failure_text UpdateBotDefinition = ''Failed to update bot definition''"
| "failure_text SetBotActiveState = ''Failed to update bot status''"
| "failure_text DeleteBotDefinition = ''Failed to delete bot definition''"
| "failure_text Login = ''Login failed''"
| "failure_text f = []"

text \<open>The \<open>finally\<close> blocks, and the line after \<open>await createBan\<close>.\<close>

fun release :: "op \<Rightarrow> admin \<Rightarrow> admin" where
  "release CreateBan s = s\<lparr>submittingBan := False\<rparr>"
| "release UpdateBannedWordsEnabled s = s\<lparr>updatingBannedWordsEnabled := False\<rparr>"
| "release UpdateAutoModerationEnabled s = s\<lparr>updatingAutoModerationEnabled := False\<rparr>"
| "release SeedTestReports s = s\<lparr>isSeedingReports := False\<rparr>"
| "release CreateAccount s = s\<lparr>submittingAccount := False\<rparr>"
| "release f s = s"

definition end_call :: "nat \<Rightarrow> admin \<Rightarrow> admin" where
  "end_call n s = s\<lparr>calls := (calls s)(n := None)\<rparr>"

definition set_stage :: "nat \<Rightarrow> call \<Rightarrow> stage \<Rightarrow> admin \<Rightarrow> admin" where
  "set_stage n cl stg s = s\<lparr>calls := (calls s)(n \<mapsto> cl\<lparr>callStage := stg\<rparr>)\<rparr>"

text \<open>The outer \<open>catch\<close>: the fetches and \<open>updateReportStatus\<close> only log.\<close>

definition thrown :: "op \<Rightarrow> admin \<Rightarrow> admin" where
  "thrown f s =
     release f (if is_fetch f \<or> f = UpdateReportStatus then s else show_alert (failure_text f) s)"

definition failed_body :: "op \<Rightarrow> js \<Rightarrow> admin \<Rightarrow> admin" where
  "failed_body f data s =
     (if js_nullish data then thrown f s
      else release f (show_alert (js_string (js_or (js_get data ''error'') (JStr (failure_text f)))) s))"

text \<open>The handlers that read the body of a good response.\<close>

definition reads_body :: "op \<Rightarrow> bool" where
  "reads_body f \<longleftrightarrow> is_fetch f \<or>
     f \<in> {UpdateBannedWordsEnabled, UpdateAutoModerationEnabled, SeedTestReports,
          UpdateBotSettings False, UpdateBotSettings True}"

fun continue_body :: "panel_env \<Rightarrow> op \<Rightarrow> js \<Rightarrow> scope \<Rightarrow> admin \<Rightarrow> admin" where
  "continue_body c FetchReports data sc s = fetchReports_continue c data s"
| "continue_body c FetchBans data sc s = fetchBans_continue data s"
| "continue_body c FetchBannedWords data sc s = fetchBannedWords_continue data s"
| "continue_body c FetchBannedWordsSettings data sc s = fetchBannedWordsSettings_continue data s"
| "continue_body c FetchAutoModerationSettings data sc s = s\<lparr>autoModerationSettings := data\<rparr>"
| "continue_body c FetchAccounts data sc s = fetchAccounts_continue data s"
| "continue_body c FetchBotSettings data sc s = s\<lparr>botSettings := data\<rparr>"
| "continue_body c FetchBotDefinitions data sc s = fetchBotDefinitions_continue data s"
| "continue_body c FetchInfraHealth data sc s = s\<lparr>infraHealth := data\<rparr>"
| "continue_body c UpdateBannedWordsEnabled data sc s = updateBannedWordsEnabled_continue data s"
| "continue_body c UpdateAutoModerationEnabled data sc s = updateAutoModerationEnabled_continue data s"
| "continue_body c SeedTestReports data sc s = seedTestReports_continue data sc s"
| "continue_body c (UpdateBotSettings m) data sc s = updateBotSettings_continue m data s"
| "continue_body c f data sc s = s"

fun continue_ok :: "op \<Rightarrow> scope \<Rightarrow> admin \<Rightarrow> admin" where
  "continue_ok UpdateReportStatus sc s = fetchReports sc s"
| "continue_ok CreateBan sc s = submitBanModal_continue sc s"
| "continue_ok CreateBannedWord sc s = createBannedWord_continue sc s"
| "continue_ok DeleteBannedWord sc s = fetchBannedWords sc s"
| "continue_ok Unban sc s = unban_continue sc s"
| "continue_ok CreateAccount sc s = createAccount_continue sc s"
| "continue_ok DeleteAccount sc s = fetchAccounts sc s"
| "continue_ok CreateBotDefinition sc s = saveBotDefinition_continue sc s"
| "continue_ok UpdateBotDefinition sc s = saveBotDefinition_continue sc s"
| "continue_ok SetBotActiveState sc s = fetchBotDefinitions sc s"
| "continue_ok DeleteBotDefinition sc s = fetchBotDefinitions sc s"
| "continue_ok f sc s = s"

text \<open>What a handler does with the response \<^verbatim>\<open>adminFetch\<close> returns.\<close>

definition settle_call :: "nat \<Rightarrow> call \<Rightarrow> response \<Rightarrow> admin \<Rightarrow> admin" where
  "settle_call n cl r s =
     (let f = callOp cl; sc = callScope cl
      in if status r = 401 then release f (logout sc (end_call n s))
         else if response_ok r
         then (if reads_body f then set_stage n cl OkBody s else continue_ok f sc (end_call n s))
         else if f = FetchInfraHealth \<and> status r = 403 then (end_call n s)\<lparr>infraHealth := JNull\<rparr>
         else if is_fetch f then end_call n s
         else set_stage n cl ErrorBody s)"

section \<open>The session\<close>

definition keep_csrf_header :: "response \<Rightarrow> admin \<Rightarrow> admin" where
  "keep_csrf_header r s =
     (if str_truthy (csrf_header r)
      then s\<lparr>store := (store s)\<lparr>sessionStorage :=
             (sessionStorage (store s))(''admin_csrf'' \<mapsto> the (csrf_header r))\<rparr>\<rparr>
      else s)"

definition refresh_request :: request where
  "refresh_request = \<lparr>verb = ''POST'', path = ''/api/v1/admin/refresh'', body = None\<rparr>"

definition forget_session :: "admin \<Rightarrow> admin" where
  "forget_session s = s\<lparr>store := clearAdminSession (store s), isAuthenticated := False, role := JNull\<rparr>"

text \<open>What follows the refresh: the bootstrap ends, or the call repeats its request or gives up.\<close>

definition refreshed :: "nat \<Rightarrow> call \<Rightarrow> bool \<Rightarrow> admin \<Rightarrow> admin" where
  "refreshed n cl success s =
     (if callOp cl = Bootstrap
      then let s = (if success then s else (forget_session s)\<lparr>currentAdminUsername := JStr []\<rparr>)
        in (end_call n s)\<lparr>authReady := True\<rparr>
      else if success
      then set_stage n cl Retried (log_request n Retried (callRequest cl) (admin_headers (callRequest cl) s) s)
      else settle_call n cl \<lparr>status = 401, csrf_header = None\<rparr> (forget_session s))"

definition refreshSession_continue :: "js \<Rightarrow> admin \<Rightarrow> admin" where
  "refreshSession_continue data s =
     (let st = persistAdminSession (js_get data ''username'') (js_get data ''role'')
                 (js_get data ''csrf_token'') (store s)
      in s\<lparr>store := st, isAuthenticated := True, role := js_get data ''role'',
           currentAdminUsername :=
             js_or (js_get data ''username'')
               (JStr (case localStorage st ''admin_username'' of Some u \<Rightarrow> u | None \<Rightarrow> []))\<rparr>)"

definition login_continue :: "js \<Rightarrow> scope \<Rightarrow> admin \<Rightarrow> admin" where
  "login_continue data sc s =
     (if js_nullish data then show_alert (failure_text Login) s
      else
        let who = js_or (js_get data ''username'') (JStr (username sc))
        in fetchReports sc
          (s\<lparr>store := persistAdminSession who (js_get data ''role'') (js_get data ''csrf_token'') (store s),
             isAuthenticated := True, role := js_get data ''role'', currentAdminUsername := who\<rparr>))"

definition bootstrapAuth :: "scope \<Rightarrow> admin \<Rightarrow> admin" where
  "bootstrapAuth sc s =
     (if localStorage (store s) ''admin_auth'' \<noteq> Some ''true''
         \<or> \<not> str_truthy (sessionStorage (store s) ''admin_csrf'')
      then (forget_session s)\<lparr>currentAdminUsername := JStr [], authReady := True\<rparr>
      else start_call Bootstrap refresh_request (buildAdminHeaders False (store s)) Refreshing sc s)"

definition refreshSession :: "nat \<Rightarrow> call \<Rightarrow> admin \<Rightarrow> admin" where
  "refreshSession n cl s =
     set_stage n cl Refreshing
       (log_request n Refreshing refresh_request (buildAdminHeaders False (store s)) s)"

section \<open>Answers\<close>

definition replied :: "panel_env \<Rightarrow> nat \<Rightarrow> call \<Rightarrow> response option \<Rightarrow> admin \<Rightarrow> admin" where
  "replied c n cl answer s =
     (case callStage cl of
        Requested \<Rightarrow>
          if callOp cl = Logout then logout_continue c (end_call n s)
          else (case answer of
            None \<Rightarrow> thrown (callOp cl) (end_call n s)
          | Some r \<Rightarrow>
              if callOp cl = Login
              then (if response_ok r then set_stage n cl OkBody (keep_csrf_header r s)
                    else show_alert ''Invalid credentials'' (end_call n s))
              else if status r = 401 then refreshSession n cl s
              else settle_call n cl r s)
      | Refreshing \<Rightarrow>
          (case answer of
            None \<Rightarrow> refreshed n cl False s
          | Some r \<Rightarrow>
              if response_ok r then set_stage n cl RefreshBody (keep_csrf_header r s)
              else refreshed n cl False s)
      | Retried \<Rightarrow>
          (case answer of
            None \<Rightarrow> thrown (callOp cl) (end_call n s)
          | Some r \<Rightarrow> settle_call n cl r s)
      | _ \<Rightarrow> s)"

definition body_read :: "panel_env \<Rightarrow> nat \<Rightarrow> call \<Rightarrow> js option \<Rightarrow> admin \<Rightarrow> admin" where
  "body_read c n cl parsed s =
     (case callStage cl of
        RefreshBody \<Rightarrow>
          (case parsed of
            None \<Rightarrow> refreshed n cl False s
          | Some data \<Rightarrow>
              if js_nullish data then refreshed n cl False s
              else refreshed n cl True (refreshSession_continue data s))
      | OkBody \<Rightarrow>
          (case parsed of
            None \<Rightarrow> thrown (callOp cl) (end_call n s)
          | Some data \<Rightarrow>
              if callOp cl = Login then login_continue data (callScope cl) (end_call n s)
              else continue_body c (callOp cl) data (callScope cl) (end_call n s))
      | ErrorBody \<Rightarrow>
          failed_body (callOp cl) (case parsed of None \<Rightarrow> JObj [] | Some data \<Rightarrow> data) (end_call n s)
      | _ \<Rightarrow> s)"

section \<open>Effects\<close>

definition syncBannedWords :: "scope \<Rightarrow> admin \<Rightarrow> admin" where
  "syncBannedWords sc s = fetchBannedWords sc (fetchBannedWordsSettings sc s)"

definition syncBots :: "scope \<Rightarrow> admin \<Rightarrow> admin" where
  "syncBots sc s = fetchBotDefinitions sc (fetchBotSettings sc s)"

text \<open>An effect: its dependencies and what it runs, in the order of the hooks.\<close>

definition when_in :: "scope \<Rightarrow> bool \<Rightarrow> (scope \<Rightarrow> admin \<Rightarrow> admin) \<Rightarrow> admin \<Rightarrow> admin" where
  "when_in sc allowed act s = (if authReady sc \<and> isAuthenticated sc \<and> allowed then act sc s else s)"

definition effects :: "scope \<Rightarrow> (js list \<times> (admin \<Rightarrow> admin)) list" where
  "effects sc =
     (let who = [JBool (authReady sc), JBool (isAuthenticated sc)];
          mayWords = canManageBannedWords (role sc); mayModerate = canManageAutoModeration (role sc);
          mayAccounts = canManageAccounts (role sc); mayInfra = canViewInfraHealth (role sc);
          mayBots = canViewBots (role sc)
      in [([], bootstrapAuth sc),
          ([JStr (deferredAccountSearch sc)], accountPage_update (\<lambda>_. 1)),
          ([JStr (accountLimit sc)], accountPage_update (\<lambda>_. 1)),
          (who @ [JStr (reportStatusFilter sc), JStr (reportLimit sc)], when_in sc True fetchReports),
          (who @ [JBool mayModerate], when_in sc mayModerate fetchAutoModerationSettings),
          (who @ [JStr (banFilter sc), JStr (banLimit sc), JStr (deferredBanSearch sc)], when_in sc True fetchBans),
          (who @ [JBool mayWords, JStr (bannedWordLimit sc), JStr (deferredBannedWordSearch sc)],
             when_in sc mayWords syncBannedWords),
          (who @ [JBool mayAccounts, JNum (decimal (accountPage sc)), JStr (accountLimit sc),
                  JStr (deferredAccountSearch sc)], when_in sc mayAccounts fetchAccounts),
          (who @ [JBool mayInfra], when_in sc mayInfra fetchInfraHealth),
          (who @ [JBool mayBots], when_in sc mayBots syncBots)])"

text \<open>A commit runs, in order, the effects whose dependencies changed; on the first one all of them.\<close>

fun run_changed :: "js list list \<Rightarrow> (js list \<times> (admin \<Rightarrow> admin)) list \<Rightarrow> admin \<Rightarrow> admin" where
  "run_changed old [] s = s"
| "run_changed [] ((deps, act) # es) s = run_changed [] es (act s)"
| "run_changed (d # old) ((deps, act) # es) s = run_changed old es (if d = deps then s else act s)"

definition commit :: "admin \<Rightarrow> admin" where
  "commit s =
     (run_changed (effectDeps s) (effects (scope_of s)) s)\<lparr>effectDeps := map fst (effects (scope_of s))\<rparr>"

definition deferred_render :: "admin \<Rightarrow> admin" where
  "deferred_render s =
     s\<lparr>deferredBanSearch := banSearch s, deferredBannedWordSearch := bannedWordSearch s,
       deferredAccountSearch := accountSearch s\<rparr>"

section \<open>Events\<close>

text \<open>
  The inputs of the console, those of the ban dialog, of the bot dialog and of the dialog for the
  bots' settings included. A change event carries the new text of the input.
\<close>

datatype ban_field = Ban_target | Ban_mode | Ban_duration_value | Ban_duration_unit | Ban_reason

datatype draft_field = Draft_rollout | Draft_runs | Draft_mode

datatype bot_field =
    Bot_name | Bot_slug | Bot_type | Bot_description | Bot_count | Bot_message_limit | Bot_session_ttl
  | Bot_idle_timeout | Bot_traffic_weight | Bot_openings | Bot_replies | Bot_fallback | Bot_closing
  | Trigger_regex nat | Trigger_reply nat
  | Ai_provider | Ai_model | Ai_api_url | Ai_api_token | Ai_temperature | Ai_max_tokens | Ai_system_prompt

datatype input_field =
    Username | Password | ReportStatusFilter | ReportReviewSourceFilter | ReportLimit | BanFilter
  | BanLimit | BanSearch | ManualBanSessionId | ManualBanIP | ManualBanReason | BannedWordInput
  | BannedWordSearch | BannedWordLimit | AccountUsername | AccountPassword | AccountRole
  | AccountSearch | AccountLimit
  | In_ban ban_field | In_draft draft_field | In_bot bot_field

definition edit_draft_runs :: "string \<Rightarrow> bot_draft \<Rightarrow> bot_draft" where
  "edit_draft_runs v d = (case js_number v of Fin q \<Rightarrow> d\<lparr>max_concurrent_runs := Fin q\<rparr> | _ \<Rightarrow> d)"

definition edit_draft_mode :: "string \<Rightarrow> bot_draft \<Rightarrow> bot_draft" where
  "edit_draft_mode v d =
     (case map_of botPriorityPresets v of
        Some (label, e, a) \<Rightarrow> d\<lparr>draft_engagement_priority := Fin (of_nat e), draft_ai_priority := Fin (of_nat a)\<rparr>
      | None \<Rightarrow> d)"

definition edit_trigger :: "nat \<Rightarrow> (string \<times> string \<Rightarrow> string \<times> string) \<Rightarrow> bot_form \<Rightarrow> bot_form" where
  "edit_trigger i h f =
     (if i < length (botTriggers f) then f\<lparr>botTriggers := (botTriggers f)[i := h (botTriggers f ! i)]\<rparr> else f)"

fun edit_ban :: "ban_field \<Rightarrow> string \<Rightarrow> ban_modal \<Rightarrow> ban_modal" where
  "edit_ban Ban_target v m = m\<lparr>banTarget := v\<rparr>"
| "edit_ban Ban_mode v m = m\<lparr>banMode := v\<rparr>"
| "edit_ban Ban_duration_value v m = m\<lparr>durationValue := v\<rparr>"
| "edit_ban Ban_duration_unit v m = m\<lparr>durationUnit := v\<rparr>"
| "edit_ban Ban_reason v m = m\<lparr>banReason := v\<rparr>"

fun edit_draft :: "draft_field \<Rightarrow> string \<Rightarrow> bot_draft \<Rightarrow> bot_draft" where
  "edit_draft Draft_rollout v d = d\<lparr>rollout_percent := js_number v\<rparr>"
| "edit_draft Draft_runs v d = edit_draft_runs v d"
| "edit_draft Draft_mode v d = edit_draft_mode v d"

fun edit_bot :: "bot_field \<Rightarrow> string \<Rightarrow> bot_form \<Rightarrow> bot_form" where
  "edit_bot Bot_name v f = f\<lparr>botName := v\<rparr>"
| "edit_bot Bot_slug v f = f\<lparr>botSlug := v\<rparr>"
| "edit_bot Bot_type v f = f\<lparr>botType := v\<rparr>"
| "edit_bot Bot_description v f = f\<lparr>botDescription := v\<rparr>"
| "edit_bot Bot_count v f = f\<lparr>botCount := v\<rparr>"
| "edit_bot Bot_message_limit v f = f\<lparr>botMessageLimit := number_or v 4\<rparr>"
| "edit_bot Bot_session_ttl v f = f\<lparr>botSessionTtl := number_or v 300\<rparr>"
| "edit_bot Bot_idle_timeout v f = f\<lparr>botIdleTimeout := number_or v 45\<rparr>"
| "edit_bot Bot_traffic_weight v f = f\<lparr>botTrafficWeight := v\<rparr>"
| "edit_bot Bot_openings v f = f\<lparr>botOpeningMessages := v\<rparr>"
| "edit_bot Bot_replies v f = f\<lparr>botReplyMessages := v\<rparr>"
| "edit_bot Bot_fallback v f = f\<lparr>botFallbackMessage := v\<rparr>"
| "edit_bot Bot_closing v f = f\<lparr>botClosingMessage := v\<rparr>"
| "edit_bot (Trigger_regex i) v f = edit_trigger i (\<lambda>(regex, reply). (v, reply)) f"
| "edit_bot (Trigger_reply i) v f = edit_trigger i (\<lambda>(regex, reply). (regex, v)) f"
| "edit_bot Ai_provider v f = f\<lparr>botAIProvider := v\<rparr>"
| "edit_bot Ai_model v f = f\<lparr>botAIModel := v\<rparr>"
| "edit_bot Ai_api_url v f = f\<lparr>botAIApiUrl := v\<rparr>"
| "edit_bot Ai_api_token v f = f\<lparr>botAIApiToken := v\<rparr>"
| "edit_bot Ai_temperature v f = f\<lparr>botAITemperature := v\<rparr>"
| "edit_bot Ai_max_tokens v f = f\<lparr>botAIMaxTokens := v\<rparr>"
| "edit_bot Ai_system_prompt v f = f\<lparr>botAISystemPrompt := v\<rparr>"

text \<open>The login form trims the name at every change.\<close>

fun set_input :: "input_field \<Rightarrow> string \<Rightarrow> admin \<Rightarrow> admin" where
  "set_input Username v s = s\<lparr>username := js_trim v\<rparr>"
| "set_input Password v s = s\<lparr>password := v\<rparr>"
| "set_input ReportStatusFilter v s = s\<lparr>reportStatusFilter := v\<rparr>"
| "set_input ReportReviewSourceFilter v s = s\<lparr>reportReviewSourceFilter := v\<rparr>"
| "set_input ReportLimit v s = s\<lparr>reportLimit := v\<rparr>"
| "set_input BanFilter v s = s\<lparr>banFilter := v\<rparr>"
| "set_input BanLimit v s = s\<lparr>banLimit := v\<rparr>"
| "set_input BanSearch v s = s\<lparr>banSearch := v\<rparr>"
| "set_input ManualBanSessionId v s = s\<lparr>manualBanSessionId := v\<rparr>"
| "set_input ManualBanIP v s = s\<lparr>manualBanIP := v\<rparr>"
| "set_input ManualBanReason v s = s\<lparr>manualBanReason := v\<rparr>"
| "set_input BannedWordInput v s = s\<lparr>bannedWordInput := v\<rparr>"
| "set_input BannedWordSearch v s = s\<lparr>bannedWordSearch := v\<rparr>"
| "set_input BannedWordLimit v s = s\<lparr>bannedWordLimit := v\<rparr>"
| "set_input AccountUsername v s = s\<lparr>accountUsername := v\<rparr>"
| "set_input AccountPassword v s = s\<lparr>accountPassword := v\<rparr>"
| "set_input AccountRole v s = s\<lparr>accountRole := v\<rparr>"
| "set_input AccountSearch v s = s\<lparr>accountSearch := v\<rparr>"
| "set_input AccountLimit v s = s\<lparr>accountLimit := v\<rparr>"
| "set_input (In_ban k) v s = s\<lparr>banModal := edit_ban k v (banModal s)\<rparr>"
| "set_input (In_draft k) v s = s\<lparr>botSettingsDraft := edit_draft k v (botSettingsDraft s)\<rparr>"
| "set_input (In_bot k) v s = s\<lparr>botForm := edit_bot k v (botForm s)\<rparr>"

text \<open>
  What the user can do. The theme is kept outside the panel. \<open>Delete_account\<close> and \<open>Delete_bot\<close>
  carry the answer of \<^verbatim>\<open>window.confirm\<close>, \<open>Submit_ban\<close> the calendar of the browser.
\<close>

datatype (plugins only: code size) action =
    Submit_login | Show_login_password | Click_logout | Input input_field string
  | Select_tab tab | Choose_mobile tab | Open_mobile_menu bool | Toggle_user_menu | Toggle_theme
  | Refresh_reports | Single_action js string | Toggle_all | Check_report js bool | Bulk string
  | Expand_report js | View_description js
  | Seed_reports | Refresh_moderation | Set_moderation bool
  | Refresh_bans | Open_ban string string string string | Apply_manual_ban
  | Cancel_ban | Submit_ban "nat \<Rightarrow> string \<Rightarrow> string option"
  | Unban_click js
  | Refresh_words | Add_word | Delete_word js | Set_words bool
  | Refresh_accounts | Show_account_password | Add_account | Delete_account string bool
  | Previous_page | Next_page
  | Refresh_infra | Open_redis bool
  | Refresh_bots | Set_bot_flag string bool | Open_settings | Close_settings | Save_settings
  | New_bot | Edit_bot js | Close_bot | Toggle_text_matching | Toggle_video_matching
  | Add_trigger | Remove_trigger nat | Save_bot | Toggle_bot js bool | Delete_bot js bool

text \<open>A report's buttons are drawn for a visible report, its checkbox for a pending one.\<close>

fun perform_action :: "action \<Rightarrow> scope \<Rightarrow> admin \<Rightarrow> admin" where
  "perform_action Submit_login sc s = s"
| "perform_action Show_login_password sc s = s"
| "perform_action Click_logout sc s = logout sc s"
| "perform_action (Input f v) sc s = set_input f v s"
| "perform_action (Select_tab t) sc s = s\<lparr>currentTab := t\<rparr>"
| "perform_action (Choose_mobile t) sc s = s\<lparr>currentTab := t, isMobileMenuOpen := False\<rparr>"
| "perform_action (Open_mobile_menu b) sc s = s\<lparr>isMobileMenuOpen := b\<rparr>"
| "perform_action Toggle_user_menu sc s = s\<lparr>isUserMenuOpen := \<not> isUserMenuOpen sc\<rparr>"
| "perform_action Toggle_theme sc s = s"
| "perform_action Refresh_reports sc s = fetchReports sc s"
| "perform_action (Single_action i st) sc s =
     (if \<exists>r\<in>set (visibleReports sc). report_id r = i \<and> (is_pending r \<or> auto_reviewed r)
      then handleSingleReportAction i st sc s else s)"
| "perform_action Toggle_all sc s = toggleSelectAllVisibleReports sc s"
| "perform_action (Check_report i b) sc s =
     (if i \<in> report_id ` set (selectableVisibleReports sc) then checkReport i b s else s)"
| "perform_action (Bulk st) sc s = (if selectedPendingReportIds sc = [] then s else bulkUpdate st sc s)"
| "perform_action (Expand_report i) sc s = s\<lparr>expandedReport := i\<rparr>"
| "perform_action (View_description i) sc s = s\<lparr>viewingDescription := i\<rparr>"
| "perform_action Seed_reports sc s = seedTestReports sc s"
| "perform_action Refresh_moderation sc s = fetchAutoModerationSettings sc s"
| "perform_action (Set_moderation b) sc s = updateAutoModerationEnabled b sc s"
| "perform_action Refresh_bans sc s = fetchBans sc s"
| "perform_action (Open_ban sid ip i reason) sc s = openBanModal sid ip i None reason False s"
| "perform_action Apply_manual_ban sc s = applyManualBan sc s"
| "perform_action Cancel_ban sc s = closeBanModal sc s"
| "perform_action (Submit_ban later) sc s = (if submittingBan sc then s else submitBanModal later sc s)"
| "perform_action (Unban_click i) sc s = unban i sc s"
| "perform_action Refresh_words sc s = fetchBannedWords sc s"
| "perform_action Add_word sc s = createBannedWord sc s"
| "perform_action (Delete_word i) sc s = deleteBannedWord i sc s"
| "perform_action (Set_words b) sc s = updateBannedWordsEnabled b sc s"
| "perform_action Refresh_accounts sc s = fetchAccounts sc (s\<lparr>accountPage := 1\<rparr>)"
| "perform_action Show_account_password sc s =
     s\<lparr>showCreateAccountPassword := \<not> showCreateAccountPassword sc\<rparr>"
| "perform_action Add_account sc s = (if submittingAccount sc then s else createAccount sc s)"
| "perform_action (Delete_account u ok) sc s = deleteAccount u ok sc s"
| "perform_action Previous_page sc s = s\<lparr>accountPage := max 1 (accountPage s - 1)\<rparr>"
| "perform_action Next_page sc s = s\<lparr>accountPage := min (accountTotalPages sc) (accountPage s + 1)\<rparr>"
| "perform_action Refresh_infra sc s = fetchInfraHealth sc s"
| "perform_action (Open_redis b) sc s = s\<lparr>isRedisModalOpen := b\<rparr>"
| "perform_action Refresh_bots sc s = syncBots sc s"
| "perform_action (Set_bot_flag k b) sc s = updateBotSettings False [(k, Flag b)] sc s"
| "perform_action Open_settings sc s = openBotSettingsModal sc s"
| "perform_action Close_settings sc s = s\<lparr>isBotSettingsModalOpen := False\<rparr>"
| "perform_action Save_settings sc s = saveBotSettingsModal sc s"
| "perform_action New_bot sc s = openCreateBotModal s"
| "perform_action (Edit_bot row) sc s = openEditBotModal row s"
| "perform_action Close_bot sc s = closeBotModal s"
| "perform_action Toggle_text_matching sc s =
     s\<lparr>botForm := (botForm s)\<lparr>botSupportsText := \<not> botSupportsText (botForm s)\<rparr>\<rparr>"
| "perform_action Toggle_video_matching sc s =
     s\<lparr>botForm := (botForm s)\<lparr>botSupportsVideo := \<not> botSupportsVideo (botForm s)\<rparr>\<rparr>"
| "perform_action Add_trigger sc s =
     s\<lparr>botForm := (botForm s)\<lparr>botTriggers := botTriggers (botForm sc) @ [([], [])]\<rparr>\<rparr>"
| "perform_action (Remove_trigger i) sc s =
     s\<lparr>botForm := (botForm s)\<lparr>botTriggers := take i (botTriggers (botForm sc)) @ drop (Suc i) (botTriggers (botForm sc))\<rparr>\<rparr>"
| "perform_action Save_bot sc s = saveBotDefinition sc s"
| "perform_action (Toggle_bot i b) sc s = setBotActiveState i b sc s"
| "perform_action (Delete_bot i ok) sc s = deleteBotDefinition i ok sc s"

text \<open>Before the panel is ready only a spinner shows, and without a session only the login form.\<close>

definition act :: "action \<Rightarrow> admin \<Rightarrow> admin" where
  "act a s =
     (if \<not> authReady s then s
      else if isAuthenticated s then perform_action a (scope_of s) s
      else (case a of
          Submit_login \<Rightarrow> login (scope_of s) s
        | Show_login_password \<Rightarrow> s\<lparr>showLoginPassword := \<not> showLoginPassword s\<rparr>
        | Input f v \<Rightarrow> if f = Username \<or> f = Password then set_input f v s else s
        | _ \<Rightarrow> s))"

datatype panel_event =
  Commit | Deferred_render | Act action | Replied nat "response option" | BodyRead nat "js option"

fun panel_step :: "panel_env \<Rightarrow> panel_event \<Rightarrow> admin \<Rightarrow> admin" where
  "panel_step c Commit s = commit s"
| "panel_step c Deferred_render s = deferred_render s"
| "panel_step c (Act a) s = act a s"
| "panel_step c (Replied n answer) s =
     (case calls s n of None \<Rightarrow> s | Some cl \<Rightarrow> replied c n cl answer s)"
| "panel_step c (BodyRead n parsed) s =
     (case calls s n of None \<Rightarrow> s | Some cl \<Rightarrow> body_read c n cl parsed s)"

end
