(* ===== verification/Admin_Calls.thy ===== *)
theory Admin_Calls
  imports Admin_Panel "HOL-Library.Sublist"
begin

text \<open>
  The invariant of the admin panel, kept by every event: how far each call has got and what it has
  sent, that a call that needs a role was made by a render that had it, and that only pending
  reports are selected. One preservation lemma per handler, in the collection \<open>keeps\<close>.
\<close>

section \<open>The invariant\<close>

text \<open>The role a handler asks for before it sends anything.\<close>

definition allowed :: "op \<Rightarrow> js \<Rightarrow> bool" where
  "allowed f r =
     (case f of
        FetchBannedWords \<Rightarrow> canManageBannedWords r
      | FetchBannedWordsSettings \<Rightarrow> canManageBannedWords r
      | FetchAutoModerationSettings \<Rightarrow> canManageAutoModeration r
      | FetchAccounts \<Rightarrow> canManageAccounts r
      | FetchBotSettings \<Rightarrow> canViewBots r
      | FetchBotDefinitions \<Rightarrow> canViewBots r
      | FetchInfraHealth \<Rightarrow> canViewInfraHealth r
      | CreateBan \<Rightarrow> canCreateBans r
      | CreateBannedWord \<Rightarrow> canManageBannedWords r
      | DeleteBannedWord \<Rightarrow> canManageBannedWords r
      | UpdateBannedWordsEnabled \<Rightarrow> canManageBannedWords r
      | UpdateAutoModerationEnabled \<Rightarrow> canManageAutoModeration r
      | Unban \<Rightarrow> canManageBans r
      | CreateAccount \<Rightarrow> canManageAccounts r
      | DeleteAccount \<Rightarrow> canManageAccounts r
      | UpdateBotSettings m \<Rightarrow> canManageBots r
      | CreateBotDefinition \<Rightarrow> canManageBots r
      | UpdateBotDefinition \<Rightarrow> canManageBots r
      | SetBotActiveState \<Rightarrow> canManageBots r
      | DeleteBotDefinition \<Rightarrow> canManageBots r
      | _ \<Rightarrow> True)"

definition call_log :: "nat \<Rightarrow> sent_request list \<Rightarrow> (stage \<times> request) list" where
  "call_log n es = map (\<lambda>e. (sentStage e, sentRequest e)) (filter (\<lambda>e. sentBy e = n) es)"

text \<open>The requests of a call, in order: its own, the refresh after a 401, its own once more.\<close>

definition protocol :: "request \<Rightarrow> (stage \<times> request) list" where
  "protocol r = [(Requested, r), (Refreshing, refresh_request), (Retried, r)]"

definition protocol_log :: "(stage \<times> request) list \<Rightarrow> bool" where
  "protocol_log l \<longleftrightarrow> (\<exists>r. prefix l (protocol r)) \<or> l = [(Refreshing, refresh_request)]"

text \<open>What a call has sent when it waits at its stage.\<close>

definition log_at :: "call \<Rightarrow> (stage \<times> request) list \<Rightarrow> bool" where
  "log_at cl l =
     (case callStage cl of
        Requested \<Rightarrow> callOp cl \<noteq> Bootstrap \<and> l = take 1 (protocol (callRequest cl))
      | Refreshing \<Rightarrow> l = (if callOp cl = Bootstrap then [(Refreshing, refresh_request)]
                          else take 2 (protocol (callRequest cl)))
      | RefreshBody \<Rightarrow> l = (if callOp cl = Bootstrap then [(Refreshing, refresh_request)]
                           else take 2 (protocol (callRequest cl)))
      | _ \<Rightarrow> callOp cl \<noteq> Bootstrap)"

definition calls_wf :: "(nat \<rightharpoonup> call) \<Rightarrow> nat \<Rightarrow> sent_request list \<Rightarrow> bool" where
  "calls_wf cs next es \<longleftrightarrow>
     (\<forall>n\<ge>next. cs n = None \<and> call_log n es = []) \<and>
     (\<forall>n. protocol_log (call_log n es)) \<and>
     (\<forall>n cl. cs n = Some cl \<longrightarrow>
        allowed (callOp cl) (role (callScope cl)) \<and> log_at cl (call_log n es))"

definition selection_wf :: "js list \<Rightarrow> js list \<Rightarrow> bool" where
  "selection_wf rows selected \<longleftrightarrow> set selected \<subseteq> report_id ` set (filter is_pending rows)"

text \<open>
  Beside that, the predicate pins some calls: \<open>F\<close> holds identities and what their entries in the
  table are. A handler only adds calls of its own, so it keeps every pinned one.
\<close>

definition panel_inv :: "(nat \<times> call option) set \<Rightarrow> admin \<Rightarrow> bool" where
  "panel_inv F s \<longleftrightarrow>
     calls_wf (calls s) (nextCall s) (sentLog s) \<and> selection_wf (reports s) (selectedReports s) \<and>
     (\<forall>(n, v)\<in>F. n < nextCall s \<and> calls s n = v)"

section \<open>Parts of the state the invariant does not read\<close>

lemma panel_inv_frame [simp]:
  fixes s :: admin
  shows "panel_inv F (isAuthenticated_update f1 s) = panel_inv F s"
    "panel_inv F (authReady_update f1 s) = panel_inv F s"
    "panel_inv F (role_update f2 s) = panel_inv F s"
    "panel_inv F (currentAdminUsername_update f2 s) = panel_inv F s"
    "panel_inv F (username_update f3 s) = panel_inv F s"
    "panel_inv F (password_update f3 s) = panel_inv F s"
    "panel_inv F (serverReportMetrics_update f2 s) = panel_inv F s"
    "panel_inv F (reportStatusFilter_update f3 s) = panel_inv F s"
    "panel_inv F (reportReviewSourceFilter_update f3 s) = panel_inv F s"
    "panel_inv F (reportLimit_update f3 s) = panel_inv F s"
    "panel_inv F (bans_update f2 s) = panel_inv F s"
    "panel_inv F (serverBanMetrics_update f2 s) = panel_inv F s"
    "panel_inv F (banFilter_update f3 s) = panel_inv F s"
    "panel_inv F (banLimit_update f3 s) = panel_inv F s"
    "panel_inv F (banSearch_update f3 s) = panel_inv F s"
    "panel_inv F (deferredBanSearch_update f3 s) = panel_inv F s"
    "panel_inv F (manualBanSessionId_update f3 s) = panel_inv F s"
    "panel_inv F (manualBanIP_update f3 s) = panel_inv F s"
    "panel_inv F (manualBanReason_update f3 s) = panel_inv F s"
    "panel_inv F (banModal_update f4 s) = panel_inv F s"
    "panel_inv F (submittingBan_update f1 s) = panel_inv F s"
    "panel_inv F (bannedWords_update f2 s) = panel_inv F s"
    "panel_inv F (bannedWordTotal_update f5 s) = panel_inv F s"
    "panel_inv F (bannedWordsEnabled_update f1 s) = panel_inv F s"
    "panel_inv F (updatingBannedWordsEnabled_update f1 s) = panel_inv F s"
    "panel_inv F (bannedWordInput_update f3 s) = panel_inv F s"
    "panel_inv F (bannedWordSearch_update f3 s) = panel_inv F s"
    "panel_inv F (deferredBannedWordSearch_update f3 s) = panel_inv F s"
    "panel_inv F (bannedWordLimit_update f3 s) = panel_inv F s"
    "panel_inv F (autoModerationSettings_update f2 s) = panel_inv F s"
    "panel_inv F (updatingAutoModerationEnabled_update f1 s) = panel_inv F s"
    "panel_inv F (isSeedingReports_update f1 s) = panel_inv F s"
    "panel_inv F (botSettings_update f2 s) = panel_inv F s"
    "panel_inv F (botDefinitions_update f2 s) = panel_inv F s"
    "panel_inv F (isBotSettingsModalOpen_update f1 s) = panel_inv F s"
    "panel_inv F (botSettingsDraft_update f6 s) = panel_inv F s"
    "panel_inv F (isBotModalOpen_update f1 s) = panel_inv F s"
    "panel_inv F (botForm_update f7 s) = panel_inv F s"
    "panel_inv F (accounts_update f2 s) = panel_inv F s"
    "panel_inv F (accountTotal_update f5 s) = panel_inv F s"
    "panel_inv F (accountUsername_update f3 s) = panel_inv F s"
    "panel_inv F (accountPassword_update f3 s) = panel_inv F s"
    "panel_inv F (accountRole_update f3 s) = panel_inv F s"
    "panel_inv F (accountSearch_update f3 s) = panel_inv F s"
    "panel_inv F (deferredAccountSearch_update f3 s) = panel_inv F s"
    "panel_inv F (accountLimit_update f3 s) = panel_inv F s"
    "panel_inv F (accountPage_update f5 s) = panel_inv F s"
    "panel_inv F (submittingAccount_update f1 s) = panel_inv F s"
    "panel_inv F (infraHealth_update f2 s) = panel_inv F s"
    "panel_inv F (isRedisModalOpen_update f1 s) = panel_inv F s"
    "panel_inv F (currentTab_update f11 s) = panel_inv F s"
    "panel_inv F (expandedReport_update f2 s) = panel_inv F s"
    "panel_inv F (viewingDescription_update f2 s) = panel_inv F s"
    "panel_inv F (isUserMenuOpen_update f1 s) = panel_inv F s"
    "panel_inv F (isMobileMenuOpen_update f1 s) = panel_inv F s"
    "panel_inv F (showLoginPassword_update f1 s) = panel_inv F s"
    "panel_inv F (showCreateAccountPassword_update f1 s) = panel_inv F s"
    "panel_inv F (store_update f8 s) = panel_inv F s"
    "panel_inv F (alerts_update f9 s) = panel_inv F s"
    "panel_inv F (navigations_update f9 s) = panel_inv F s"
    "panel_inv F (effectDeps_update f10 s) = panel_inv F s"
  by (simp_all add: panel_inv_def)

section \<open>Calls\<close>

lemma call_log_snoc:
  "call_log n (es @ [e]) =
     call_log n es @ (if sentBy e = n then [(sentStage e, sentRequest e)] else [])"
  by (simp add: call_log_def)

lemma protocol_log_start [simp]:
  "protocol_log []" "protocol_log [(Requested, r)]" "protocol_log [(Refreshing, refresh_request)]"
  "protocol_log [(Requested, r), (Refreshing, refresh_request)]"
  "protocol_log [(Requested, r), (Refreshing, refresh_request), (Retried, r)]"
  by (auto simp: protocol_log_def protocol_def)

lemma take_protocol [simp]:
  "take (Suc 0) (protocol r) = [(Requested, r)]"
  "take 2 (protocol r) = [(Requested, r), (Refreshing, refresh_request)]"
  by (simp_all add: protocol_def)

lemma start_call_fields [simp]:
  "calls (start_call f req h stg sc s) = (calls s)(nextCall s \<mapsto>
     \<lparr>callOp = f, callRequest = req, callScope = sc, callStage = stg\<rparr>)"
  "nextCall (start_call f req h stg sc s) = Suc (nextCall s)"
  "sentLog (start_call f req h stg sc s) = sentLog s @
     [\<lparr>sentBy = nextCall s, sentStage = stg, sentRequest = req, sentHeaders = h\<rparr>]"
  "reports (start_call f req h stg sc s) = reports s"
  "selectedReports (start_call f req h stg sc s) = selectedReports s"
  by (simp_all add: start_call_def log_request_def Let_def)

lemma start_call_keeps:
  assumes "panel_inv F s" and "allowed f (role sc)"
    and "stg = Requested \<and> f \<noteq> Bootstrap \<or> stg = Refreshing \<and> f = Bootstrap \<and> req = refresh_request"
  shows "panel_inv F (start_call f req h stg sc s)"
proof -
  from assms(1) have wf: "calls_wf (calls s) (nextCall s) (sentLog s)" by (simp add: panel_inv_def)
  then have none: "call_log (nextCall s) (sentLog s) = []" by (simp add: calls_wf_def)
  have "log_at \<lparr>callOp = f, callRequest = req, callScope = sc, callStage = stg\<rparr> [(stg, req)]"
    using assms(3) by (auto simp: log_at_def)
  with none wf assms(2,3) have "calls_wf (calls (start_call f req h stg sc s))
      (nextCall (start_call f req h stg sc s)) (sentLog (start_call f req h stg sc s))"
    by (auto simp: calls_wf_def call_log_snoc)
  with assms(1) show ?thesis by (auto simp: panel_inv_def)
qed

lemma adminFetch_keeps [keeps]:
  "\<lbrakk>panel_inv F s; allowed f (role sc); f \<noteq> Bootstrap\<rbrakk> \<Longrightarrow> panel_inv F (adminFetch f req sc s)"
  by (simp add: adminFetch_def start_call_keeps)

lemma show_alert_keeps [simp]: "panel_inv F (show_alert m s) = panel_inv F s"
  by (simp add: show_alert_def)

text \<open>Selections.\<close>

lemma selected_keeps:
  assumes "panel_inv F s" and "set xs \<subseteq> report_id ` set (filter is_pending (reports s))"
  shows "panel_inv F (s\<lparr>selectedReports := xs\<rparr>)"
  using assms by (simp add: panel_inv_def selection_wf_def)

lemma panel_inv_selected:
  "panel_inv F s \<Longrightarrow> set (selectedReports s) \<subseteq> report_id ` set (filter is_pending (reports s))"
  by (simp add: panel_inv_def selection_wf_def)

lemma new_reports_keeps:
  assumes "panel_inv F s" and "set xs \<subseteq> report_id ` set (filter is_pending rows)"
  shows "panel_inv F (s\<lparr>reports := rows, selectedReports := xs\<rparr>)"
  using assms by (simp add: panel_inv_def selection_wf_def)

section \<open>Handlers\<close>

lemma fetch_keeps [keeps]:
  assumes "panel_inv F s"
  shows "panel_inv F (fetchReports sc s)" "panel_inv F (fetchBans sc s)" "panel_inv F (fetchBannedWords sc s)"
    "panel_inv F (fetchBannedWordsSettings sc s)" "panel_inv F (fetchAutoModerationSettings sc s)"
    "panel_inv F (fetchAccounts sc s)" "panel_inv F (fetchBotSettings sc s)"
    "panel_inv F (fetchBotDefinitions sc s)" "panel_inv F (fetchInfraHealth sc s)"
  using assms
  by (simp_all add: fetchReports_def fetchBans_def fetchBannedWords_def fetchBannedWordsSettings_def
      fetchAutoModerationSettings_def fetchAccounts_def fetchBotSettings_def fetchBotDefinitions_def
      fetchInfraHealth_def adminFetch_keeps allowed_def)

lemma session_keeps [keeps]:
  assumes "panel_inv F s"
  shows "panel_inv F (login sc s)" "panel_inv F (logout sc s)" "panel_inv F (logout_continue c s)"
    "panel_inv F (bootstrapAuth sc s)" "panel_inv F (forget_session s)" "panel_inv F (keep_csrf_header r s)"
    "panel_inv F (refreshSession_continue data s)" "panel_inv F (login_continue data sc s)"
proof -
  show "panel_inv F (login sc s)" "panel_inv F (logout sc s)"
    using assms by (simp_all add: login_def logout_def start_call_keeps allowed_def)
  show "panel_inv F (logout_continue c s)"
    using assms by (simp add: logout_continue_def panel_inv_def selection_wf_def)
  show fs: "panel_inv F (forget_session s)" using assms by (simp add: forget_session_def)
  show "panel_inv F (bootstrapAuth sc s)"
    using assms fs by (simp add: bootstrapAuth_def start_call_keeps allowed_def)
  show "panel_inv F (keep_csrf_header r s)" using assms by (simp add: keep_csrf_header_def)
  show "panel_inv F (refreshSession_continue data s)"
    using assms by (simp add: refreshSession_continue_def Let_def)
  show "panel_inv F (login_continue data sc s)"
    using assms by (simp add: login_continue_def Let_def fetch_keeps)
qed

lemma fetchReports_continue_keeps [keeps]:
  assumes "panel_inv F s"
  shows "panel_inv F (fetchReports_continue c data s)"
proof -
  let ?m = "js_get data ''metrics''"
  define s1 where "s1 = (if js_truthy ?m
       then s\<lparr>serverReportMetrics := JObj [(''pending'', js_or_0 ?m ''pending''),
              (''approved'', js_or_0 ?m ''approved''), (''rejected'', js_or_0 ?m ''rejected'')]\<rparr> else s)"
  have s1: "panel_inv F s1" using assms by (simp add: s1_def)
  have "panel_inv F (s1\<lparr>reports := rows, selectedReports := prune_selection rows (selectedReports s1)\<rparr>)" for rows
    by (rule new_reports_keeps [OF s1]) (auto simp: prune_selection_def)
  with s1 assms show ?thesis
    unfolding fetchReports_continue_def Let_def s1_def [symmetric] by (simp split: js.split)
qed

lemma continue_fetch_keeps [keeps]:
  assumes "panel_inv F s"
  shows "panel_inv F (fetchBans_continue data s)" "panel_inv F (fetchBannedWords_continue data s)"
    "panel_inv F (fetchBannedWordsSettings_continue data s)" "panel_inv F (fetchAccounts_continue data s)"
    "panel_inv F (fetchBotDefinitions_continue data s)"
  using assms
  by (simp_all add: fetchBans_continue_def fetchBannedWords_continue_def Let_def
      fetchBannedWordsSettings_continue_def fetchAccounts_continue_def fetchBotDefinitions_continue_def)

lemma updateReportStatus_keeps [keeps]:
  "panel_inv F s \<Longrightarrow> panel_inv F (updateReportStatus i st sc s)"
  by (simp add: updateReportStatus_def adminFetch_keeps allowed_def)

lemma fold_update_keeps:
  "panel_inv F s \<Longrightarrow> panel_inv F (fold (\<lambda>i. updateReportStatus i st sc) ids s)"
  by (induction ids arbitrary: s) (simp_all add: keeps)

lemma set_set_add [simp]: "set (set_add x xs) = insert x (set xs)"
  by (auto simp: set_add_def)

lemma set_fold_set_add: "set (fold (\<lambda>r ids. set_add (h r) ids) rows xs) = set xs \<union> h ` set rows"
  by (induction rows arbitrary: xs) auto

lemma set_toggle_selection:
  "set (toggle_selection rows xs) \<subseteq> set xs \<union> report_id ` set rows"
  by (auto simp: toggle_selection_def set_fold_set_add)

lemma selectable_pending:
  "set (selectableVisibleReports s) \<subseteq> set (filter is_pending (reports s))"
  by (auto simp: selectableVisibleReports_def visibleReports_def)

lemma selection_keeps [keeps]:
  assumes "panel_inv F s"
  shows "panel_inv F (handleSingleReportAction i st sc s)"
    "panel_inv F (toggleSelectAllVisibleReports (scope_of s) s)"
    "i \<in> report_id ` set (selectableVisibleReports (scope_of s)) \<Longrightarrow> panel_inv F (checkReport i b s)"
    "panel_inv F (bulkUpdate st sc s)"
proof -
  note sel = panel_inv_selected [OF assms]
  have same: "selectableVisibleReports (scope_of s) = selectableVisibleReports s"
    by (simp add: selectableVisibleReports_def visibleReports_def scope.defs)
  note pending = selectable_pending [of s]
  show "panel_inv F (handleSingleReportAction i st sc s)"
    unfolding handleSingleReportAction_def
    by (rule updateReportStatus_keeps, rule selected_keeps [OF assms]) (use sel in auto)
  show "panel_inv F (toggleSelectAllVisibleReports (scope_of s) s)"
    unfolding toggleSelectAllVisibleReports_def same
    by (rule selected_keeps [OF assms])
      (use sel pending set_toggle_selection [of "selectableVisibleReports s" "selectedReports s"] in blast)
  show "panel_inv F (checkReport i b s)" if "i \<in> report_id ` set (selectableVisibleReports (scope_of s))"
    unfolding checkReport_def
    by (rule selected_keeps [OF assms]) (use sel pending that in \<open>auto simp: same\<close>)
  show "panel_inv F (bulkUpdate st sc s)"
    unfolding bulkUpdate_def
    by (rule selected_keeps [OF fold_update_keeps [OF assms]]) simp
qed

lemma action_keeps [keeps]:
  assumes "panel_inv F s"
  shows "panel_inv F (seedTestReports sc s)" "panel_inv F (unban i sc s)" "panel_inv F (createBannedWord sc s)"
    "panel_inv F (deleteBannedWord i sc s)" "panel_inv F (updateBannedWordsEnabled b sc s)"
    "panel_inv F (updateAutoModerationEnabled b sc s)" "panel_inv F (createAccount sc s)"
    "panel_inv F (deleteAccount u b sc s)" "panel_inv F (updateBotSettings m ups sc s)"
    "panel_inv F (setBotActiveState i b sc s)" "panel_inv F (deleteBotDefinition i b sc s)"
    "panel_inv F (createBan req sc s)"
  using assms
  by (simp_all add: seedTestReports_def unban_def createBannedWord_def deleteBannedWord_def Let_def
      updateBannedWordsEnabled_def updateAutoModerationEnabled_def createAccount_def deleteAccount_def
      updateBotSettings_def setBotActiveState_def deleteBotDefinition_def createBan_def
      adminFetch_keeps allowed_def)

lemma dialog_keeps [keeps]:
  assumes "panel_inv F s"
  shows "panel_inv F (openBanModal a b d t r m s)" "panel_inv F (applyManualBan sc s)"
    "panel_inv F (closeBanModal sc s)" "panel_inv F (submitBanModal later sc s)"
    "panel_inv F (openBotSettingsModal sc s)" "panel_inv F (saveBotSettingsModal sc s)"
    "panel_inv F (resetBotForm s)" "panel_inv F (openCreateBotModal s)" "panel_inv F (closeBotModal s)"
    "panel_inv F (openEditBotModal row s)" "panel_inv F (saveBotDefinition sc s)"
proof -
  show ob: "panel_inv F (openBanModal a b d t r m s)" for a b d t r m
    using assms by (simp add: openBanModal_def)
  show "panel_inv F (applyManualBan sc s)" using assms ob by (simp add: applyManualBan_def)
  show "panel_inv F (closeBanModal sc s)" using assms by (simp add: closeBanModal_def)
  show "panel_inv F (submitBanModal later sc s)"
    using assms by (auto simp: submitBanModal_def keeps split: option.split sum.split)
  show "panel_inv F (openBotSettingsModal sc s)" using assms by (simp add: openBotSettingsModal_def)
  show "panel_inv F (saveBotSettingsModal sc s)" using assms by (simp add: saveBotSettingsModal_def keeps)
  show "panel_inv F (resetBotForm s)" using assms by (simp add: resetBotForm_def)
  then show "panel_inv F (openCreateBotModal s)" by (simp add: openCreateBotModal_def)
  show "panel_inv F (closeBotModal s)" using assms by (simp add: closeBotModal_def)
  show "panel_inv F (openEditBotModal row s)" using assms by (simp add: openEditBotModal_def)
  have "panel_inv F (send_definition f v p sc s)" if "f \<in> {CreateBotDefinition, UpdateBotDefinition}" for f v p
    using assms that
    by (auto simp: send_definition_def adminFetch_keeps allowed_def split: sum.split)
  then show "panel_inv F (saveBotDefinition sc s)"
    by (simp add: saveBotDefinition_def createBotDefinition_def updateBotDefinition_def split: option.split)
qed

section \<open>The life of a call\<close>

text \<open>Where a call may go next; \<open>None\<close> is its end.\<close>

fun advances :: "stage \<Rightarrow> stage option \<Rightarrow> bool" where
  "advances Requested st = (st \<in> {Some Refreshing, Some OkBody, Some ErrorBody, None})"
| "advances Refreshing st = (st \<in> {Some RefreshBody, None})"
| "advances RefreshBody st = (st \<in> {Some Retried, None})"
| "advances Retried st = (st \<in> {Some OkBody, Some ErrorBody, None})"
| "advances OkBody st = (st = None)"
| "advances ErrorBody st = (st = None)"

definition stage_of :: "call option \<Rightarrow> stage option" where
  "stage_of v = map_option callStage v"

text \<open>The call \<open>n\<close>, in flight as \<open>cl\<close>, has advanced, and the pinned calls are as they were.\<close>

definition moves :: "(nat \<times> call option) set \<Rightarrow> nat \<Rightarrow> call \<Rightarrow> admin \<Rightarrow> bool" where
  "moves F n cl s \<longleftrightarrow>
     (\<exists>v. panel_inv (insert (n, v) F) s \<and> advances (callStage cl) (stage_of v))"

lemma panel_inv_mono: "\<lbrakk>panel_inv G s; F \<subseteq> G\<rbrakk> \<Longrightarrow> panel_inv F s"
  by (auto simp: panel_inv_def)

lemma moves_ended: "panel_inv (insert (n, None) F) s \<Longrightarrow> moves F n cl s"
  unfolding moves_def by (rule exI [of _ None]) (cases "callStage cl", auto simp: stage_of_def)

lemma moves_stage:
  "\<lbrakk>panel_inv (insert (n, Some (cl\<lparr>callStage := stg\<rparr>)) F) s; advances (callStage cl) (Some stg)\<rbrakk>
    \<Longrightarrow> moves F n cl s"
  unfolding moves_def by (rule exI [of _ "Some (cl\<lparr>callStage := stg\<rparr>)"]) (simp add: stage_of_def)

lemma end_call_keeps:
  assumes "panel_inv F s" and "calls s n = Some cl" and "n \<notin> fst ` F"
  shows "panel_inv (insert (n, None) F) (end_call n s)"
proof -
  have "n < nextCall s"
    using assms(1,2) by (metis calls_wf_def not_le option.distinct(1) panel_inv_def)
  with assms show ?thesis by (force simp: panel_inv_def end_call_def calls_wf_def)
qed

lemma set_stage_keeps:
  assumes "panel_inv F s" and "calls s n = Some cl" and "n \<notin> fst ` F"
    and "log_at (cl\<lparr>callStage := stg\<rparr>) (call_log n (sentLog s))"
  shows "panel_inv (insert (n, Some (cl\<lparr>callStage := stg\<rparr>)) F) (set_stage n cl stg s)"
proof -
  have "n < nextCall s"
    using assms(1,2) by (metis calls_wf_def not_le option.distinct(1) panel_inv_def)
  with assms show ?thesis by (force simp: panel_inv_def set_stage_def calls_wf_def)
qed

lemma log_request_keeps:
  assumes "panel_inv F s" and "calls s n = Some cl" and "n \<notin> fst ` F"
    and "log_at (cl\<lparr>callStage := stg\<rparr>) (call_log n (sentLog s) @ [(stg', req)])"
    and "protocol_log (call_log n (sentLog s) @ [(stg', req)])"
  shows "panel_inv (insert (n, Some (cl\<lparr>callStage := stg\<rparr>)) F)
    (set_stage n cl stg (log_request n stg' req h s))"
proof -
  from assms(1) have wf: "calls_wf (calls s) (nextCall s) (sentLog s)" by (simp add: panel_inv_def)
  with assms(2) have n: "n < nextCall s" by (metis calls_wf_def not_le option.distinct(1))
  with wf assms(2-) have "calls_wf ((calls s)(n \<mapsto> cl\<lparr>callStage := stg\<rparr>)) (nextCall s)
      (sentLog s @ [\<lparr>sentBy = n, sentStage = stg', sentRequest = req, sentHeaders = h\<rparr>])"
    by (auto simp: calls_wf_def call_log_snoc)
  with n assms(1,3) show ?thesis by (force simp: panel_inv_def set_stage_def log_request_def)
qed

lemma call_log_at:
  "\<lbrakk>panel_inv F s; calls s n = Some cl\<rbrakk> \<Longrightarrow> log_at cl (call_log n (sentLog s))"
  by (simp add: panel_inv_def calls_wf_def)

section \<open>Answers\<close>

lemma release_keeps [keeps]: "panel_inv F s \<Longrightarrow> panel_inv F (release f s)"
  by (cases f) simp_all

lemma continue_keeps [keeps]:
  assumes "panel_inv F s"
  shows "panel_inv F (continue_body c f data sc s)" "panel_inv F (continue_ok f sc s)"
proof -
  have "panel_inv F (seedTestReports_continue data sc s)" "panel_inv F (updateBannedWordsEnabled_continue data s)"
    "panel_inv F (updateAutoModerationEnabled_continue data s)" "panel_inv F (updateBotSettings_continue m data s)" for m
    using assms by (simp_all add: seedTestReports_continue_def updateBannedWordsEnabled_continue_def
        updateAutoModerationEnabled_continue_def updateBotSettings_continue_def Let_def fetch_keeps)
  with assms show "panel_inv F (continue_body c f data sc s)" by (cases f) (simp_all add: keeps)
  have "panel_inv F (submitBanModal_continue sc s)" "panel_inv F (createBannedWord_continue sc s)"
    "panel_inv F (unban_continue sc s)" "panel_inv F (createAccount_continue sc s)"
    "panel_inv F (saveBotDefinition_continue sc s)"
    using assms by (simp_all add: submitBanModal_continue_def createBannedWord_continue_def unban_continue_def
        createAccount_continue_def saveBotDefinition_continue_def Let_def fetch_keeps dialog_keeps)
  with assms show "panel_inv F (continue_ok f sc s)" by (cases f) (simp_all add: fetch_keeps)
qed

lemma thrown_keeps [keeps]: "panel_inv F s \<Longrightarrow> panel_inv F (thrown f s)"
  by (simp add: thrown_def keeps)

lemma failed_body_keeps [keeps]: "panel_inv F s \<Longrightarrow> panel_inv F (failed_body f data s)"
  by (simp add: failed_body_def keeps)

lemma settle_call_moves:
  assumes "panel_inv F s" and "calls s n = Some cl" and "n \<notin> fst ` F" and "callOp cl \<noteq> Bootstrap"
  shows "\<exists>v. panel_inv (insert (n, v) F) (settle_call n cl r s) \<and>
    stage_of v \<in> {Some OkBody, Some ErrorBody, None} \<and> (status r = 401 \<longrightarrow> v = None)"
proof -
  have e: "panel_inv (insert (n, None) F) (end_call n s)" using assms(1-3) by (rule end_call_keeps)
  have st: "panel_inv (insert (n, Some (cl\<lparr>callStage := stg\<rparr>)) F) (set_stage n cl stg s)"
    if "stg \<in> {OkBody, ErrorBody}" for stg
    using assms that by (intro set_stage_keeps) (auto simp: log_at_def)
  let ?t = "settle_call n cl r s"
  have "panel_inv (insert (n, None) F) ?t \<or>
    (status r \<noteq> 401 \<and> (panel_inv (insert (n, Some (cl\<lparr>callStage := OkBody\<rparr>)) F) ?t \<or>
     panel_inv (insert (n, Some (cl\<lparr>callStage := ErrorBody\<rparr>)) F) ?t))"
    using e st by (simp add: settle_call_def Let_def keeps)
  then show ?thesis by (auto simp: stage_of_def intro: exI [of _ None])
qed

lemma settle_call_advances:
  assumes "panel_inv F s" and "calls s n = Some cl" and "n \<notin> fst ` F" and "callOp cl \<noteq> Bootstrap"
    and "callStage cl \<in> {Requested, Retried} \<or> status r = 401"
  shows "moves F n cl (settle_call n cl r s)"
proof -
  from settle_call_moves [OF assms(1-4), of r] obtain v where
    "panel_inv (insert (n, v) F) (settle_call n cl r s)"
    "stage_of v \<in> {Some OkBody, Some ErrorBody, None}" "status r = 401 \<longrightarrow> v = None" by blast
  with assms(5) show ?thesis
    by (cases "v = None") (force intro: moves_ended, force simp: moves_def)
qed

lemma refreshSession_moves:
  assumes "panel_inv F s" and "calls s n = Some cl" and "n \<notin> fst ` F" and "callStage cl = Requested"
  shows "moves F n cl (refreshSession n cl s)"
proof -
  have "panel_inv (insert (n, Some (cl\<lparr>callStage := Refreshing\<rparr>)) F) (refreshSession n cl s)"
    using call_log_at [OF assms(1,2)] assms(4) unfolding refreshSession_def
    by (intro log_request_keeps [OF assms(1-3)]) (auto simp: log_at_def)
  then show ?thesis by (rule moves_stage) (simp add: assms(4))
qed

lemma refreshed_moves:
  assumes "panel_inv F s" and "calls s n = Some cl" and "n \<notin> fst ` F"
    and "callStage cl = RefreshBody \<or> callStage cl = Refreshing \<and> \<not> success"
  shows "moves F n cl (refreshed n cl success s)"
proof (cases "callOp cl = Bootstrap")
  case True
  have fs: "panel_inv F (forget_session s)" "calls (forget_session s) n = Some cl"
    using assms by (simp_all add: keeps forget_session_def)
  have "panel_inv (insert (n, None) F) (end_call n s)"
    "panel_inv (insert (n, None) F) (end_call n ((forget_session s)\<lparr>currentAdminUsername := JStr []\<rparr>))"
    using assms fs by (auto intro!: end_call_keeps)
  with True show ?thesis by (intro moves_ended) (simp add: refreshed_def Let_def)
next
  case False
  have fs: "panel_inv F (forget_session s)" "calls (forget_session s) n = Some cl"
    using assms by (simp_all add: keeps forget_session_def)
  show ?thesis
  proof (cases success)
    case True
    with assms(4) have rb: "callStage cl = RefreshBody" by simp
    have "panel_inv (insert (n, Some (cl\<lparr>callStage := Retried\<rparr>)) F)
      (set_stage n cl Retried (log_request n Retried (callRequest cl) h s))" for h
      using call_log_at [OF assms(1,2)] rb False
      by (intro log_request_keeps [OF assms(1-3)]) (auto simp: log_at_def)
    then have "moves F n cl (set_stage n cl Retried (log_request n Retried (callRequest cl) h s))" for h
      by (rule moves_stage) (simp add: rb)
    with False True show ?thesis by (simp add: refreshed_def)
  next
    case no: False
    have "moves F n cl (settle_call n cl \<lparr>status = 401, csrf_header = None\<rparr> (forget_session s))"
      by (rule settle_call_advances [OF fs assms(3) False]) simp
    with False no show ?thesis by (simp add: refreshed_def)
  qed
qed

lemma keep_csrf_header_calls [simp]:
  "calls (keep_csrf_header r s) = calls s" "sentLog (keep_csrf_header r s) = sentLog s"
  by (simp_all add: keep_csrf_header_def)

lemma refreshSession_continue_calls [simp]:
  "calls (refreshSession_continue data s) = calls s"
  by (simp add: refreshSession_continue_def Let_def)

text \<open>An event answers a call when it brings what the call waits for.\<close>

definition waits_reply :: "stage \<Rightarrow> bool" where
  "waits_reply stg \<longleftrightarrow> stg \<in> {Requested, Refreshing, Retried}"

lemma replied_moves:
  assumes "panel_inv F s" and "calls s n = Some cl" and "n \<notin> fst ` F" and "waits_reply (callStage cl)"
  shows "moves F n cl (replied c n cl answer s)"
proof -
  note at = call_log_at [OF assms(1,2)]
  have e: "panel_inv (insert (n, None) F) (end_call n s)" using assms(1-3) by (rule end_call_keeps)
  have ok: "panel_inv (insert (n, Some (cl\<lparr>callStage := stg\<rparr>)) F) (set_stage n cl stg (keep_csrf_header r s))"
    if "log_at (cl\<lparr>callStage := stg\<rparr>) (call_log n (sentLog s))" for stg r
    using that assms by (intro set_stage_keeps) (simp_all add: keeps)
  have okm: "moves F n cl (set_stage n cl stg (keep_csrf_header r s))"
    if "log_at (cl\<lparr>callStage := stg\<rparr>) (call_log n (sentLog s))" and "advances (callStage cl) (Some stg)" for stg r
    by (rule moves_stage [OF ok [OF that(1)] that(2)])
  consider "callStage cl = Requested" | "callStage cl = Refreshing" | "callStage cl = Retried"
    using assms(4) by (auto simp: waits_reply_def)
  then show ?thesis
  proof cases
    case 1
    with at have nb: "callOp cl \<noteq> Bootstrap" by (simp add: log_at_def)
    then have "log_at (cl\<lparr>callStage := OkBody\<rparr>) (call_log n (sentLog s))" by (simp add: log_at_def)
    with 1 have "moves F n cl (set_stage n cl OkBody (keep_csrf_header r s))" for r by (intro okm) simp_all
    moreover have "moves F n cl (settle_call n cl r s)" for r
      by (rule settle_call_advances [OF assms(1-3) nb]) (simp add: 1)
    ultimately show ?thesis
      using 1 e refreshSession_moves [OF assms(1-3) 1]
      by (auto simp: replied_def keeps intro!: moves_ended split: option.split)
  next
    case 2
    with at have "log_at (cl\<lparr>callStage := RefreshBody\<rparr>) (call_log n (sentLog s))"
      by (simp add: log_at_def)
    with 2 have "moves F n cl (set_stage n cl RefreshBody (keep_csrf_header r s))" for r by (intro okm) simp_all
    with 2 refreshed_moves [OF assms(1-3), of False] show ?thesis
      by (simp add: replied_def split: option.split)
  next
    case 3
    with at have nb: "callOp cl \<noteq> Bootstrap" by (simp add: log_at_def)
    have "moves F n cl (settle_call n cl r s)" for r
      by (rule settle_call_advances [OF assms(1-3) nb]) (simp add: 3)
    with 3 e show ?thesis
      by (auto simp: replied_def keeps intro!: moves_ended split: option.split)
  qed
qed

lemma body_read_moves:
  assumes "panel_inv F s" and "calls s n = Some cl" and "n \<notin> fst ` F" and "\<not> waits_reply (callStage cl)"
  shows "moves F n cl (body_read c n cl parsed s)"
proof -
  have e: "panel_inv (insert (n, None) F) (end_call n s)" using assms(1-3) by (rule end_call_keeps)
  have rb: "moves F n cl (refreshed n cl b (refreshSession_continue data s))"
    if "callStage cl = RefreshBody" for b data
    using assms that by (intro refreshed_moves) (simp_all add: keeps)
  show ?thesis
  proof (cases "callStage cl = RefreshBody")
    case True
    with rb refreshed_moves [OF assms(1-3), of False] show ?thesis
      by (simp add: body_read_def split: option.split)
  next
    case False
    with assms(4) have "callStage cl = OkBody \<or> callStage cl = ErrorBody"
      by (cases "callStage cl") (auto simp: waits_reply_def)
    with e show ?thesis
      by (auto simp: body_read_def keeps intro!: moves_ended split: option.split)
  qed
qed

lemma unawaited [simp]:
  "\<not> waits_reply (callStage cl) \<Longrightarrow> replied c n cl answer s = s"
  "waits_reply (callStage cl) \<Longrightarrow> body_read c n cl parsed s = s"
  by (cases "callStage cl"; simp add: waits_reply_def replied_def body_read_def)+

section \<open>Commits and actions\<close>

lemma run_changed_keeps:
  assumes "\<And>deps act t. \<lbrakk>(deps, act) \<in> set es; panel_inv F t\<rbrakk> \<Longrightarrow> panel_inv F (act t)" and "panel_inv F s"
  shows "panel_inv F (run_changed old es s)"
  using assms
proof (induction old es s rule: run_changed.induct)
  case (2 deps act es s)
  have "panel_inv F (act s)" using 2(2) [of deps act s] 2(3) by simp
  then have "panel_inv F (run_changed [] es (act s))" by (intro 2(1)) (auto intro: 2(2))
  then show ?case by simp
next
  case (3 d old deps act es s)
  have "panel_inv F (act s)" using 3(2) [of deps act s] 3(3) by simp
  then have "panel_inv F (run_changed old es (if d = deps then s else act s))"
    using 3(3) by (intro 3(1)) (auto intro: 3(2))
  then show ?case by simp
qed simp

lemma commit_keeps: "panel_inv F s \<Longrightarrow> panel_inv F (commit s)"
proof -
  assume s: "panel_inv F s"
  have "panel_inv F (run_changed (effectDeps s) (effects (scope_of s)) s)"
    by (rule run_changed_keeps [OF _ s])
      (auto simp: effects_def Let_def when_in_def syncBannedWords_def syncBots_def keeps)
  then show ?thesis by (simp add: commit_def)
qed

lemma set_input_keeps [keeps]: "panel_inv F s \<Longrightarrow> panel_inv F (set_input f v s)"
  by (cases f) simp_all

lemma perform_action_keeps:
  assumes "panel_inv F s" shows "panel_inv F (perform_action a (scope_of s) s)"
proof (cases a)
  case (Check_report i b)
  with assms selection_keeps(3) [OF assms] show ?thesis by simp
qed (use assms in \<open>simp_all add: keeps syncBots_def del: bex_simps\<close>)

text \<open>Any event keeps the calls it does not answer; one that answers a call advances it.\<close>

lemma quiet_step_keeps:
  assumes "panel_inv F s" and "\<And>n answer. e \<noteq> Replied n answer" and "\<And>n parsed. e \<noteq> BodyRead n parsed"
  shows "panel_inv F (panel_step c e s)"
proof (cases e)
  case (Act a)
  have "panel_inv F (act a s)"
    using assms(1) perform_action_keeps [OF assms(1)]
    by (cases a) (simp_all add: act_def keeps del: perform_action.simps)
  with Act show ?thesis by simp
next
  case Deferred_render
  with assms show ?thesis by (simp add: deferred_render_def)
qed (use assms commit_keeps in simp_all)

lemma panel_step_cases:
  assumes "panel_inv F s"
  obtains (same) "panel_inv F (panel_step c e s)"
  | (moved) n cl where "calls s n = Some cl" "(\<exists>answer. e = Replied n answer) \<or> (\<exists>parsed. e = BodyRead n parsed)"
      "\<And>G. \<lbrakk>panel_inv G s; n \<notin> fst ` G\<rbrakk> \<Longrightarrow> moves G n cl (panel_step c e s)"
proof (cases e)
  case (Replied n answer)
  show ?thesis
  proof (cases "calls s n")
    case None
    with assms Replied same show ?thesis by simp
  next
    case (Some cl)
    show ?thesis
    proof (cases "waits_reply (callStage cl)")
      case True
      with Some Replied show ?thesis by (intro moved) (auto intro: replied_moves)
    next
      case False
      with Some Replied assms same show ?thesis by simp
    qed
  qed
next
  case (BodyRead n parsed)
  show ?thesis
  proof (cases "calls s n")
    case None
    with assms BodyRead same show ?thesis by simp
  next
    case (Some cl)
    show ?thesis
    proof (cases "waits_reply (callStage cl)")
      case False
      with Some BodyRead show ?thesis by (intro moved) (auto intro: body_read_moves)
    next
      case True
      with Some BodyRead assms same show ?thesis by simp
    qed
  qed
qed (use quiet_step_keeps [OF assms] same in blast)+

lemma moves_inv: "moves F n cl s \<Longrightarrow> panel_inv F s"
  by (auto simp: moves_def intro: panel_inv_mono)

lemma panel_step_keeps:
  assumes "panel_inv {} s" shows "panel_inv {} (panel_step c e s)"
  by (rule panel_step_cases [OF assms]) (use assms in \<open>auto intro: moves_inv\<close>)

lemma initial_admin_inv: "panel_inv {} (initial_admin st)"
  by (simp add: panel_inv_def initial_admin_def initial_scope_def scope.defs calls_wf_def call_log_def
      selection_wf_def)

interpretation panel_sys: invariant_system "panel_step c" "initial_admin st" "panel_inv {}" for c st
  by unfold_locales (simp_all add: initial_admin_inv panel_step_keeps)

end
