(* ===== verification/Admin_Props.thy ===== *)
theory Admin_Props
  imports Admin_Calls
begin

text \<open>
  What holds of the admin panel: how its calls live and end, what they send, who may send it, what
  a logout leaves, and how selections, commits and the bot form behave.
\<close>

section \<open>Calls live and end\<close>

text \<open>
  The abstract life of a call: it is not made yet, it waits at a stage, or it is over. The
  specification allows any birth, the moves of \<open>advances\<close>, and nothing after the end.
\<close>

datatype phase = Unborn | At stage | Ended

inductive lifecycle :: "phase \<Rightarrow> phase \<Rightarrow> bool" where
  stay: "lifecycle p p"
| born: "lifecycle Unborn p"
| go_on: "advances st (Some st') \<Longrightarrow> lifecycle (At st) (At st')"
| finish: "advances st None \<Longrightarrow> lifecycle (At st) Ended"

inductive_cases lifecycle_from: "lifecycle (At st) p"
inductive_simps lifecycle_ended: "lifecycle Ended p"

definition phase_of :: "nat \<Rightarrow> admin \<Rightarrow> phase" where
  "phase_of n s =
     (if nextCall s \<le> n then Unborn
      else case calls s n of None \<Rightarrow> Ended | Some cl \<Rightarrow> At (callStage cl))"

lemma phase_pinned:
  "panel_inv {(n, v)} s \<Longrightarrow>
    phase_of n s = (case v of None \<Rightarrow> Ended | Some cl \<Rightarrow> At (callStage cl))"
  by (auto simp: panel_inv_def phase_of_def)

lemma step_lifecycle:
  assumes "panel_inv {} s"
  shows "lifecycle (phase_of n s) (phase_of n (panel_step c e s))"
proof (cases "nextCall s \<le> n")
  case True
  then show ?thesis by (simp add: phase_of_def lifecycle.born)
next
  case False
  let ?F = "{(n, calls s n)}"
  from False assms have pinned: "panel_inv ?F s" by (simp add: panel_inv_def)
  then show ?thesis
  proof (cases rule: panel_step_cases [where c = c and e = e])
    case same
    with phase_pinned [OF pinned] phase_pinned [OF same] show ?thesis by (simp add: lifecycle.stay)
  next
    case (moved m cl)
    show ?thesis
    proof (cases "m = n")
      case False
      then have "panel_inv ?F (panel_step c e s)" using moved(3) [OF pinned] by (auto dest: moves_inv)
      with phase_pinned [OF pinned] show ?thesis by (simp add: phase_pinned lifecycle.stay)
    next
      case True
      from moved(3) [OF assms] obtain v where v: "panel_inv {(n, v)} (panel_step c e s)"
        and adv: "advances (callStage cl) (stage_of v)" by (auto simp: moves_def True)
      from moved(1) True phase_pinned [OF pinned] have "phase_of n s = At (callStage cl)" by simp
      with phase_pinned [OF v] adv show ?thesis
        by (cases v) (auto simp: stage_of_def intro: lifecycle.go_on lifecycle.finish)
    qed
  qed
qed

text \<open>
  C3: the panel refines the life cycle of its calls: whatever happens, each event leaves every call
  where it is or moves it along the specification, from its request over at most one refresh and one
  repetition to its end; a call that is over never comes back.
\<close>

theorem calls_follow_lifecycle:
  "lifecycle (phase_of n (run_events (panel_step c) es (initial_admin st)))
     (phase_of n (panel_step c e (run_events (panel_step c) es (initial_admin st))))"
  by (rule step_lifecycle) (rule panel_sys.inv_run)

fun phase_rank :: "phase \<Rightarrow> nat" where
  "phase_rank Unborn = 6"
| "phase_rank (At Requested) = 5"
| "phase_rank (At Refreshing) = 4"
| "phase_rank (At RefreshBody) = 3"
| "phase_rank (At Retried) = 2"
| "phase_rank (At OkBody) = 1"
| "phase_rank (At ErrorBody) = 1"
| "phase_rank Ended = 0"

lemma phase_rank_le: "phase_rank p \<le> 6"
  by (cases p rule: phase_rank.cases) simp_all

lemma lifecycle_rank: "lifecycle p q \<Longrightarrow> p = q \<or> phase_rank q < phase_rank p"
proof (induction rule: lifecycle.induct)
  case (born p)
  then show ?case by (cases p rule: phase_rank.cases) simp_all
next
  case (go_on st st')
  then show ?case by (cases st) auto
next
  case (finish st)
  then show ?case by (cases st) auto
qed simp

fun phase_changes :: "panel_env \<Rightarrow> nat \<Rightarrow> panel_event list \<Rightarrow> admin \<Rightarrow> nat" where
  "phase_changes c n [] s = 0"
| "phase_changes c n (e # es) s =
     (if phase_of n (panel_step c e s) = phase_of n s then 0 else 1) + phase_changes c n es (panel_step c e s)"

lemma phase_changes_rank:
  "panel_inv {} s \<Longrightarrow> phase_changes c n es s \<le> phase_rank (phase_of n s)"
proof (induction es arbitrary: s)
  case (Cons e es)
  from Cons.IH [OF panel_step_keeps [OF Cons.prems]]
  have ih: "phase_changes c n es (panel_step c e s) \<le> phase_rank (phase_of n (panel_step c e s))" .
  show ?case
  proof (cases "phase_of n (panel_step c e s) = phase_of n s")
    case True
    with ih show ?thesis by simp
  next
    case False
    with lifecycle_rank [OF step_lifecycle [OF Cons.prems, of n c e]]
    have "phase_rank (phase_of n (panel_step c e s)) < phase_rank (phase_of n s)" by metis
    with ih have "1 + phase_changes c n es (panel_step c e s) \<le> phase_rank (phase_of n s)" by linarith
    with False show ?thesis by (simp only: phase_changes.simps if_False)
  qed
qed simp

text \<open>
  C15: every call ends: over any run, of any length, a call changes its phase at most six times, its
  birth and its end included, so answers cannot keep it refreshing or repeating for ever.
\<close>

theorem calls_terminate: "phase_changes c n es (initial_admin st) \<le> 6"
  by (rule le_trans [OF phase_changes_rank [OF initial_admin_inv] phase_rank_le])

text \<open>
  C1: what a call sends: in every run the requests of a call are a beginning of its request, one
  refresh of the session, the same request once more; the bootstrap sends the refresh alone.
\<close>

theorem requests_follow_protocol:
  "protocol_log (call_log n (sentLog (run_events (panel_step c) es (initial_admin st))))"
  using panel_sys.inv_run [of c es st] by (simp add: panel_inv_def calls_wf_def)

text \<open>
  C16: no privileged request without the role: in every run a call in flight was made by a render
  whose role allowed its operation, also when it was made by the continuation of another call.
\<close>

theorem calls_are_permitted:
  "pred_option (\<lambda>cl. allowed (callOp cl) (role (callScope cl)))
     (calls (run_events (panel_step c) es (initial_admin st)) n)"
  using panel_sys.inv_run [of c es st] by (auto simp: panel_inv_def calls_wf_def pred_option_def)

text \<open>
  C17: only pending reports are selected: in every run each selected identity is that of a report the
  panel holds as pending.
\<close>

theorem selection_is_pending:
  "set (selectedReports (run_events (panel_step c) es (initial_admin st)))
     \<subseteq> report_id ` set (filter is_pending (reports (run_events (panel_step c) es (initial_admin st))))"
  by (rule panel_inv_selected) (rule panel_sys.inv_run)

section \<open>The session\<close>

text \<open>Concrete calls and states for the examples below.\<close>

definition demo_call :: "op \<Rightarrow> stage \<Rightarrow> call" where
  "demo_call f stg =
     \<lparr>callOp = f, callRequest = GET ''/api/v1/admin/reports?status=pending&limit=10'',
      callScope = initial_scope, callStage = stg\<rparr>"

definition demo :: "(nat \<rightharpoonup> call) \<Rightarrow> admin" where
  "demo cs = (initial_admin \<lparr>localStorage = Map.empty, sessionStorage = Map.empty\<rparr>)\<lparr>calls := cs\<rparr>"

definition demo_env :: panel_env where
  "demo_env = \<lparr>loginRoute = ''/'', json_parse = (\<lambda>t. if t = ''null'' then Some JNull else None)\<rparr>"

lemma demo_simps [simp]:
  "callOp (demo_call f stg) = f" "callStage (demo_call f stg) = stg"
  "callScope (demo_call f stg) = initial_scope" "calls (demo cs) = cs"
  "json_parse demo_env ''null'' = Some JNull" "reportStatusFilter initial_scope = ''pending''"
  by (simp_all add: demo_call_def demo_def demo_env_def initial_scope_def)

text \<open>
  The repeated request carries the new token: a call refused with 401 whose refresh succeeds
  with a token repeats its request, unchanged, with that token.
\<close>

theorem retry_carries_new_token:
  assumes "calls s n = Some cl" and "callStage cl = Requested" and "callOp cl \<notin> {Login, Logout, Bootstrap}"
    and "status r1 = 401" and "response_ok r2" and "js_get data ''csrf_token'' = JStr t" and "t \<noteq> []"
    and "s' = run_events (panel_step c) [Replied n (Some r1), Replied n (Some r2), BodyRead n (Some data)] s"
  shows "\<exists>h. last (sentLog s') = \<lparr>sentBy = n, sentStage = Retried, sentRequest = callRequest cl, sentHeaders = h\<rparr>
    \<and> map_of h ''X-CSRF-Token'' = Some t"
proof -
  have nn: "\<not> js_nullish data" using assms(6) by (cases data) (auto simp: js_nullish_def)
  define s1 where "s1 = refreshSession n cl s"
  define c1 where "c1 = cl\<lparr>callStage := Refreshing\<rparr>"
  have s1: "panel_step c (Replied n (Some r1)) s = s1" "calls s1 n = Some c1"
    using assms(1-4) by (auto simp: replied_def s1_def c1_def refreshSession_def set_stage_def)
  define s2 where "s2 = set_stage n c1 RefreshBody (keep_csrf_header r2 s1)"
  define c2 where "c2 = c1\<lparr>callStage := RefreshBody\<rparr>"
  have s2: "panel_step c (Replied n (Some r2)) s1 = s2" "calls s2 n = Some c2"
    using s1(2) assms(5) by (simp_all add: replied_def s2_def c2_def c1_def set_stage_def)
  define s3 where "s3 = refreshSession_continue data s2"
  have s3: "panel_step c (BodyRead n (Some data)) s2 = refreshed n c2 True s3"
    using s2(2) nn by (simp add: body_read_def s3_def c2_def)
  have op: "callOp c2 \<noteq> Bootstrap" "callRequest c2 = callRequest cl"
    using assms(3) by (simp_all add: c2_def c1_def)
  have "sessionStorage (store s3) ''admin_csrf'' = Some t"
    using assms(6,7) by (simp add: s3_def refreshSession_continue_def Let_def persistAdminSession_def)
  then have "map_of (admin_headers (callRequest cl) s3) ''X-CSRF-Token'' = Some t"
    using assms(7) by (simp add: admin_headers_def buildAdminHeaders_def)
  moreover have "s' = refreshed n c2 True s3"
    unfolding assms(8) by (simp only: run_events.simps s1 s2 s3)
  ultimately show ?thesis
    using op by (simp add: refreshed_def set_stage_def log_request_def)
qed

theorem retry_carries_new_token_witness:
  "\<exists>h. last (sentLog (run_events (panel_step demo_env)
      [Replied 0 (Some \<lparr>status = 401, csrf_header = None\<rparr>), Replied 0 (Some \<lparr>status = 200, csrf_header = None\<rparr>),
       BodyRead 0 (Some (JObj [(''csrf_token'', JStr ''fresh'')]))] (demo [0 \<mapsto> demo_call FetchReports Requested]))) =
     \<lparr>sentBy = 0, sentStage = Retried, sentRequest = callRequest (demo_call FetchReports Requested), sentHeaders = h\<rparr>
    \<and> map_of h ''X-CSRF-Token'' = Some ''fresh''"
  by (rule retry_carries_new_token [OF _ _ _ _ _ _ _ refl]) (simp_all add: response_ok_def)

text \<open>
  C31: a logout can be undone by a refresh: when another call is reading the answer of its refresh at
  the moment the user is logged out, the session comes back, in memory and in storage.
\<close>

theorem logout_undone_by_refresh:
  assumes "calls s m = Some lg" and "callOp lg = Logout" and "callStage lg = Requested"
    and "calls s n = Some cl" and "callStage cl = RefreshBody" and "\<not> js_nullish data"
    and "s' = run_events (panel_step c) [Replied m answer, BodyRead n (Some data)] s"
  shows "isAuthenticated s' \<and> role s' = js_get data ''role'' \<and>
    localStorage (store s') ''admin_auth'' = Some ''true''"
proof -
  define s1 where "s1 = logout_continue c (end_call m s)"
  have s1: "panel_step c (Replied m answer) s = s1" using assms(1-3) by (simp add: replied_def s1_def)
  have "m \<noteq> n" using assms(1,3,4,5) by auto
  then have "calls s1 n = Some cl" using assms(4) by (simp add: s1_def logout_continue_def end_call_def)
  with assms(5,6) have s2: "panel_step c (BodyRead n (Some data)) s1 = refreshed n cl True (refreshSession_continue data s1)"
    by (simp add: body_read_def)
  have "s' = refreshed n cl True (refreshSession_continue data s1)"
    unfolding assms(7) by (simp only: run_events.simps s1 s2)
  then show ?thesis
    by (simp add: refreshed_def set_stage_def log_request_def end_call_def refreshSession_continue_def
        Let_def persistAdminSession_def)
qed

theorem logout_undone_by_refresh_witness:
  "let s' = run_events (panel_step demo_env)
       [Replied 1 (Some \<lparr>status = 200, csrf_header = None\<rparr>), BodyRead 0 (Some (JObj [(''role'', JStr ''root'')]))]
       (demo [0 \<mapsto> demo_call FetchReports RefreshBody, 1 \<mapsto> demo_call Logout Requested])
   in isAuthenticated s' \<and> role s' = js_get (JObj [(''role'', JStr ''root'')]) ''role'' \<and>
      localStorage (store s') ''admin_auth'' = Some ''true''"
  unfolding Let_def
  by (rule logout_undone_by_refresh [where m = 1 and n = 0 and lg = "demo_call Logout Requested"
      and cl = "demo_call FetchReports RefreshBody", OF _ _ _ _ _ _ refl]) (simp_all add: js_nullish_def)

text \<open>
  C37: a logout is remembered: once it is answered, whatever the answer, nobody is signed in, and a
  panel opened afterwards on the same storage shows the login form without asking the server.
\<close>

theorem logout_forgets_session:
  assumes "calls s n = Some cl" and "callOp cl = Logout" and "callStage cl = Requested"
    and "s' = panel_step c (Replied n answer) s" and "s'' = panel_step c' Commit (initial_admin (store s'))"
  shows "\<not> isAuthenticated s' \<and> reports s' = [] \<and> selectedReports s' = [] \<and>
    authReady s'' \<and> \<not> isAuthenticated s'' \<and> sentLog s'' = []"
proof -
  have s': "s' = logout_continue c (end_call n s)" using assms(1-4) by (simp add: replied_def)
  have none: "localStorage (store s') ''admin_auth'' = None"
    by (simp add: s' logout_continue_def clearAdminSession_def)
  let ?i = "initial_admin (store s')"
  let ?P = "\<lambda>t. authReady t \<and> \<not> isAuthenticated t \<and> sentLog t = []"
  have sc: "\<not> authReady (scope_of ?i)" by (simp add: initial_admin_def initial_scope_def scope.defs)
  have b: "?P (bootstrapAuth (scope_of ?i) ?i)"
    using none by (simp add: bootstrapAuth_def forget_session_def initial_admin_def scope.defs initial_scope_def)
  have deps: "effectDeps ?i = []" by (simp add: initial_admin_def initial_scope_def scope.defs)
  have "?P (run_changed [] (tl (effects (scope_of ?i))) (bootstrapAuth (scope_of ?i) ?i))"
    using b sc by (simp add: effects_def Let_def when_in_def)
  moreover have "effects (scope_of ?i) = ([], bootstrapAuth (scope_of ?i)) # tl (effects (scope_of ?i))"
    by (simp add: effects_def Let_def)
  ultimately have "?P (run_changed [] (effects (scope_of ?i)) ?i)"
    by (metis run_changed.simps(2))
  with deps have "?P s''" by (simp add: assms(5) commit_def)
  then show ?thesis by (simp add: s' logout_continue_def)
qed

theorem logout_forgets_session_witness:
  "let s' = panel_step demo_env (Replied 0 None) (demo [0 \<mapsto> demo_call Logout Requested]);
       s'' = panel_step demo_env Commit (initial_admin (store s'))
   in \<not> isAuthenticated s' \<and> reports s' = [] \<and> selectedReports s' = [] \<and>
      authReady s'' \<and> \<not> isAuthenticated s'' \<and> sentLog s'' = []"
  unfolding Let_def
  by (rule logout_forgets_session [where n = 0 and cl = "demo_call Logout Requested", OF _ _ _ refl refl]) simp_all

section \<open>Reports\<close>

text \<open>
  An answer to an older question wins when it comes later: two fetches of the reports are in
  flight; the body of the older one, made under another filter, replaces the newer list.
\<close>

theorem stale_filter_wins:
  assumes "calls s n = Some old" and "callOp old = FetchReports" and "callStage old = OkBody"
    and "calls s m = Some new" and "callOp new = FetchReports" and "callStage new = OkBody" and "n \<noteq> m"
    and "reportStatusFilter (callScope old) \<noteq> reportStatusFilter s"
    and "js_get data ''reports'' = JArr rows" and "\<not> list_ex js_nullish rows"
    and "s' = run_events (panel_step c) [BodyRead m (Some fresh), BodyRead n (Some data)] s"
  shows "reports s' = map (normalize_report c) rows \<and> reportStatusFilter s' = reportStatusFilter s"
proof -
  define s1 where "s1 = fetchReports_continue c fresh (end_call m s)"
  have s1: "panel_step c (BodyRead m (Some fresh)) s = s1"
    using assms(4-6) by (simp add: body_read_def s1_def)
  have frame: "calls s1 n = Some old" "reportStatusFilter s1 = reportStatusFilter s"
    using assms(1,7) by (simp_all add: s1_def fetchReports_continue_def Let_def end_call_def split: js.split)
  have nn: "\<not> js_nullish data" using assms(9) by (cases data) (auto simp: js_nullish_def)
  have "s' = fetchReports_continue c data (end_call n s1)"
    unfolding assms(11) using s1 frame(1) assms(2,3) by (simp add: body_read_def)
  then show ?thesis
    using frame nn assms(9,10) by (simp add: fetchReports_continue_def Let_def js_or_def end_call_def)
qed

theorem stale_filter_wins_witness:
  "let s = (demo [0 \<mapsto> demo_call FetchReports OkBody, 1 \<mapsto> demo_call FetchReports OkBody])
         \<lparr>reportStatusFilter := ''decided''\<rparr>;
       s' = run_events (panel_step demo_env)
         [BodyRead 1 (Some (JObj [(''reports'', JArr [])])), BodyRead 0 (Some (JObj [(''reports'', JArr [JObj []])]))] s
   in reports s' = map (normalize_report demo_env) [JObj []] \<and> reportStatusFilter s' = reportStatusFilter s"
  unfolding Let_def
  by (rule stale_filter_wins [where n = 0 and m = 1 and old = "demo_call FetchReports OkBody"
      and new = "demo_call FetchReports OkBody", OF _ _ _ _ _ _ _ _ _ _ refl]) (simp_all add: js_nullish_def)

lemma updateReportStatus_log:
  "sentLog (updateReportStatus i st sc s) = sentLog s @
     [\<lparr>sentBy = nextCall s, sentStage = Requested,
       sentRequest = \<lparr>verb = ''PUT'', path = ''/api/v1/admin/reports/'' @ js_string i, body = Some (StatusBody st)\<rparr>,
       sentHeaders = buildAdminHeaders True (store s)\<rparr>]"
  by (simp add: updateReportStatus_def adminFetch_def admin_headers_def)

lemma fold_update_log:
  "map sentRequest (sentLog (fold (\<lambda>i. updateReportStatus i st sc) ids s)) = map sentRequest (sentLog s) @
     map (\<lambda>i. \<lparr>verb = ''PUT'', path = ''/api/v1/admin/reports/'' @ js_string i, body = Some (StatusBody st)\<rparr>) ids"
  by (induction ids arbitrary: s) (simp_all add: updateReportStatus_log)

text \<open>
  A bulk decision sends one request for each pending report that is both shown and selected, in
  the order shown, and for no other; it leaves nothing selected.
\<close>

theorem bulk_update_exact:
  "map sentRequest (sentLog (bulkUpdate st sc s)) = map sentRequest (sentLog s) @
     map (\<lambda>r. \<lparr>verb = ''PUT'', path = ''/api/v1/admin/reports/'' @ js_string (report_id r), body = Some (StatusBody st)\<rparr>)
       (filter (\<lambda>r. is_pending r \<and> report_id r \<in> set (selectedReports sc)) (visibleReports sc))
   \<and> selectedReports (bulkUpdate st sc s) = []"
  by (simp add: bulkUpdate_def fold_update_log selectedPendingReportIds_def selectableVisibleReports_def o_def
      conj_commute)

text \<open>
  The transcript of a report can become null: a stored transcript whose text parses to null is
  kept as null, not as a list, while the categories of a report are always a list.
\<close>

theorem null_transcript_survives:
  assumes "js_get r ''chat_log'' = JStr t" and "json_parse c t = Some JNull"
  shows "js_get (normalize_report c r) ''chat_log'' = JNull \<and>
    (\<exists>vs. js_get (normalize_report c r) ''auto_moderation_categories'' = JArr vs)"
proof -
  have "\<exists>vs. parsed_categories c r = JArr vs"
    by (auto simp: parsed_categories_def split: js.split option.split)
  then show ?thesis using assms by (simp add: normalize_report_def parsed_chat_log_def)
qed

theorem null_transcript_survives_witness:
  "js_get (normalize_report demo_env (JObj [(''chat_log'', JStr ''null'')])) ''chat_log'' = JNull \<and>
    (\<exists>vs. js_get (normalize_report demo_env (JObj [(''chat_log'', JStr ''null'')])) ''auto_moderation_categories'' = JArr vs)"
  by (rule null_transcript_survives [where t = "''null''"]) simp_all

section \<open>Commits settle\<close>

lemma start_call_scope [simp]:
  "scope_of (start_call f req h stg sc s) = scope_of s"
  "effectDeps (start_call f req h stg sc s) = effectDeps s"
  by (simp_all add: start_call_def log_request_def Let_def scope.defs)

lemma adminFetch_scope [simp]:
  "scope_of (adminFetch f req sc s) = scope_of s" "effectDeps (adminFetch f req sc s) = effectDeps s"
  by (simp_all add: adminFetch_def)

lemma fetches_scope:
  "scope_of (fetchReports sc s) = scope_of s" "scope_of (fetchBans sc s) = scope_of s"
  "scope_of (fetchAutoModerationSettings sc s) = scope_of s" "scope_of (syncBannedWords sc s) = scope_of s"
  "scope_of (fetchAccounts sc s) = scope_of s" "scope_of (fetchInfraHealth sc s) = scope_of s"
  "scope_of (syncBots sc s) = scope_of s"
  by (simp_all add: fetchReports_def fetchBans_def fetchAutoModerationSettings_def syncBannedWords_def
      fetchBannedWords_def fetchBannedWordsSettings_def fetchAccounts_def fetchInfraHealth_def syncBots_def
      fetchBotSettings_def fetchBotDefinitions_def)

text \<open>The first three effects concern the bootstrap and the page; the others only send requests.\<close>

definition sync_effects :: "scope \<Rightarrow> (js list \<times> (admin \<Rightarrow> admin)) list" where
  "sync_effects sc = drop 3 (effects sc)"

lemma effects_split:
  "effects sc = ([], bootstrapAuth sc) # ([JStr (deferredAccountSearch sc)], accountPage_update (\<lambda>_. 1)) #
     ([JStr (accountLimit sc)], accountPage_update (\<lambda>_. 1)) # sync_effects sc"
  by (simp add: sync_effects_def effects_def Let_def)

lemma run_changed_inv:
  assumes "\<And>deps act t. \<lbrakk>(deps, act) \<in> set es; P t\<rbrakk> \<Longrightarrow> P (act t)" and "P s"
  shows "P (run_changed old es s)"
  using assms
proof (induction old es s rule: run_changed.induct)
  case (2 deps act es s)
  have "P (act s)" using 2(2) [of deps act s] 2(3) by simp
  then have "P (run_changed [] es (act s))" by (intro 2(1)) (auto intro: 2(2))
  then show ?case by simp
next
  case (3 d old deps act es s)
  have "P (act s)" using 3(2) [of deps act s] 3(3) by simp
  then have "P (run_changed old es (if d = deps then s else act s))"
    using 3(3) by (intro 3(1)) (auto intro: 3(2))
  then show ?case by simp
qed simp

lemma sync_effects_scope: "(deps, eff) \<in> set (sync_effects sc) \<Longrightarrow> scope_of (eff t) = scope_of t"
  by (auto simp: sync_effects_def effects_def Let_def when_in_def fetches_scope)

lemma commit_page_fields:
  "deferredAccountSearch (commit s) = deferredAccountSearch s \<and> accountLimit (commit s) = accountLimit s"
proof -
  let ?P = "\<lambda>t. deferredAccountSearch t = deferredAccountSearch s \<and> accountLimit t = accountLimit s"
  have sync: "?P (eff t)" if "(deps, eff) \<in> set (sync_effects sc)" "?P t" for deps eff sc t
    using arg_cong [OF sync_effects_scope [OF that(1), of t], of deferredAccountSearch]
      arg_cong [OF sync_effects_scope [OF that(1), of t], of accountLimit] that(2)
    by (simp add: scope.defs)
  have "?P (run_changed (effectDeps s) (effects (scope_of s)) s)"
    by (rule run_changed_inv)
      (auto simp: effects_split bootstrapAuth_def forget_session_def start_call_def log_request_def Let_def
        intro: sync [THEN conjunct1] sync [THEN conjunct2])
  then show ?thesis by (simp add: commit_def)
qed

lemma run_changed_same: "run_changed (map fst es) es s = s"
  by (induction es) auto

text \<open>
  C34: commits settle: after a commit and one more, a further commit changes nothing, so the effects,
  which set state and are driven by it, cannot keep each other running.
\<close>

theorem commits_settle: "commit (commit (commit s)) = commit (commit s)"
proof -
  define s1 where "s1 = commit s"
  have d1: "effectDeps s1 = map fst (effects (scope_of s))" by (simp add: s1_def commit_def)
  have page: "deferredAccountSearch s1 = deferredAccountSearch s" "accountLimit s1 = accountLimit s"
    using commit_page_fields [of s] by (simp_all add: s1_def)
  have "run_changed (effectDeps s1) (effects (scope_of s1)) s1 =
      run_changed (map fst (sync_effects (scope_of s))) (sync_effects (scope_of s1)) s1"
    using page by (simp add: d1 effects_split scope.defs)
  moreover have "scope_of (run_changed old (sync_effects (scope_of s1)) s1) = scope_of s1" for old
    by (rule run_changed_inv [where P = "\<lambda>t. scope_of t = scope_of s1"]) (simp_all add: sync_effects_scope)
  ultimately have "scope_of (commit s1) = scope_of s1"
    by (simp add: commit_def scope.defs)
  moreover have "effectDeps (commit s1) = map fst (effects (scope_of s1))" by (simp add: commit_def)
  ultimately have "commit (commit s1) = (commit s1)\<lparr>effectDeps := effectDeps (commit s1)\<rparr>"
    by (simp add: commit_def [of "commit s1"] run_changed_same)
  then show ?thesis by (simp add: s1_def)
qed

end
