(* ===== verification/Admin_Forms.thy ===== *)
theory Admin_Forms
  imports Admin_Actions
begin

text \<open>
  What the forms of the admin panel send: editing a bot and saving it unchanged, the settings of the
  bots, and the request of a ban.
\<close>

section \<open>Lines\<close>

text \<open>A line as the bot form keeps it: not empty, without surrounding space or a line break.\<close>

definition clean_line :: "string \<Rightarrow> bool" where
  "clean_line l \<longleftrightarrow> l \<noteq> [] \<and> js_trim l = l \<and> line_break \<notin> set l"

lemma parse_joined_lines:
  assumes "list_all clean_line ls"
  shows "parseConversationLines (js_join [line_break] ls) = ls"
proof (cases "ls = []")
  case True
  then show ?thesis by (simp add: parseConversationLines_def)
next
  case False
  have "list_all (\<lambda>l. line_break \<notin> set l) ls" using assms by (auto simp: clean_line_def list_all_iff)
  with False have split: "js_split (char_of (10::nat)) (js_join [line_break] ls) = ls"
    using js_split_join [of "char_of (10::nat)" ls] by (simp add: line_break_def)
  have "map js_trim ls = ls" using assms by (induction ls) (auto simp: clean_line_def)
  moreover have "filter (\<lambda>l. l \<noteq> []) ls = ls" using assms by (induction ls) (auto simp: clean_line_def)
  ultimately show ?thesis by (simp add: parseConversationLines_def split)
qed

section \<open>Properties\<close>


definition sample_row :: js where
  "sample_row = JObj [(''bot_type'', JStr ''engagement''),
     (''match_modes_json'', JArr [JStr ''text'', JStr ''video'']),
     (''script_json'', JObj [(''opening_messages'', JArr [JStr ''hey'', JStr ''hi'']),
        (''triggers'', JArr [JObj [(''regex'', JStr ''asl''), (''reply'', JStr ''no'')]])])]"


text \<open>
  Saving an AI bot turns its model on: the form has no field for the flag, and whatever the bot
  stored, an edit that is saved sends it enabled.
\<close>

theorem edit_enables_ai:
  assumes "js_get row ''bot_type'' = JStr ''ai''" and "buildBotDefinitionPayload (edit_form row) = Inr p"
  shows "\<exists>config. payloadAI p = Some (True, config)"
proof -
  have "botType (edit_form row) = ''ai''" using assms(1) by (simp add: edit_form_def Let_def)
  with assms(2) show ?thesis
    by (auto simp: buildBotDefinitionPayload_def Let_def split: if_splits)
qed

definition disabled_ai_row :: js where
  "disabled_ai_row = JObj [(''bot_type'', JStr ''ai''), (''match_modes_json'', JArr [JStr ''text'']),
     (''ai_config_json'', JObj [(''enabled'', JBool False), (''api_url'', JStr ''u''),
        (''api_token'', JStr ''t''), (''model'', JStr ''m'')])]"

theorem edit_enables_ai_witness:
  "\<exists>p config. buildBotDefinitionPayload (edit_form disabled_ai_row) = Inr p \<and> payloadAI p = Some (True, config)"
proof -
  have t: "js_get disabled_ai_row ''bot_type'' = JStr ''ai''" by (simp add: disabled_ai_row_def)
  have "js_trim ''u'' \<noteq> []" "js_trim ''t'' \<noteq> []" "js_trim ''m'' \<noteq> []" by (simp_all add: js_trim_def js_space_def)
  then have "\<exists>p. buildBotDefinitionPayload (edit_form disabled_ai_row) = Inr p"
    by (simp add: buildBotDefinitionPayload_def Let_def edit_form_def disabled_ai_row_def strings_of_def string_field_def)
  with edit_enables_ai [OF t] show ?thesis by blast
qed

text \<open>A quantity that lies between two bounds.\<close>

definition num_between :: "rat \<Rightarrow> number \<Rightarrow> rat \<Rightarrow> bool" where
  "num_between a n b \<longleftrightarrow> (case n of Fin q \<Rightarrow> a \<le> q \<and> q \<le> b \<and> q = of_int (floor q) | _ \<Rightarrow> False)"

text \<open>
  Saved bot settings are in range: whatever finite or infinite quantities the dialog holds, the
  percentage sent is a whole number from 0 to 100 and the number of runs one from 1 to 100000.
\<close>

theorem saved_settings_in_range:
  assumes "rollout_percent d \<noteq> NaN" and "max_concurrent_runs d \<noteq> NaN"
  shows "\<exists>p r. map_of (clamped_settings d) ''rollout_percent'' = Some (Quantity p) \<and> num_between 0 p 100 \<and>
    map_of (clamped_settings d) ''max_concurrent_runs'' = Some (Quantity r) \<and> num_between 1 r 100000"
proof -
  have clamp: "num_between (of_int a) (num_min (of_int b) (num_max (of_int a) (num_round n))) (of_int b)"
    if "n \<noteq> NaN" "a \<le> b" for n and a b :: int
    using that by (cases n) (auto simp: num_between_def max_def min_def)
  from clamp [OF assms(1), of 0 100] clamp [OF assms(2), of 1 100000]
  show ?thesis by (simp add: clamped_settings_def)
qed

theorem saved_settings_in_range_witness:
  "\<exists>p r. map_of (clamped_settings (buildBotRuntimeSettingsDraft JNull)) ''rollout_percent'' = Some (Quantity p) \<and>
    num_between 0 p 100 \<and>
    map_of (clamped_settings (buildBotRuntimeSettingsDraft JNull)) ''max_concurrent_runs'' = Some (Quantity r) \<and>
    num_between 1 r 100000"
  by (rule saved_settings_in_range)
    (simp_all add: buildBotRuntimeSettingsDraft_def setting_or_def js_nullish_def)

text \<open>
  A ban request names what it bans: it carries a trimmed reason that is not empty, a session
  exactly when the session is the target, otherwise an address, and an expiry exactly when temporary.
\<close>

theorem ban_request_wf:
  assumes "ban_request_of later m = Some (Inr req)"
  shows "reqReason req = js_trim (banReason m) \<and> reqReason req \<noteq> [] \<and>
    (reqSessionId req \<noteq> None) = (banTarget m = ''session'') \<and>
    (reqSessionId req \<noteq> None \<or> reqIp req \<noteq> None) \<and>
    (reqExpiry req \<noteq> None) = (banMode m = ''temporary'')"
  using assms by (auto simp: ban_request_of_def Let_def split: if_splits expiry.splits)

theorem ban_request_wf_witness:
  "let req = \<lparr>reqReason = ''spam'', reqReportId = None, reqSessionId = Some ''abc'', reqIp = None, reqExpiry = None\<rparr>
   in reqReason req = js_trim ''spam'' \<and> reqReason req \<noteq> [] \<and> (reqSessionId req \<noteq> None) = (''session'' = ''session'') \<and>
      (reqSessionId req \<noteq> None \<or> reqIp req \<noteq> None) \<and> (reqExpiry req \<noteq> None) = (''permanent'' = ''temporary'')"
  using ban_request_wf [of "\<lambda>n u. None" "closed_ban_modal\<lparr>banSessionId := ''abc'', banReason := ''spam''\<rparr>"
      "\<lparr>reqReason = ''spam'', reqReportId = None, reqSessionId = Some ''abc'', reqIp = None, reqExpiry = None\<rparr>"]
  by (simp add: ban_request_of_def closed_ban_modal_def Let_def js_trim_def js_space_def)

text \<open>
  A blank target is sent: a session of spaces only passes the check for a missing target, is
  trimmed afterwards, and the request bans the empty session.
\<close>

theorem blank_ban_target_is_sent:
  assumes "banTarget m = ''session''" and "banSessionId m \<noteq> []" and "js_trim (banSessionId m) = []"
    and "js_trim (banReason m) \<noteq> []" and "banMode m = ''permanent''"
  shows "\<exists>req. ban_request_of later m = Some (Inr req) \<and> reqSessionId req = Some []"
  using assms by (simp add: ban_request_of_def Let_def)

theorem blank_ban_target_is_sent_witness:
  "\<exists>req. ban_request_of (\<lambda>n u. None) (closed_ban_modal\<lparr>banSessionId := '' '', banReason := ''spam''\<rparr>) =
    Some (Inr req) \<and> reqSessionId req = Some []"
  by (rule blank_ban_target_is_sent) (simp_all add: closed_ban_modal_def js_trim_def js_space_def)

end
