(* ===== verification/Chat_Session.thy ===== *)
theory Chat_Session
  imports Chat_Types
begin

text \<open>
  What both chat hooks promise their pages: an abstract session that rests, seeks, chats with a peer or
  is over, and the moves each kind of event may make. The abstraction reads the status and the peer of
  the state both hooks share. The locale \<open>chat_session\<close> is the contract; the text hook and the video
  hook are its two instances.
\<close>

section \<open>The session\<close>

datatype session = Resting | Seeking | Chatting "string option" | Over

text \<open>
  Only the user's search makes the session seek, only a match that the server announced makes it
  chat, and with that match's peer. \<open>Hears\<close> carries the peers announced by what the client delivers
  during the event. A search that resumes after a wait can only fail; a page that vanishes may forget its
  peer.
\<close>

datatype move =
  Quiet | Settles | Asks | Resumes | Skips | Stops | Leaves | Hears "string list" | Vanishes

fun session_move :: "move \<Rightarrow> session \<Rightarrow> session \<Rightarrow> bool" where
  "session_move Quiet a b = (b = a)"
| "session_move Settles a b = (b = a \<or> b = Over)"
| "session_move Asks a b = (b = a \<or> b = Seeking \<or> b = Resting)"
| "session_move Resumes a b = (b = a \<or> b = Resting)"
| "session_move Skips a b = (b = a \<or> b = Seeking \<and> a \<notin> {Resting, Seeking, Over})"
| "session_move Stops a b = (b = Resting)"
| "session_move Leaves a b = (b = a \<or> b = Over)"
| "session_move (Hears ps) a b = (b = a \<or> b = Resting \<or> b = Over \<or> (\<exists>p\<in>set ps. b = Chatting (Some p)))"
| "session_move Vanishes a b = (b = a \<or> b = Chatting None \<and> a \<notin> {Resting, Seeking, Over})"

section \<open>The abstraction\<close>

definition session_of :: "'a chat_scheme \<Rightarrow> session" where
  "session_of s =
     (case status s of
        Idle \<Rightarrow> Resting | Searching \<Rightarrow> Seeking | Connected \<Rightarrow> Chatting (peerId s) | Disconnected \<Rightarrow> Over)"

definition announced_peer :: "message \<Rightarrow> string list" where
  "announced_peer d =
     (if mtype d = MMatch then [if str_truthy (peer_id d) then the (peer_id d) else []] else [])"

fun announced :: "unit ws_effect \<Rightarrow> string list" where
  "announced (InvokeMessage h m) = announced_peer (decode_message m)"
| "announced eff = []"

lemma session_of_cong: "\<lbrakk>status t = status s; peerId t = peerId s\<rbrakk> \<Longrightarrow> session_of t = session_of s"
  by (simp add: session_of_def split: chat_status.split)

lemma session_frame [simp]:
  "session_of (outbox_update f s) = session_of s" "session_of (ws_update g s) = session_of s"
  "session_of (now_update h s) = session_of s" "session_of (awaitingReply_update r s) = session_of s"
  "session_of (awaitingStart_update t s) = session_of s" "session_of (awaitingSetup_update u s) = session_of s"
  "session_of (connected_update c s) = session_of s" "session_of (messages_update m s) = session_of s"
  "session_of (nextKey_update n s) = session_of s" "session_of (peerTyping_update q s) = session_of s"
  "session_of (sessionId_update f1 s) = session_of s" "session_of (sessionToken_update f2 s) = session_of s"
  "session_of (reportPeerId_update f3 s) = session_of s" "session_of (typingTimers_update f4 s) = session_of s"
  "session_of (peerTypingTimeoutRef_update f5 s) = session_of s" "session_of (health_update f6 s) = session_of s"
  "session_of (mounted_update f8 s) = session_of s" "session_of (chatEpochRef_update f9 s) = session_of s"
  "session_of (showReconnectMessageRef_update f10 s) = session_of s"
  "status s \<noteq> Connected \<Longrightarrow> session_of (peerId_update f7 s) = session_of s"
  by (simp_all add: session_of_def split: chat_status.split)

lemma session_status [simp]:
  "session_of (s\<lparr>status := Idle\<rparr>) = Resting" "session_of (s\<lparr>status := Searching\<rparr>) = Seeking"
  "session_of (s\<lparr>status := Disconnected\<rparr>) = Over"
  "session_of (s\<lparr>status := Connected\<rparr>) = Chatting (peerId s)"
  "status s = Connected \<Longrightarrow> session_of s = Chatting (peerId s)"
  by (simp_all add: session_of_def)

lemma hears_trans:
  "\<lbrakk>session_move (Hears ps) a b; session_move (Hears qs) b c\<rbrakk> \<Longrightarrow> session_move (Hears (ps @ qs)) a c"
  by auto

text \<open>A request to the client invokes no handler while it is made.\<close>

lemma request_no_invocation: "filter is_invocation (snd (snd (sendWithResponse ty dat w))) = []"
  by (auto simp: sendWithResponse_def fresh_def Let_def split_beta)

section \<open>The contract\<close>

locale chat_session =
  fixes step :: "'e \<Rightarrow> 's \<Rightarrow> 's" and view :: "'s \<Rightarrow> session" and kind :: "'e \<Rightarrow> 's \<Rightarrow> move"
  assumes refines: "session_move (kind e s) (view s) (view (step e s))"
begin

lemma seeks_when_asked:
  "\<lbrakk>view (step e s) = Seeking; view s \<noteq> Seeking\<rbrakk> \<Longrightarrow> kind e s = Asks \<or> kind e s = Skips"
  using refines [of e s] by (cases "kind e s") auto

lemma chats_when_matched:
  "\<lbrakk>view (step e s) = Chatting (Some p); view s \<noteq> Chatting (Some p)\<rbrakk> \<Longrightarrow> \<exists>ps. kind e s = Hears ps \<and> p \<in> set ps"
  using refines [of e s] by (cases "kind e s") auto

lemma run_seeks_when_asked:
  assumes "view (run_events step es s) = Seeking" and "view s \<noteq> Seeking"
  shows "\<exists>xs e ys. es = xs @ e # ys \<and>
    (kind e (run_events step xs s) = Asks \<or> kind e (run_events step xs s) = Skips)"
  using run_events_first [of "\<lambda>s. view s = Seeking", OF assms] seeks_when_asked by blast

lemma run_chats_when_matched:
  assumes "view (run_events step es s) = Chatting (Some p)" and "view s \<noteq> Chatting (Some p)"
  shows "\<exists>xs e ys ps. es = xs @ e # ys \<and> kind e (run_events step xs s) = Hears ps \<and> p \<in> set ps"
  using run_events_first [of "\<lambda>s. view s = Chatting (Some p)", OF assms] chats_when_matched by blast

end

end
