(* ===== verification/Text_Session.thy ===== *)
theory Text_Session
  imports Chat_Session Text_Chat
begin

text \<open>The text hook refines the abstract session.\<close>

section \<open>The kinds of its events\<close>

fun move_of :: "chat_event \<Rightarrow> chat \<Rightarrow> move" where
  "move_of Unmount s = Vanishes"
| "move_of (Library e) s =
     (if is_library e then Hears (concat (map announced (snd (ws_step e (ws s))))) else Quiet)"
| "move_of ResumeSetup s = Settles"
| "move_of (ResumeStart task) s = Asks"
| "move_of (StartSearch lib interests token) s = Asks"
| "move_of StopSearch s = Stops"
| "move_of DisconnectChat s = Leaves"
| "move_of Skip s = Skips"
| "move_of e s = Quiet"

section \<open>The refinement\<close>

lemma session_ops [simp]:
  "session_of (setReconnectMessageVisible v s) = session_of s"
  "session_of (pushSystemMessage txt why s) = session_of s"
  "session_of (updateDeliveryStatus i st x s) = session_of s" "session_of (beginNewChatEpoch s) = session_of s"
  "session_of (clearTypingTimeout s) = session_of s" "session_of (showConnectionStatusMessage txt' s) = session_of s"
  by (rule session_of_cong; simp add: beginNewChatEpoch_def updateDeliveryStatus_def
      showConnectionStatusMessage_def)+

lemma session_handleMessage:
  "session_move (Hears (announced (InvokeMessage h m))) (session_of s) (session_of (handleMessage (decode_message m) s))"
  by (cases "mtype (decode_message m)")
    (auto simp: announced_peer_def handleMessage_def onMatch_def onPeerMessage_def onSystemMessage_def onPeerDisconnected_def
      onBanned_def onServerError_def onTimeout_def onStopped_def onTyping_def rememberSession_def
      Let_def)

lemma session_deliver1: "session_move (Hears (announced e)) (session_of s) (session_of (deliver1 e s))"
proof (cases e)
  case (InvokeMessage h m)
  then show ?thesis using session_handleMessage [of h m s] by simp
next
  case (InvokeOpen h)
  have "session_of (handleOpen s) = session_of s \<or> session_of (handleOpen s) = Resting"
    by (cases "status s") (simp_all add: handleOpen_def Let_def session_of_def)
  then show ?thesis by (auto simp: InvokeOpen)
qed (auto simp: handleClose_def handleMaxRetries_def handleReconnecting_def Let_def)

lemma session_deliver:
  "session_move (Hears (concat (map announced es))) (session_of s) (session_of (fold deliver1 es s))"
proof (induction es arbitrary: s)
  case (Cons e es)
  show ?case
    using hears_trans [OF session_deliver1 [of e s] Cons.IH [of "deliver1 e s"]] by simp
qed simp

lemma session_wsSend: "wsSend ty dat s = Some s' \<Longrightarrow> session_of s' = session_of s"
  using wsSend_outbox by fastforce

lemma session_startSearch_send:
  "session_of (startSearch_send interests token s) = Seeking \<or> session_of (startSearch_send interests token s) = Resting"
  by (auto simp: startSearch_send_def Let_def split: option.split dest!: wsSend_outbox)

lemma session_silent_run: "filter is_invocation (snd r) = [] \<Longrightarrow> session_of (run_ws r s) = session_of s"
  by (simp add: run_ws_def deliver_none)

lemma session_unmount: "session_move Vanishes (session_of s) (session_of (unmount s))"
proof -
  let ?t = "cleanup (s\<lparr>mounted := False, health := removeChannel channelName (health s)\<rparr>)"
  have "session_of (run_ws r ?t) = session_of ?t" for r
  proof -
    have "\<not> mounted ?t" by (simp add: cleanup_def)
    then obtain out where "run_ws r ?t = ?t\<lparr>ws := fst r, outbox := out\<rparr>" by (rule run_ws_unmounted)
    then show ?thesis by simp
  qed
  moreover have "status ?t = status s" "peerId ?t = None" by (simp_all add: cleanup_def)
  ultimately show ?thesis
    by (auto simp: unmount_def Let_def session_of_def split: chat_status.splits)
qed

lemma text_refines: "session_move (move_of e s) (session_of s) (session_of (chat_step e s))"
proof (cases e)
  case Unmount
  then show ?thesis using session_unmount by simp
next
  case (Library le)
  then show ?thesis
    using session_deliver [of "snd (ws_step le (ws s))" "s\<lparr>ws := fst (ws_step le (ws s))\<rparr>"]
    by (simp add: run_ws_def)
next
  case (StartSearch lib interests token)
  obtain p r where connect: "connect lib (ws s) = (p, r)" by (metis surj_pair)
  have "session_of (run_ws r t) = session_of t" for t
    using session_silent_run connect_no_invocation [of lib "ws s"] by (simp add: connect)
  then show ?thesis
    using session_startSearch_send by (auto simp: StartSearch startSearch_def connect Let_def)
next
  case (ResumeStart task)
  then show ?thesis
    using session_startSearch_send
    by (auto simp: startSearch_continue_def Let_def split: promise_state.split)
next
  case (SendMessage t)
  then show ?thesis
    by (simp add: sendMessage_def Let_def split_beta session_silent_run [OF request_no_invocation])
qed (auto simp: setup_continue_def sendMessage_continue_def reply_received_def reply_failed_def stopSearch_def
    disconnectChat_def skip_def sendTyping_def typingTimerFires_def Let_def session_wsSend
    split: option.split promise_state.split)

interpretation text_session: chat_session chat_step session_of move_of
  by unfold_locales (rule text_refines)


end
