(* ===== verification/Video_Session.thy ===== *)
theory Video_Session
  imports Chat_Session Video_Runs
begin

text \<open>
  The video hook refines the same abstract session. Messages of the server reach it through the Phoenix
  client and through the signaling socket; a search waits for the camera before it is sent, and what
  resumes afterwards can only fail it. The last section shows what the session does not protect from: a
  search cancelled during the camera prompt.
\<close>

section \<open>The kinds of its events\<close>

fun move_of_v :: "video_event \<Rightarrow> video \<Rightarrow> move" where
  "move_of_v VUnmount s = Quiet"
| "move_of_v (VLibrary e) s =
     (if is_library_v e then Hears (concat (map announced (snd (ws_step e (ws s))))) else Quiet)"
| "move_of_v (GoMessage g v) s =
     (if g \<in> fst ` set (goSockets s) then Hears (announced_peer (decode_message v)) else Quiet)"
| "move_of_v VResumeSetup s = Settles"
| "move_of_v (VStartSearch interests token) s = Asks"
| "move_of_v (ResumeSearch t lib camera) s = Resumes"
| "move_of_v VStopSearch s = Stops"
| "move_of_v VDisconnectChat s = Leaves"
| "move_of_v VSkip s = Skips"
| "move_of_v e s = Quiet"

section \<open>The refinement\<close>

lemma session_calm: "calm s t \<Longrightarrow> session_of t = session_of s"
  by (rule session_of_cong) (simp_all add: calm_def)

lemma session_video_fields [simp]:
  "session_of (isVideoConnecting_update f1 s) = session_of s" "session_of (peerIdRef_update f2 s) = session_of s"
  "session_of (sessionIdRef_update f3 s) = session_of s" "session_of (sessionTokenRef_update f4 s) = session_of s"
  "session_of (goWsReconnectExhaustedRef_update f5 s) = session_of s"
  "session_of (iceRestartPendingRef_update f6 s) = session_of s"
  "session_of (negotiationStartedRef_update f7 s) = session_of s"
  "session_of (signalingReadySentRef_update f8 s) = session_of s"
  "session_of (pendingWebrtcStartRef_update f9 s) = session_of s"
  "session_of (serverRejectionCountRef_update f10 s) = session_of s"
  "session_of (webrtcWsRef_update f11 s) = session_of s" "session_of (webrtcSocketOpenRef_update f12 s) = session_of s"
  "session_of (connectTimers_update f13 s) = session_of s"
  by (rule session_of_cong; simp)+

lemma session_ops_v [simp]:
  "session_of (pushSystemMessage_v txt why s) = session_of s"
  "session_of (updateDeliveryStatus_v i st x s) = session_of s"
  "session_of (beginNewChatEpoch_v s) = session_of s"
  "session_of (clearTypingTimeout_v s) = session_of s"
  "session_of (setReconnectMessageVisible_v b s) = session_of s"
  "session_of (showConnectionStatusMessage_v note s) = session_of s"
  "session_of (showVideoSignalingUnavailable note s) = session_of s"
  by (rule session_of_cong; simp add: pushSystemMessage_v_def updateDeliveryStatus_v_def beginNewChatEpoch_v_def
      clearTypingTimeout_v_def setReconnectMessageVisible_v_def showConnectionStatusMessage_v_def
      showVideoSignalingUnavailable_def Let_def split: option.split)+

lemma session_calm_ops [simp]:
  "session_of (resetWebRTCTransport keep s) = session_of s" "session_of (forget_turn s) = session_of s"
  "session_of (onSession se tok s) = session_of s" "session_of (maybeSendWebRTCReady p s) = session_of s"
  "session_of (snd (prefetchTurnServers s)) = session_of s" "session_of (onWebrtcReady s) = session_of s"
  "session_of (onWebrtcStart m s) = session_of s" "session_of (onOffer m s) = session_of s"
  "session_of (onAnswer m s) = session_of s" "session_of (onIce m s) = session_of s"
  "session_of (set_api st s) = session_of s" "session_of (clearApiSuccessTimeout s) = session_of s"
  "session_of (clearGoWsConnectTimeout s) = session_of s" "session_of (clearGoWsReconnectTimeout s) = session_of s"
  "session_of (stopMockVideo s) = session_of s" "session_of (add_task tk s) = session_of s"
  "session_of (drop_task tk s) = session_of s" "session_of (snd (getLocalStream s)) = session_of s"
  "session_of (snd (camera_continue cam s)) = session_of s" "session_of (onGoLost ses s) = session_of s"
  "session_of (schedule_go_reconnect ses n s) = session_of s"
  by (rule session_calm; simp add: calms)+

lemma session_push_phoenix: "push_phoenix ty d s = Some t \<Longrightarrow> session_of t = session_of s"
  using calm_push_phoenix [of ty d s t s] session_calm [of s t] by simp

lemma session_match:
  "session_of (onMatch_v m s) = Chatting (Some (if str_truthy (peer_id m) then the (peer_id m) else []))"
proof -
  have "session_of (match_peer m t) = Chatting (Some (if str_truthy (peer_id m) then the (peer_id m) else []))" for t
    by (simp add: match_peer_def)
  moreover have "session_of (match_signaling m t) = session_of t" for t
    by (simp add: match_signaling_def)
  ultimately show ?thesis by (simp add: onMatch_v_def Let_def)
qed

lemma session_handleMessage_v:
  "session_move (Hears (announced_peer m)) (session_of s) (session_of (handleMessage_v m s))"
  by (cases "mtype m")
    (auto simp: announced_peer_def handleMessage_v_def session_match onPeerMessage_v_def onSystemMessage_v_def
      onPeerDisconnected_v_def onBanned_v_def onServerError_v_def onTimeout_v_def onStopped_v_def onTyping_v_def
      Let_def)

lemma session_deliver1_v: "session_move (Hears (announced e)) (session_of s) (session_of (deliver1_v e s))"
proof (cases e)
  case (InvokeMessage h m)
  then show ?thesis using session_handleMessage_v [of "decode_message m" s] by simp
next
  case (InvokeOpen h)
  have "session_of (handleOpen_v s) = session_of s \<or> session_of (handleOpen_v s) = Resting"
    by (cases "status s") (simp_all add: handleOpen_v_def Let_def session_of_def setReconnectMessageVisible_v_def)
  then show ?thesis by (auto simp: InvokeOpen)
next
  case (InvokeClose h)
  then show ?thesis by (auto simp: handleClose_v_def Let_def)
qed (auto simp: handleMaxRetries_v_def handleReconnecting_v_def)

lemma session_deliver_v:
  "session_move (Hears (concat (map announced es))) (session_of s) (session_of (fold deliver1_v es s))"
proof (induction es arbitrary: s)
  case (Cons e es)
  show ?case
    using hears_trans [OF session_deliver1_v [of e s] Cons.IH [of "deliver1_v e s"]] by simp
qed simp

lemma session_silent_run_v: "filter is_invocation (snd r) = [] \<Longrightarrow> session_of (run_ws_v r s) = session_of s"
proof -
  assume none: "filter is_invocation (snd r) = []"
  have "filter is_invocation es = [] \<Longrightarrow> session_of (fold deliver1_v es t) = session_of t" for es t
  proof (induction es arbitrary: t)
    case (Cons e es)
    then show ?case by (cases e) simp_all
  qed simp
  from this [OF none] show ?thesis by (simp add: run_ws_v_def)
qed

lemma session_startSearch_send_v:
  "session_of (startSearch_send_v interests token s) = session_of s \<or>
   session_of (startSearch_send_v interests token s) = Resting"
  using calm_startSearch_send [of interests token s] session_calm by fastforce

lemma session_connect_v:
  "session_of (startSearch_connect lib interests token s) = session_of s \<or>
   session_of (startSearch_connect lib interests token s) = Resting"
proof -
  obtain p r where connect: "connect lib (ws s) = (p, r)" by (metis surj_pair)
  have "session_of (run_ws_v r t) = session_of t" for t
    using session_silent_run_v connect_no_invocation [of lib "ws s"] by (simp add: connect)
  then show ?thesis using session_startSearch_send_v by (simp add: startSearch_connect_def connect)
qed

lemma session_resume_search:
  "session_move Resumes (session_of s) (session_of (resume_search t lib camera s))"
proof (cases "(t, lib, camera, s)" rule: resume_search.cases)
  case (1 interests token lib camera s)
  obtain ok u where u: "camera_continue camera (drop_task (Search interests token SearchCamera) s) = (ok, u)"
    by fastforce
  then have "session_of u = session_of s" by (metis session_calm_ops(17,19) snd_conv)
  then show ?thesis using 1 u session_connect_v [of lib interests token u] by (auto simp: startSearch_camera_def)
next
  case (2 interests token lib camera s)
  then show ?thesis using session_connect_v [of lib interests token "drop_task (Search interests token SearchStream) s"]
    by auto
next
  case (3 interests token p lib camera s)
  then show ?thesis
    using session_startSearch_send_v
    by (auto simp: startSearch_connected_def split: promise_state.split) (metis session_calm_ops(17) session_frame(7))+
qed auto

lemma session_cleanup_v: "session_of (cleanup_v s) = session_of s"
  by (simp add: cleanup_v_def Let_def)

lemma run_ws_v_unmounted: "\<not> mounted s \<Longrightarrow> session_of (run_ws_v r s) = session_of s"
proof -
  assume gone: "\<not> mounted s"
  have "\<not> mounted t \<Longrightarrow> session_of (fold deliver1_v es t) = session_of t \<and> \<not> mounted (fold deliver1_v es t)" for es t
  proof (induction es arbitrary: t)
    case (Cons e es)
    then show ?case
      by (cases e) (simp_all add: handleOpen_v_def handleClose_v_def handleMaxRetries_v_def handleReconnecting_v_def)
  qed simp
  with gone show ?thesis by (simp add: run_ws_v_def)
qed

lemma session_unmount_v: "session_of (unmount_v s) = session_of s"
proof -
  let ?t = "cleanup_v (set_api SOk (s\<lparr>mounted := False, health := removeChannel channelName_v (health s)\<rparr>))"
  have "mounted (resetWebRTCTransport keep t) = mounted t" for keep t
    using calm_reset [of t keep t] by (simp add: calm_def)
  then have "\<not> mounted ?t" by (simp add: cleanup_v_def Let_def)
  from run_ws_v_unmounted [OF this] show ?thesis by (simp add: unmount_v_def Let_def session_cleanup_v)
qed

lemma session_reply_v: "session_of (sendMessage_continue_v task outcome s) = session_of s"
  by (simp add: sendMessage_continue_v_def reply_received_v_def reply_failed_v_def Let_def split: promise_state.split)

lemma video_refines: "session_move (move_of_v e s) (session_of s) (session_of (video_step e s))"
proof (cases "is_calm e")
  case True
  then have "session_of (video_step e s) = session_of s" by (rule session_calm [OF calm_step])
  with True show ?thesis by (cases e) simp_all
next
  case calm: False
  show ?thesis
  proof (cases e)
    case (VLibrary le)
    then show ?thesis
      using session_deliver_v [of "snd (ws_step le (ws s))" "s\<lparr>ws := fst (ws_step le (ws s))\<rparr>"]
      by (simp add: run_ws_v_def)
  next
    case (VSendMessage t)
    then show ?thesis
      by (simp add: sendMessage_v_def Let_def split_beta session_silent_run_v [OF request_no_invocation])
  next
    case (ResumeSearch t lib camera)
    then show ?thesis using session_resume_search by simp
  next
    case (GoMessage g v)
    then show ?thesis using session_handleMessage_v [of "decode_message v" s] by auto
  next
    case VSkip
    then show ?thesis
      by (auto simp: skip_v_def dest: session_push_phoenix split: option.split)
  next
    case VDisconnectChat
    then show ?thesis
      by (auto simp: disconnect_v_def session_cleanup_v dest: session_push_phoenix split: option.split)
  next
    case VStopSearch
    then show ?thesis
      by (auto simp: stopSearch_v_def Let_def dest!: session_push_phoenix split: option.split)
  qed (use calm in \<open>auto simp: session_unmount_v session_reply_v setup_continue_v_def startSearch_v_def
        startSearch_reset_def split_beta Let_def typingTimerFires_v_def onGoClose_def onGoRejected_def
        connectTimerFires_def split: option.split promise_state.split\<close>)
qed

interpretation video_session: chat_session video_step session_of move_of_v
  by unfold_locales (rule video_refines)

text \<open>
  C6: the video hook refines the session: whatever its state, every event is a move of its kind. No
  timer, promise, socket or peer connection makes it seek or chat; a match does, announced through the
  Phoenix client or the signaling socket, with the peer it names.
\<close>

theorem video_refines_session:
  "session_move (move_of_v e s) (session_of s) (session_of (video_step e s))"
  by (rule video_session.refines)

text \<open>In runs: a page chats with a peer only after an event that announced that peer.\<close>

lemma video_chats_when_matched:
  assumes "session_of (run_events video_step es s) = Chatting (Some p)" and "session_of s \<noteq> Chatting (Some p)"
  shows "\<exists>xs e ys ps. es = xs @ e # ys \<and> move_of_v e (run_events video_step xs s) = Hears ps \<and> p \<in> set ps"
  by (rule video_session.run_chats_when_matched [OF assms])

section \<open>A search cancelled during the camera prompt\<close>

lemma reset_keeping_media:
  "tasks (resetWebRTCTransport True s) = tasks s" "outbox (resetWebRTCTransport True s) = outbox s"
  "localStreamRef (resetWebRTCTransport True s) = localStreamRef s" "ws (resetWebRTCTransport keep s) = ws s"
proof -
  show "ws (resetWebRTCTransport keep s) = ws s" using calm_reset [of s keep s] by (simp add: calm_def)
qed (simp_all add: resetWebRTCTransport_def closeGoWebSocket_def closePeerConnection_def close_pc_def
    clearGoWsConnectTimeout_def clearGoWsReconnectTimeout_def shut_socket_def perform_def forget_turn_def Let_def
    split: option.split)

text \<open>
  C18: a cancelled search goes on: when the user cancels the search while the browser asks for the camera
  and then allows it, the page is idle, but the server is told to stop and, after that, to start; the
  camera runs, and the match that follows puts the page into a chat.
\<close>

theorem cancelled_search_goes_on:
  fixes i tok lib a v and s :: video
  assumes "isConnected (ws s)" and "localStreamRef s = None"
  defines "s' \<equiv> run_events video_step
    [VStartSearch i tok, VStopSearch, ResumeSearch (Search i tok SearchCamera) lib (CameraStream a v)] s"
  defines "push \<equiv> (\<lambda>ty payload. PushChannel (the (channel (ws s))) ty (JObj [(''data'', payload)]))"
  shows "session_of s' = Resting \<and>
    outbox s' = outbox s @ [push ''stop'' (JObj []), push ''start'' (start_payload ''video'' tok i)] \<and>
    map_option stream_tracks (localStreamRef s') = Some [a, v] \<and>
    (mtype m = MMatch \<longrightarrow> session_of (handleMessage_v m s') = Chatting (Some (hd (announced_peer m))))"
proof -
  define s1 where "s1 = video_step (VStartSearch i tok) s"
  have s1: "ws s1 = ws s" "localStreamRef s1 = None" "outbox s1 = outbox s" "Search i tok SearchCamera \<in> set (tasks s1)"
    using assms(2) by (simp_all add: s1_def startSearch_v_def startSearch_reset_def getLocalStream_def perform_def
        add_task_def Let_def)
  define s2 where "s2 = video_step VStopSearch s1"
  have s2: "ws s2 = ws s" "localStreamRef s2 = None" "status s2 = Idle" "Search i tok SearchCamera \<in> set (tasks s2)"
    "outbox s2 = outbox s @ [push ''stop'' (JObj [])]"
    using s1 assms(1) by (simp_all add: s2_def stopSearch_v_def push_phoenix_def send_def reset_keeping_media
        push_def Let_def)
  define s3 where "s3 = video_step (ResumeSearch (Search i tok SearchCamera) lib (CameraStream a v)) s2"
  have s3: "status s3 = Idle" "map_option stream_tracks (localStreamRef s3) = Some [a, v]"
    "outbox s3 = outbox s @ [push ''stop'' (JObj []), push ''start'' (start_payload ''video'' tok i)]"
    using s2 assms(1) by (simp_all add: s3_def startSearch_camera_def camera_continue_def use_stream_def fresh_key_def
        startSearch_connect_def startSearch_send_v_def push_phoenix_def send_def drop_task_def push_def
        stream_tracks_def Let_def)
  have "s' = s3" by (simp only: s'_def s3_def s2_def s1_def run_events.simps)
  with s3 show ?thesis
    by (auto simp: session_of_def [of s3] handleMessage_v_def session_match announced_peer_def)
qed

theorem cancelled_search_goes_on_witness:
  "let s = (initial_video plain_env initial_health)\<lparr>ws := initial_ws\<lparr>channel := Some 2, chanState := (\<lambda>_. ChJoined)\<rparr>\<rparr>
   in session_of (run_events video_step
     [VStartSearch [] None, VStopSearch, ResumeSearch (Search [] None SearchCamera) LibOk (CameraStream 7 8)] s) = Resting"
  using cancelled_search_goes_on [of "(initial_video plain_env initial_health)\<lparr>ws := initial_ws\<lparr>channel := Some 2,
      chanState := (\<lambda>_. ChJoined)\<rparr>\<rparr>" "[]" None LibOk 7 8]
  by (simp add: isConnected_def initial_video_def Let_def)

end
