(* ===== verification/Chat_Input.thy ===== *)
theory Chat_Input
  imports Pairline_Prelude
begin

text \<open>
  The message box of a chat page (\<open>ChatInput\<close> in \<^verbatim>\<open>client/src/components/TextChat.tsx\<close>,
  \<open>VideoChatInput\<close> in \<^verbatim>\<open>VideoChat.tsx\<close>, the same logic): what it sends to the peer and
  when it reports that the user is typing.

  \<^item> A keystroke defers its report by a timer of zero milliseconds: \<open>deferred\<close> holds the values
    whose callbacks have not run; they run in order.
  \<^item> \<open>armed\<close> holds the two-second timers that are running, \<open>typingTimeoutRef\<close> the remembered one.
    Timer identities are fresh and, as in the browser, true.
  \<^item> \<open>sentTyping\<close> and \<open>sentTexts\<close> log the calls of \<open>onTyping\<close> and \<open>onSend\<close>.
\<close>

section \<open>State and handlers\<close>

record chat_input =
  boxValue :: string
  typingTimeoutRef :: "nat option"
  armed :: "nat list"
  freshTimer :: nat
  deferred :: "string list"
  sentTyping :: "bool list"
  sentTexts :: "string list"
  shownInput :: bool

definition initial_input :: chat_input where
  "initial_input =
     \<lparr>boxValue = [], typingTimeoutRef = None, armed = [], freshTimer = 0, deferred = [], sentTyping = [],
      sentTexts = [], shownInput = True\<rparr>"

definition reportTyping :: "bool \<Rightarrow> chat_input \<Rightarrow> chat_input" where
  "reportTyping b s = s\<lparr>sentTyping := sentTyping s @ [b]\<rparr>"

definition clearTypingTimer :: "chat_input \<Rightarrow> chat_input" where
  "clearTypingTimer s =
     (case typingTimeoutRef s of None \<Rightarrow> s | Some t \<Rightarrow> s\<lparr>armed := remove1 t (armed s)\<rparr>)"

definition handleChange :: "string \<Rightarrow> chat_input \<Rightarrow> chat_input" where
  "handleChange v s = s\<lparr>boxValue := v, deferred := deferred s @ [v]\<rparr>"

text \<open>The deferred callback of a keystroke that left the value \<open>v\<close>.\<close>

definition deferredReport :: "string \<Rightarrow> chat_input \<Rightarrow> chat_input" where
  "deferredReport v s =
     (if js_trim v \<noteq> []
      then let s = clearTypingTimer (reportTyping True s)
        in s\<lparr>typingTimeoutRef := Some (freshTimer s), armed := armed s @ [freshTimer s],
             freshTimer := Suc (freshTimer s)\<rparr>
      else (clearTypingTimer (reportTyping False s))\<lparr>typingTimeoutRef := None\<rparr>)"

definition typingTimer :: "nat \<Rightarrow> chat_input \<Rightarrow> chat_input" where
  "typingTimer t s = (reportTyping False (s\<lparr>armed := remove1 t (armed s)\<rparr>))\<lparr>typingTimeoutRef := None\<rparr>"

definition handleSubmit :: "chat_input \<Rightarrow> chat_input" where
  "handleSubmit s =
     (if js_trim (boxValue s) = [] then s
      else let s = reportTyping False (s\<lparr>sentTexts := sentTexts s @ [boxValue s], boxValue := []\<rparr>)
        in (clearTypingTimer s)\<lparr>typingTimeoutRef := None\<rparr>)"

text \<open>The effect's cleanup clears the timer and forgets neither it nor the deferred callbacks.\<close>

definition unmountInput :: "chat_input \<Rightarrow> chat_input" where
  "unmountInput s = (clearTypingTimer s)\<lparr>shownInput := False\<rparr>"

datatype input_event = Key string | Deferred_report | Typing_timer nat | Submit | Unmount_input

fun input_step :: "input_event \<Rightarrow> chat_input \<Rightarrow> chat_input" where
  "input_step (Key v) s = (if shownInput s then handleChange v s else s)"
| "input_step Deferred_report s =
     (case deferred s of [] \<Rightarrow> s | v # vs \<Rightarrow> deferredReport v (s\<lparr>deferred := vs\<rparr>))"
| "input_step (Typing_timer t) s = (if t \<in> set (armed s) then typingTimer t s else s)"
| "input_step Submit s = (if shownInput s then handleSubmit s else s)"
| "input_step Unmount_input s = (if shownInput s then unmountInput s else s)"

text \<open>The box of the video page has its own copy of the same handlers.\<close>

definition video_input_step :: "input_event \<Rightarrow> chat_input \<Rightarrow> chat_input" where
  "video_input_step = input_step"

section \<open>The typing report is always withdrawn\<close>

definition peer_sees_typing :: "chat_input \<Rightarrow> bool" where
  "peer_sees_typing s \<longleftrightarrow> sentTyping s \<noteq> [] \<and> last (sentTyping s)"

text \<open>
  While the box is shown the running timers are the remembered one; afterwards a running timer is
  still the remembered one. What the peer was told last is withdrawn by it.
\<close>

definition input_inv :: "chat_input \<Rightarrow> bool" where
  "input_inv s \<longleftrightarrow>
     (armed s = [] \<or> (\<exists>t. typingTimeoutRef s = Some t \<and> armed s = [t])) \<and>
     (shownInput s \<and> armed s = [] \<longrightarrow> typingTimeoutRef s = None \<and> \<not> peer_sees_typing s)"

lemma input_fields [simp]:
  "typingTimeoutRef (reportTyping b s) = typingTimeoutRef s"
  "armed (reportTyping b s) = armed s" "shownInput (reportTyping b s) = shownInput s"
  "peer_sees_typing (reportTyping b s) = b"
  "typingTimeoutRef (clearTypingTimer s) = typingTimeoutRef s"
  "shownInput (clearTypingTimer s) = shownInput s"
  "peer_sees_typing (clearTypingTimer s) = peer_sees_typing s"
  by (simp_all add: reportTyping_def clearTypingTimer_def peer_sees_typing_def split: option.split)

lemma peer_sees_frame [simp]:
  "peer_sees_typing (boxValue_update f s) = peer_sees_typing s"
  "peer_sees_typing (deferred_update g s) = peer_sees_typing s"
  "peer_sees_typing (armed_update h s) = peer_sees_typing s"
  "peer_sees_typing (typingTimeoutRef_update k s) = peer_sees_typing s"
  "peer_sees_typing (freshTimer_update l s) = peer_sees_typing s"
  "peer_sees_typing (sentTexts_update g s) = peer_sees_typing s"
  "peer_sees_typing (shownInput_update m s) = peer_sees_typing s"
  by (simp_all add: peer_sees_typing_def)

lemma armed_cleared: "input_inv s \<Longrightarrow> armed (clearTypingTimer s) = []"
  by (auto simp: input_inv_def clearTypingTimer_def split: option.split)

lemma input_inv_frame [simp]:
  "input_inv (boxValue_update f s) = input_inv s" "input_inv (deferred_update g s) = input_inv s"
  "input_inv (sentTexts_update g s) = input_inv s" "input_inv (freshTimer_update l s) = input_inv s"
  by (simp_all add: input_inv_def)

lemma cleared_report [simp]:
  "clearTypingTimer (reportTyping b s) = reportTyping b (clearTypingTimer s)"
  by (simp add: clearTypingTimer_def reportTyping_def split: option.split)

lemma input_step_keeps: "input_inv s \<Longrightarrow> input_inv (input_step e s)"
proof (cases e)
  case (Key v)
  assume "input_inv s" then show ?thesis by (simp add: Key handleChange_def)
next
  case Deferred_report
  assume s: "input_inv s"
  have "input_inv (deferredReport v t)" if "input_inv t" for v t
    using armed_cleared [OF that] by (simp add: deferredReport_def Let_def input_inv_def)
  with s show ?thesis by (simp add: Deferred_report split: list.split)
next
  case (Typing_timer t)
  assume "input_inv s" then show ?thesis by (auto simp: Typing_timer typingTimer_def input_inv_def)
next
  case Submit
  assume s: "input_inv s"
  then have "armed (clearTypingTimer (s\<lparr>sentTexts := sentTexts s @ [boxValue s], boxValue := []\<rparr>)) = []"
    by (intro armed_cleared) simp
  with s show ?thesis by (simp add: Submit handleSubmit_def Let_def input_inv_def)
next
  case Unmount_input
  assume s: "input_inv s"
  then show ?thesis using armed_cleared [OF s] by (simp add: Unmount_input unmountInput_def input_inv_def)
qed

interpretation input_sys: invariant_system input_step initial_input input_inv
  by unfold_locales
    (simp_all add: input_step_keeps, simp add: input_inv_def initial_input_def peer_sees_typing_def)



text \<open>
  A keystroke can be reported after its message: when the message is sent before the deferred
  report of its last keystroke runs, the peer is told last that the user types, with an empty box.
\<close>

theorem typing_reported_after_send:
  assumes "shownInput s" and "js_trim v \<noteq> []" and "deferred s = []"
  shows "let s' = run_events input_step [Key v, Submit, Deferred_report] s
    in sentTexts s' = sentTexts s @ [v] \<and> boxValue s' = [] \<and> peer_sees_typing s'"
  using assms
  by (simp add: handleChange_def handleSubmit_def deferredReport_def clearTypingTimer_def reportTyping_def
      Let_def peer_sees_typing_def split: option.split)

theorem typing_reported_after_send_witness:
  "let s' = run_events input_step [Key ''hi'', Submit, Deferred_report] initial_input
    in sentTexts s' = sentTexts initial_input @ [''hi''] \<and> boxValue s' = [] \<and> peer_sees_typing s'"
  by (rule typing_reported_after_send) (simp_all add: initial_input_def js_trim_def js_space_def)

end
