(* ===== verification/Report_Dialog.thy ===== *)
theory Report_Dialog
  imports Chat_Types
begin

text \<open>
  The dialog that reports a peer (\<^verbatim>\<open>client/src/components/ReportDialog.tsx\<close>), together with the
  health context it writes to.

  \<^item> What the page passes in is a \<open>report_props\<close>. \<open>reportLog\<close> holds the bodies posted.
  \<^item> \<open>pendingReports\<close> counts the requests not settled, \<open>abortTimers\<close> the ten-second timers that run. A
    request settles with an outcome chosen by the environment.
  \<^item> The form is submitted only with a reason chosen and the button enabled, as the markup demands.
\<close>

record report_props =
  reportedPeer :: string
  transcript :: "chat_message list"
  reporterSessionId :: "string option"
  reporterToken :: "string option"

record report_body =
  reporter_session_id :: string
  reporter_token :: string
  reported_session_id :: string
  report_reason :: string
  report_description :: string
  chat_log :: "chat_message list"

record report_dialog =
  reportReason :: string
  reportDescription :: string
  submitting :: bool
  submitted :: bool
  pendingReports :: nat
  abortTimers :: nat
  reportLog :: "report_body list"
  reportAlerts :: "string list"
  dialogShown :: bool
  network :: health

definition open_dialog :: "health \<Rightarrow> report_dialog" where
  "open_dialog h =
     \<lparr>reportReason = [], reportDescription = [], submitting = False, submitted = False, pendingReports = 0,
      abortTimers = 0, reportLog = [], reportAlerts = [], dialogShown = True, network = h\<rparr>"

definition chatMessages :: "chat_message list \<Rightarrow> chat_message list" where
  "chatMessages msgs = filter (\<lambda>m. sender m \<noteq> System) msgs"

definition report_alert :: "string \<Rightarrow> report_dialog \<Rightarrow> report_dialog" where
  "report_alert m s = s\<lparr>reportAlerts := reportAlerts s @ [m]\<rparr>"

definition submitReport :: "report_props \<Rightarrow> report_dialog \<Rightarrow> report_dialog" where
  "submitReport p s =
     (if reportedPeer p = []
      then report_alert ''Missing reported session. Please start a new chat and try again.'' s
      else if \<not> str_truthy (reporterSessionId p) \<or> \<not> str_truthy (reporterToken p)
      then report_alert ''Your chat session is no longer valid. Please start a new chat and try again.'' s
      else s\<lparr>submitting := True, abortTimers := Suc (abortTimers s), pendingReports := Suc (pendingReports s),
             reportLog := reportLog s @
               [\<lparr>reporter_session_id = the (reporterSessionId p), reporter_token = the (reporterToken p),
                 reported_session_id = reportedPeer p, report_reason = reportReason s,
                 report_description = js_trim (reportDescription s),
                 chat_log = chatMessages (transcript p)\<rparr>]\<rparr>)"

datatype report_outcome = Accepted | Refused | Network_failure | Aborted_request | Other_failure

definition settleReport :: "report_outcome \<Rightarrow> report_dialog \<Rightarrow> report_dialog" where
  "settleReport r s =
     (let s = (case r of
          Accepted \<Rightarrow> s\<lparr>network := setApiStatus SOk (network s), submitted := True\<rparr>
        | Refused \<Rightarrow> report_alert ''Failed to submit report'' s
        | Network_failure \<Rightarrow> report_alert ''Failed to submit report'' (s\<lparr>network := setApiStatus SDegraded (network s)\<rparr>)
        | Aborted_request \<Rightarrow> report_alert ''Report request timed out. Please try again.'' s
        | Other_failure \<Rightarrow> report_alert ''Failed to submit report'' s)
      in s\<lparr>abortTimers := abortTimers s - 1, submitting := False, pendingReports := pendingReports s - 1\<rparr>)"

text \<open>The cleanup of the effect, when the dialog closes.\<close>

definition closeDialog :: "report_dialog \<Rightarrow> report_dialog" where
  "closeDialog s = s\<lparr>dialogShown := False, network := setApiStatus SOk (network s)\<rparr>"

datatype report_event =
  Choose_reason string | Describe string | Submit_report report_props | Settle_report report_outcome | Close_dialog

fun report_step :: "report_event \<Rightarrow> report_dialog \<Rightarrow> report_dialog" where
  "report_step (Choose_reason r) s = (if dialogShown s then s\<lparr>reportReason := r\<rparr> else s)"
| "report_step (Describe d) s = (if dialogShown s then s\<lparr>reportDescription := take 500 d\<rparr> else s)"
| "report_step (Submit_report p) s =
     (if dialogShown s \<and> \<not> submitting s \<and> \<not> submitted s \<and> reportReason s \<noteq> [] then submitReport p s else s)"
| "report_step (Settle_report r) s = (if pendingReports s > 0 then settleReport r s else s)"
| "report_step Close_dialog s = (if dialogShown s then closeDialog s else s)"

section \<open>Properties\<close>

text \<open>A complete report: both sessions named, a reason given, a short trimmed text, no notices.\<close>

definition report_complete :: "report_body \<Rightarrow> bool" where
  "report_complete r \<longleftrightarrow>
     reporter_session_id r \<noteq> [] \<and> reporter_token r \<noteq> [] \<and> reported_session_id r \<noteq> [] \<and>
     report_reason r \<noteq> [] \<and> length (report_description r) \<le> 500 \<and>
     js_trim (report_description r) = report_description r \<and>
     list_all (\<lambda>m. sender m \<noteq> System) (chat_log r)"

definition report_inv :: "report_dialog \<Rightarrow> bool" where
  "report_inv s \<longleftrightarrow>
     list_all report_complete (reportLog s) \<and> length (reportDescription s) \<le> 500 \<and>
     pendingReports s = (if submitting s then 1 else 0) \<and> abortTimers s = pendingReports s"

lemma length_js_trim: "length (js_trim s) \<le> length s"
  by (simp add: js_trim_def) (metis length_dropWhile_le length_rev le_trans)

lemma report_step_keeps: "report_inv s \<Longrightarrow> report_inv (report_step e s)"
proof (cases e)
  case (Submit_report p)
  assume s: "report_inv s"
  have "report_inv (submitReport p s)" if "\<not> submitting s" "reportReason s \<noteq> []"
    using s that length_js_trim [of "reportDescription s"]
    by (auto simp: submitReport_def report_inv_def report_alert_def report_complete_def str_truthy_iff
        chatMessages_def list_all_iff)
  with s show ?thesis by (simp add: Submit_report)
next
  case (Settle_report r)
  assume "report_inv s"
  then show ?thesis
    by (cases r) (auto simp: Settle_report settleReport_def report_inv_def report_alert_def Let_def split: if_splits)
qed (simp_all add: report_inv_def closeDialog_def)

interpretation report_sys: invariant_system report_step "open_dialog h" report_inv for h
  by unfold_locales (simp_all add: report_step_keeps, simp add: report_inv_def open_dialog_def)

text \<open>
  C32: what a dialog posts: over any events, every report names both sessions and a reason, has a
  trimmed text of at most 500 characters and no system notice in its transcript; and at most one
  request is pending, with one timer to abort it, exactly while the button says so.
\<close>

theorem reports_are_complete:
  fixes h es
  defines "s \<equiv> run_events report_step es (open_dialog h)"
  shows "list_all report_complete (reportLog s) \<and> pendingReports s = (if submitting s then 1 else 0) \<and>
    abortTimers s = pendingReports s"
  using report_sys.inv_run [of es h] by (simp add: s_def report_inv_def)

text \<open>
  Closing the dialog hides an outage: when the API was reported offline, by the video page for
  one, opening and closing the dialog, nothing sent, takes the offline banner away.
\<close>

theorem closing_report_hides_outage:
  assumes "apiStatus h = SOffline" and "phoenixStatus (channelStatuses h) = SOk"
  shows "offline_banner h \<noteq> None \<and>
    offline_banner (network (report_step Close_dialog (open_dialog h))) = None \<and>
    degraded_banner (network (report_step Close_dialog (open_dialog h))) = None"
  using assms by (simp add: offline_banner_def degraded_banner_def open_dialog_def closeDialog_def setApiStatus_def Let_def)

theorem closing_report_hides_outage_witness:
  "let h = initial_health\<lparr>apiStatus := SOffline\<rparr>
   in offline_banner h \<noteq> None \<and>
      offline_banner (network (report_step Close_dialog (open_dialog h))) = None \<and>
      degraded_banner (network (report_step Close_dialog (open_dialog h))) = None"
  unfolding Let_def
  by (rule closing_report_hides_outage) (simp_all add: initial_health_def phoenixStatus_def)

end
