(* ===== verification/Entry_Modal.thy ===== *)
theory Entry_Modal
  imports Pairline_Prelude
begin

text \<open>
  The dialog before the first search (\<^verbatim>\<open>client/src/components/EntryModal.tsx\<close>): two boxes to
  tick, the Turnstile widget, and the button that hands its token on. The widget is the environment:
  its callbacks are events. \<open>confirmedTokens\<close> logs the calls of \<open>onConfirm\<close>, \<open>widgetResets\<close> counts the
  resets of the widget.
\<close>

record entry_modal =
  termsAccepted :: bool
  rulesAccepted :: bool
  modalToken :: "string option"
  widgetReady :: bool
  confirmedTokens :: "string list"
  widgetResets :: nat

definition initial_modal :: entry_modal where
  "initial_modal =
     \<lparr>termsAccepted = False, rulesAccepted = False, modalToken = None, widgetReady = False,
      confirmedTokens = [], widgetResets = 0\<rparr>"

definition confirm_enabled :: "entry_modal \<Rightarrow> bool" where
  "confirm_enabled m \<longleftrightarrow> str_truthy (modalToken m) \<and> termsAccepted m \<and> rulesAccepted m"

definition handleConfirm :: "entry_modal \<Rightarrow> entry_modal" where
  "handleConfirm m =
     (if confirm_enabled m then m\<lparr>confirmedTokens := confirmedTokens m @ [the (modalToken m)]\<rparr> else m)"

definition turnstileSuccess :: "string \<Rightarrow> entry_modal \<Rightarrow> entry_modal" where
  "turnstileSuccess t m = m\<lparr>modalToken := Some t, widgetReady := True\<rparr>"

definition turnstileError :: "entry_modal \<Rightarrow> entry_modal" where
  "turnstileError m = m\<lparr>modalToken := None, widgetReady := True\<rparr>"

definition turnstileExpire :: "entry_modal \<Rightarrow> entry_modal" where
  "turnstileExpire m = m\<lparr>modalToken := None, widgetResets := Suc (widgetResets m)\<rparr>"

datatype modal_event =
    Tick_terms bool | Tick_rules bool | Widget_success string | Widget_error | Widget_expire | Widget_load
  | Confirm

fun modal_step :: "modal_event \<Rightarrow> entry_modal \<Rightarrow> entry_modal" where
  "modal_step (Tick_terms b) m = m\<lparr>termsAccepted := b\<rparr>"
| "modal_step (Tick_rules b) m = m\<lparr>rulesAccepted := b\<rparr>"
| "modal_step (Widget_success t) m = turnstileSuccess t m"
| "modal_step Widget_error m = turnstileError m"
| "modal_step Widget_expire m = turnstileExpire m"
| "modal_step Widget_load m = m\<lparr>widgetReady := True\<rparr>"
| "modal_step Confirm m = handleConfirm m"

lemma confirmed_not_empty_step:
  "list_all (\<lambda>t. t \<noteq> []) (confirmedTokens m) \<Longrightarrow> list_all (\<lambda>t. t \<noteq> []) (confirmedTokens (modal_step e m))"
  by (cases e) (auto simp: handleConfirm_def confirm_enabled_def str_truthy_iff turnstileSuccess_def
      turnstileError_def turnstileExpire_def)

lemma no_token_step:
  "\<lbrakk>modalToken m = None; \<And>t. e \<noteq> Widget_success t\<rbrakk> \<Longrightarrow>
    modalToken (modal_step e m) = None \<and> confirmedTokens (modal_step e m) = confirmedTokens m"
  by (cases e) (auto simp: handleConfirm_def confirm_enabled_def turnstileError_def turnstileExpire_def)

text \<open>A new token is one the widget reports.\<close>

definition is_success :: "modal_event \<Rightarrow> bool" where
  "is_success e \<longleftrightarrow> (case e of Widget_success t \<Rightarrow> True | _ \<Rightarrow> False)"

lemma no_token_run:
  "\<lbrakk>modalToken m = None; list_all (\<lambda>e. \<not> is_success e) es\<rbrakk> \<Longrightarrow>
    confirmedTokens (run_events modal_step es m) = confirmedTokens m"
proof (induction es arbitrary: m)
  case (Cons e es)
  have "\<And>t. e \<noteq> Widget_success t" using Cons.prems(2) by (auto simp: is_success_def)
  from no_token_step [OF Cons.prems(1) this] Cons.IH [of "modal_step e m"] Cons.prems(2)
  show ?case by simp
qed simp

text \<open>
  An expired token is never used: once the widget reports that its token expired, or an error,
  no token is handed on, whatever the user does, before the widget reports a new one.
\<close>

theorem expired_token_not_used:
  assumes "e = Widget_expire \<or> e = Widget_error" and "list_all (\<lambda>e. \<not> is_success e) es"
  shows "confirmedTokens (run_events modal_step (e # es) m) = confirmedTokens m"
proof -
  have "modalToken (modal_step e m) = None" "confirmedTokens (modal_step e m) = confirmedTokens m"
    using assms(1) by (auto simp: turnstileError_def turnstileExpire_def)
  then show ?thesis using no_token_run [OF _ assms(2)] by simp
qed

theorem expired_token_not_used_witness:
  "confirmedTokens (run_events modal_step [Widget_expire, Confirm]
     (initial_modal\<lparr>termsAccepted := True, rulesAccepted := True, modalToken := Some ''t''\<rparr>)) =
   confirmedTokens (initial_modal\<lparr>termsAccepted := True, rulesAccepted := True, modalToken := Some ''t''\<rparr>)"
  by (rule expired_token_not_used) (simp_all add: is_success_def)

end
