(* ===== verification/Chat_View.thy ===== *)
theory Chat_View
  imports Chat_Types Entry_Modal
begin

text \<open>
  The pages around the chat hooks (\<open>TextChatView\<close> in \<^verbatim>\<open>client/src/components/TextChat.tsx\<close>,
  \<open>VideoChatView\<close> in \<^verbatim>\<open>VideoChat.tsx\<close>): when a search needs the entry dialog, the interest tags,
  and the two taps that stop or skip a chat.

  \<^item> What the hook returns (connected, status, messages) comes with each commit. The calls of the
    hook are logs: \<open>searches\<close> (interests and token), \<open>stopped\<close>, \<open>skipped\<close>, \<open>cancelled\<close>,
    \<open>sentMessages\<close>.
  \<^item> \<open>routeToken\<close> is the token the landing page left in the location state; replacing the
    location drops it.
  \<^item> The definitions ending in \<open>_v\<close> are the video page's, where they differ.
\<close>

section \<open>State\<close>

record chat_view =
  captchaVerified :: bool
  routeToken :: "string option"
  interestTags :: "string list"
  tagInput :: string
  entryModal :: "entry_modal option"
  pendingInterests :: string
  confirmStop :: bool
  confirmSkip :: bool
  stopTimers :: "nat list"
  skipTimers :: "nat list"
  freshTimer :: nat
  showReport :: bool
  hookStatus :: chat_status
  hookConnected :: bool
  searches :: "(string \<times> string option) list"
  stopped :: nat
  skipped :: nat
  cancelled :: nat
  sentMessages :: "string list"

definition initial_view :: "string option \<Rightarrow> chat_view" where
  "initial_view t =
     \<lparr>captchaVerified = False, routeToken = t, interestTags = [], tagInput = [], entryModal = None,
      pendingInterests = [], confirmStop = False, confirmSkip = False, stopTimers = [], skipTimers = [],
      freshTimer = 0, showReport = False, hookStatus = Idle, hookConnected = False, searches = [],
      stopped = 0, skipped = 0, cancelled = 0, sentMessages = []\<rparr>"

section \<open>Effects of a commit\<close>

text \<open>\<open>lastMsg?.sender === 'system' && lastMsg?.text?.includes('CAPTCHA')\<close>.\<close>

definition captcha_rejected :: "chat_message list \<Rightarrow> bool" where
  "captcha_rejected msgs \<longleftrightarrow>
     msgs \<noteq> [] \<and> sender (last msgs) = System \<and>
     (case body (last msgs) of JStr t \<Rightarrow> js_includes t ''CAPTCHA'' | _ \<Rightarrow> False)"

text \<open>
  The text page keeps the flag in React state and lists it as a dependency, so both effects see every
  change of it; the third runs when the status changed.
\<close>

definition view_commit :: "bool \<Rightarrow> chat_status \<Rightarrow> chat_message list \<Rightarrow> chat_view \<Rightarrow> chat_view" where
  "view_commit conn st msgs s =
     (let s = (if \<not> conn \<and> captchaVerified s then s\<lparr>captchaVerified := False\<rparr> else s);
          s = (if captchaVerified s \<and> captcha_rejected msgs then s\<lparr>captchaVerified := False\<rparr> else s);
          s = (if st \<noteq> hookStatus s \<and> st \<noteq> Connected then s\<lparr>confirmStop := False\<rparr> else s)
      in s\<lparr>hookStatus := st, hookConnected := conn\<rparr>)"

text \<open>
  The video page keeps it in a ref: the effects run when the connection, or the array of messages,
  changed. What was confirmed is ignored, not reset, outside a chat.
\<close>

definition view_commit_v :: "bool \<Rightarrow> chat_status \<Rightarrow> chat_message list \<Rightarrow> bool \<Rightarrow> chat_view \<Rightarrow> chat_view" where
  "view_commit_v conn st msgs changed s =
     (let s = (if conn \<noteq> hookConnected s \<and> \<not> conn then s\<lparr>captchaVerified := False\<rparr> else s);
          s = (if changed \<and> captcha_rejected msgs then s\<lparr>captchaVerified := False\<rparr> else s)
      in s\<lparr>hookStatus := st, hookConnected := conn\<rparr>)"

section \<open>Tags\<close>

definition is_tag_separator :: "char \<Rightarrow> bool" where
  "is_tag_separator c \<longleftrightarrow> c = CHR '','' \<or> c = CHR '';''"

definition clean_tag :: "string \<Rightarrow> string" where
  "clean_tag t = take 30 (filter (\<lambda>c. \<not> is_tag_separator c) (js_trim t))"

definition addTag :: "chat_view \<Rightarrow> chat_view" where
  "addTag s =
     (let trimmed = clean_tag (tagInput s)
      in if trimmed \<noteq> [] \<and> trimmed \<notin> set (interestTags s) \<and> length (interestTags s) < 10
         then s\<lparr>interestTags := interestTags s @ [trimmed], tagInput := []\<rparr>
         else s\<lparr>tagInput := []\<rparr>)"

definition removeTag :: "nat \<Rightarrow> chat_view \<Rightarrow> chat_view" where
  "removeTag i s = s\<lparr>interestTags := take i (interestTags s) @ drop (Suc i) (interestTags s)\<rparr>"

definition handleTagInputKeyDown :: "string \<Rightarrow> chat_view \<Rightarrow> chat_view" where
  "handleTagInputKeyDown k s =
     (if k = ''Enter'' \<or> k = '','' \<or> k = '';'' then addTag s
      else if k = ''Backspace'' \<and> tagInput s = [] \<and> length (interestTags s) > 0
      then removeTag (length (interestTags s) - 1) s
      else s)"

section \<open>Searching\<close>

definition startSearch_call :: "string \<Rightarrow> string option \<Rightarrow> chat_view \<Rightarrow> chat_view" where
  "startSearch_call interests token s = s\<lparr>searches := searches s @ [(interests, token)]\<rparr>"

definition handleStartSearchClick :: "string \<Rightarrow> chat_view \<Rightarrow> chat_view" where
  "handleStartSearchClick interests s =
     (if captchaVerified s then startSearch_call interests None s
      else if str_truthy (routeToken s)
      then (startSearch_call interests (routeToken s) s)\<lparr>captchaVerified := True, routeToken := None\<rparr>
      else s\<lparr>pendingInterests := interests, entryModal := Some initial_modal\<rparr>)"

definition handleModalConfirm :: "string \<Rightarrow> chat_view \<Rightarrow> chat_view" where
  "handleModalConfirm token s =
     (startSearch_call (pendingInterests s) (Some token) s)\<lparr>entryModal := None, captchaVerified := True\<rparr>"

text \<open>
  An event of the open dialog: a token it hands on goes to \<open>handleModalConfirm\<close>, which takes the dialog
  down.
\<close>

definition modal_event_in :: "modal_event \<Rightarrow> chat_view \<Rightarrow> chat_view" where
  "modal_event_in e s =
     (case entryModal s of
        None \<Rightarrow> s
      | Some m \<Rightarrow>
          let m' = modal_step e m
          in if confirmedTokens m' = [] then s\<lparr>entryModal := Some m'\<rparr>
             else handleModalConfirm (last (confirmedTokens m')) s)"

section \<open>Two taps\<close>

definition handleSend :: "string \<Rightarrow> chat_view \<Rightarrow> chat_view" where
  "handleSend t s = s\<lparr>sentMessages := sentMessages s @ [t], confirmStop := False\<rparr>"

definition handleSend_v :: "string \<Rightarrow> chat_view \<Rightarrow> chat_view" where
  "handleSend_v t s = s\<lparr>sentMessages := sentMessages s @ [t]\<rparr>"

definition handleDisconnect :: "chat_view \<Rightarrow> chat_view" where
  "handleDisconnect s =
     (if \<not> confirmStop s
      then s\<lparr>confirmStop := True, stopTimers := stopTimers s @ [freshTimer s], freshTimer := Suc (freshTimer s)\<rparr>
      else s\<lparr>stopped := Suc (stopped s), confirmStop := False\<rparr>)"

definition effectiveConfirmStop :: "chat_view \<Rightarrow> bool" where
  "effectiveConfirmStop s = (if hookStatus s = Connected then confirmStop s else False)"

definition effectiveConfirmSkip :: "chat_view \<Rightarrow> bool" where
  "effectiveConfirmSkip s = (if hookStatus s = Connected then confirmSkip s else False)"

definition handleDisconnect_v :: "chat_view \<Rightarrow> chat_view" where
  "handleDisconnect_v s =
     (if \<not> effectiveConfirmStop s
      then s\<lparr>confirmStop := True, stopTimers := stopTimers s @ [freshTimer s], freshTimer := Suc (freshTimer s)\<rparr>
      else s\<lparr>stopped := Suc (stopped s), confirmStop := False\<rparr>)"

definition handleNext :: "chat_view \<Rightarrow> chat_view" where
  "handleNext s =
     (if \<not> effectiveConfirmSkip s
      then s\<lparr>confirmSkip := True, skipTimers := skipTimers s @ [freshTimer s], freshTimer := Suc (freshTimer s)\<rparr>
      else s\<lparr>skipped := Suc (skipped s), confirmSkip := False\<rparr>)"

section \<open>Events\<close>

datatype view_event =
    View_commit bool chat_status "chat_message list" bool
  | Tag_typed string | Tag_key string | Tag_blur | Tag_remove nat
  | Start_click | Cancel_click | Modal modal_event | Modal_close
  | Send_click string | Stop_click | Next_click | Stop_timer nat | Skip_timer nat | Open_report | Close_report

text \<open>
  The form with the tags and the start button is drawn when no chat runs and none is searched, the
  cancel button while one is searched, the chat buttons in a chat. The start button is disabled
  without a connection.
\<close>

definition search_form_shown :: "chat_view \<Rightarrow> bool" where
  "search_form_shown s \<longleftrightarrow> hookStatus s = Idle \<or> hookStatus s = Disconnected"

fun text_view_step :: "view_event \<Rightarrow> chat_view \<Rightarrow> chat_view" where
  "text_view_step (View_commit conn st msgs changed) s = view_commit conn st msgs s"
| "text_view_step (Tag_typed t) s = (if search_form_shown s then s\<lparr>tagInput := take 30 t\<rparr> else s)"
| "text_view_step (Tag_key k) s = (if search_form_shown s then handleTagInputKeyDown k s else s)"
| "text_view_step Tag_blur s = (if search_form_shown s then addTag s else s)"
| "text_view_step (Tag_remove i) s = (if search_form_shown s then removeTag i s else s)"
| "text_view_step Cancel_click s =
     (if hookStatus s = Searching then s\<lparr>cancelled := Suc (cancelled s)\<rparr> else s)"
| "text_view_step Start_click s =
     (if search_form_shown s \<and> hookConnected s
      then handleStartSearchClick (js_join '','' (interestTags s)) s else s)"
| "text_view_step (Modal e) s = modal_event_in e s"
| "text_view_step Modal_close s = s\<lparr>entryModal := None\<rparr>"
| "text_view_step (Send_click t) s = (if hookStatus s = Connected then handleSend t s else s)"
| "text_view_step Stop_click s = (if hookStatus s = Connected then handleDisconnect s else s)"
| "text_view_step Next_click s = s"
| "text_view_step (Stop_timer t) s =
     (if t \<in> set (stopTimers s) then s\<lparr>stopTimers := remove1 t (stopTimers s), confirmStop := False\<rparr> else s)"
| "text_view_step (Skip_timer t) s = s"
| "text_view_step Open_report s = s\<lparr>showReport := True\<rparr>"
| "text_view_step Close_report s = s\<lparr>showReport := False\<rparr>"

fun video_view_step :: "view_event \<Rightarrow> chat_view \<Rightarrow> chat_view" where
  "video_view_step (View_commit conn st msgs changed) s = view_commit_v conn st msgs changed s"
| "video_view_step (Send_click t) s = (if hookStatus s = Connected then handleSend_v t s else s)"
| "video_view_step Stop_click s = (if hookStatus s = Connected then handleDisconnect_v s else s)"
| "video_view_step Next_click s = (if hookStatus s = Connected then handleNext s else s)"
| "video_view_step (Skip_timer t) s =
     (if t \<in> set (skipTimers s) then s\<lparr>skipTimers := remove1 t (skipTimers s), confirmSkip := False\<rparr> else s)"
| "video_view_step e s = text_view_step e s"

section \<open>What both pages keep\<close>

text \<open>
  A contract for both pages, from any moment on: when \<open>n\<close> searches were logged on a page that was not
  verified then, the next one carries a token, and the page is verified only if there was one.
\<close>

definition tags_wf :: "string list \<Rightarrow> bool" where
  "tags_wf ts \<longleftrightarrow>
     distinct ts \<and> length ts \<le> 10 \<and>
     list_all (\<lambda>t. t \<noteq> [] \<and> length t \<le> 30 \<and> CHR '','' \<notin> set t \<and> CHR '';'' \<notin> set t) ts"

definition searches_wf :: "(string \<times> string option) list \<Rightarrow> bool \<Rightarrow> bool" where
  "searches_wf log verified \<longleftrightarrow>
     (log \<noteq> [] \<longrightarrow> str_truthy (snd (hd log))) \<and> (verified \<longrightarrow> log \<noteq> [])"

definition view_inv :: "nat \<Rightarrow> chat_view \<Rightarrow> bool" where
  "view_inv n s \<longleftrightarrow>
     tags_wf (interestTags s) \<and>
     n \<le> length (searches s) \<and> searches_wf (drop n (searches s)) (captchaVerified s) \<and>
     (\<forall>m. entryModal s = Some m \<longrightarrow> confirmedTokens m = [])"

locale chat_page_view =
  fixes step :: "view_event \<Rightarrow> chat_view \<Rightarrow> chat_view"
  assumes step_keeps: "view_inv n s \<Longrightarrow> view_inv n (step e s)"
begin

lemma run_from: "view_inv n s \<Longrightarrow> view_inv n (run_events step es s)"
  by (induction es arbitrary: s) (auto intro: step_keeps)

lemma run: "view_inv 0 (run_events step es (initial_view t))"
  by (rule run_from) (simp add: view_inv_def initial_view_def tags_wf_def searches_wf_def)

lemma tags: "tags_wf (interestTags (run_events step es (initial_view t)))"
  using run [of es t] by (simp add: view_inv_def)

text \<open>A page that is not verified starts a new count.\<close>

lemma recount: "\<lbrakk>view_inv n s; \<not> captchaVerified s\<rbrakk> \<Longrightarrow> view_inv (length (searches s)) s"
  by (simp add: view_inv_def searches_wf_def)

lemma next_search:
  assumes "s = run_events step es (initial_view t)" and "\<not> captchaVerified s"
    and "searches (run_events step es' s) = searches s @ (i, token) # rest"
  shows "str_truthy token"
  using run_from [OF recount [OF run [of es t]], of es'] assms by (simp add: view_inv_def searches_wf_def)

end

lemma clean_tag_wf:
  "length (clean_tag t) \<le> 30" "CHR '','' \<notin> set (clean_tag t)" "CHR '';'' \<notin> set (clean_tag t)"
  by (auto simp: clean_tag_def is_tag_separator_def dest: in_set_takeD)

lemma addTag_inv: "view_inv n s \<Longrightarrow> view_inv n (addTag s)"
  by (simp add: addTag_def Let_def view_inv_def tags_wf_def clean_tag_wf)

lemma remove_index_wf:
  assumes "tags_wf ts" shows "tags_wf (take i ts @ drop (Suc i) ts)"
proof -
  have "distinct (take i ts @ drop (Suc i) ts)"
    using assms by (simp add: tags_wf_def set_take_disj_set_drop_if_distinct)
  moreover have "set (take i ts @ drop (Suc i) ts) \<subseteq> set ts"
    using set_take_subset [of i ts] set_drop_subset [of "Suc i" ts] by auto
  moreover have "length (take i ts @ drop (Suc i) ts) \<le> length ts" by simp
  ultimately show ?thesis using assms unfolding tags_wf_def list_all_iff by (meson le_trans subsetD)
qed

lemma removeTag_inv: "view_inv n s \<Longrightarrow> view_inv n (removeTag i s)"
  by (simp add: removeTag_def view_inv_def remove_index_wf)

lemma key_inv: "view_inv n s \<Longrightarrow> view_inv n (handleTagInputKeyDown k s)"
  by (simp add: handleTagInputKeyDown_def addTag_inv removeTag_inv)

lemma searches_wf_snoc:
  "searches_wf log v \<Longrightarrow> log \<noteq> [] \<or> str_truthy t \<Longrightarrow> searches_wf (log @ [(i, t)]) w"
  by (cases log) (auto simp: searches_wf_def)

lemma searches_wf_verified: "searches_wf log True \<Longrightarrow> log \<noteq> []"
  by (simp add: searches_wf_def)

lemma start_click_inv: "view_inv n s \<Longrightarrow> view_inv n (handleStartSearchClick i s)"
  by (auto simp: handleStartSearchClick_def view_inv_def startSearch_call_def initial_modal_def
      intro!: searches_wf_snoc dest: searches_wf_verified)

text \<open>The dialog hands on a token only when it has one.\<close>

lemma modal_event_inv:
  assumes "view_inv n s" shows "view_inv n (modal_event_in e s)"
proof (cases "entryModal s")
  case None
  with assms show ?thesis by (simp add: modal_event_in_def)
next
  case (Some m)
  with assms have "list_all (\<lambda>t. t \<noteq> []) (confirmedTokens m)" by (simp add: view_inv_def)
  then have ok: "list_all (\<lambda>t. t \<noteq> []) (confirmedTokens (modal_step e m))" by (rule confirmed_not_empty_step)
  show ?thesis
  proof (cases "confirmedTokens (modal_step e m) = []")
    case True
    with Some assms show ?thesis by (simp add: modal_event_in_def Let_def view_inv_def)
  next
    case False
    with ok have "last (confirmedTokens (modal_step e m)) \<noteq> []" by (simp add: list_all_iff)
    with Some False assms show ?thesis
      by (auto simp: modal_event_in_def Let_def view_inv_def handleModalConfirm_def startSearch_call_def
          str_truthy_iff intro!: searches_wf_snoc)
  qed
qed

lemma searches_wf_unverify: "searches_wf log v \<Longrightarrow> searches_wf log False"
  by (simp add: searches_wf_def)

lemma commit_inv:
  "view_inv n s \<Longrightarrow> view_inv n (view_commit conn st msgs s)"
  "view_inv n s \<Longrightarrow> view_inv n (view_commit_v conn st msgs changed s)"
  by (auto simp: view_commit_def view_commit_v_def view_inv_def Let_def intro: searches_wf_unverify)

lemma text_view_keeps: "view_inv n s \<Longrightarrow> view_inv n (text_view_step e s)"
  by (cases e) (simp_all add: commit_inv addTag_inv removeTag_inv key_inv start_click_inv modal_event_inv,
      simp_all add: view_inv_def handleSend_def handleDisconnect_def)

lemma video_view_keeps: "view_inv n s \<Longrightarrow> view_inv n (video_view_step e s)"
proof (cases e)
  case (View_commit conn st msgs changed)
  assume "view_inv n s" then show ?thesis by (simp add: View_commit commit_inv)
qed (simp_all add: addTag_inv removeTag_inv key_inv start_click_inv modal_event_inv,
    simp_all add: view_inv_def handleSend_v_def handleDisconnect_v_def handleNext_def)

interpretation text_view: chat_page_view text_view_step
  by unfold_locales (rule text_view_keeps)

interpretation video_view: chat_page_view video_view_step
  by unfold_locales (rule video_view_keeps)

section \<open>Properties\<close>

text \<open>
  C24: no search without a captcha: on both pages, at any moment of any run at which the page is not
  verified (at the start, or after the token was rejected), the next search carries a token.
\<close>

theorem unverified_search_has_token:
  assumes "step = text_view_step \<or> step = video_view_step"
    and "s = run_events step es (initial_view t)" and "\<not> captchaVerified s"
    and "searches (run_events step es' s) = searches s @ (i, token) # rest"
  shows "str_truthy token"
  using assms text_view.next_search [of s es t es' i token rest]
    video_view.next_search [of s es t es' i token rest] by blast

theorem unverified_search_has_token_witness: "str_truthy (Some ''t'')"
  by (rule unverified_search_has_token [of text_view_step "initial_view (Some ''t'')" "[]" "Some ''t''"
        "[View_commit True Idle [] False, Start_click]" "[]" "Some ''t''" "[]"])
    (simp_all add: initial_view_def view_commit_def handleStartSearchClick_def startSearch_call_def
      search_form_shown_def)



text \<open>
  A rejected token is asked for again: when the connection is lost, or the last message says that
  the captcha was rejected, and the landing page's token is used up, the next start opens the dialog
  and searches nothing.
\<close>

theorem rejected_token_asks_again:
  assumes "\<not> conn \<or> captcha_rejected msgs" and "\<not> str_truthy (routeToken s)"
  shows "let s' = handleStartSearchClick i (view_commit conn st msgs s)
    in entryModal s' = Some initial_modal \<and> searches s' = searches s \<and> pendingInterests s' = i"
  using assms by (auto simp: view_commit_def handleStartSearchClick_def Let_def)

theorem rejected_token_asks_again_witness:
  "let s' = handleStartSearchClick ''go'' (view_commit False Idle [] (initial_view None))
    in entryModal s' = Some initial_modal \<and> searches s' = searches (initial_view None) \<and> pendingInterests s' = ''go''"
  by (rule rejected_token_asks_again) (simp_all add: initial_view_def)

text \<open>
  An old timer ends a new confirmation: the three-second timer of a first tap is never cleared;
  after a message was sent and the button tapped again, it fires and takes the new confirmation away,
  whose own timer is still running.
\<close>

theorem old_timer_ends_confirmation:
  assumes "hookStatus s = Connected" and "\<not> confirmStop s" and "freshTimer s \<notin> set (stopTimers s)"
  shows "let s' = run_events text_view_step [Stop_click, Send_click m, Stop_click] s;
             s'' = text_view_step (Stop_timer (freshTimer s)) s'
    in confirmStop s' \<and> \<not> confirmStop s'' \<and> Suc (freshTimer s) \<in> set (stopTimers s'') \<and> stopped s'' = stopped s"
  using assms by (simp add: handleDisconnect_def handleSend_def Let_def remove1_append)

theorem old_timer_ends_confirmation_witness:
  "let s = (initial_view None)\<lparr>hookStatus := Connected\<rparr>;
       s' = run_events text_view_step [Stop_click, Send_click ''hi'', Stop_click] s;
       s'' = text_view_step (Stop_timer (freshTimer s)) s'
    in confirmStop s' \<and> \<not> confirmStop s'' \<and> Suc (freshTimer s) \<in> set (stopTimers s'') \<and> stopped s'' = stopped s"
  unfolding Let_def
  by (rule old_timer_ends_confirmation [unfolded Let_def]) (simp_all add: initial_view_def)

text \<open>
  C25: a token spent without a connection: when the dialog is confirmed while the connection is down and
  the search fails, the video page keeps the verified flag over the reconnect, because its effect runs
  only when the connection changes, and starts the next search without a token on a socket that never
  saw one; the text page drops the flag at once and asks again.
\<close>

theorem confirmed_offline_stays_verified:
  assumes "entryModal s = Some m" and "confirm_enabled m" and "confirmedTokens m = []"
    and "\<not> hookConnected s" and "hookStatus s = Idle" and "\<not> str_truthy (routeToken s)"
  defines "es \<equiv> [Modal Confirm, View_commit False Idle [] False, View_commit True Idle [] False, Start_click]"
  defines "tags \<equiv> js_join '','' (interestTags s)"
  shows "searches (run_events video_view_step es s) =
      searches s @ [(pendingInterests s, modalToken m), (tags, None)] \<and>
    searches (run_events text_view_step es s) = searches s @ [(pendingInterests s, modalToken m)] \<and>
    entryModal (run_events text_view_step es s) = Some initial_modal"
proof -
  from assms(2) obtain t where t: "modalToken m = Some t" by (auto simp: confirm_enabled_def str_truthy_iff)
  show ?thesis
    using assms(1-6) t
    by (simp add: es_def tags_def modal_event_in_def handleConfirm_def handleModalConfirm_def
        startSearch_call_def view_commit_def view_commit_v_def search_form_shown_def
        handleStartSearchClick_def captcha_rejected_def Let_def)
qed

theorem confirmed_offline_stays_verified_witness:
  "let s = (initial_view None)\<lparr>entryModal := Some (initial_modal\<lparr>termsAccepted := True, rulesAccepted := True,
         modalToken := Some ''t''\<rparr>)\<rparr>;
       es = [Modal Confirm, View_commit False Idle [] False, View_commit True Idle [] False, Start_click]
   in searches (run_events video_view_step es s) = searches s @ [([], Some ''t''), ([], None)] \<and>
      searches (run_events text_view_step es s) = searches s @ [([], Some ''t'')] \<and>
      entryModal (run_events text_view_step es s) = Some initial_modal"
  using confirmed_offline_stays_verified [of "(initial_view None)\<lparr>entryModal := Some (initial_modal\<lparr>
      termsAccepted := True, rulesAccepted := True, modalToken := Some ''t''\<rparr>)\<rparr>"
      "initial_modal\<lparr>termsAccepted := True, rulesAccepted := True, modalToken := Some ''t''\<rparr>"]
  by (simp add: Let_def initial_view_def initial_modal_def confirm_enabled_def)

end
