(* ===== verification/Video_View.thy ===== *)
theory Video_View
  imports Chat_Types Complex_Main
begin

text \<open>
  The layout logic of the video page (\<open>VideoChatView\<close> in
  \<^verbatim>\<open>client/src/components/VideoChat.tsx\<close>): remembered layout choices, where the small preview
  sits and how it is dragged, the watermark, and the delayed spinner.

  \<^item> Lengths are rationals (the rounding of doubles is not modelled); rectangles come from the browser.
  \<^item> The spinner's timers carry their due time; a timer fires at a time not before it. Times never
    decrease.
\<close>

section \<open>Remembered choices\<close>

definition STACKED_VIDEO_RATIOS :: "(string \<times> rat) list" where
  "STACKED_VIDEO_RATIOS = [(''1:1'', 1), (''4:3'', 4 / 3), (''16:9'', 16 / 9)]"

record pip_config =
  pct :: rat
  min_width :: rat
  max_width :: rat

definition PIP_SIZES :: "(string \<times> pip_config) list" where
  "PIP_SIZES =
     [(''S'', \<lparr>pct = 24 / 100, min_width = 72, max_width = 128\<rparr>),
      (''M'', \<lparr>pct = 28 / 100, min_width = 80, max_width = 150\<rparr>),
      (''L'', \<lparr>pct = 34 / 100, min_width = 96, max_width = 190\<rparr>)]"

definition stored_layout :: "string option \<Rightarrow> string" where
  "stored_layout saved = (if str_truthy saved then the saved else ''pip'')"

definition stored_ratio :: "string option \<Rightarrow> string" where
  "stored_ratio saved =
     (case saved of Some k \<Rightarrow> if k \<in> fst ` set STACKED_VIDEO_RATIOS then k else ''4:3'' | None \<Rightarrow> ''4:3'')"

definition stored_pip_size :: "string option \<Rightarrow> string" where
  "stored_pip_size saved =
     (case saved of Some k \<Rightarrow> if k \<in> fst ` set PIP_SIZES then k else ''M'' | None \<Rightarrow> ''M'')"

definition effective_layout :: "bool \<Rightarrow> string \<Rightarrow> string" where
  "effective_layout desktop layout = (if desktop then layout else ''pip'')"

definition toggle_layout :: "string \<Rightarrow> string" where
  "toggle_layout prev = (if prev = ''pip'' then ''stacked'' else ''pip'')"

text \<open>\<open>findIndex\<close>, which is \<open>-1\<close> for a missing key, so the next one is the first.\<close>

fun key_index :: "string list \<Rightarrow> string \<Rightarrow> nat option" where
  "key_index [] k = None"
| "key_index (x # xs) k = (if x = k then Some 0 else map_option Suc (key_index xs k))"

definition next_key :: "string list \<Rightarrow> string \<Rightarrow> string" where
  "next_key keys prev =
     keys ! ((case key_index keys prev of None \<Rightarrow> 0 | Some i \<Rightarrow> Suc i) mod length keys)"

definition cycle_ratio :: "string \<Rightarrow> string" where
  "cycle_ratio prev = next_key (map fst STACKED_VIDEO_RATIOS) prev"

definition cycle_pip_size :: "string \<Rightarrow> string" where
  "cycle_pip_size prev = next_key (map fst PIP_SIZES) prev"

definition stacked_panel_width :: "bool \<Rightarrow> string \<Rightarrow> string \<Rightarrow> rat \<Rightarrow> rat \<Rightarrow> rat option" where
  "stacked_panel_width desktop layout ratio w h =
     (if \<not> desktop \<or> layout \<noteq> ''stacked'' then None
      else
        let ratioValue = (case map_of STACKED_VIDEO_RATIOS ratio of Some v \<Rightarrow> v | None \<Rightarrow> 4 / 3);
            maxWidth = max (w - 320) (w * (38 / 100));
            idealWidth = (h / 2) * ratioValue
        in Some (max 280 (min idealWidth maxWidth)))"

section \<open>The preview\<close>

type_synonym point = "rat \<times> rat"

definition LOCAL_PREVIEW_EDGE_MARGIN :: rat where
  "LOCAL_PREVIEW_EDGE_MARGIN = 12"

definition pip_config_of :: "string \<Rightarrow> pip_config" where
  "pip_config_of size_key =
     (case map_of PIP_SIZES size_key of Some c \<Rightarrow> c | None \<Rightarrow> snd (PIP_SIZES ! 1))"

definition pip_width :: "string \<Rightarrow> rat \<Rightarrow> rat" where
  "pip_width size_key w =
     (let c = pip_config_of size_key in min (max (w * pct c) (min_width c)) (max_width c))"

definition max_x :: "string \<Rightarrow> rat \<Rightarrow> rat" where
  "max_x size_key w =
     max LOCAL_PREVIEW_EDGE_MARGIN (w - pip_width size_key w - LOCAL_PREVIEW_EDGE_MARGIN)"

definition max_y :: "string \<Rightarrow> rat \<Rightarrow> rat \<Rightarrow> rat" where
  "max_y size_key w h =
     max LOCAL_PREVIEW_EDGE_MARGIN (h - pip_width size_key w * 9 / 16 - LOCAL_PREVIEW_EDGE_MARGIN)"

definition EDGE_TOLERANCE :: rat where
  "EDGE_TOLERANCE = LOCAL_PREVIEW_EDGE_MARGIN + 4"

text \<open>The effect that keeps the preview in its corner when the panel or the size changes.\<close>

definition reposition :: "string \<Rightarrow> rat \<times> rat \<Rightarrow> point option \<Rightarrow> point option" where
  "reposition size_key dims prev =
     (let (w, h) = dims
      in if w = 0 \<or> h = 0 then prev
         else
           let mx = max_x size_key w; my = max_y size_key w h;
               (x, y) = (case prev of None \<Rightarrow> (mx, my) | Some p \<Rightarrow> p)
           in Some (if x > EDGE_TOLERANCE then mx else LOCAL_PREVIEW_EDGE_MARGIN,
                    if y > EDGE_TOLERANCE then my else LOCAL_PREVIEW_EDGE_MARGIN))"

text \<open>It runs in the small layout only, and once the panel was measured.\<close>

definition reposition_effect ::
    "string \<Rightarrow> string \<Rightarrow> (rat \<times> rat) option \<Rightarrow> point option \<Rightarrow> point option" where
  "reposition_effect layout size_key panel prev =
     (if layout \<noteq> ''pip'' then prev
      else case panel of None \<Rightarrow> prev | Some dims \<Rightarrow> reposition size_key dims prev)"

lemma reposition_effect_pip [simp]: "reposition_effect ''pip'' k (Some d) p = reposition k d p"
  by (simp add: reposition_effect_def)

record preview =
  previewPosition :: "point option"
  dragging :: bool
  dragOffset :: "(point \<times> point) option"
  dragHasMoved :: bool
  pipSwapped :: bool
  swapTransitionDisabled :: bool
  swapTimerRuns :: bool

text \<open>
  The rectangles of the panel and the preview: left and top, width and height. A drag remembers the
  offset of the pointer in the preview and where it started.
\<close>

type_synonym rect = "point \<times> point"

definition pointer_down :: "string \<Rightarrow> rect \<Rightarrow> rect \<Rightarrow> point \<Rightarrow> preview \<Rightarrow> preview" where
  "pointer_down layout panel pv client s =
     (if layout = ''stacked'' then s
      else s\<lparr>dragHasMoved := False,
             dragOffset := Some ((fst client - fst (fst pv), snd client - snd (fst pv)), client),
             dragging := True,
             previewPosition := (case previewPosition s of
                 Some p \<Rightarrow> Some p
               | None \<Rightarrow> Some (fst (fst pv) - fst (fst panel), snd (fst pv) - snd (fst panel)))\<rparr>)"

definition drag_clamp :: "rat \<Rightarrow> rat \<Rightarrow> rat \<Rightarrow> rat" where
  "drag_clamp nxt panel_size preview_size =
     min (max LOCAL_PREVIEW_EDGE_MARGIN nxt) (panel_size - preview_size - LOCAL_PREVIEW_EDGE_MARGIN)"

definition pointer_move :: "string \<Rightarrow> rect \<Rightarrow> rect \<Rightarrow> point \<Rightarrow> preview \<Rightarrow> preview" where
  "pointer_move layout panel pv client s =
     (if \<not> dragging s \<or> layout = ''stacked'' then s
      else case dragOffset s of
        None \<Rightarrow> s
      | Some (off, start) \<Rightarrow>
          s\<lparr>dragHasMoved := dragHasMoved s \<or> \<bar>fst client - fst start\<bar> > 4 \<or> \<bar>snd client - snd start\<bar> > 4,
            previewPosition := Some
              (drag_clamp (fst client - fst (fst panel) - fst off) (fst (snd panel)) (fst (snd pv)),
               drag_clamp (snd client - snd (fst panel) - snd off) (snd (snd panel)) (snd (snd pv)))\<rparr>)"

definition snap :: "rat \<Rightarrow> rat \<Rightarrow> rat \<Rightarrow> rat" where
  "snap current panel_size preview_size =
     (if current + preview_size / 2 < panel_size / 2 then LOCAL_PREVIEW_EDGE_MARGIN
      else panel_size - preview_size - LOCAL_PREVIEW_EDGE_MARGIN)"

definition pointer_up :: "string \<Rightarrow> rect \<Rightarrow> rect \<Rightarrow> preview \<Rightarrow> preview" where
  "pointer_up layout panel pv s =
     (if \<not> dragging s then s
      else
        let s = (if layout = ''stacked'' \<or> dragOffset s = None then s
                 else s\<lparr>previewPosition := Some
                   (snap (fst (fst pv) - fst (fst panel)) (fst (snd panel)) (fst (snd pv)),
                    snap (snd (fst pv) - snd (fst panel)) (snd (snd panel)) (snd (snd pv)))\<rparr>)
        in s\<lparr>dragOffset := None, dragging := False\<rparr>)"

text \<open>
  A click that ends a drag does not swap the videos. The ref always holds the one timer that runs: a
  new swap clears the old timer.
\<close>

definition toggle_pip :: "string \<Rightarrow> preview \<Rightarrow> preview" where
  "toggle_pip layout s =
     (if layout = ''pip''
      then s\<lparr>swapTransitionDisabled := True, pipSwapped := \<not> pipSwapped s, swapTimerRuns := True\<rparr>
      else s)"

definition swap_timer_fires :: "preview \<Rightarrow> preview" where
  "swap_timer_fires s =
     (if swapTimerRuns s then s\<lparr>swapTransitionDisabled := False, swapTimerRuns := False\<rparr> else s)"

definition unmount_preview :: "preview \<Rightarrow> preview" where
  "unmount_preview s = s\<lparr>swapTimerRuns := False\<rparr>"

definition handle_pip_click :: "string \<Rightarrow> preview \<Rightarrow> preview" where
  "handle_pip_click layout s = (if dragHasMoved s then s else toggle_pip layout s)"

definition pip_overlaps_watermark :: "string \<Rightarrow> point option \<Rightarrow> (rat \<times> rat) option \<Rightarrow> bool" where
  "pip_overlaps_watermark layout pos dims \<longleftrightarrow>
     layout = ''pip'' \<and>
     (case (pos, dims) of
        (Some (x, y), Some (w, h)) \<Rightarrow> h > 0 \<and> x < w * (35 / 100) \<and> y > h * (65 / 100)
      | _ \<Rightarrow> False)"

datatype watermark_place = Top_left rat rat | Bottom_left rat rat

definition watermark_style :: "string \<Rightarrow> point option \<Rightarrow> (rat \<times> rat) option \<Rightarrow> watermark_place" where
  "watermark_style layout pos dims =
     (if pip_overlaps_watermark layout pos dims then Top_left 20 16
      else case dims of
        None \<Rightarrow> Bottom_left 12 12
      | Some (w, h) \<Rightarrow> if layout = ''stacked'' then Bottom_left 12 12 else Top_left (h - 52 - 12) 12)"

section \<open>The preview's corner\<close>

text \<open>A panel with room: its far edges lie beyond the tolerance of the near ones.\<close>

definition roomy :: "string \<Rightarrow> rat \<times> rat \<Rightarrow> bool" where
  "roomy size_key dims \<longleftrightarrow>
     fst dims \<noteq> 0 \<and> snd dims \<noteq> 0 \<and>
     max_x size_key (fst dims) > EDGE_TOLERANCE \<and> max_y size_key (fst dims) (snd dims) > EDGE_TOLERANCE"

definition in_corner :: "bool \<times> bool \<Rightarrow> string \<Rightarrow> rat \<times> rat \<Rightarrow> point" where
  "in_corner corner size_key dims =
     (if fst corner then max_x size_key (fst dims) else LOCAL_PREVIEW_EDGE_MARGIN,
      if snd corner then max_y size_key (fst dims) (snd dims) else LOCAL_PREVIEW_EDGE_MARGIN)"

lemma reposition_corner:
  assumes "roomy k dims" and "roomy k' dims'"
  shows "reposition k' dims' (Some (in_corner corner k dims)) = Some (in_corner corner k' dims')"
  using assms
  by (cases dims; cases dims'; cases corner)
    (auto simp: reposition_def in_corner_def roomy_def Let_def EDGE_TOLERANCE_def)

text \<open>
  The preview keeps its corner: over any sequence of panel sizes and preview sizes that leave room,
  a preview in a corner ends in the same corner of the last panel.
\<close>

theorem preview_keeps_corner:
  assumes "roomy k dims" and "list_all (\<lambda>(k', dims'). roomy k' dims') changes"
  shows "fold (\<lambda>(k', dims') p. reposition_effect ''pip'' k' (Some dims') p) changes (Some (in_corner corner k dims)) =
    Some (in_corner corner (fst (last ((k, dims) # changes))) (snd (last ((k, dims) # changes))))"
  using assms
proof (induction changes arbitrary: k dims)
  case (Cons c cs)
  obtain k' dims' where c: "c = (k', dims')" by (cases c)
  with Cons.prems have "roomy k' dims'" "list_all (\<lambda>(k', dims'). roomy k' dims') cs" by auto
  with Cons.IH [of k' dims'] reposition_corner [OF Cons.prems(1) this(1)] show ?case by (simp add: c)
qed simp

lemma roomy_example: "roomy ''M'' (400, 600)" "roomy ''S'' (600, 400)"
  by (simp_all add: roomy_def max_x_def max_y_def pip_width_def pip_config_of_def PIP_SIZES_def
      EDGE_TOLERANCE_def LOCAL_PREVIEW_EDGE_MARGIN_def Let_def)

theorem preview_keeps_corner_witness:
  "fold (\<lambda>(k', dims') p. reposition_effect ''pip'' k' (Some dims') p) [(''S'', (600, 400))] (Some (in_corner (True, False) ''M'' (400, 600))) =
    Some (in_corner (True, False) ''S'' (600, 400))"
  using preview_keeps_corner [of "''M''" "(400, 600)" "[(''S'', (600, 400))]" "(True, False)"]
  by (simp add: roomy_example)

text \<open>
  A flat panel loses the corner: when the panel is for a moment too flat to have room, as with a
  keyboard on the screen, a preview at the bottom is at the top afterwards, although the panel is
  what it was.
\<close>

theorem flat_panel_loses_corner:
  assumes "roomy k (w, h)" and "h' \<noteq> 0" and "max_y k w h' \<le> EDGE_TOLERANCE"
  shows "snd (in_corner (right, True) k (w, h)) = max_y k w h \<and>
    map_option snd (reposition_effect ''pip'' k (Some (w, h))
      (reposition_effect ''pip'' k (Some (w, h')) (Some (in_corner (right, True) k (w, h))))) = Some 12 \<and>
    max_y k w h > 12"
  using assms
  by (auto simp: reposition_def in_corner_def roomy_def Let_def EDGE_TOLERANCE_def LOCAL_PREVIEW_EDGE_MARGIN_def)

theorem flat_panel_loses_corner_witness:
  "snd (in_corner (True, True) ''M'' (400, 600)) = max_y ''M'' 400 600 \<and>
    map_option snd (reposition_effect ''pip'' ''M'' (Some (400, 600))
      (reposition_effect ''pip'' ''M'' (Some (400, 80)) (Some (in_corner (True, True) ''M'' (400, 600))))) = Some 12 \<and>
    max_y ''M'' 400 600 > 12"
  by (rule flat_panel_loses_corner)
    (simp_all add: roomy_example max_y_def pip_width_def pip_config_of_def PIP_SIZES_def
      EDGE_TOLERANCE_def LOCAL_PREVIEW_EDGE_MARGIN_def Let_def)

text \<open>
  The preview stays in its panel: while it is dragged over a panel with room for it and the two
  margins, it keeps the margin on every side, wherever the pointer goes.
\<close>

theorem dragged_preview_stays_inside:
  assumes "dragging s" and "dragOffset s = Some (off, start)" and "layout \<noteq> ''stacked''"
    and "fst (snd pv) + 24 \<le> fst (snd panel)" and "snd (snd pv) + 24 \<le> snd (snd panel)"
  shows "\<exists>x y. previewPosition (pointer_move layout panel pv client s) = Some (x, y) \<and>
    12 \<le> x \<and> x + fst (snd pv) + 12 \<le> fst (snd panel) \<and> 12 \<le> y \<and> y + snd (snd pv) + 12 \<le> snd (snd panel)"
  using assms
  by (auto simp: pointer_move_def drag_clamp_def LOCAL_PREVIEW_EDGE_MARGIN_def)

theorem dragged_preview_stays_inside_witness:
  "\<exists>x y. previewPosition (pointer_move ''pip'' ((0, 0), (400, 600)) ((280, 500), (112, 63)) (999, 999)
      \<lparr>previewPosition = None, dragging = True, dragOffset = Some ((5, 5), (290, 510)), dragHasMoved = False,
       pipSwapped = False, swapTransitionDisabled = False, swapTimerRuns = False\<rparr>) = Some (x, y) \<and>
    12 \<le> x \<and> x + 112 + 12 \<le> 400 \<and> 12 \<le> y \<and> y + 63 + 12 \<le> 600"
  using dragged_preview_stays_inside [of "\<lparr>previewPosition = None, dragging = True,
      dragOffset = Some ((5, 5), (290, 510)), dragHasMoved = False, pipSwapped = False,
      swapTransitionDisabled = False, swapTimerRuns = False\<rparr>" "(5, 5)" "(290, 510)" "''pip''" "((280, 500), (112, 63))"
      "((0, 0), (400, 600))" "(999, 999)"]
  by simp

section \<open>The overlay\<close>

text \<open>
  The video elements mark the key under which a frame of the peer was drawn; the key changes with the
  status and the peer.
\<close>

fun status_text :: "chat_status \<Rightarrow> string" where
  "status_text Idle = ''idle''"
| "status_text Searching = ''searching''"
| "status_text Connected = ''connected''"
| "status_text Disconnected = ''disconnected''"

definition remoteVideoRenderKey :: "chat_status \<Rightarrow> string option \<Rightarrow> string" where
  "remoteVideoRenderKey st peer = status_text st @ '':'' @ (case peer of None \<Rightarrow> ''none'' | Some p \<Rightarrow> p)"

definition remoteVideoHasRendered :: "string option \<Rightarrow> chat_status \<Rightarrow> string option \<Rightarrow> bool" where
  "remoteVideoHasRendered rendered st peer \<longleftrightarrow> rendered = Some (remoteVideoRenderKey st peer)"

datatype overlay = Camera_error_overlay string | Searching_overlay | Connecting_overlay | Status_overlay

definition overlay_content :: "string option \<Rightarrow> chat_status \<Rightarrow> bool \<Rightarrow> bool \<Rightarrow> overlay option" where
  "overlay_content error st connecting rendered =
     (if str_truthy error then Some (Camera_error_overlay (the error))
      else if st = Searching then Some Searching_overlay
      else if st = Connected \<and> connecting \<and> \<not> rendered then Some Connecting_overlay
      else if st \<noteq> Connected then Some Status_overlay
      else None)"

text \<open>A frame of an earlier peer never hides the spinner of the next one.\<close>

lemma render_key_peer:
  "remoteVideoHasRendered (Some (remoteVideoRenderKey st (Some p))) Connected (Some q) \<longleftrightarrow> st = Connected \<and> p = q"
  by (cases st) (auto simp: remoteVideoHasRendered_def remoteVideoRenderKey_def)

lemma next_peer_spins:
  "p \<noteq> q \<Longrightarrow>
   overlay_content None Connected True
     (remoteVideoHasRendered (Some (remoteVideoRenderKey Connected (Some p))) Connected (Some q)) =
   Some Connecting_overlay"
  by (simp add: render_key_peer overlay_content_def)

section \<open>The spinner\<close>

record spinner =
  showVideoConnecting :: bool
  connectingSince :: "nat option"
  spinTimers :: "(nat \<times> nat \<times> bool) list"
  showTimerRef :: "nat option"
  hideTimerRef :: "nat option"
  hasCleanup :: bool
  freshSpin :: nat
  clock :: nat

definition initial_spinner :: spinner where
  "initial_spinner =
     \<lparr>showVideoConnecting = False, connectingSince = None, spinTimers = [], showTimerRef = None,
      hideTimerRef = None, hasCleanup = False, freshSpin = 0, clock = 0\<rparr>"

definition clear_spin :: "spinner \<Rightarrow> spinner" where
  "clear_spin s =
     s\<lparr>spinTimers := filter (\<lambda>(i, _). Some i \<noteq> showTimerRef s \<and> Some i \<noteq> hideTimerRef s) (spinTimers s),
       showTimerRef := None, hideTimerRef := None\<rparr>"

text \<open>The effect of a change of the status or of \<open>isVideoConnecting\<close>, at a time \<open>t\<close>.\<close>

definition spinner_effect :: "nat \<Rightarrow> bool \<Rightarrow> spinner \<Rightarrow> spinner" where
  "spinner_effect t connecting s0 =
     (let s = clear_spin s0
      in if connecting
         then s\<lparr>spinTimers := spinTimers s @ [(freshSpin s, t + 150, True)], showTimerRef := Some (freshSpin s),
                freshSpin := Suc (freshSpin s), hasCleanup := False, clock := t\<rparr>
         else
           let visibleForMs = (case connectingSince s of None \<Rightarrow> 0 | Some since \<Rightarrow> if since = 0 then 0 else t - since);
               hideDelay = 300 - visibleForMs
           in s\<lparr>spinTimers := spinTimers s @ [(freshSpin s, t + hideDelay, False)],
                hideTimerRef := Some (freshSpin s), freshSpin := Suc (freshSpin s), hasCleanup := True,
                clock := t\<rparr>)"

definition spin_fires :: "nat \<Rightarrow> nat \<Rightarrow> bool \<Rightarrow> spinner \<Rightarrow> spinner" where
  "spin_fires i t is_show s =
     (let s = s\<lparr>spinTimers := filter (\<lambda>(j, _). j \<noteq> i) (spinTimers s), clock := t\<rparr>
      in if is_show then s\<lparr>connectingSince := Some t, showVideoConnecting := True\<rparr>
         else s\<lparr>connectingSince := None, showVideoConnecting := False\<rparr>)"

datatype spin_event = Spin_change nat bool | Spin_timer nat nat | Spin_unmount

fun spin_step :: "spin_event \<Rightarrow> spinner \<Rightarrow> spinner" where
  "spin_step (Spin_change t connecting) s = (if t \<ge> clock s then spinner_effect t connecting s else s)"
| "spin_step (Spin_timer i t) s =
     (case map_of (spinTimers s) i of
        Some (due, is_show) \<Rightarrow> if t \<ge> clock s \<and> t \<ge> due then spin_fires i t is_show s else s
      | None \<Rightarrow> s)"
| "spin_step Spin_unmount s = (if hasCleanup s then (clear_spin s)\<lparr>hasCleanup := False\<rparr> else s)"

definition spin_inv :: "spinner \<Rightarrow> bool" where
  "spin_inv s \<longleftrightarrow>
     (spinTimers s = [] \<or>
      (\<exists>i due is_show. spinTimers s = [(i, due, is_show)] \<and>
         (if is_show then showTimerRef s = Some i else hideTimerRef s = Some i) \<and>
         (\<not> is_show \<longrightarrow> (\<forall>t0. connectingSince s = Some t0 \<longrightarrow> t0 + 300 \<le> due)))) \<and>
     (showVideoConnecting s \<longleftrightarrow> connectingSince s \<noteq> None) \<and>
     (\<forall>t0. connectingSince s = Some t0 \<longrightarrow> t0 \<le> clock s)"

lemma clear_spin_empty: "spin_inv s \<Longrightarrow> spinTimers (clear_spin s) = []"
  by (auto simp: spin_inv_def clear_spin_def split: if_splits)

lemma clear_spin_fields [simp]:
  "connectingSince (clear_spin s) = connectingSince s" "clock (clear_spin s) = clock s"
  "showVideoConnecting (clear_spin s) = showVideoConnecting s"
  by (simp_all add: clear_spin_def)

lemma spin_inv_one:
  "\<lbrakk>spinTimers s = [(i, due, b)]; if b then showTimerRef s = Some i else hideTimerRef s = Some i;
    \<not> b \<longrightarrow> (\<forall>t0. connectingSince s = Some t0 \<longrightarrow> t0 + 300 \<le> due);
    showVideoConnecting s \<longleftrightarrow> connectingSince s \<noteq> None;
    \<forall>t0. connectingSince s = Some t0 \<longrightarrow> t0 \<le> clock s\<rbrakk> \<Longrightarrow> spin_inv s"
  unfolding spin_inv_def by blast

lemma spin_inv_timer:
  assumes "spin_inv s" and "map_of (spinTimers s) i = Some (due, b)"
  shows "spinTimers s = [(i, due, b)]"
proof -
  from assms(1) consider "spinTimers s = []" | j d c where "spinTimers s = [(j, d, c)]"
    unfolding spin_inv_def by blast
  then show ?thesis by cases (use assms(2) in \<open>simp_all split: if_splits\<close>)
qed

lemma spin_inv_hides_late:
  assumes "spin_inv s" and "spinTimers s = [(i, due, False)]" and "connectingSince s = Some t0"
  shows "t0 + 300 \<le> due"
proof -
  from assms(1,2) obtain b where "b \<or> (\<forall>t1. connectingSince s = Some t1 \<longrightarrow> t1 + 300 \<le> due)"
    and "b = False" unfolding spin_inv_def by auto
  with assms(3) show ?thesis by simp
qed

lemma spin_step_keeps: "spin_inv s \<Longrightarrow> spin_inv (spin_step e s)"
proof (cases e)
  case (Spin_change t c)
  assume s: "spin_inv s"
  then have vis: "showVideoConnecting s \<longleftrightarrow> connectingSince s \<noteq> None"
    and cl: "\<forall>t0. connectingSince s = Some t0 \<longrightarrow> t0 \<le> clock s" by (auto simp: spin_inv_def)
  have "spin_inv (spinner_effect t c s)" if "t \<ge> clock s"
  proof (cases "connectingSince s")
    case None
    with clear_spin_empty [OF s] vis show ?thesis
      by (cases c) (auto simp: spinner_effect_def spin_inv_def Let_def)
  next
    case (Some t0)
    with cl have "t0 \<le> clock s" by simp
    with that have "t0 \<le> t" by simp
  then have late: "t0 + 300 \<le> t + (300 - (if t0 = 0 then 0 else t - t0))" by (simp split: nat_diff_split)
    have empty: "spinTimers (clear_spin s) = []" using s by (rule clear_spin_empty)
    show ?thesis
    proof (cases c)
      case True
      then show ?thesis using Some empty vis \<open>t0 \<le> t\<close>
        by (intro spin_inv_one [of _ "freshSpin (clear_spin s)" "t + 150" True])
          (simp_all add: spinner_effect_def Let_def)
    next
      case False
      then show ?thesis using Some empty vis \<open>t0 \<le> t\<close> late
        by (intro spin_inv_one [of _ "freshSpin (clear_spin s)" "t + (300 - (if t0 = 0 then 0 else t - t0))" False])
          (simp_all add: spinner_effect_def Let_def)
    qed
  qed
  with s show ?thesis by (simp add: Spin_change)
next
  case (Spin_timer i t)
  assume s: "spin_inv s"
  show ?thesis
  proof (cases "\<exists>due b. map_of (spinTimers s) i = Some (due, b) \<and> t \<ge> clock s \<and> t \<ge> due")
    case True
    then obtain due b where due: "map_of (spinTimers s) i = Some (due, b)" "t \<ge> clock s" "t \<ge> due"
      by blast
    with spin_inv_timer [OF s] have "spin_step e s = spin_fires i t b s" "spinTimers s = [(i, due, b)]"
      by (simp_all add: Spin_timer)
    then show ?thesis by (cases b) (simp_all add: spin_fires_def spin_inv_def)
  next
    case False
    then have "spin_step e s = s" by (auto simp: Spin_timer split: option.split)
    with s show ?thesis by simp
  qed
next
  case Spin_unmount
  assume s: "spin_inv s"
  with clear_spin_empty [OF s] show ?thesis by (simp add: Spin_unmount spin_inv_def)
qed

interpretation spin_sys: invariant_system spin_step initial_spinner spin_inv
  by unfold_locales (simp_all add: spin_step_keeps, simp add: spin_inv_def initial_spinner_def)

text \<open>
  The spinner does not flicker: over any changes of the connection and any late timers, an event
  that hides a visible spinner is its timer, at least 300 milliseconds after it was shown.
\<close>

theorem spinner_stays_visible:
  assumes "s = run_events spin_step es initial_spinner" and "showVideoConnecting s"
    and "\<not> showVideoConnecting (spin_step e s)"
  shows "\<exists>i t t0. e = Spin_timer i t \<and> connectingSince s = Some t0 \<and> t0 + 300 \<le> t"
proof -
  have inv: "spin_inv s" unfolding assms(1) by (rule spin_sys.inv_run)
  then obtain t0 where t0: "connectingSince s = Some t0" using assms(2) by (auto simp: spin_inv_def)
  show ?thesis
  proof (cases e)
    case (Spin_change t c)
    with assms(2,3) show ?thesis by (simp add: spinner_effect_def Let_def split: if_splits)
  next
    case (Spin_timer i t)
    with assms(2,3) obtain due where "map_of (spinTimers s) i = Some (due, False)" "due \<le> t"
      by (auto simp: spin_fires_def Let_def split: option.splits if_splits)
    with spin_inv_hides_late [OF inv spin_inv_timer [OF inv] t0] have "t0 + 300 \<le> t" by fastforce
    with Spin_timer t0 show ?thesis by blast
  next
    case Spin_unmount
    with assms(2,3) show ?thesis by (simp split: if_splits)
  qed
qed

theorem spinner_stays_visible_witness:
  "\<exists>i t t0. Spin_timer 1 460 = Spin_timer i t \<and>
     connectingSince (run_events spin_step [Spin_change 0 True, Spin_timer 0 160, Spin_change 200 False] initial_spinner)
       = Some t0 \<and> t0 + 300 \<le> t"
  by (rule spinner_stays_visible [OF refl])
    (simp_all add: spinner_effect_def clear_spin_def spin_fires_def initial_spinner_def Let_def)

end
