(* ===== verification/Page_Shell.thy ===== *)
theory Page_Shell
  imports Chat_View Network_Health
begin

text \<open>
  What surrounds the chat pages: the routes (\<^verbatim>\<open>client/src/App.tsx\<close>), the landing page
  (\<^verbatim>\<open>LandingPage.tsx\<close>) with its entry dialog, the error boundary (\<^verbatim>\<open>ErrorBoundary.tsx\<close>), the
  health context with its redirect and the unavailable page with its retry, and the theme hooks of both
  applications.

  \<^item> The router is a package: a navigation shows the element of its path, a path matches when it is
    equal, and a redirect element navigates at once. \<open>locationToken\<close> is \<^verbatim>\<open>location.state?.turnstileToken\<close>.
  \<^item> A page is mounted with fresh state when its element is shown and loses it when another one is.
  \<^item> \<open>enabled\<close> is \<^verbatim>\<open>VITE_ENABLE_VIDEO_CHAT !== 'false'\<close>.
\<close>

section \<open>Routes\<close>

datatype route_target =
    Landing_page | Text_page | Video_page | Video_disabled_page | Unavailable_page | Navigate_to string

definition route_element :: "bool \<Rightarrow> string \<Rightarrow> route_target" where
  "route_element enabled p =
     (if p = ''/'' then Landing_page
      else if p = ''/text'' then Text_page
      else if p = ''/video'' then (if enabled then Video_page else Navigate_to ''/video-disabled'')
      else if p = ''/video-disabled'' then Video_disabled_page
      else if p = ''/unavailable'' then Unavailable_page
      else Navigate_to ''/'')"

definition is_chat_page :: "route_target \<Rightarrow> bool" where
  "is_chat_page e \<longleftrightarrow> e = Text_page \<or> e = Video_page"

lemma redirect_is_shown:
  "route_element enabled p = Navigate_to q \<Longrightarrow> \<not> is_chat_page (route_element enabled q) \<and>
    (\<forall>r. route_element enabled q \<noteq> Navigate_to r)"
  by (auto simp: route_element_def is_chat_page_def split: if_splits)

section \<open>State\<close>

record landing =
  showModal :: "entry_modal option"
  targetRoute :: "string option"
  promoVideoReady :: bool
  heroImgLoaded :: bool
  featuresImgLoaded :: bool
  showGithubIcon :: bool

definition initial_landing :: landing where
  "initial_landing =
     \<lparr>showModal = None, targetRoute = None, promoVideoReady = False, heroImgLoaded = False,
      featuresImgLoaded = False, showGithubIcon = True\<rparr>"

definition pageReady :: "landing \<Rightarrow> bool" where
  "pageReady l \<longleftrightarrow> heroImgLoaded l \<and> featuresImgLoaded l"

record shell =
  path :: string
  locationToken :: "string option"
  landing_state :: landing
  chatPage :: "chat_view option"
  hasError :: bool
  serviceHealth :: health

text \<open>Showing a path: at most one redirect follows, and a redirect drops the state.\<close>

definition show_path :: "bool \<Rightarrow> string \<Rightarrow> string option \<Rightarrow> shell \<Rightarrow> shell" where
  "show_path enabled p token s =
     (let (p', token') = (case route_element enabled p of Navigate_to q \<Rightarrow> (q, None) | _ \<Rightarrow> (p, token))
      in s\<lparr>path := p', locationToken := token', landing_state := initial_landing, hasError := False,
           chatPage := (if is_chat_page (route_element enabled p') then Some (initial_view token') else None)\<rparr>)"

definition initial_shell :: "bool \<Rightarrow> string \<Rightarrow> shell" where
  "initial_shell enabled p =
     show_path enabled p None
       \<lparr>path = p, locationToken = None, landing_state = initial_landing, chatPage = None, hasError = False,
        serviceHealth = initial_health\<rparr>"

section \<open>The landing page\<close>

definition openModal :: "bool \<Rightarrow> string \<Rightarrow> shell \<Rightarrow> shell" where
  "openModal enabled route s =
     (if route = ''/video'' \<and> \<not> enabled then show_path enabled ''/video-disabled'' None s
      else s\<lparr>landing_state := (landing_state s)\<lparr>targetRoute := Some route, showModal := Some initial_modal\<rparr>\<rparr>)"

definition handleLandingConfirm :: "bool \<Rightarrow> string \<Rightarrow> shell \<Rightarrow> shell" where
  "handleLandingConfirm enabled token s =
     (if str_truthy (targetRoute (landing_state s)) \<and> token \<noteq> []
      then show_path enabled (the (targetRoute (landing_state s))) (Some token) s
      else s)"

definition landing_modal_event :: "bool \<Rightarrow> modal_event \<Rightarrow> shell \<Rightarrow> shell" where
  "landing_modal_event enabled e s =
     (case showModal (landing_state s) of
        None \<Rightarrow> s
      | Some m \<Rightarrow>
          let m' = modal_step e m;
              s' = s\<lparr>landing_state := (landing_state s)\<lparr>showModal := Some m'\<rparr>\<rparr>
          in if confirmedTokens m' = confirmedTokens m then s'
             else handleLandingConfirm enabled (last (confirmedTokens m')) s')"

section \<open>Failures\<close>

text \<open>
  A rendering error shows the fallback in the page's place, whose button reloads the application at the
  root. The retry of the unavailable page resets the health context first.
\<close>

definition getDerivedStateFromError :: "shell \<Rightarrow> shell" where
  "getDerivedStateFromError s = s\<lparr>hasError := True, chatPage := None\<rparr>"

definition handleReturnHome :: "bool \<Rightarrow> shell" where
  "handleReturnHome enabled = initial_shell enabled ''/''"

definition handleRetry :: "bool \<Rightarrow> shell \<Rightarrow> shell" where
  "handleRetry enabled s =
     show_path enabled ''/'' None (s\<lparr>serviceHealth := resetHealthStatus (serviceHealth s)\<rparr>)"

text \<open>The provider stands above the routes; a navigation of its effect shows the path.\<close>

definition health_event_in :: "bool \<Rightarrow> health_event \<Rightarrow> shell \<Rightarrow> shell" where
  "health_event_in enabled e s =
     (let h = health_step e (serviceHealth s);
          s' = s\<lparr>serviceHealth := h\<rparr>
      in if length (navigations h) > length (navigations (serviceHealth s))
         then show_path enabled (last (navigations h)) None s' else s')"

section \<open>Events\<close>

text \<open>The arrow in a chat's header and the button of the disabled page lead to the root.\<close>

datatype shell_event =
    Visit string | Open_chat string | Landing_modal modal_event | Landing_close
  | Hero_loaded | Features_loaded | Promo_ready bool | Footer_seen bool
  | Health health_event | Page_event view_event | Page_crash | Return_home | Home_click | Retry_click

definition page_step :: "route_target \<Rightarrow> view_event \<Rightarrow> chat_view \<Rightarrow> chat_view" where
  "page_step e = (if e = Video_page then video_view_step else text_view_step)"

definition page_event :: "bool \<Rightarrow> view_event \<Rightarrow> shell \<Rightarrow> shell" where
  "page_event enabled e s =
     (case chatPage s of
        None \<Rightarrow> s
      | Some v \<Rightarrow>
          let v' = page_step (route_element enabled (path s)) e v
          in s\<lparr>chatPage := Some v', locationToken := routeToken v'\<rparr>)"

fun shell_step :: "bool \<Rightarrow> shell_event \<Rightarrow> shell \<Rightarrow> shell" where
  "shell_step enabled (Visit p) s = show_path enabled p None s"
| "shell_step enabled (Open_chat r) s =
     (if path s = ''/'' \<and> (r = ''/text'' \<or> r = ''/video'') then openModal enabled r s else s)"
| "shell_step enabled (Landing_modal e) s = (if path s = ''/'' then landing_modal_event enabled e s else s)"
| "shell_step enabled Landing_close s = s\<lparr>landing_state := (landing_state s)\<lparr>showModal := None\<rparr>\<rparr>"
| "shell_step enabled Hero_loaded s = s\<lparr>landing_state := (landing_state s)\<lparr>heroImgLoaded := True\<rparr>\<rparr>"
| "shell_step enabled Features_loaded s = s\<lparr>landing_state := (landing_state s)\<lparr>featuresImgLoaded := True\<rparr>\<rparr>"
| "shell_step enabled (Promo_ready b) s = s\<lparr>landing_state := (landing_state s)\<lparr>promoVideoReady := b\<rparr>\<rparr>"
| "shell_step enabled (Footer_seen b) s = s\<lparr>landing_state := (landing_state s)\<lparr>showGithubIcon := \<not> b\<rparr>\<rparr>"
| "shell_step enabled (Health e) s = health_event_in enabled e s"
| "shell_step enabled (Page_event e) s = (if hasError s then s else page_event enabled e s)"
| "shell_step enabled Page_crash s = (if chatPage s = None then s else getDerivedStateFromError s)"
| "shell_step enabled Return_home s = (if hasError s then handleReturnHome enabled else s)"
| "shell_step enabled Home_click s =
     (if chatPage s \<noteq> None \<or> path s = ''/video-disabled'' then show_path enabled ''/'' None s else s)"
| "shell_step enabled Retry_click s =
     (if path s = ''/unavailable'' then handleRetry enabled s else s)"

section \<open>Which page is shown\<close>

definition shell_inv :: "bool \<Rightarrow> shell \<Rightarrow> bool" where
  "shell_inv enabled s \<longleftrightarrow>
     (\<forall>q. route_element enabled (path s) \<noteq> Navigate_to q) \<and>
     (\<forall>v. chatPage s = Some v \<longrightarrow> is_chat_page (route_element enabled (path s)) \<and> view_inv 0 v) \<and>
     (chatPage s = None \<longrightarrow> hasError s \<or> \<not> is_chat_page (route_element enabled (path s))) \<and>
     (\<forall>m. showModal (landing_state s) = Some m \<longrightarrow>
        confirmedTokens m = [] \<and> str_truthy (targetRoute (landing_state s)))"

lemma show_path_inv [intro, simp]: "shell_inv enabled (show_path enabled p token s)"
proof -
  have "view_inv 0 (initial_view t)" for t using text_view.run [of "[]" t] by simp
  then show ?thesis
    using redirect_is_shown [of enabled p]
    by (auto simp: shell_inv_def show_path_def Let_def initial_landing_def split: route_target.split)
qed

lemma page_step_inv: "view_inv n v \<Longrightarrow> view_inv n (page_step p e v)"
  by (simp add: page_step_def text_view_keeps video_view_keeps)

lemma landing_modal_inv:
  assumes "shell_inv enabled s" shows "shell_inv enabled (landing_modal_event enabled e s)"
proof (cases "showModal (landing_state s)")
  case None
  with assms show ?thesis by (simp add: landing_modal_event_def)
next
  case (Some m)
  with assms have empty: "confirmedTokens m = []" by (simp add: shell_inv_def)
  show ?thesis
  proof (cases "confirmedTokens (modal_step e m) = []")
    case True
    with Some empty assms show ?thesis by (simp add: landing_modal_event_def Let_def shell_inv_def)
  next
    case False
    with confirmed_not_empty_step [of m e] empty have "last (confirmedTokens (modal_step e m)) \<noteq> []"
      by (simp add: list_all_iff)
    with Some empty False assms show ?thesis
      by (simp add: landing_modal_event_def handleLandingConfirm_def Let_def shell_inv_def [of enabled s])
  qed
qed

lemma page_event_inv: "shell_inv enabled s \<Longrightarrow> shell_inv enabled (page_event enabled e s)"
  by (auto simp: page_event_def shell_inv_def Let_def page_step_inv split: option.split)

lemma openModal_inv: "\<lbrakk>shell_inv enabled s; r \<noteq> []\<rbrakk> \<Longrightarrow> shell_inv enabled (openModal enabled r s)"
  by (cases "r = ''/video'' \<and> \<not> enabled")
    (simp_all add: openModal_def, simp_all add: shell_inv_def initial_modal_def)

lemma health_event_inv: "shell_inv enabled s \<Longrightarrow> shell_inv enabled (health_event_in enabled e s)"
  by (auto simp: health_event_in_def Let_def) (simp add: shell_inv_def)

lemma shell_step_keeps: "shell_inv enabled s \<Longrightarrow> shell_inv enabled (shell_step enabled e s)"
  by (cases e)
    (auto simp: landing_modal_inv page_event_inv openModal_inv initial_shell_def health_event_inv
      handleReturnHome_def handleRetry_def getDerivedStateFromError_def, simp_all add: shell_inv_def)

interpretation shell_sys: invariant_system "shell_step enabled" "initial_shell enabled p" "shell_inv enabled"
  for enabled p
  by unfold_locales (simp_all add: shell_step_keeps, simp add: initial_shell_def)

text \<open>
  The video page is gated: when video chat is disabled, no visit, click or confirmed dialog, in any
  order, shows it, and with it enabled or not the path shown is never a redirect and a chat page is
  mounted exactly when its path is shown and it has not crashed.
\<close>

theorem video_page_gated:
  fixes enabled p es
  defines "s \<equiv> run_events (shell_step enabled) es (initial_shell enabled p)"
  shows "(\<not> enabled \<longrightarrow> route_element enabled (path s) \<noteq> Video_page) \<and>
    (\<forall>q. route_element enabled (path s) \<noteq> Navigate_to q) \<and>
    (chatPage s \<noteq> None \<longrightarrow> is_chat_page (route_element enabled (path s))) \<and>
    (is_chat_page (route_element enabled (path s)) \<and> \<not> hasError s \<longrightarrow> chatPage s \<noteq> None)"
proof -
  have "shell_inv enabled s" unfolding s_def by (rule shell_sys.inv_run)
  then show ?thesis unfolding shell_inv_def by (auto simp: route_element_def split: if_splits)
qed

text \<open>
  The landing page's token reaches the search: a confirmed dialog of the landing page mounts the
  chosen chat page, whose first search, once connected, carries that token and uses it up.
\<close>

theorem landing_token_reaches_search:
  assumes "showModal (landing_state s) = Some m" and "confirm_enabled m" and "confirmedTokens m = []"
    and "targetRoute (landing_state s) = Some r" and "r = ''/text'' \<or> r = ''/video'' \<and> enabled" and "path s = ''/''"
  defines "s' \<equiv> run_events (shell_step enabled) [Landing_modal Confirm,
      Page_event (View_commit True Idle [] False), Page_event Start_click] s"
  shows "path s' = r \<and> locationToken s' = None \<and>
    map_option searches (chatPage s') = Some [([], modalToken m)]"
proof -
  from assms(2) obtain t where t: "modalToken m = Some t" "t \<noteq> []"
    by (auto simp: confirm_enabled_def str_truthy_iff)
  have r: "r \<noteq> []" "route_element enabled r = Text_page \<or> route_element enabled r = Video_page"
    using assms(5) by (auto simp: route_element_def)
  then have "show_path enabled r (Some t) s0 =
      s0\<lparr>path := r, locationToken := Some t, landing_state := initial_landing, hasError := False,
        chatPage := Some (initial_view (Some t))\<rparr>" for s0
    by (elim disjE) (simp_all add: show_path_def is_chat_page_def)
  moreover have "searches (run_events (page_step el) [View_commit True Idle [] False, Start_click]
      (initial_view (Some t))) = [([], Some t)]"
    "routeToken (run_events (page_step el) [View_commit True Idle [] False, Start_click]
      (initial_view (Some t))) = None" for el
    using t(2) by (simp_all add: page_step_def initial_view_def view_commit_def view_commit_v_def
        handleStartSearchClick_def startSearch_call_def search_form_shown_def)
  ultimately show ?thesis
    using assms(1-4,6) t r(1)
    by (simp add: s'_def landing_modal_event_def handleConfirm_def handleLandingConfirm_def page_event_def Let_def)
qed

theorem landing_token_reaches_search_witness:
  "let s' = run_events (shell_step True) [Landing_modal Confirm,
      Page_event (View_commit True Idle [] False), Page_event Start_click]
      ((initial_shell True ''/'')\<lparr>landing_state := initial_landing\<lparr>targetRoute := Some ''/text'',
         showModal := Some (initial_modal\<lparr>termsAccepted := True, rulesAccepted := True, modalToken := Some ''t''\<rparr>)\<rparr>\<rparr>)
   in path s' = ''/text'' \<and> locationToken s' = None \<and> map_option searches (chatPage s') = Some [([], Some ''t'')]"
  using landing_token_reaches_search [of "(initial_shell True ''/'')\<lparr>landing_state := initial_landing\<lparr>
      targetRoute := Some ''/text'', showModal := Some (initial_modal\<lparr>termsAccepted := True,
      rulesAccepted := True, modalToken := Some ''t''\<rparr>)\<rparr>\<rparr>"
      "initial_modal\<lparr>termsAccepted := True, rulesAccepted := True, modalToken := Some ''t''\<rparr>" "''/text''" True]
  by (simp add: Let_def initial_modal_def confirm_enabled_def initial_shell_def show_path_def
      route_element_def is_chat_page_def)

section \<open>Back from the unavailable page\<close>

text \<open>An event that reports no channel offline and does not ask for the unavailable page.\<close>

definition calm :: "shell_event \<Rightarrow> bool" where
  "calm e \<longleftrightarrow> (case e of Visit p \<Rightarrow> p \<noteq> ''/unavailable'' | Health (SetChannel c st) \<Rightarrow> st \<noteq> SOffline | _ \<Rightarrow> True)"

definition none_offline :: "health \<Rightarrow> bool" where
  "none_offline h \<longleftrightarrow> SOffline \<notin> snd ` set (channelStatuses h)"

definition available :: "shell \<Rightarrow> bool" where
  "available s \<longleftrightarrow> none_offline (serviceHealth s) \<and> path s \<noteq> ''/unavailable'' \<and>
     targetRoute (landing_state s) \<noteq> Some ''/unavailable''"

lemma none_offline_status: "none_offline h \<Longrightarrow> phoenixStatus (channelStatuses h) \<noteq> SOffline"
  by (auto simp: none_offline_def phoenixStatus_def Let_def list_ex_iff)

lemma set_update_values: "snd ` set (AList.update c st al) \<subseteq> insert st (snd ` set al)"
  by (induction al) auto

lemma none_offline_step:
  assumes "none_offline h" and "\<And>c. e \<noteq> SetChannel c SOffline"
  shows "none_offline (health_step e h) \<and> navigations (health_step e h) = navigations h"
proof (cases e)
  case (SetChannel c st)
  with assms show ?thesis
    using set_update_values [of c st "channelStatuses h"]
    by (auto simp: none_offline_def setChannelStatus_def)
next
  case (RemoveChannel c)
  with assms show ?thesis
    by (auto simp: none_offline_def removeChannel_def AList.delete_eq)
next
  case (Commit b)
  with none_offline_status [OF assms(1)] assms(1) show ?thesis
    by (simp add: commit_layout_def Let_def none_offline_def)
qed (use assms in \<open>simp_all add: none_offline_def setApiStatus_def resetHealthStatus_def\<close>)

lemma show_path_available [simp]:
  "path (show_path enabled p t s) = ''/unavailable'' \<longleftrightarrow> p = ''/unavailable''"
  "serviceHealth (show_path enabled p t s) = serviceHealth s"
  "targetRoute (landing_state (show_path enabled p t s)) = None"
  by (auto simp: show_path_def Let_def route_element_def initial_landing_def)

lemma available_landing_modal:
  assumes "available s" shows "available (landing_modal_event enabled e s)"
proof (cases "showModal (landing_state s)")
  case None
  with assms show ?thesis by (simp add: landing_modal_event_def)
next
  case (Some m)
  with assms show ?thesis
    by (auto simp: landing_modal_event_def handleLandingConfirm_def available_def str_truthy_iff Let_def)
qed

lemma available_step:
  assumes "available s" and "calm e" shows "available (shell_step enabled e s)"
proof (cases e)
  case (Health h)
  then have "none_offline (health_step h (serviceHealth s)) \<and>
      navigations (health_step h (serviceHealth s)) = navigations (serviceHealth s)"
    using assms by (intro none_offline_step) (auto simp: available_def calm_def)
  with assms Health show ?thesis by (simp add: health_event_in_def available_def Let_def)
next
  case (Landing_modal m)
  with assms show ?thesis by (simp add: available_landing_modal)
next
  case (Open_chat r)
  with assms show ?thesis by (auto simp: openModal_def available_def)
next
  case Return_home
  with assms show ?thesis
    by (simp add: handleReturnHome_def initial_shell_def available_def none_offline_def initial_health_def)
qed (use assms in \<open>auto simp: available_def calm_def getDerivedStateFromError_def handleRetry_def page_event_def Let_def
      none_offline_def resetHealthStatus_def split: option.split\<close>)

lemma available_run: "\<lbrakk>available s; list_all calm es\<rbrakk> \<Longrightarrow> available (run_events (shell_step enabled) es s)"
  by (induction es arbitrary: s) (simp_all add: available_step)

text \<open>
  The retry leads out: after the retry of the unavailable page, whatever the context had recorded,
  no event brings the page back until a channel is reported offline again or its address is visited.
\<close>

theorem retry_leaves_unavailable:
  assumes "path s = ''/unavailable''" and "list_all calm es"
  shows "path (run_events (shell_step enabled) (Retry_click # es) s) \<noteq> ''/unavailable''"
proof -
  have "available (shell_step enabled Retry_click s)"
    using assms(1) by (simp add: handleRetry_def available_def none_offline_def resetHealthStatus_def)
  from available_run [OF this assms(2), of enabled] show ?thesis by (simp add: available_def)
qed

theorem retry_leaves_unavailable_witness:
  "path (run_events (shell_step True) [Retry_click, Health (Commit True), Open_chat ''/text'']
     (run_events (shell_step True) [Health (SetChannel ''text'' SOffline), Health (Commit False)]
        (initial_shell True ''/text''))) \<noteq> ''/unavailable''"
  by (rule retry_leaves_unavailable)
    (simp_all add: calm_def initial_shell_def show_path_def route_element_def is_chat_page_def initial_health_def
      health_event_in_def setChannelStatus_def commit_layout_def Let_def max_def less_eq_service_status_def)

section \<open>Themes\<close>

text \<open>
  The client's hook keeps any saved string, the admin's only the two themes; both write the theme back
  after every change, and the root element carries its class.
\<close>

record theme_hook =
  theme :: string
  rootClasses :: "string set"
  savedTheme :: "string option"

definition theme_of :: "string option \<Rightarrow> bool \<Rightarrow> string" where
  "theme_of saved prefers_dark =
     (if str_truthy saved then the saved else if prefers_dark then ''dark'' else ''light'')"

definition theme_of_admin :: "string option \<Rightarrow> bool \<Rightarrow> string" where
  "theme_of_admin saved prefers_light =
     (if saved = Some ''light'' \<or> saved = Some ''dark'' then the saved
      else if prefers_light then ''light'' else ''dark'')"

definition theme_effect :: "theme_hook \<Rightarrow> theme_hook" where
  "theme_effect h =
     h\<lparr>rootClasses :=
         (if theme h = ''dark'' then insert ''dark'' (rootClasses h) - {''light''}
          else insert ''light'' (rootClasses h - {''dark''})),
       savedTheme := Some (theme h)\<rparr>"

definition theme_effect_admin :: "theme_hook \<Rightarrow> theme_hook" where
  "theme_effect_admin h =
     h\<lparr>rootClasses := insert (theme h) (rootClasses h - {''light'', ''dark''}), savedTheme := Some (theme h)\<rparr>"

definition toggleTheme :: "theme_hook \<Rightarrow> theme_hook" where
  "toggleTheme h = h\<lparr>theme := (if theme h = ''light'' then ''dark'' else ''light'')\<rparr>"

definition open_theme :: "bool \<Rightarrow> theme_hook \<Rightarrow> theme_hook" where
  "open_theme prefers_dark h = theme_effect (h\<lparr>theme := theme_of (savedTheme h) prefers_dark\<rparr>)"

definition open_theme_admin :: "bool \<Rightarrow> theme_hook \<Rightarrow> theme_hook" where
  "open_theme_admin prefers_light h =
     theme_effect_admin (h\<lparr>theme := theme_of_admin (savedTheme h) prefers_light\<rparr>)"

text \<open>The root element carries one theme class, whatever it carried before.\<close>

lemma theme_effect_eq:
  "theme_effect h =
     h\<lparr>rootClasses := insert (if theme h = ''dark'' then ''dark'' else ''light'') (rootClasses h - {''light'', ''dark''}),
       savedTheme := Some (theme h)\<rparr>"
proof -
  have "insert ''dark'' R - {''light''} = insert ''dark'' (R - {''light'', ''dark''})"
    "insert ''light'' (R - {''dark''}) = insert ''light'' (R - {''light'', ''dark''})" for R :: "string set"
    by auto
  then show ?thesis by (simp add: theme_effect_def)
qed

lemma saved_theme:
  "theme_of (Some (theme_of v b)) b' = theme_of v b"
  "theme_of_admin (Some (theme_of_admin v b)) b' = theme_of_admin v b"
  by (cases v; simp add: theme_of_def) (auto simp: theme_of_admin_def)

lemma class_twice: "insert x (insert x (R - A) - A) = insert x (R - A)"
  by auto

text \<open>A saved theme survives a visit, and the first visit's system preference is kept for good.\<close>

lemma theme_sticks:
  "open_theme b' (open_theme b h) = open_theme b h"
  "open_theme_admin b' (open_theme_admin b h) = open_theme_admin b h"
  by (rule theme_hook.equality;
      auto simp: open_theme_def open_theme_admin_def theme_effect_eq theme_effect_admin_def saved_theme)+

end
