(* ===== verification/Hls_Player.thy ===== *)
theory Hls_Player
  imports Pairline_Prelude
begin

text \<open>
  The promotional video (\<^verbatim>\<open>client/src/components/HLSVideoPlayer.tsx\<close>): one run of its effect, from
  the mount to the cleanup, with the browser's native playlist support, with the hls.js package, or
  with neither.

  \<^item> The video element and hls.js are packages: what the code calls on them is the log \<open>calls\<close>; their
    callbacks are events, delivered while the listener is registered.
  \<^item> \<open>hlsLive\<close> is \<^verbatim>\<open>hls !== null\<close>.
\<close>

datatype playback = Native | With_hls | Plain

datatype player_call =
    Set_src | Remove_src | Load | Play | Pause | Rewind
  | Attach_media | Detach_media | Load_source | Start_load | Stop_load | Recover_media | Destroy_hls

datatype hls_error = Network_error | Media_error | Other_error

record player =
  playback :: playback
  autoPlay :: bool
  destroyed :: bool
  hlsLive :: bool
  hlsListeners :: bool
  metadataListener :: bool
  visibilityListener :: bool
  calls :: "player_call list"

definition call :: "player_call list \<Rightarrow> player \<Rightarrow> player" where
  "call cs s = s\<lparr>calls := calls s @ cs\<rparr>"

definition tryPlay :: "player \<Rightarrow> player" where
  "tryPlay s = (if \<not> autoPlay s \<or> destroyed s then s else call [Play] s)"

definition mount_player :: "playback \<Rightarrow> bool \<Rightarrow> player" where
  "mount_player p auto =
     (let s = \<lparr>playback = p, autoPlay = auto, destroyed = False, hlsLive = False, hlsListeners = False,
            metadataListener = False, visibilityListener = True, calls = []\<rparr>
      in case p of
           Native \<Rightarrow> call [Set_src, Load] (s\<lparr>metadataListener := True\<rparr>)
         | With_hls \<Rightarrow> call [Attach_media] (s\<lparr>hlsLive := True, hlsListeners := True\<rparr>)
         | Plain \<Rightarrow> tryPlay (call [Set_src, Load] s))"

definition handleVisibilityChange :: "bool \<Rightarrow> player \<Rightarrow> player" where
  "handleVisibilityChange visible s = (if visible \<and> autoPlay s then tryPlay (call [Rewind] s) else s)"

definition onMediaAttached :: "player \<Rightarrow> player" where
  "onMediaAttached s = (if \<not> destroyed s \<and> hlsLive s then call [Load_source] s else s)"

definition onHlsError :: "bool \<Rightarrow> hls_error \<Rightarrow> player \<Rightarrow> player" where
  "onHlsError fatal e s =
     (if \<not> hlsLive s \<or> \<not> fatal then s
      else case e of
        Network_error \<Rightarrow> call [Start_load] s
      | Media_error \<Rightarrow> call [Recover_media] s
      | Other_error \<Rightarrow> (call [Destroy_hls] s)\<lparr>hlsLive := False\<rparr>)"

definition unmount_player :: "player \<Rightarrow> player" where
  "unmount_player s =
     (let s = s\<lparr>destroyed := True, visibilityListener := False, metadataListener := False\<rparr>;
          s = (if hlsLive s then (call [Stop_load, Detach_media, Destroy_hls] s)\<lparr>hlsListeners := False\<rparr> else s)
      in call [Pause, Remove_src, Load] s)"

datatype player_event =
    Visibility bool | Loaded_metadata | Media_attached | Manifest_parsed | Hls_error bool hls_error
  | Unmount_player

fun player_step :: "player_event \<Rightarrow> player \<Rightarrow> player" where
  "player_step (Visibility v) s = (if visibilityListener s then handleVisibilityChange v s else s)"
| "player_step Loaded_metadata s = (if metadataListener s then tryPlay s else s)"
| "player_step Media_attached s = (if hlsListeners s then onMediaAttached s else s)"
| "player_step Manifest_parsed s = (if hlsListeners s then tryPlay s else s)"
| "player_step (Hls_error fatal e) s = (if hlsListeners s then onHlsError fatal e s else s)"
| "player_step Unmount_player s = (if destroyed s then s else unmount_player s)"

text \<open>
  After the cleanup a player holds on to nothing: hls.js was destroyed once if it was used, the source
  is gone and no event calls anything any more, even one of a listener that was left behind.
\<close>

definition player_inv :: "player \<Rightarrow> bool" where
  "player_inv s \<longleftrightarrow>
     (hlsLive s \<longrightarrow> playback s = With_hls) \<and>
     (hlsListeners s \<longrightarrow> playback s = With_hls) \<and>
     (destroyed s \<longrightarrow> \<not> visibilityListener s \<and> \<not> metadataListener s \<and> (hlsListeners s \<longrightarrow> \<not> hlsLive s)) \<and>
     (\<not> destroyed s \<and> hlsLive s \<longrightarrow> hlsListeners s) \<and>
     count_list (calls s) Destroy_hls =
       (if playback s = With_hls \<and> (destroyed s \<or> \<not> hlsLive s) then 1 else 0)"

lemma call_fields [simp]:
  "playback (call cs s) = playback s" "autoPlay (call cs s) = autoPlay s" "destroyed (call cs s) = destroyed s"
  "hlsLive (call cs s) = hlsLive s" "hlsListeners (call cs s) = hlsListeners s"
  "metadataListener (call cs s) = metadataListener s" "visibilityListener (call cs s) = visibilityListener s"
  "calls (call cs s) = calls s @ cs"
  by (simp_all add: call_def)

lemma call_inv: "Destroy_hls \<notin> set cs \<Longrightarrow> player_inv (call cs s) = player_inv s"
  by (simp add: player_inv_def)

lemma tryPlay_inv: "player_inv s \<Longrightarrow> player_inv (tryPlay s)"
  by (simp add: tryPlay_def call_inv)

lemma player_step_keeps: "player_inv s \<Longrightarrow> player_inv (player_step e s)"
  by (cases e)
    (auto simp: handleVisibilityChange_def onMediaAttached_def onHlsError_def tryPlay_inv call_inv
      split: hls_error.split, auto simp: player_inv_def unmount_player_def Let_def)

interpretation player_sys: invariant_system player_step "mount_player p auto" player_inv for p auto
  by unfold_locales (simp_all add: player_step_keeps,
      simp add: mount_player_def player_inv_def tryPlay_def Let_def split: playback.split)

lemma destroyed_stays: "destroyed s \<Longrightarrow> player_inv s \<Longrightarrow> calls (player_step e s) = calls s \<and> destroyed (player_step e s)"
  by (cases e) (auto simp: player_inv_def onMediaAttached_def onHlsError_def tryPlay_def)

lemma destroyed_run:
  "\<lbrakk>destroyed s; player_inv s\<rbrakk> \<Longrightarrow> calls (run_events player_step es s) = calls s"
  by (induction es arbitrary: s) (simp_all add: destroyed_stays player_step_keeps)

text \<open>
  A removed video is silent: after the cleanup, whatever happened before and whatever happens after,
  nothing is called on the element or on hls.js any more, the page's listener is gone, and hls.js was
  destroyed exactly once if it was used.
\<close>

theorem removed_player_is_silent:
  fixes p auto es
  defines "s \<equiv> player_step Unmount_player (run_events player_step es (mount_player p auto))"
  shows "calls (run_events player_step es' s) = calls s \<and> destroyed s \<and> \<not> visibilityListener s \<and>
    count_list (calls s) Destroy_hls = (if playback s = With_hls then 1 else 0)"
proof -
  have inv: "player_inv s"
    unfolding s_def by (rule player_step_keeps, rule player_sys.inv_run)
  have gone: "destroyed s" by (simp add: s_def unmount_player_def Let_def)
  with inv destroyed_run [OF gone inv] show ?thesis by (simp add: player_inv_def)
qed

end
