(* ===== verification/Admin_Types.thy ===== *)
theory Admin_Types
  imports Admin_Panel
begin

text \<open>
  The interfaces the console declares for what the server sends (\<^verbatim>\<open>admin/src/types/index.ts\<close>), as
  predicates on dynamic values: TypeScript checks none of them when a body arrives, so a body that
  breaks them is a value like any other. An object may have more fields than its interface.
\<close>

section \<open>Type expressions\<close>

fun is_string :: "js \<Rightarrow> bool" where
  "is_string (JStr t) = True" | "is_string v = False"

fun is_number :: "js \<Rightarrow> bool" where
  "is_number (JNum t) = True" | "is_number v = False"

fun is_bool :: "js \<Rightarrow> bool" where
  "is_bool (JBool b) = True" | "is_bool v = False"

fun is_object :: "js \<Rightarrow> bool" where
  "is_object (JObj fs) = True" | "is_object v = False"

definition one_of :: "string list \<Rightarrow> js \<Rightarrow> bool" where
  "one_of names v \<longleftrightarrow> (case v of JStr t \<Rightarrow> t \<in> set names | _ \<Rightarrow> False)"

definition optional :: "(js \<Rightarrow> bool) \<Rightarrow> js \<Rightarrow> bool" where
  "optional p v \<longleftrightarrow> v = JUndef \<or> p v"

definition or_null :: "(js \<Rightarrow> bool) \<Rightarrow> js \<Rightarrow> bool" where
  "or_null p v \<longleftrightarrow> v = JNull \<or> p v"

definition list_of :: "(js \<Rightarrow> bool) \<Rightarrow> js \<Rightarrow> bool" where
  "list_of p v \<longleftrightarrow> (case v of JArr xs \<Rightarrow> list_all p xs | _ \<Rightarrow> False)"

definition interface :: "(string \<times> (js \<Rightarrow> bool)) list \<Rightarrow> js \<Rightarrow> bool" where
  "interface sig v \<longleftrightarrow> is_object v \<and> list_all (\<lambda>(k, p). p (js_get v k)) sig"

section \<open>Interfaces\<close>

definition is_AdminRole :: "js \<Rightarrow> bool" where
  "is_AdminRole = one_of [''moderator'', ''admin'', ''root'']"

definition is_LoginResponse :: "js \<Rightarrow> bool" where
  "is_LoginResponse = interface
     [(''username'', optional is_string), (''role'', is_AdminRole), (''csrf_token'', optional is_string)]"

definition is_ChatMessage :: "js \<Rightarrow> bool" where
  "is_ChatMessage = interface
     [(''id'', is_string), (''text'', is_string), (''sender'', one_of [''me'', ''peer'', ''system'']),
      (''timestamp'', is_number)]"

definition report_fields :: "(string \<times> (js \<Rightarrow> bool)) list" where
  "report_fields =
     [(''id'', is_string), (''reporter_session_id'', is_string), (''reported_session_id'', is_string),
      (''reporter_ip'', is_string), (''reported_ip'', is_string), (''reason'', is_string),
      (''description'', is_string), (''status'', one_of [''pending'', ''approved'', ''rejected'']),
      (''auto_moderation_state'', optional is_string), (''auto_moderation_decision'', optional is_string),
      (''auto_moderation_summary'', optional is_string), (''auto_moderation_error'', optional is_string),
      (''auto_moderation_model'', optional is_string), (''auto_moderation_attempts'', optional is_number),
      (''auto_moderation_claimed_at'', optional (or_null is_string)),
      (''auto_moderation_completed_at'', optional (or_null is_string)), (''created_at'', is_string),
      (''reviewed_by_username'', optional is_string), (''reviewed_at'', optional is_string)]"

definition is_Report :: "js \<Rightarrow> bool" where
  "is_Report = interface
     (report_fields @ [(''chat_log'', list_of is_ChatMessage),
        (''auto_moderation_categories'', optional (list_of is_string))])"

text \<open>A report as it arrives: the transcript and the categories may be text still to be parsed.\<close>

definition is_RawReport :: "js \<Rightarrow> bool" where
  "is_RawReport = interface
     (report_fields @ [(''chat_log'', or_null (\<lambda>v. is_string v \<or> list_of is_ChatMessage v)),
        (''auto_moderation_categories'', optional (or_null (\<lambda>v. is_string v \<or> list_of is_string v)))])"

definition is_AutoModerationSettings :: "js \<Rightarrow> bool" where
  "is_AutoModerationSettings = interface
     [(''enabled'', is_bool), (''enabled_default'', is_bool), (''configured'', is_bool),
      (''model'', is_string), (''batch_size'', is_number), (''interval_seconds'', is_number),
      (''timeout_seconds'', is_number), (''max_attempts'', is_number)]"

definition is_Ban :: "js \<Rightarrow> bool" where
  "is_Ban = interface
     [(''id'', is_string), (''session_id'', is_string), (''ip_address'', is_string), (''reason'', is_string),
      (''banned_by_username'', is_string), (''created_at'', is_string), (''expires_at'', or_null is_string),
      (''is_active'', is_bool), (''unbanned_at'', or_null is_string),
      (''unbanned_by_username'', or_null is_string)]"

definition is_BannedWord :: "js \<Rightarrow> bool" where
  "is_BannedWord = interface
     [(''id'', is_string), (''word'', is_string), (''normalized_word'', is_string),
      (''created_by_username'', is_string), (''created_at'', is_string)]"

definition is_AdminAccount :: "js \<Rightarrow> bool" where
  "is_AdminAccount = interface
     [(''id'', is_string), (''username'', is_string), (''role'', is_AdminRole), (''created_at'', is_string),
      (''created_by_username'', is_string), (''is_active'', is_bool)]"

definition is_BotSettings :: "js \<Rightarrow> bool" where
  "is_BotSettings = interface
     [(''enabled'', is_bool), (''engagement_enabled'', is_bool), (''ai_enabled'', is_bool),
      (''rollout_percent'', is_number), (''max_concurrent_runs'', is_number),
      (''engagement_priority'', is_number), (''ai_priority'', is_number), (''emergency_stop'', is_bool)]"

text \<open>The script and the configuration of a bot are records whose fields the code checks itself.\<close>

definition is_BotDefinition :: "js \<Rightarrow> bool" where
  "is_BotDefinition = interface
     [(''id'', is_string), (''name'', is_string), (''slug'', is_string),
      (''bot_type'', one_of [''engagement'', ''ai'']), (''is_active'', is_bool), (''description'', is_string),
      (''match_modes_json'', list_of is_string), (''bot_count'', is_number), (''traffic_weight'', is_number),
      (''targeting_json'', is_object), (''script_json'', is_object), (''ai_config_json'', is_object),
      (''message_limit'', is_number), (''session_ttl_seconds'', is_number),
      (''idle_timeout_seconds'', is_number), (''disconnect_reason'', is_string),
      (''created_by_username'', is_string), (''updated_by_username'', is_string),
      (''created_at'', is_string), (''updated_at'', is_string)]"

subsection \<open>Infrastructure\<close>

definition is_InfraSummary :: "js \<Rightarrow> bool" where
  "is_InfraSummary = interface
     [(''healthy_services'', is_number), (''degraded_services'', is_number), (''total_services'', is_number)]"

definition is_InfraTopology :: "js \<Rightarrow> bool" where
  "is_InfraTopology = interface
     [(''phoenix_configured_nodes'', is_number), (''phoenix_connected_nodes'', is_number),
      (''phoenix_node_names'', list_of is_string), (''go_configured_services'', is_number),
      (''redis_configured_nodes'', is_number), (''redis_reachable_nodes'', is_number)]"

definition is_PostgresHealth :: "js \<Rightarrow> bool" where
  "is_PostgresHealth = interface
     [(''status'', is_string), (''latency_ms'', is_number), (''error'', optional is_string),
      (''connections'', interface
         [(''open'', is_number), (''in_use'', is_number), (''idle'', is_number), (''max_open'', is_number)])]"

definition is_RedisMemoryInfo :: "js \<Rightarrow> bool" where
  "is_RedisMemoryInfo = interface
     [(''used_memory_bytes'', is_number), (''used_memory_human'', is_string),
      (''used_memory_rss_bytes'', is_number), (''used_memory_rss_human'', is_string),
      (''used_memory_peak_bytes'', is_number), (''used_memory_peak_human'', is_string),
      (''used_memory_peak_perc'', is_string), (''used_memory_dataset_bytes'', is_number),
      (''used_memory_dataset_perc'', is_string), (''total_system_memory_bytes'', is_number),
      (''total_system_memory_human'', is_string), (''maxmemory_bytes'', is_number),
      (''maxmemory_human'', is_string), (''maxmemory_policy'', is_string), (''allocator'', is_string),
      (''fragmentation_ratio'', is_number), (''fragmentation_bytes'', is_number)]"

definition is_RedisCommandStat :: "js \<Rightarrow> bool" where
  "is_RedisCommandStat = interface
     [(''command'', is_string), (''calls'', is_number), (''usec_total'', is_number),
      (''usec_per_call'', is_number)]"

definition is_RedisNodeHealth :: "js \<Rightarrow> bool" where
  "is_RedisNodeHealth = interface
     [(''node_id'', is_string), (''address'', is_string), (''role'', is_string), (''status'', is_string),
      (''link_state'', is_string), (''flags'', list_of is_string), (''master_id'', optional is_string),
      (''slots'', optional (list_of is_string)), (''master_link_status'', optional is_string),
      (''replication_lag_seconds'', optional is_number), (''memory'', is_RedisMemoryInfo),
      (''command_stats'', optional (list_of is_RedisCommandStat)), (''error'', optional is_string)]"

definition is_RedisClusterInfo :: "js \<Rightarrow> bool" where
  "is_RedisClusterInfo = interface
     [(''state'', is_string), (''slots_assigned'', is_number), (''slots_ok'', is_number),
      (''slots_pfail'', is_number), (''slots_fail'', is_number), (''known_nodes'', is_number),
      (''size'', is_number), (''current_epoch'', is_number), (''my_epoch'', is_number),
      (''total_cluster_links_buffer_limit_exceeded'', is_number)]"

definition is_RedisHealth :: "js \<Rightarrow> bool" where
  "is_RedisHealth = interface
     [(''status'', is_string), (''latency_ms'', is_number), (''error'', optional is_string),
      (''configured_nodes'', list_of is_string), (''cluster'', is_RedisClusterInfo),
      (''nodes'', list_of is_RedisNodeHealth)]"

definition is_ObservabilityHealth :: "js \<Rightarrow> bool" where
  "is_ObservabilityHealth = interface
     [(''status'', is_string), (''traces_configured'', is_bool), (''metrics_configured'', is_bool),
      (''otlp_endpoint'', is_string),
      (''collector'', interface [(''url'', is_string), (''status'', is_string), (''latency_ms'', is_number),
         (''error'', optional is_string)])]"

definition is_RemoteServiceHealth :: "js \<Rightarrow> bool" where
  "is_RemoteServiceHealth = interface
     [(''name'', is_string), (''kind'', is_string), (''url'', is_string), (''status'', is_string),
      (''http_status'', is_number), (''latency_ms'', is_number), (''error'', optional is_string),
      (''service'', optional is_string), (''reported_at'', optional is_number),
      (''details'', optional is_object)]"

definition is_InfraHealthResponse :: "js \<Rightarrow> bool" where
  "is_InfraHealthResponse = interface
     [(''status'', is_string), (''service'', is_string), (''timestamp'', is_number),
      (''topology'', is_InfraTopology), (''postgres'', is_PostgresHealth), (''redis'', is_RedisHealth),
      (''observability'', is_ObservabilityHealth), (''services'', list_of is_RemoteServiceHealth),
      (''summary'', is_InfraSummary)]"

section \<open>What a typed value has\<close>

lemma is_string_iff: "is_string v \<longleftrightarrow> (\<exists>t. v = JStr t)" by (cases v) simp_all
lemma is_number_iff: "is_number v \<longleftrightarrow> (\<exists>t. v = JNum t)" by (cases v) simp_all
lemma is_bool_iff: "is_bool v \<longleftrightarrow> (\<exists>b. v = JBool b)" by (cases v) simp_all
lemma is_object_iff: "is_object v \<longleftrightarrow> (\<exists>fs. v = JObj fs)" by (cases v) simp_all

lemma one_of_iff: "one_of names v \<longleftrightarrow> (\<exists>t. v = JStr t \<and> t \<in> set names)"
  by (cases v) (simp_all add: one_of_def)

lemma list_of_iff: "list_of p v \<longleftrightarrow> (\<exists>xs. v = JArr xs \<and> list_all p xs)"
  by (cases v) (simp_all add: list_of_def)

lemma interfaceD: "\<lbrakk>interface sig v; (k, p) \<in> set sig\<rbrakk> \<Longrightarrow> p (js_get v k)"
  by (auto simp: interface_def list_all_iff)

lemma interface_not_nullish: "interface sig v \<Longrightarrow> \<not> js_nullish v"
  by (cases v) (simp_all add: interface_def js_nullish_def)

end
