(* ===== verification/Admin_Markup.thy ===== *)
theory Admin_Markup
  imports Admin_Types
begin

text \<open>
  What a render of the console draws: the texts, values and controls of its markup in document order,
  as a list of elements. Left out are icons, classes, placeholders and other styling, animation (an
  element that leaves is gone at once), keys, and symbols outside ASCII.

  \<^item> A control carries the action its handler performs. A button with an icon only is named by its
    title, or by its icon.
  \<^item> \<open>Raise\<close> is an exception thrown while rendering: reading a property of \<open>undefined\<close> or \<open>null\<close>,
    calling a method the value does not have, or using an object as a child. React then discards the
    whole page; nothing in the console catches it.
  \<^item> Formatting by the engine or by DOMPurify stays symbolic: \<open>Fmt how v\<close> is the text it gives for \<open>v\<close>.
\<close>

section \<open>Elements\<close>

datatype field_value = Content string | Quantity_of number

datatype element =
    Txt string
  | Val js
  | Num number
  | Fmt string js
  | Btn string bool action
  | Chk bool action
  | Fld input_field field_value "string list option" bool
  | Raise

abbreviation button :: "string \<Rightarrow> action \<Rightarrow> element" where
  "button label a \<equiv> Btn label False a"

abbreviation text_field :: "input_field \<Rightarrow> string \<Rightarrow> element" where
  "text_field f v \<equiv> Fld f (Content v) None False"

abbreviation number_input :: "input_field \<Rightarrow> number \<Rightarrow> element" where
  "number_input f n \<equiv> Fld f (Quantity_of n) None False"

abbreviation select :: "input_field \<Rightarrow> string \<Rightarrow> string list \<Rightarrow> element" where
  "select f v options \<equiv> Fld f (Content v) (Some options) False"

definition whenever :: "bool \<Rightarrow> element list \<Rightarrow> element list" where
  "whenever b els = (if b then els else [])"

section \<open>Expressions\<close>

text \<open>A property of a value; the optional chain \<^verbatim>\<open>v?.a.b\<close> guards its first step only.\<close>

definition prop_of :: "js \<Rightarrow> string \<Rightarrow> js option" where
  "prop_of v k = (if js_nullish v then None else Some (js_get v k))"

fun path :: "js \<Rightarrow> string list \<Rightarrow> js option" where
  "path v [] = Some v"
| "path v (k # ks) = (if js_nullish v then None else path (js_get v k) ks)"

definition opt_path :: "js \<Rightarrow> string list \<Rightarrow> js option" where
  "opt_path v ks = (if js_nullish v then Some JUndef else path v ks)"

definition js_length :: "js \<Rightarrow> js option" where
  "js_length v =
     (case v of
        JArr xs \<Rightarrow> Some (JNum (decimal (length xs)))
      | JStr t \<Rightarrow> Some (JNum (decimal (length t)))
      | _ \<Rightarrow> prop_of v ''length'')"

definition js_positive :: "js \<Rightarrow> bool" where
  "js_positive v \<longleftrightarrow>
     (case js_to_number v of Fin q \<Rightarrow> q > 0 | Infinite negative \<Rightarrow> \<not> negative | NaN \<Rightarrow> False)"

text \<open>A value as a child: text and numbers show, an array shows its elements, an object throws.\<close>

fun child :: "js \<Rightarrow> element list" where
  "child (JStr t) = [Val (JStr t)]"
| "child (JNum t) = [Val (JNum t)]"
| "child (JArr xs) = concat (map child xs)"
| "child (JObj fs) = [Raise]"
| "child v = []"

definition need :: "js option \<Rightarrow> (js \<Rightarrow> element list) \<Rightarrow> element list" where
  "need v f = (case v of None \<Rightarrow> [Raise] | Some x \<Rightarrow> f x)"

definition shown :: "js option \<Rightarrow> element list" where
  "shown v = need v child"

text \<open>\<^verbatim>\<open>{v || d}\<close> and \<^verbatim>\<open>{v ?? d}\<close>.\<close>

definition or_else :: "js option \<Rightarrow> js \<Rightarrow> js option" where
  "or_else v d = map_option (\<lambda>x. js_or x d) v"

definition if_nullish :: "js option \<Rightarrow> js \<Rightarrow> js option" where
  "if_nullish v d = map_option (\<lambda>x. if js_nullish x then d else x) v"

abbreviation zero :: js where
  "zero \<equiv> JNum ''0''"

text \<open>\<^verbatim>\<open>rows.map(...)\<close>, where the function reads a property of each row.\<close>

definition each :: "js \<Rightarrow> (js \<Rightarrow> element list) \<Rightarrow> element list" where
  "each rows f =
     (case rows of
        JArr xs \<Rightarrow> concat (map (\<lambda>x. if js_nullish x then [Raise] else f x) xs)
      | _ \<Rightarrow> [Raise])"

text \<open>\<^verbatim>\<open>v.join(sep)\<close>: an array has it; elements that are nullish join as empty.\<close>

definition joined :: "string \<Rightarrow> js \<Rightarrow> element list" where
  "joined sep v =
     (case v of
        JArr xs \<Rightarrow> [Txt (js_join sep (map (\<lambda>x. if js_nullish x then [] else js_string x) xs))]
      | _ \<Rightarrow> [Raise])"

text \<open>\<open>formatDate\<close>, a label made from text, and a method of numbers.\<close>

definition formatDate :: "js \<Rightarrow> element list" where
  "formatDate v = (if js_truthy v then [Fmt ''toLocaleString(en-US)'' v] else [Txt ''N/A''])"

definition labelled :: "(string option \<Rightarrow> string) \<Rightarrow> js \<Rightarrow> element list" where
  "labelled f v =
     (if \<not> js_truthy v then [Txt (f None)]
      else case v of JStr t \<Rightarrow> [Txt (f (Some t))] | _ \<Rightarrow> [Raise])"

definition number_method :: "string \<Rightarrow> js \<Rightarrow> element list" where
  "number_method how v = (case v of JNum t \<Rightarrow> [Fmt how v] | _ \<Rightarrow> [Raise])"

definition bytes_of :: "js \<Rightarrow> number option" where
  "bytes_of v = (case v of JNum t \<Rightarrow> Some (js_number t) | _ \<Rightarrow> None)"

text \<open>An argument with a default: \<open>undefined\<close> and \<open>null\<close> both end up as text that is false.\<close>

definition text_arg :: "js \<Rightarrow> string" where
  "text_arg v = (if js_nullish v then [] else js_string v)"

text \<open>The first row with an identity: \<^verbatim>\<open>rows.find(r => r.id === i)\<close>.\<close>

definition find_id :: "js \<Rightarrow> js list \<Rightarrow> js" where
  "find_id i rows = (case filter (\<lambda>r. report_id r = i) rows of [] \<Rightarrow> JUndef | r # rs \<Rightarrow> r)"

section \<open>What a screen offers\<close>

text \<open>
  Clicks are compared without the answer of \<^verbatim>\<open>window.confirm\<close> and without the calendar, which the
  browser supplies. An input offers any text, a menu its options.
\<close>

fun click_of :: "action \<Rightarrow> action" where
  "click_of (Delete_account u ok) = Delete_account u True"
| "click_of (Delete_bot i ok) = Delete_bot i True"
| "click_of (Submit_ban later) = Submit_ban (\<lambda>n u. None)"
| "click_of a = a"

fun offers :: "action \<Rightarrow> element \<Rightarrow> bool" where
  "offers a (Btn label disabled b) = (\<not> disabled \<and> click_of a = b)"
| "offers a (Chk checked b) = (a = b)"
| "offers a (Fld f v options disabled) =
     (\<not> disabled \<and> (case a of
        Input g w \<Rightarrow> g = f \<and> (case options of None \<Rightarrow> True | Some os \<Rightarrow> w \<in> set os)
      | _ \<Rightarrow> False))"
| "offers a e = False"

definition offered :: "element list \<Rightarrow> action \<Rightarrow> bool" where
  "offered els a \<longleftrightarrow> Raise \<notin> set els \<and> list_ex (offers a) els"

end
