(* ===== verification/Admin_Tabs.thy ===== *)
theory Admin_Tabs
  imports Admin_Markup
begin

text \<open>
  The six tabs of the console as functions from the state of a render to elements: the reports
  queue, the ban registry, the banned words, the bots, the accounts and the health of the
  infrastructure. \<open>sc\<close> is the render's scope.
\<close>

section \<open>Reports\<close>

definition reports_metrics :: "scope \<Rightarrow> element list" where
  "reports_metrics sc =
     [Txt ''Pending Reports''] @ child (js_get (serverReportMetrics sc) ''pending'') @
     [Txt ''Approved Actions''] @ child (js_get (serverReportMetrics sc) ''approved'') @
     [Txt ''Rejected Actions''] @ child (js_get (serverReportMetrics sc) ''rejected'')"

definition auto_moderation_card :: "scope \<Rightarrow> element list" where
  "auto_moderation_card sc =
     (let a = autoModerationSettings sc; get = js_get a; enabled = js_truthy (get ''enabled'');
          (auto, human, awaiting) = review_counts sc
      in [Txt ''Auto Moderation'', Txt ''Automatically triage incoming reports before a moderator steps in.'',
          Txt (if enabled then ''Enabled'' else ''Disabled''),
          Txt (if js_truthy (get ''configured'') then ''Model Configured'' else ''Model Not Configured''),
          Txt (''Default '' @ (if js_truthy (get ''enabled_default'') then ''On'' else ''Off'')),
          button ''Refresh Settings'' Refresh_moderation,
          Btn (if updatingAutoModerationEnabled sc then ''Updating...''
               else if enabled then ''Disable Auto Moderation'' else ''Enable Auto Moderation'')
            (updatingAutoModerationEnabled sc) (Set_moderation (\<not> enabled)),
          Txt ''Model''] @ child (js_or (get ''model'') (JStr ''Not configured'')) @
         [Txt ''Batching''] @ child (get ''batch_size'') @ [Txt '' per sweep'', Txt ''Every ''] @
         child (get ''interval_seconds'') @ [Txt ''s'', Txt ''Timeout''] @ child (get ''timeout_seconds'') @
         [Txt ''s request timeout'', Txt ''Max attempts ''] @ child (get ''max_attempts'') @
         [Txt ''Queue Snapshot'', Txt (decimal awaiting @ '' awaiting human''),
          Txt (decimal auto @ '' auto reviewed in this page load''),
          Btn (if isSeedingReports sc then ''Seeding...'' else ''Seed Test Cases'') (isSeedingReports sc) Seed_reports] @
         whenever (\<not> js_truthy (get ''configured''))
           [Txt ''Auto moderation can be enabled from the UI, but it will not process reports until the backend has a configured NIM API key.''])"

definition reports_filters :: "scope \<Rightarrow> element list" where
  "reports_filters sc =
     (let (auto, human, awaiting) = review_counts sc
      in [Txt ''Status Filter'',
          select ReportStatusFilter (reportStatusFilter sc) [''pending'', ''decided'', ''all''],
          Txt ''Review Source'',
          select ReportReviewSourceFilter (reportReviewSourceFilter sc)
            [''all'', ''awaitingHuman'', ''autoReviewed'', ''humanReviewed''],
          Txt ''Show Limit'',
          select ReportLimit (reportLimit sc) [''10'', ''20'', ''50'', ''all''],
          Txt (''Showing '' @ decimal (length (visibleReports sc)) @ '' of '' @ decimal (length (reports sc)) @
               '' loaded reports''),
          Txt (decimal awaiting @ '' awaiting human''), Txt (decimal auto @ '' auto reviewed''),
          Txt (decimal human @ '' human reviewed'')])"

text \<open>One report: what was reported, what the model said, who reviewed it, and what can be done.\<close>

definition report_summary :: "scope \<Rightarrow> js \<Rightarrow> element list" where
  "report_summary sc r =
     (let get = js_get r
      in (if is_pending r
          then [Chk (report_id r \<in> set (selectedReports sc))
                 (Check_report (report_id r) (report_id r \<notin> set (selectedReports sc)))]
          else [Txt ''done'']) @
         child (get ''status'') @
         [Txt ''Auto ''] @ labelled humanizeAutoModerationState (get ''auto_moderation_state'') @
         (if js_truthy (get ''auto_moderation_decision'')
          then labelled humanizeAutoModerationDecision (get ''auto_moderation_decision'')
          else child (get ''auto_moderation_decision'')) @
         [Txt (reviewSourceLabel r)] @ formatDate (get ''created_at'') @
         [Txt ''Incident Reason''] @ child (get ''reason''))"

definition report_description :: "js \<Rightarrow> element list" where
  "report_description r =
     (let d = js_get r ''description''
      in if js_truthy d
         then child d @ need (js_length d) (\<lambda>n.
           whenever (case js_to_number n of Fin q \<Rightarrow> q > 100 | Infinite negative \<Rightarrow> \<not> negative | NaN \<Rightarrow> False)
             [button ''READ_FULL_DESCRIPTION'' (View_description (report_id r))])
         else child d)"

definition report_moderation :: "scope \<Rightarrow> js \<Rightarrow> element list" where
  "report_moderation sc r =
     (let get = js_get r; cats = get ''auto_moderation_categories''
      in [Txt ''Auto Moderation''] @
         (if js_truthy cats
          then need (js_length cats) (\<lambda>n. whenever (js_positive n)
            (case cats of JArr cs \<Rightarrow> concat (map child cs) | _ \<Rightarrow> [Raise]))
          else child cats) @
         child (describeAutoModerationStatus (autoModerationSettings sc) r) @
         [Txt ''Attempts: ''] @ child (js_or (get ''auto_moderation_attempts'') zero) @
         [Txt ''Completed: ''] @ formatDate (get ''auto_moderation_completed_at'') @
         [Txt ''Claimed: ''] @ formatDate (get ''auto_moderation_claimed_at'') @
         [Txt ''Model: ''] @ child (js_or (js_or (get ''auto_moderation_model'')
            (js_get (autoModerationSettings sc) ''model'')) (JStr ''n/a'')))"

definition report_identity :: "js \<Rightarrow> element list" where
  "report_identity r =
     (let get = js_get r
      in [Txt ''Reported Identity''] @ child (js_or (get ''reported_ip'') (JStr ''N/A'')) @
         [Txt ''Session ID Reference''] @ child (get ''reported_session_id'') @
         [Txt ''Reporter Context''] @ child (js_or (get ''reporter_ip'') (JStr ''N/A'')) @
         [Txt ''Reviewer''] @ child (js_or (get ''reviewed_by_username'') (JStr ''Unreviewed'')) @
         formatDate (get ''reviewed_at''))"

definition report_actions :: "scope \<Rightarrow> js \<Rightarrow> element list" where
  "report_actions sc r =
     (let get = js_get r; i = report_id r
      in need (js_length (get ''chat_log'')) (\<lambda>n. whenever (js_positive n)
           [button ''Transcript'' (Expand_report (if expandedReport sc = i then JNull else i))]) @
         whenever (is_pending r \<or> auto_reviewed r)
           [button (if auto_reviewed r then ''Approve Override'' else ''Approve'') (Single_action i ''approved''),
            button (if auto_reviewed r then ''Reject Override'' else ''Reject'') (Single_action i ''rejected'')] @
         whenever (canCreateBans (role sc))
           [button ''Ban User'' (Open_ban (text_arg (get ''reported_session_id'')) (text_arg (get ''reported_ip''))
              (text_arg i) (text_arg (get ''reason'')))])"

definition report_row :: "scope \<Rightarrow> js \<Rightarrow> element list" where
  "report_row sc r =
     report_summary sc r @ report_description r @ report_moderation sc r @ report_identity r @
     report_actions sc r"

definition reports_tab :: "scope \<Rightarrow> element list" where
  "reports_tab sc =
     reports_metrics sc @
     whenever (canManageAutoModeration (role sc))
       (if js_truthy (autoModerationSettings sc) then auto_moderation_card sc
        else child (autoModerationSettings sc)) @
     reports_filters sc @
     (if visibleReports sc = []
      then [Txt (if reportStatusFilter sc = ''pending'' then ''Queue Clear'' else ''No Reports Found''),
            Txt (if reportStatusFilter sc = ''pending'' \<and> reportReviewSourceFilter sc = ''all''
                 then ''No pending reports at the moment.'' else ''There are no reports for the selected filters.'')]
      else concat (map (report_row sc) (visibleReports sc)))"

text \<open>The toolbar that floats over the queue.\<close>

definition reports_toolbar :: "scope \<Rightarrow> element list" where
  "reports_toolbar sc =
     (let n = length (selectedPendingReportIds sc)
      in [button ''Refresh Reports'' Refresh_reports,
          Btn (if allVisibleReportsSelected sc then ''Clear'' else ''Select All'')
            (selectableVisibleReports sc = []) Toggle_all,
          Btn (''Approve ('' @ decimal n @ '')'') (n = 0) (Bulk ''approved''),
          Btn (''Reject ('' @ decimal n @ '')'') (n = 0) (Bulk ''rejected'')])"

section \<open>Bans\<close>

definition inactive_bans :: "scope \<Rightarrow> number" where
  "inactive_bans sc =
     (case (js_to_number (js_get (serverBanMetrics sc) ''total''), js_to_number (js_get (serverBanMetrics sc) ''active''))
      of (Fin t, Fin a) \<Rightarrow> Fin (t - a) | (Infinite b, Fin a) \<Rightarrow> Infinite b
       | (Fin t, Infinite b) \<Rightarrow> Infinite (\<not> b) | (Infinite b, Infinite d) \<Rightarrow> if b = d then NaN else Infinite b
       | _ \<Rightarrow> NaN)"

definition bans_controls :: "scope \<Rightarrow> element list" where
  "bans_controls sc =
     [Txt ''Active Bans''] @ child (js_get (serverBanMetrics sc) ''active'') @
     [Txt ''Inactive Bans'', Num (inactive_bans sc), Txt ''Total Bans''] @
     child (js_get (serverBanMetrics sc) ''total'') @
     [Txt ''Status Filter'', button ''Active'' (Input BanFilter ''active''),
      button ''Inactive'' (Input BanFilter ''inactive''), button ''All'' (Input BanFilter ''all''),
      Txt ''Show Limit'', select BanLimit (banLimit sc) [''10'', ''20'', ''50'', ''100'', ''all''],
      button ''Refresh Registry'' Refresh_bans]"

definition manual_enforcement :: "scope \<Rightarrow> element list" where
  "manual_enforcement sc =
     whenever (canCreateBans (role sc))
       [Txt ''Manual Enforcement'', Txt ''// OPERATOR INPUT'',
        Txt ''Session Identifier'', text_field ManualBanSessionId (manualBanSessionId sc),
        Txt ''Network Address'', text_field ManualBanIP (manualBanIP sc),
        Txt ''Reason for Restriction'', text_field ManualBanReason (manualBanReason sc),
        button ''Apply Ban'' Apply_manual_ban]"

definition ban_row :: "scope \<Rightarrow> js \<Rightarrow> element list" where
  "ban_row sc b =
     (let get = js_get b; active = js_truthy (get ''is_active'')
      in [Txt (if active then ''Active'' else ''Inactive'')] @ formatDate (get ''created_at'') @
         [Txt ''Network Address''] @ child (js_or (get ''ip_address'') (JStr ''UNAVAILABLE'')) @
         [Txt ''Incident Reason''] @ child (get ''reason'') @
         [Txt ''Restriction Expiry''] @
         (if js_truthy (get ''expires_at'') then formatDate (get ''expires_at'') else [Txt ''PERMANENT_CELL'']) @
         whenever (active \<and> canManageBans (role sc)) [button ''Unban'' (Unban_click (get ''id''))])"

definition rows_or :: "js \<Rightarrow> element list \<Rightarrow> (js \<Rightarrow> element list) \<Rightarrow> element list" where
  "rows_or rows none row =
     need (js_length rows) (\<lambda>n. if n = JNum ''0'' then none else each rows row)"

definition bans_tab :: "scope \<Rightarrow> element list" where
  "bans_tab sc =
     bans_controls sc @ manual_enforcement sc @
     rows_or (bans sc) [Txt ''NO RESTRICTION RECORDS'', Txt ''SYSTEM_REGISTRY_CLEAR // ALL FILTERS VALID'']
       (ban_row sc)"

definition bans_toolbar :: "scope \<Rightarrow> element list" where
  "bans_toolbar sc = [text_field BanSearch (banSearch sc)]"

section \<open>Infrastructure\<close>

definition infra_metrics :: "scope \<Rightarrow> element list" where
  "infra_metrics sc =
     (let h = infraHealth sc; look = opt_path h
      in [Txt ''Healthy Services''] @ shown (or_else (look [''summary'', ''healthy_services'']) zero) @
         [Txt ''Degraded Services''] @ shown (or_else (look [''summary'', ''degraded_services'']) zero) @
         [Txt ''Phoenix Nodes''] @ shown (or_else (look [''topology'', ''phoenix_connected_nodes'']) zero) @
         [Txt ''Redis Reachable''] @
         (if js_truthy h
          then need (path h [''topology'', ''redis_reachable_nodes'']) (\<lambda>a.
            need (path h [''topology'', ''redis_configured_nodes'']) (\<lambda>b. [Txt (js_string a @ ''/'' @ js_string b)]))
          else [Txt ''0/0'']))"

text \<open>\<^verbatim>\<open>goMemory && ...\<close>: three lines when the details have a memory record.\<close>

definition memory_lines :: "string \<times> string \<times> string \<Rightarrow> (string \<times> string \<times> number) option \<Rightarrow> element list" where
  "memory_lines labels summary =
     (case (labels, summary) of
        ((a, b, c), Some (x, y, n)) \<Rightarrow> [Txt (a @ x), Txt (b @ y), Txt c, Num n]
      | _ \<Rightarrow> [])"

definition service_row :: "js \<Rightarrow> element list" where
  "service_row service =
     (let get = js_get service; details = get ''details''
      in child (get ''name'') @ child (get ''status'') @ child (get ''kind'') @ child (get ''url'') @
         [Txt (''Latency '' @ formatLatency (get ''latency_ms'')), Txt ''HTTP ''] @
         child (js_or (get ''http_status'') (JStr ''n/a'')) @
         (if js_truthy details
          then (if is_object details \<or> list_of (\<lambda>v. True) details
             then whenever (js_in ''node'' details) [Txt (''Node: '' @ js_string (js_get details ''node''))] @
               whenever (js_in ''status'' details)
                 [Txt (''Reported status: '' @ js_string (js_get details ''status''))] @
               memory_lines (''Heap alloc: '', ''Runtime sys: '', ''Goroutines: '')
                 (if get ''kind'' = JStr ''go'' then goMemorySummary details else None) @
               memory_lines (''Memory total: '', ''Binary memory: '', ''Processes: '')
                 (if get ''kind'' = JStr ''phoenix'' then phoenixMemorySummary details else None)
             else [Raise])
          else child details) @
         child (get ''error''))"

definition infra_services :: "scope \<Rightarrow> element list" where
  "infra_services sc =
     [Txt ''Service Health Matrix'', Txt ''Live status for Phoenix and Go service endpoints.'',
      button ''Refresh'' Refresh_infra] @
     need (or_else (opt_path (infraHealth sc) [''services'']) (JArr [])) (\<lambda>services. each services service_row)"

definition infra_topology :: "scope \<Rightarrow> element list" where
  "infra_topology sc =
     (let look = (\<lambda>k. shown (or_else (opt_path (infraHealth sc) [''topology'', k]) zero))
      in [Txt ''Topology'', Txt ''Phoenix configured''] @ look ''phoenix_configured_nodes'' @
         [Txt ''Phoenix connected''] @ look ''phoenix_connected_nodes'' @
         [Txt ''Go services''] @ look ''go_configured_services'' @
         [Txt ''Redis configured''] @ look ''redis_configured_nodes'' @
         need (or_else (opt_path (infraHealth sc) [''topology'', ''phoenix_node_names'']) (JArr []))
           (\<lambda>names. case names of JArr ns \<Rightarrow> concat (map child ns) | _ \<Rightarrow> [Raise]))"

definition latency_line :: "string \<Rightarrow> js option \<Rightarrow> element list" where
  "latency_line label v = need v (\<lambda>ms. [Txt (label @ formatLatency ms)])"

definition infra_postgres :: "scope \<Rightarrow> element list" where
  "infra_postgres sc =
     (let look = opt_path (infraHealth sc); count = (\<lambda>k. shown (or_else (look [''postgres'', ''connections'', k]) zero))
      in [Txt ''Postgres''] @ shown (or_else (look [''postgres'', ''status'']) (JStr ''unknown'')) @
         latency_line ''Latency '' (look [''postgres'', ''latency_ms'']) @
         [Txt ''Open: ''] @ count ''open'' @ [Txt ''In use: ''] @ count ''in_use'' @
         [Txt ''Idle: ''] @ count ''idle'' @ [Txt ''Max: ''] @ count ''max_open'')"

definition infra_redis :: "scope \<Rightarrow> element list" where
  "infra_redis sc =
     (let look = opt_path (infraHealth sc); field = (\<lambda>k d. shown (or_else (look [''redis'', ''cluster'', k]) d))
      in [Txt ''Redis Cluster''] @ shown (or_else (look [''redis'', ''status'']) (JStr ''unknown'')) @
         latency_line ''Latency '' (look [''redis'', ''latency_ms'']) @
         [Txt ''Cluster state: ''] @ field ''state'' (JStr ''unknown'') @
         [Txt ''Known nodes: ''] @ field ''known_nodes'' zero @
         [Txt ''Slots assigned: ''] @ field ''slots_assigned'' zero @
         [Txt ''Slots ok: ''] @ field ''slots_ok'' zero @ [Txt ''Slots pfail: ''] @ field ''slots_pfail'' zero @
         [Txt ''Slots fail: ''] @ field ''slots_fail'' zero @ [Txt ''Primary shards: ''] @ field ''size'' zero @
         [Txt ''Epoch: ''] @ field ''current_epoch'' zero @
         shown (look [''redis'', ''error'']) @
         need (look [''redis'', ''nodes'']) (\<lambda>nodes.
           (if js_nullish nodes then child zero
            else need (js_length nodes) (\<lambda>n. child (js_or n zero)))) @
         [Txt '' node entries available for detailed inspection.'', button ''Inspect Redis'' (Open_redis True)])"

definition infra_observability :: "scope \<Rightarrow> element list" where
  "infra_observability sc =
     (let look = (\<lambda>ks. opt_path (infraHealth sc) (''observability'' # ks));
          yes = (\<lambda>k. need (look [k]) (\<lambda>v. [Txt (if js_truthy v then ''yes'' else ''no'')]))
      in [Txt ''Observability'', Txt ''Traces configured''] @ yes ''traces_configured'' @
         [Txt ''Metrics configured''] @ yes ''metrics_configured'' @
         [Txt ''Collector''] @ shown (or_else (look [''collector'', ''status'']) (JStr ''unknown'')) @
         latency_line ''Collector latency'' (look [''collector'', ''latency_ms'']) @
         [Txt ''Health URL: ''] @
         shown (or_else (look [''collector'', ''url'']) (JStr ''No collector health URL configured'')) @
         [Txt ''OTLP endpoint: ''] @ shown (or_else (look [''otlp_endpoint'']) (JStr ''No OTLP endpoint configured'')) @
         shown (look [''collector'', ''error'']))"

definition infra_tab :: "scope \<Rightarrow> element list" where
  "infra_tab sc =
     infra_metrics sc @ infra_services sc @ infra_topology sc @ [Txt ''Data Stores''] @
     infra_postgres sc @ infra_redis sc @ infra_observability sc"

end
