(* ===== verification/Admin_Pools.thy ===== *)
theory Admin_Pools
  imports Admin_Tabs
begin

text \<open>
  The other three tabs: the registry of banned words, the bots with their runtime controls, and the
  accounts with their pages.
\<close>

section \<open>Banned words\<close>

definition limit_options :: "string list" where
  "limit_options = [''10'', ''25'', ''50'', ''100'', ''all'']"

definition words_metrics :: "scope \<Rightarrow> element list" where
  "words_metrics sc =
     [Txt ''Registry Size'', Num (Fin (of_nat (bannedWordTotal sc))), Txt ''Visible Results''] @
     shown (js_length (bannedWords sc)) @
     [Txt ''Display Limit'', select BannedWordLimit (bannedWordLimit sc) limit_options]"

definition words_search :: "scope \<Rightarrow> element list" where
  "words_search sc =
     [Txt ''Search Registry'', text_field BannedWordSearch (bannedWordSearch sc),
      Txt ''Show Limit'', select BannedWordLimit (bannedWordLimit sc) limit_options,
      button ''Refresh Registry'' Refresh_words]"

definition words_enforcement :: "scope \<Rightarrow> element list" where
  "words_enforcement sc =
     [Txt ''Enforcement Switch'',
      Txt ''Registry entries stay editable, but message scanning is skipped while enforcement is disabled.'',
      Btn (if updatingBannedWordsEnabled sc then ''Updating...''
           else if bannedWordsEnabled sc then ''Enforcement On'' else ''Enforcement Off'')
        (updatingBannedWordsEnabled sc) (Set_words (\<not> bannedWordsEnabled sc))]"

definition words_add :: "scope \<Rightarrow> element list" where
  "words_add sc =
     [Txt ''Add Phrase'', Txt ''// WORD_FILTER_INPUT'', Txt ''Word Or Phrase'',
      text_field BannedWordInput (bannedWordInput sc), button ''Add Word'' Add_word]"

definition word_row :: "js \<Rightarrow> element list" where
  "word_row w =
     (let get = js_get w
      in [Txt ''Blocked''] @ formatDate (get ''created_at'') @
         [Txt ''Blocked Token''] @ child (get ''word'') @
         [Txt ''Normalized Form''] @ child (get ''normalized_word'') @
         [Txt ''Added By''] @ child (js_or (get ''created_by_username'') (JStr ''unknown'')) @
         [button ''Remove'' (Delete_word (get ''id''))])"

definition words_list :: "scope \<Rightarrow> element list" where
  "words_list sc =
     whenever (0 < bannedWordTotal sc)
       (shown (js_length (bannedWords sc)) @ [Txt ('' / '' @ decimal (bannedWordTotal sc) @ '' shown'')]) @
     rows_or (bannedWords sc)
       [Txt ''NO BANNED WORDS'', Txt ''SYSTEM_REGISTRY_CLEAR // ALL FILTERS VALID''] word_row"

definition words_tab :: "scope \<Rightarrow> element list" where
  "words_tab sc =
     words_metrics sc @ words_search sc @ words_enforcement sc @ words_add sc @ words_list sc"

section \<open>Bots\<close>

text \<open>\<^verbatim>\<open>botSettings?.k\<close> as a condition, and \<^verbatim>\<open>!(botSettings?.k ?? d)\<close>.\<close>

definition bot_flag :: "scope \<Rightarrow> string \<Rightarrow> bool" where
  "bot_flag sc k = js_truthy (js_get (botSettings sc) k)"

definition flipped_flag :: "scope \<Rightarrow> string \<Rightarrow> bool \<Rightarrow> bool" where
  "flipped_flag sc k d =
     (let v = js_get (botSettings sc) k in \<not> (if js_nullish v then d else js_truthy v))"

definition bot_setting :: "scope \<Rightarrow> string \<Rightarrow> string \<Rightarrow> element list" where
  "bot_setting sc k d =
     child (let v = js_get (botSettings sc) k in if js_nullish v then JNum d else v)"

definition bots_metrics :: "scope \<Rightarrow> element list" where
  "bots_metrics sc =
     [Txt ''Definitions''] @ shown (js_length (botDefinitions sc)) @
     [Txt ''Bots Enabled'', Txt (if bot_flag sc ''enabled'' then ''YES'' else ''NO''),
      Txt ''Engagement'', Txt (if bot_flag sc ''engagement_enabled'' then ''ON'' else ''OFF''),
      Txt ''Emergency Stop'', Txt (if bot_flag sc ''emergency_stop'' then ''ACTIVE'' else ''CLEAR''),
      Txt ''Rollout %''] @ bot_setting sc ''rollout_percent'' ''0'' @ [Txt ''%'']"

definition bots_switches :: "scope \<Rightarrow> element list" where
  "bots_switches sc =
     (let locked = (\<not> canManageBots (role sc));
          switch = (\<lambda>on off k d. Btn (if bot_flag sc k then on else off) locked (Set_bot_flag k (flipped_flag sc k d)))
      in [Txt ''Runtime Controls'', Txt ''// BOT_RUNTIME_CONTROLS'', button ''Refresh Bot Data'' Refresh_bots,
          Txt ''Match selection order: dropdown preference first, then each definition's traffic weight, then pool size.'',
          switch ''Disable All Bots'' ''Enable All Bots'' ''enabled'' True,
          switch ''Clear Emergency Stop'' ''Trigger Emergency Stop'' ''emergency_stop'' False,
          switch ''Disable Engagement Bots'' ''Enable Engagement Bots'' ''engagement_enabled'' True,
          switch ''Disable AI Bots'' ''Enable AI Bots'' ''ai_enabled'' True])"

definition mode_label :: "string \<Rightarrow> string" where
  "mode_label mode = (case map_of botPriorityPresets mode of Some (label, e, a) \<Rightarrow> label | None \<Rightarrow> ''Custom'')"

definition bots_runtime :: "scope \<Rightarrow> element list" where
  "bots_runtime sc =
     [Txt ''Matchmaking Runtime'',
      Txt ''Rollout, concurrency limits, and bot-selection priority now live in one focused settings modal for cleaner editing.'',
      Txt ''Rollout''] @ bot_setting sc ''rollout_percent'' ''0'' @ [Txt ''%''] @
     [Txt ''Concurrent Runs''] @ bot_setting sc ''max_concurrent_runs'' ''100'' @
     [Txt ''Selection Mode'', Txt (mode_label (getBotSelectionMode (botSettings sc))),
      Txt ''Priority Split'', Txt ''E ''] @ bot_setting sc ''engagement_priority'' ''100'' @
     [Txt '' / '', Txt ''AI ''] @ bot_setting sc ''ai_priority'' ''100'' @
     whenever (canManageBots (role sc)) [button ''Edit Runtime Settings'' Open_settings]"

definition bots_registry :: "scope \<Rightarrow> element list" where
  "bots_registry sc =
     whenever (canManageBots (role sc))
       ([Txt ''Bot Definitions'', Txt ''// BOT_DEFINITIONS''] @
        need (js_length (botDefinitions sc)) (\<lambda>n.
          child n @ [Txt (if n \<noteq> JNum ''1'' then '' definitions registered'' else '' definition registered'')]) @
        [button ''Add Bot Definition'' New_bot])"

definition bot_kind_lines :: "js \<Rightarrow> element list" where
  "bot_kind_lines b =
     (let script = js_get b ''script_json''; config = js_get b ''ai_config_json''
      in (if js_get b ''bot_type'' = JStr ''engagement''
          then if js_nullish script then [Raise]
            else [Txt (''Openers '' @ decimal (length (readScriptLines script ''opening_messages''))),
                  Txt (''Replies '' @ decimal (length (readScriptLines script ''reply_messages'')))]
          else []) @
         (if js_get b ''bot_type'' = JStr ''ai''
          then if js_nullish config then [Raise]
            else [Txt (str_or (string_field config ''provider'' ''openai-compatible'') ''openai-compatible''),
                  Txt (str_or (string_field config ''model'' []) ''unconfigured''),
                  Txt (str_or (string_field config ''api_url'' []) ''no endpoint'')]
          else []))"

definition bot_row :: "scope \<Rightarrow> js \<Rightarrow> element list" where
  "bot_row sc b =
     (let get = js_get b; active = js_truthy (get ''is_active'')
      in [Txt (if get ''bot_type'' = JStr ''ai'' then ''AI Bot'' else ''Engagement''),
          Txt (if active then ''Active'' else ''Inactive'')] @ formatDate (get ''created_at'') @
         child (get ''name'') @ child (js_or (get ''description'') (get ''slug'')) @
         [Txt ''Modes''] @ joined '', '' (get ''match_modes_json'') @
         [Txt ''Pool''] @ child (get ''bot_count'') @ [Txt ''Weight''] @ child (get ''traffic_weight'') @
         [Txt ''Msg Limit''] @ child (get ''message_limit'') @
         [Txt ''TTL''] @ child (get ''session_ttl_seconds'') @
         [Txt ''s'', Txt ''Idle''] @ child (get ''idle_timeout_seconds'') @ [Txt ''s''] @
         bot_kind_lines b @
         whenever (canManageBots (role sc))
           [button ''Edit'' (Edit_bot b),
            button (if active then ''Deactivate'' else ''Activate'') (Toggle_bot (get ''id'') (\<not> active)),
            button ''Delete'' (Delete_bot (get ''id'') True)])"

definition bots_tab :: "scope \<Rightarrow> element list" where
  "bots_tab sc =
     bots_metrics sc @ bots_switches sc @ bots_runtime sc @ bots_registry sc @
     rows_or (botDefinitions sc)
       [Txt ''NO BOT DEFINITIONS'', Txt ''SYSTEM_REGISTRY_CLEAR // NO BOTS CONFIGURED''] (bot_row sc)"

section \<open>Accounts\<close>

definition accounts_controls :: "scope \<Rightarrow> element list" where
  "accounts_controls sc =
     [Txt ''Search Username'', text_field AccountSearch (accountSearch sc),
      Txt ''Show Limit'', select AccountLimit (accountLimit sc) [''10'', ''25'', ''50'', ''all''],
      button ''Refresh Accounts'' Refresh_accounts]"

definition accounts_add :: "scope \<Rightarrow> element list" where
  "accounts_add sc =
     [Txt ''Add Team Member'', text_field AccountUsername (accountUsername sc),
      text_field AccountPassword (accountPassword sc),
      button (if showCreateAccountPassword sc then ''EyeOff'' else ''Eye'') Show_account_password,
      select AccountRole (accountRole sc) [''moderator'', ''admin'', ''root''],
      Btn ''Add Member'' (submittingAccount sc) Add_account]"

definition account_row :: "scope \<Rightarrow> js \<Rightarrow> element list" where
  "account_row sc a =
     (let get = js_get a
      in child (get ''username'') @ child (get ''role'') @
         [Txt (if js_truthy (get ''is_active'') then ''Active'' else ''Inactive''), Txt ''Added ''] @
         formatDate (get ''created_at'') @
         whenever (get ''username'' \<noteq> currentAdminUsername sc)
           [Btn ''Trash2''
              (role sc \<noteq> JStr ''root'' \<and> (get ''role'' = JStr ''admin'' \<or> get ''role'' = JStr ''root''))
              (Delete_account (js_string (get ''username'')) True)])"

definition accounts_pager :: "scope \<Rightarrow> element list" where
  "accounts_pager sc =
     whenever (accountLimit sc \<noteq> ''all'' \<and> 1 < accountTotalPages sc)
       [Txt (''Page '' @ decimal (accountPage sc) @ '' of '' @ decimal (accountTotalPages sc)),
        Btn ''Previous'' (accountPage sc \<le> 1) Previous_page,
        Btn ''Next'' (accountTotalPages sc \<le> accountPage sc) Next_page]"

definition accounts_tab :: "scope \<Rightarrow> element list" where
  "accounts_tab sc =
     accounts_controls sc @ accounts_add sc @
     need (js_length (accounts sc)) (\<lambda>n. whenever (n = JNum ''0'') [Txt ''No admin accounts found.'']) @
     each (accounts sc) (account_row sc) @ accounts_pager sc"

end
