(* ===== verification/Admin_Dialogs.thy ===== *)
theory Admin_Dialogs
  imports Admin_Pools
begin

text \<open>
  The dialogs over the tabs: the bots' settings, the bot builder, the confirmation of a ban, the
  transcript and the description of a report, the nodes of the Redis cluster. A dialog is drawn when
  its part of the state says so, whatever the tab and the role. A click on the backdrop closes it.
\<close>

section \<open>Settings of the bots\<close>

definition draft_mode :: "bot_draft \<Rightarrow> string" where
  "draft_mode d =
     preset_mode (\<lambda>n. draft_engagement_priority d = Fin (of_nat n)) (\<lambda>n. draft_ai_priority d = Fin (of_nat n))"

text \<open>The option for custom priorities is disabled, so it cannot be chosen.\<close>

definition settings_dialog :: "scope \<Rightarrow> element list" where
  "settings_dialog sc =
     (let d = botSettingsDraft sc
      in [button ''Backdrop'' Close_settings, Txt ''BOT_RUNTIME_SETTINGS'',
          Txt ''Tune rollout, capacity, and selection priority without crowding the main bots dashboard.'',
          button ''X'' Close_settings, Txt ''Rollout Percent'',
          number_input (In_draft Draft_rollout) (rollout_percent d), Num (rollout_percent d), Txt ''%'',
          Txt ''Max Concurrent Runs'', number_input (In_draft Draft_runs) (max_concurrent_runs d),
          Txt ''Bot Selection Mode'',
          select (In_draft Draft_mode) (draft_mode d) (map fst botPriorityPresets),
          Txt ''Choose whether matchmaking should stay balanced or prefer engagement bots or AI bots first.'',
          Txt ''Current Priority Values'', Txt ''Engagement: '', Num (draft_engagement_priority d),
          Txt ''AI: '', Num (draft_ai_priority d),
          Txt ''Custom appears if the saved backend values do not match one of the preset modes.'',
          button ''Cancel'' Close_settings, button ''Save Runtime Settings'' Save_settings])"

section \<open>Bot builder\<close>

abbreviation bot_input :: "bot_field \<Rightarrow> string \<Rightarrow> element" where
  "bot_input k v \<equiv> text_field (In_bot k) v"

definition editing :: "bot_form \<Rightarrow> bool" where
  "editing f = str_truthy (editingBotId f)"

definition bot_general :: "bot_form \<Rightarrow> element list" where
  "bot_general f =
     [Txt ''General Settings'', Txt ''Bot Name'', bot_input Bot_name (botName f),
      Txt ''Bot Slug'', bot_input Bot_slug (botSlug f), Txt ''Bot Type'',
      Fld (In_bot Bot_type) (Content (botType f)) (Some [''engagement'', ''ai'']) (editingBotId f \<noteq> None)] @
     whenever (editing f) [Txt ''Bot type can't be changed from the current edit API.''] @
     [Txt ''Description'', bot_input Bot_description (botDescription f),
      Txt ''Pool Size (Concurrent Instances)'', bot_input Bot_count (botCount f),
      button (''Text Matching '' @ (if botSupportsText f then ''ON'' else ''OFF'')) Toggle_text_matching,
      button (''Video Matching '' @ (if botSupportsVideo f then ''ON'' else ''OFF'')) Toggle_video_matching,
      Txt ''Video matching lets bots appear in the video queue, but bot chats still stay text-only. WebRTC stays off and reporting stays disabled for bot matches.'']"

definition bot_limits :: "bot_form \<Rightarrow> element list" where
  "bot_limits f =
     [Txt ''Flow & Limits'', Txt ''Message Limit'', number_input (In_bot Bot_message_limit) (botMessageLimit f),
      Txt ''Session TTL (s)'', number_input (In_bot Bot_session_ttl) (botSessionTtl f),
      Txt ''Idle Timeout (s)'', number_input (In_bot Bot_idle_timeout) (botIdleTimeout f),
      Txt ''Traffic Weight'', bot_input Bot_traffic_weight (botTrafficWeight f)]"

fun trigger_rows :: "nat \<Rightarrow> (string \<times> string) list \<Rightarrow> element list" where
  "trigger_rows i [] = []"
| "trigger_rows i ((regex, reply) # ts) =
     [bot_input (Trigger_regex i) regex, bot_input (Trigger_reply i) reply, button ''Trash2'' (Remove_trigger i)] @
     trigger_rows (Suc i) ts"

definition bot_script :: "bot_form \<Rightarrow> element list" where
  "bot_script f =
     [Txt ''Script Builder'', Txt ''Opening Messages (One per line)'', bot_input Bot_openings (botOpeningMessages f),
      Txt ''Sequential Replies (One per line)'', bot_input Bot_replies (botReplyMessages f),
      Txt ''Fallback Message'', bot_input Bot_fallback (botFallbackMessage f),
      Txt ''Closing Message'', bot_input Bot_closing (botClosingMessage f),
      Txt ''Regex Triggers'', Txt ''Triggers evaluate human messages to decide the bot's next reply.'',
      button ''+ Add Trigger'' Add_trigger] @
     (if botTriggers f = []
      then [Txt ''No regex triggers added.'', Txt ''Bot will rely entirely on the Sequential Replies list.'']
      else trigger_rows 0 (botTriggers f))"

definition bot_provider :: "bot_form \<Rightarrow> element list" where
  "bot_provider f =
     [Txt ''AI Provider'',
      Txt ''Use any OpenAI-compatible endpoint here. The admin panel stores this config, Redis carries the active snapshot, and Phoenix workers use it at runtime.'',
      Txt ''Provider Label'', bot_input Ai_provider (botAIProvider f),
      Txt ''Model Name'', bot_input Ai_model (botAIModel f),
      Txt ''OpenAI-Compatible API URL'', bot_input Ai_api_url (botAIApiUrl f),
      Txt ''API Token'', bot_input Ai_api_token (botAIApiToken f),
      Txt ''Temperature'', bot_input Ai_temperature (botAITemperature f),
      Txt ''Max Output Tokens'', bot_input Ai_max_tokens (botAIMaxTokens f),
      Txt ''System Prompt'', bot_input Ai_system_prompt (botAISystemPrompt f)]"

definition bot_dialog :: "scope \<Rightarrow> element list" where
  "bot_dialog sc =
     (let f = botForm sc
      in [button ''Backdrop'' Close_bot, Txt (if editing f then ''Edit Bot Definition'' else ''Bot Builder''),
          Txt (if editing f
            then ''Update the saved bot definition here. Bot type stays locked during edits because the current backend update path treats it as immutable.''
            else ''Configure scripted engagement bots or OpenAI-compatible AI bots from one place. AI bot settings sync through Redis for Phoenix workers to pick up live.''),
          button ''X'' Close_bot] @
         bot_general f @ bot_limits f @
         whenever (botType f = ''engagement'') (bot_script f) @
         whenever (botType f = ''ai'') (bot_provider f) @
         [button ''Cancel'' Close_bot, button (if editing f then ''Save Changes'' else ''Save Definition'') Save_bot])"

section \<open>Ban\<close>

definition ban_target_part :: "ban_modal \<Rightarrow> element list" where
  "ban_target_part m =
     [Txt ''TARGET_IDENTITY_DATA''] @
     whenever (banSessionId m \<noteq> []) [Txt ''SESSION'', Val (JStr (banSessionId m))] @
     whenever (banIp m \<noteq> []) [Txt ''NETWORK'', Val (JStr (banIp m))] @
     whenever (banSessionId m \<noteq> [] \<and> banIp m \<noteq> [])
       [Txt ''TARGET_SCOPE'', button ''SESSION_PLUS_IP'' (Input (In_ban Ban_target) ''session''),
        button ''IP_ONLY'' (Input (In_ban Ban_target) ''ip'')]"

definition ban_dialog :: "scope \<Rightarrow> element list" where
  "ban_dialog sc =
     (let m = banModal sc
      in [button ''Backdrop'' Cancel_ban, Txt ''CONFIRM_RESTRICTION'',
          Txt ''Session-targeted enforcement also carries the linked IP when it is available.''] @
         ban_target_part m @
         [Txt ''ENFORCEMENT_MODE'', button ''PERMANENT_BAN'' (Input (In_ban Ban_mode) ''permanent''),
          button ''TEMPORARY_BAN'' (Input (In_ban Ban_mode) ''temporary'')] @
         whenever (banMode m = ''temporary'')
           [Txt ''DURATION_VALUE'', text_field (In_ban Ban_duration_value) (durationValue m),
            Txt ''TEMPORAL_UNIT'', select (In_ban Ban_duration_unit) (durationUnit m) [''hours'', ''days'']] @
         [Txt ''INCIDENT_JUSTIFICATION'', text_field (In_ban Ban_reason) (banReason m),
          button ''CANCEL_OPERATION'' Cancel_ban,
          Btn (if submittingBan sc then ''PROCESSING...'' else ''CONFIRM_ENFORCEMENT'') (submittingBan sc)
            (Submit_ban (\<lambda>n u. None))])"

section \<open>Transcript and description\<close>

text \<open>\<^verbatim>\<open>{row?.k.substring(0, 8)}...\<close>: a method of strings, read when the row was found.\<close>

definition first_8 :: "js \<Rightarrow> string \<Rightarrow> element list" where
  "first_8 row k =
     (if js_nullish row then []
      else case js_get row k of JStr t \<Rightarrow> [Txt (take 8 t)] | _ \<Rightarrow> [Raise]) @ [Txt ''...'']"

definition message_bubble :: "js \<Rightarrow> element list" where
  "message_bubble msg =
     whenever (js_get msg ''sender'' \<noteq> JStr ''system'')
       [Txt (if js_get msg ''sender'' = JStr ''me'' then ''Reporter'' else ''Peer'')] @
     [Fmt ''DOMPurify.sanitize'' (js_get msg ''text'')]"

text \<open>Of a report that is not found the transcript is \<open>undefined\<close> and not drawn.\<close>

definition transcript_dialog :: "scope \<Rightarrow> element list" where
  "transcript_dialog sc =
     (let r = find_id (expandedReport sc) (reports sc); log = js_get r ''chat_log''
      in [button ''Backdrop'' (Expand_report JNull), Txt ''TRANSCRIPT_VIEW'', Txt ''Session: ''] @
         first_8 r ''reported_session_id'' @
         [button ''XCircle'' (Expand_report JNull)] @
         (if js_nullish r then [] else each log message_bubble) @
         (if js_truthy log then need (js_length log) (\<lambda>n. whenever (n = zero) [Txt ''No messages available for this session.''])
          else [Txt ''No messages available for this session.'']) @
         [button ''DISMISS_VIEW'' (Expand_report JNull)])"

definition description_dialog :: "scope \<Rightarrow> element list" where
  "description_dialog sc =
     (let r = find_id (viewingDescription sc) (reports sc)
      in [button ''Backdrop'' (View_description JNull), Txt ''INCIDENT_DESCRIPTION'', Txt ''Report Ref: ''] @
         first_8 r ''id'' @
         [button ''XCircle'' (View_description JNull)] @ child (js_get r ''description'') @
         [button ''CLOSE_ENTRY'' (View_description JNull)])"

section \<open>Redis\<close>

text \<open>\<^verbatim>\<open>human || formatBytes(bytes)\<close>\<close>

definition memory_line :: "string \<Rightarrow> js \<Rightarrow> string option \<Rightarrow> string \<Rightarrow> element list" where
  "memory_line label m human bytes =
     (let text = (case human of None \<Rightarrow> JUndef | Some k \<Rightarrow> js_get m k)
      in [Txt label] @ child (js_or text (JStr (formatBytes (bytes_of (js_get m bytes))))))"

definition redis_memory :: "js \<Rightarrow> element list" where
  "redis_memory m =
     [Txt ''Memory''] @
     memory_line ''Used: '' m (Some ''used_memory_human'') ''used_memory_bytes'' @
     memory_line ''RSS: '' m (Some ''used_memory_rss_human'') ''used_memory_rss_bytes'' @
     memory_line ''Peak: '' m (Some ''used_memory_peak_human'') ''used_memory_peak_bytes'' @
     memory_line ''Dataset: '' m None ''used_memory_dataset_bytes'' @
     [Txt ''Fragmentation ratio: ''] @
     (if js_truthy (js_get m ''fragmentation_ratio'') then number_method ''toFixed(2)'' (js_get m ''fragmentation_ratio'')
      else [Txt ''0.00'']) @
     memory_line ''Fragmentation bytes: '' m None ''fragmentation_bytes'' @
     memory_line ''Max memory: '' m (Some ''maxmemory_human'') ''maxmemory_bytes'' @
     [Txt ''Policy: ''] @ child (js_or (js_get m ''maxmemory_policy'') (JStr ''unknown'')) @
     memory_line ''Total system: '' m (Some ''total_system_memory_human'') ''total_system_memory_bytes'' @
     [Txt ''Allocator: ''] @ child (js_or (js_get m ''allocator'') (JStr ''unknown''))"

definition command_row :: "js \<Rightarrow> element list" where
  "command_row c =
     child (js_get c ''command'') @
     number_method ''toLocaleString()'' (js_get c ''calls'') @ [Txt '' calls''] @
     number_method ''toLocaleString()'' (js_get c ''usec_total'') @ [Txt '' us total''] @
     number_method ''toFixed(2)'' (js_get c ''usec_per_call'') @ [Txt '' us/call'']"

definition redis_commands :: "js \<Rightarrow> element list" where
  "redis_commands node =
     (let stats = js_get node ''command_stats''
      in [Txt ''Top Command Totals Since Start''] @
         (case js_or stats (JArr []) of
            JArr xs \<Rightarrow>
              (case topRedisCommandStats (Some xs) of
                 [] \<Rightarrow> [Txt ''No command stats available for this node.'']
               | cs \<Rightarrow> each (JArr cs) command_row)
          | _ \<Rightarrow> [Raise]))"

definition node_topology :: "js \<Rightarrow> element list" where
  "node_topology node =
     (let get = js_get node; flags = get ''flags''; slots = get ''slots''
      in child (get ''address'') @ child (get ''node_id'') @ child (get ''role'') @ child (get ''status'') @
         [Txt ''Topology'', Txt ''Link state: ''] @ child (js_or (get ''link_state'') (JStr ''unknown'')) @
         [Txt ''Master ID: ''] @ child (js_or (get ''master_id'') (JStr ''self'')) @
         [Txt ''Master link: ''] @ child (js_or (get ''master_link_status'') (JStr ''n/a'')) @
         [Txt ''Replication lag: ''] @
         shown (if_nullish (Some (get ''replication_lag_seconds'')) zero) @ [Txt ''s''] @
         (if js_nullish flags then []
          else need (js_length flags) (\<lambda>n. if js_positive n then [Txt ''Flags: ''] @ joined '', '' flags else [])) @
         (if js_truthy slots
          then need (js_length slots) (\<lambda>n. if js_positive n then [Txt ''Slots: ''] @ joined '' '' slots else [])
          else child slots) @
         child (get ''error''))"

definition redis_node :: "js \<Rightarrow> element list" where
  "redis_node node =
     node_topology node @
     (if js_nullish (js_get node ''memory'') then [Raise] else redis_memory (js_get node ''memory'')) @
     redis_commands node"

definition redis_dialog :: "scope \<Rightarrow> element list" where
  "redis_dialog sc =
     (let look = opt_path (infraHealth sc)
      in [button ''Backdrop'' (Open_redis False), Txt ''REDIS_CLUSTER_DETAILS'', Txt ''Nodes: ''] @
         (if js_nullish (infraHealth sc) then child zero
          else need (look [''redis'', ''nodes'']) (\<lambda>nodes. need (js_length nodes) (\<lambda>n. child (js_or n zero)))) @
         [Txt ''Cluster state: ''] @ shown (or_else (look [''redis'', ''cluster'', ''state'']) (JStr ''unknown'')) @
         [button ''XCircle'' (Open_redis False)] @
         need (or_else (look [''redis'', ''nodes'']) (JArr [])) (\<lambda>nodes. each nodes redis_node) @
         [button ''CLOSE_REDIS_VIEW'' (Open_redis False)])"

section \<open>All dialogs\<close>

definition dialogs :: "scope \<Rightarrow> element list" where
  "dialogs sc =
     whenever (isBotSettingsModalOpen sc) (settings_dialog sc) @
     whenever (isBotModalOpen sc) (bot_dialog sc) @
     whenever (modalOpen (banModal sc)) (ban_dialog sc) @
     whenever (js_truthy (expandedReport sc)) (transcript_dialog sc) @
     whenever (isRedisModalOpen sc) (redis_dialog sc) @
     whenever (js_truthy (viewingDescription sc)) (description_dialog sc)"

end
