(* ===== verification/Admin_Screen.thy ===== *)
theory Admin_Screen
  imports Admin_Dialogs
begin

text \<open>
  The whole screen of the console: the loading screen, the login form, or the shell with its two
  menus, the tab and the dialogs.
\<close>

section \<open>Before the session\<close>

definition AuthLoadingScreen :: "element list" where
  "AuthLoadingScreen = [Txt ''Initializing Pairline Console...'']"

definition LoginScreen :: "scope \<Rightarrow> element list" where
  "LoginScreen sc =
     [Txt ''Pairline'', Txt ''Moderation & Safety Console'', Txt ''Admin Username'',
      text_field Username (username sc), Txt ''Security Key'', text_field Password (password sc),
      button (if showLoginPassword sc then ''EyeOff'' else ''Eye'') Show_login_password,
      button ''Sign In to Console'' Submit_login,
      Txt ''Authorized personnel only. All actions are logged.'']"

section \<open>Shell\<close>

definition tab_title :: "tab \<Rightarrow> string" where
  "tab_title t =
     (case t of
        Reports_tab \<Rightarrow> ''Reports Queue'' | Bans_tab \<Rightarrow> ''Ban Registry'' | Words_tab \<Rightarrow> ''Banned Words''
      | Bots_tab \<Rightarrow> ''Bots'' | Infra_tab \<Rightarrow> ''Infra Health'' | Accounts_tab \<Rightarrow> ''Admin Accounts'')"

definition tab_subtitle :: "tab \<Rightarrow> string" where
  "tab_subtitle t =
     (case t of
        Reports_tab \<Rightarrow> ''Review and act on user reports in real-time.''
      | Bans_tab \<Rightarrow> ''Manage active and historical user bans.''
      | Words_tab \<Rightarrow> ''Block delivery of messages containing restricted words or phrases.''
      | Bots_tab \<Rightarrow> ''Control scripted bot rollouts, emergency stop state, and active definitions.''
      | Infra_tab \<Rightarrow> ''Inspect cluster topology, service health, data stores, and observability lanes.''
      | Accounts_tab \<Rightarrow> ''Manage moderation team access.'')"

text \<open>The entries of both menus, which the role decides, with the action of the menu.\<close>

definition nav_tabs :: "js \<Rightarrow> tab list" where
  "nav_tabs r =
     [Reports_tab, Bans_tab] @ (if canManageBannedWords r then [Words_tab] else []) @
     (if canViewBots r then [Bots_tab] else []) @ (if canViewInfraHealth r then [Infra_tab] else []) @
     (if canManageAccounts r then [Accounts_tab] else [])"

definition nav_entry :: "scope \<Rightarrow> (tab \<Rightarrow> action) \<Rightarrow> tab \<Rightarrow> element list" where
  "nav_entry sc go t =
     button (tab_title t) (go t) #
     (if t = Reports_tab \<and> js_positive (js_get (serverReportMetrics sc) ''pending'')
      then child (js_get (serverReportMetrics sc) ''pending'') else [])"

definition nav :: "scope \<Rightarrow> (tab \<Rightarrow> action) \<Rightarrow> element list" where
  "nav sc go = concat (map (nav_entry sc go) (nav_tabs (role sc)))"

definition mobile_menu :: "bool \<Rightarrow> scope \<Rightarrow> element list" where
  "mobile_menu isDark sc =
     [Txt ''Pairline'', button ''Menu'' (Open_mobile_menu True)] @
     whenever (isMobileMenuOpen sc)
       ([button ''Backdrop'' (Open_mobile_menu False), Txt ''Pairline'', Txt ''Admin Console'',
         button ''X'' (Open_mobile_menu False)] @
        nav sc Choose_mobile @
        [button (if isDark then ''Light Mode'' else ''Dark Mode'') Toggle_theme] @
        child (currentAdminUsername sc) @ child (role sc) @ [button ''Sign Out'' Click_logout])"

definition sidebar :: "bool \<Rightarrow> scope \<Rightarrow> element list" where
  "sidebar isDark sc =
     [Txt ''Pairline'', Txt ''Admin Console''] @ nav sc Select_tab @
     [button (if isDark then ''Light Mode'' else ''Dark Mode'') Toggle_theme] @
     whenever (isUserMenuOpen sc)
       (child (currentAdminUsername sc) @ child (role sc) @ [button ''Sign Out'' Click_logout]) @
     [button ''User menu'' Toggle_user_menu] @ child (currentAdminUsername sc) @ child (role sc)"

definition header :: "scope \<Rightarrow> element list" where
  "header sc = [Txt (tab_title (currentTab sc)), Txt (tab_subtitle (currentTab sc))]"

definition tab_content :: "scope \<Rightarrow> element list" where
  "tab_content sc =
     (case currentTab sc of
        Reports_tab \<Rightarrow> reports_tab sc
      | Bans_tab \<Rightarrow> bans_tab sc
      | Infra_tab \<Rightarrow> whenever (canViewInfraHealth (role sc)) (infra_tab sc)
      | Words_tab \<Rightarrow> whenever (canManageBannedWords (role sc)) (words_tab sc)
      | Bots_tab \<Rightarrow> whenever (canViewBots (role sc)) (bots_tab sc)
      | Accounts_tab \<Rightarrow> whenever (canManageAccounts (role sc)) (accounts_tab sc))"

definition toolbar :: "scope \<Rightarrow> element list" where
  "toolbar sc =
     (case currentTab sc of Reports_tab \<Rightarrow> reports_toolbar sc | Bans_tab \<Rightarrow> bans_toolbar sc | _ \<Rightarrow> [])"

definition console :: "bool \<Rightarrow> scope \<Rightarrow> element list" where
  "console isDark sc =
     mobile_menu isDark sc @ sidebar isDark sc @ header sc @ tab_content sc @ toolbar sc @ dialogs sc"

text \<open>What the component returns. Nothing of it depends on the theme but the label of a button.\<close>

definition screen :: "bool \<Rightarrow> scope \<Rightarrow> element list" where
  "screen isDark sc =
     (if \<not> authReady sc then AuthLoadingScreen
      else if \<not> isAuthenticated sc then LoginScreen sc
      else console isDark sc)"

end
