(* ===== verification/Admin_Console.thy ===== *)
theory Admin_Console
  imports Admin_Screen Admin_Props
begin

text \<open>
  The console as its user meets it: the panel behind its screen. An action happens only through a
  control that the screen draws and does not disable; a render that throws takes the page down for good.
  Every run of the console is a run of the panel, so that what was proved of the panel holds here.
\<close>

section \<open>The console as an event system\<close>

record console_state =
  panel :: admin
  dark :: bool
  crashed :: bool

definition shown_screen :: "console_state \<Rightarrow> element list" where
  "shown_screen t = screen (dark t) (scope_of (panel t))"

text \<open>
  After a crash nothing renders, commits or is clicked; promises in flight still settle, on a state
  that no longer shows.
\<close>

definition hears :: "panel_event \<Rightarrow> console_state \<Rightarrow> bool" where
  "hears e t \<longleftrightarrow>
     (case e of
        Act a \<Rightarrow> \<not> crashed t \<and> offered (shown_screen t) a
      | Commit \<Rightarrow> \<not> crashed t
      | Deferred_render \<Rightarrow> \<not> crashed t
      | _ \<Rightarrow> True)"

definition console_step :: "panel_env \<Rightarrow> panel_event \<Rightarrow> console_state \<Rightarrow> console_state" where
  "console_step c e t =
     (if hears e t
      then let p = panel_step c e (panel t);
               d = (case e of Act a \<Rightarrow> if a = Toggle_theme then \<not> dark t else dark t | _ \<Rightarrow> dark t)
        in \<lparr>panel = p, dark = d, crashed = (crashed t \<or> Raise \<in> set (screen d (scope_of p)))\<rparr>
      else t)"

definition initial_console :: "storage \<Rightarrow> bool \<Rightarrow> console_state" where
  "initial_console st d = \<lparr>panel = initial_admin st, dark = d, crashed = False\<rparr>"

interpretation behind_screen: restricted_system "panel_step c" "console_step c" panel hears for c
  by unfold_locales (simp_all add: console_step_def Let_def)

text \<open>Promises settle whether the page lives or not; only events that are heard do anything.\<close>

lemma promise_step [simp]:
  "panel (console_step c (Replied n answer) t) = panel_step c (Replied n answer) (panel t)"
  "panel (console_step c (BodyRead n parsed) t) = panel_step c (BodyRead n parsed) (panel t)"
  "dark (console_step c (Replied n answer) t) = dark t"
  "dark (console_step c (BodyRead n parsed) t) = dark t"
  by (simp_all add: console_step_def hears_def Let_def)

lemma heard_step:
  "hears e t \<Longrightarrow> panel (console_step c e t) = panel_step c e (panel t)"
  "\<not> hears e t \<Longrightarrow> console_step c e t = t"
  by (simp_all add: console_step_def Let_def)


end
