(* ===== verification/Admin_Typing.thy ===== *)
theory Admin_Typing
  imports Admin_Console
begin

text \<open>
  The data of the server in the panel keeps to its interfaces as long as the bodies that arrive do:
  the types of a render hold in every state of such a run. \<open>typed_scope\<close> is the invariant; one lemma
  per group of handlers says that they leave the data alone, and one per body that it stays typed.
\<close>

section \<open>Typed states\<close>

definition counts :: "string list \<Rightarrow> js \<Rightarrow> bool" where
  "counts names = interface (map (\<lambda>k. (k, is_number)) names)"

definition maybe :: "(js \<Rightarrow> bool) \<Rightarrow> js \<Rightarrow> bool" where
  "maybe p v \<longleftrightarrow> js_nullish v \<or> p v"

definition typed_scope :: "('a) scope_scheme \<Rightarrow> bool" where
  "typed_scope s \<longleftrightarrow>
     maybe is_AdminRole (role s) \<and> is_string (currentAdminUsername s) \<and>
     list_all is_Report (reports s) \<and> counts [''pending'', ''approved'', ''rejected''] (serverReportMetrics s) \<and>
     list_of is_Ban (bans s) \<and> counts [''active'', ''inactive'', ''total''] (serverBanMetrics s) \<and>
     list_of is_BannedWord (bannedWords s) \<and> maybe is_AutoModerationSettings (autoModerationSettings s) \<and>
     maybe is_BotSettings (botSettings s) \<and> list_of is_BotDefinition (botDefinitions s) \<and>
     list_of is_AdminAccount (accounts s) \<and> maybe is_InfraHealthResponse (infraHealth s)"

section \<open>Bodies that keep to the interfaces\<close>

text \<open>
  A stored transcript is text; when it parses at all it holds messages. The counts may be missing or
  \<open>null\<close> one by one, the lists as a whole.
\<close>

definition transcript_ok :: "panel_env \<Rightarrow> js \<Rightarrow> bool" where
  "transcript_ok c r \<longleftrightarrow>
     (case js_get r ''chat_log'' of
        JStr t \<Rightarrow> (case json_parse c t of None \<Rightarrow> True | Some v \<Rightarrow> list_of is_ChatMessage v)
      | _ \<Rightarrow> True)"

definition metrics_ok :: "string list \<Rightarrow> js \<Rightarrow> bool" where
  "metrics_ok names = interface (map (\<lambda>k. (k, maybe is_number)) names)"

definition body_typed :: "panel_env \<Rightarrow> op \<Rightarrow> js \<Rightarrow> bool" where
  "body_typed c f =
     (case f of
        FetchReports \<Rightarrow> interface [(''reports'', maybe (list_of (\<lambda>r. is_RawReport r \<and> transcript_ok c r))),
          (''metrics'', maybe (metrics_ok [''pending'', ''approved'', ''rejected'']))]
      | FetchBans \<Rightarrow> interface [(''bans'', maybe (list_of is_Ban)),
          (''metrics'', maybe (metrics_ok [''active'', ''inactive'', ''total'']))]
      | FetchBannedWords \<Rightarrow> interface [(''words'', maybe (list_of is_BannedWord))]
      | FetchAutoModerationSettings \<Rightarrow> is_AutoModerationSettings
      | UpdateAutoModerationEnabled \<Rightarrow> is_AutoModerationSettings
      | FetchAccounts \<Rightarrow> interface [(''accounts'', maybe (list_of is_AdminAccount))]
      | FetchBotSettings \<Rightarrow> is_BotSettings
      | UpdateBotSettings m \<Rightarrow> is_BotSettings
      | FetchBotDefinitions \<Rightarrow> interface [(''bots'', maybe (list_of is_BotDefinition))]
      | FetchInfraHealth \<Rightarrow> is_InfraHealthResponse
      | Login \<Rightarrow> is_LoginResponse
      | _ \<Rightarrow> (\<lambda>v. True))"

definition event_conforms :: "panel_env \<Rightarrow> admin \<Rightarrow> panel_event \<Rightarrow> bool" where
  "event_conforms c s e =
     (case e of
        BodyRead n (Some data) \<Rightarrow>
          (case calls s n of
             None \<Rightarrow> True
           | Some cl \<Rightarrow>
               (case callStage cl of
                  RefreshBody \<Rightarrow> is_LoginResponse data
                | OkBody \<Rightarrow> body_typed c (callOp cl) data
                | _ \<Rightarrow> True))
      | _ \<Rightarrow> True)"

fun run_conforms :: "panel_env \<Rightarrow> panel_event list \<Rightarrow> console_state \<Rightarrow> bool" where
  "run_conforms c [] t = True"
| "run_conforms c (e # es) t = (event_conforms c (panel t) e \<and> run_conforms c es (console_step c e t))"

section \<open>Handlers leave the data alone\<close>

lemma typed_scope_frame [simp]:
  fixes s :: admin
  shows "typed_scope (isAuthenticated_update g1 s) = typed_scope s"
    "typed_scope (authReady_update g1 s) = typed_scope s"
    "typed_scope (username_update g2 s) = typed_scope s"
    "typed_scope (password_update g2 s) = typed_scope s"
    "typed_scope (selectedReports_update g3 s) = typed_scope s"
    "typed_scope (reportStatusFilter_update g2 s) = typed_scope s"
    "typed_scope (reportReviewSourceFilter_update g2 s) = typed_scope s"
    "typed_scope (reportLimit_update g2 s) = typed_scope s"
    "typed_scope (banFilter_update g2 s) = typed_scope s"
    "typed_scope (banLimit_update g2 s) = typed_scope s"
    "typed_scope (banSearch_update g2 s) = typed_scope s"
    "typed_scope (deferredBanSearch_update g2 s) = typed_scope s"
    "typed_scope (manualBanSessionId_update g2 s) = typed_scope s"
    "typed_scope (manualBanIP_update g2 s) = typed_scope s"
    "typed_scope (manualBanReason_update g2 s) = typed_scope s"
    "typed_scope (banModal_update g4 s) = typed_scope s"
    "typed_scope (submittingBan_update g1 s) = typed_scope s"
    "typed_scope (bannedWordTotal_update g5 s) = typed_scope s"
    "typed_scope (bannedWordsEnabled_update g1 s) = typed_scope s"
    "typed_scope (updatingBannedWordsEnabled_update g1 s) = typed_scope s"
    "typed_scope (bannedWordInput_update g2 s) = typed_scope s"
    "typed_scope (bannedWordSearch_update g2 s) = typed_scope s"
    "typed_scope (deferredBannedWordSearch_update g2 s) = typed_scope s"
    "typed_scope (bannedWordLimit_update g2 s) = typed_scope s"
    "typed_scope (updatingAutoModerationEnabled_update g1 s) = typed_scope s"
    "typed_scope (isSeedingReports_update g1 s) = typed_scope s"
    "typed_scope (isBotSettingsModalOpen_update g1 s) = typed_scope s"
    "typed_scope (botSettingsDraft_update g6 s) = typed_scope s"
    "typed_scope (isBotModalOpen_update g1 s) = typed_scope s"
    "typed_scope (botForm_update g7 s) = typed_scope s"
    "typed_scope (accountTotal_update g5 s) = typed_scope s"
    "typed_scope (accountUsername_update g2 s) = typed_scope s"
    "typed_scope (accountPassword_update g2 s) = typed_scope s"
    "typed_scope (accountRole_update g2 s) = typed_scope s"
    "typed_scope (accountSearch_update g2 s) = typed_scope s"
    "typed_scope (deferredAccountSearch_update g2 s) = typed_scope s"
    "typed_scope (accountLimit_update g2 s) = typed_scope s"
    "typed_scope (accountPage_update g5 s) = typed_scope s"
    "typed_scope (submittingAccount_update g1 s) = typed_scope s"
    "typed_scope (isRedisModalOpen_update g1 s) = typed_scope s"
    "typed_scope (currentTab_update g8 s) = typed_scope s"
    "typed_scope (expandedReport_update g9 s) = typed_scope s"
    "typed_scope (viewingDescription_update g9 s) = typed_scope s"
    "typed_scope (isUserMenuOpen_update g1 s) = typed_scope s"
    "typed_scope (isMobileMenuOpen_update g1 s) = typed_scope s"
    "typed_scope (showLoginPassword_update g1 s) = typed_scope s"
    "typed_scope (showCreateAccountPassword_update g1 s) = typed_scope s"
    "typed_scope (store_update g10 s) = typed_scope s"
    "typed_scope (calls_update g11 s) = typed_scope s"
    "typed_scope (nextCall_update g5 s) = typed_scope s"
    "typed_scope (sentLog_update g12 s) = typed_scope s"
    "typed_scope (alerts_update g13 s) = typed_scope s"
    "typed_scope (navigations_update g13 s) = typed_scope s"
    "typed_scope (effectDeps_update g14 s) = typed_scope s"
  by (simp_all add: typed_scope_def)

lemma typed_requests [simp]:
  "typed_scope (log_request n stg req h s) = typed_scope s"
  "typed_scope (start_call f req h stg sc s) = typed_scope s"
  "typed_scope (adminFetch f req sc s) = typed_scope s"
  "typed_scope (show_alert m s) = typed_scope s"
  by (simp_all add: log_request_def start_call_def adminFetch_def show_alert_def Let_def)

lemma typed_fetches [simp]:
  "typed_scope (fetchReports sc s) = typed_scope s" "typed_scope (fetchBans sc s) = typed_scope s"
  "typed_scope (fetchBannedWords sc s) = typed_scope s" "typed_scope (fetchBannedWordsSettings sc s) = typed_scope s"
  "typed_scope (fetchAutoModerationSettings sc s) = typed_scope s" "typed_scope (fetchAccounts sc s) = typed_scope s"
  "typed_scope (fetchBotSettings sc s) = typed_scope s" "typed_scope (fetchBotDefinitions sc s) = typed_scope s"
  "typed_scope (fetchInfraHealth sc s) = typed_scope s" "typed_scope (syncBannedWords sc s) = typed_scope s"
  "typed_scope (syncBots sc s) = typed_scope s" "typed_scope (login sc s) = typed_scope s"
  "typed_scope (logout sc s) = typed_scope s"
  by (simp_all add: fetchReports_def fetchBans_def fetchBannedWords_def fetchBannedWordsSettings_def
      fetchAutoModerationSettings_def fetchAccounts_def fetchBotSettings_def fetchBotDefinitions_def
      fetchInfraHealth_def syncBannedWords_def syncBots_def login_def logout_def)

lemma typed_fold_update [simp]:
  "typed_scope (fold (\<lambda>i. updateReportStatus i st sc) ids s) = typed_scope s"
  by (induction ids arbitrary: s) (simp_all add: updateReportStatus_def)

lemma typed_handlers [simp]:
  "typed_scope (updateReportStatus i st sc s) = typed_scope s"
  "typed_scope (handleSingleReportAction i st sc s) = typed_scope s"
  "typed_scope (toggleSelectAllVisibleReports sc s) = typed_scope s"
  "typed_scope (checkReport i b s) = typed_scope s" "typed_scope (bulkUpdate st sc s) = typed_scope s"
  "typed_scope (seedTestReports sc s) = typed_scope s"
  "typed_scope (openBanModal x ip y target reason m s) = typed_scope s"
  "typed_scope (closeBanModal sc s) = typed_scope s" "typed_scope (createBan req sc s) = typed_scope s"
  "typed_scope (unban i sc s) = typed_scope s" "typed_scope (createBannedWord sc s) = typed_scope s"
  "typed_scope (deleteBannedWord i sc s) = typed_scope s"
  "typed_scope (updateBannedWordsEnabled b sc s) = typed_scope s"
  "typed_scope (updateAutoModerationEnabled b sc s) = typed_scope s"
  "typed_scope (createAccount sc s) = typed_scope s" "typed_scope (deleteAccount u b sc s) = typed_scope s"
  "typed_scope (updateBotSettings m ups sc s) = typed_scope s"
  "typed_scope (openBotSettingsModal sc s) = typed_scope s"
  "typed_scope (resetBotForm s) = typed_scope s" "typed_scope (closeBotModal s) = typed_scope s"
  "typed_scope (openEditBotModal row s) = typed_scope s"
  "typed_scope (setBotActiveState i b sc s) = typed_scope s"
  "typed_scope (deleteBotDefinition i b sc s) = typed_scope s"
  "typed_scope (set_input k v s) = typed_scope s"
  by (simp_all add: updateReportStatus_def handleSingleReportAction_def toggleSelectAllVisibleReports_def
      checkReport_def bulkUpdate_def seedTestReports_def openBanModal_def closeBanModal_def createBan_def
      unban_def createBannedWord_def deleteBannedWord_def updateBannedWordsEnabled_def
      updateAutoModerationEnabled_def createAccount_def deleteAccount_def updateBotSettings_def
      openBotSettingsModal_def resetBotForm_def closeBotModal_def openEditBotModal_def
      setBotActiveState_def deleteBotDefinition_def Let_def)
    (cases k; simp)

lemma typed_dialogs [simp]:
  "typed_scope (applyManualBan sc s) = typed_scope s" "typed_scope (submitBanModal later sc s) = typed_scope s"
  "typed_scope (saveBotSettingsModal sc s) = typed_scope s" "typed_scope (openCreateBotModal s) = typed_scope s"
  "typed_scope (send_definition f v p sc s) = typed_scope s"
  by (simp_all add: applyManualBan_def submitBanModal_def saveBotSettingsModal_def openCreateBotModal_def
      send_definition_def split: option.split sum.split)

lemma typed_save [simp]: "typed_scope (saveBotDefinition sc s) = typed_scope s"
  by (simp add: saveBotDefinition_def createBotDefinition_def updateBotDefinition_def split: option.split)

lemma typed_action [simp]: "typed_scope (act a s) = typed_scope s"
proof -
  have "typed_scope (perform_action a sc s) = typed_scope s" for sc
    by (cases a) simp_all
  then show ?thesis by (simp add: act_def split: action.split)
qed

lemma typed_ends [simp]:
  "typed_scope (end_call n s) = typed_scope s" "typed_scope (set_stage n cl stg s) = typed_scope s"
  "typed_scope (release f s) = typed_scope s" "typed_scope (keep_csrf_header r s) = typed_scope s"
  "typed_scope (refreshSession n cl s) = typed_scope s"
  by (simp_all add: end_call_def set_stage_def keep_csrf_header_def refreshSession_def) (cases f; simp)

lemma typed_failures [simp]:
  "typed_scope (thrown f s) = typed_scope s" "typed_scope (failed_body f data s) = typed_scope s"
  by (simp_all add: thrown_def failed_body_def)

lemma typed_continue_ok [simp]: "typed_scope (continue_ok f sc s) = typed_scope s"
  by (cases f) (simp_all add: submitBanModal_continue_def createBannedWord_continue_def unban_continue_def
      createAccount_continue_def saveBotDefinition_continue_def Let_def)

section \<open>Sessions and bodies\<close>

lemma typed_forget [intro]: "typed_scope s \<Longrightarrow> typed_scope (forget_session s)"
  by (simp add: forget_session_def typed_scope_def maybe_def js_nullish_def)

lemma typed_logout [intro]: "typed_scope s \<Longrightarrow> typed_scope (logout_continue c s)"
  by (simp add: logout_continue_def typed_scope_def maybe_def js_nullish_def list_of_def)

lemma is_string_js_or: "maybe is_string a \<Longrightarrow> is_string b \<Longrightarrow> is_string (js_or a b)"
  by (cases a) (auto simp: maybe_def js_or_def js_nullish_def)

lemma login_response_fields:
  "is_LoginResponse data \<Longrightarrow> is_AdminRole (js_get data ''role'') \<and> maybe is_string (js_get data ''username'')"
  by (auto simp: is_LoginResponse_def interface_def maybe_def optional_def js_nullish_def)

lemma typed_refresh [intro]:
  "\<lbrakk>typed_scope s; is_LoginResponse data\<rbrakk> \<Longrightarrow> typed_scope (refreshSession_continue data s)"
  using login_response_fields [of data]
  by (auto simp: refreshSession_continue_def typed_scope_def Let_def maybe_def [of is_AdminRole]
      intro!: is_string_js_or)

lemma typed_login [intro]:
  "\<lbrakk>typed_scope s; is_LoginResponse data\<rbrakk> \<Longrightarrow> typed_scope (login_continue data sc s)"
  using login_response_fields [of data]
  by (auto simp: login_continue_def Let_def) (auto simp: typed_scope_def maybe_def [of is_AdminRole] intro!: is_string_js_or)

lemma js_or_list: "maybe (list_of p) v \<Longrightarrow> list_of p (js_or v (JArr []))"
  by (cases v) (auto simp: maybe_def js_or_def js_nullish_def list_of_def)

lemma js_or_0_number: "maybe is_number (js_get m k) \<Longrightarrow> is_number (js_or_0 m k)"
  by (cases "js_get m k") (auto simp: maybe_def js_or_0_def js_or_def js_nullish_def)

lemma counts_metrics:
  assumes "metrics_ok [a, b, d] m" and "a \<noteq> b" "a \<noteq> d" "b \<noteq> d"
  shows "counts [a, b, d] (JObj [(a, js_or_0 m a), (b, js_or_0 m b), (d, js_or_0 m d)])"
  using assms by (auto simp: counts_def metrics_ok_def interface_def js_or_0_number)

lemma maybe_metrics: "maybe p v \<Longrightarrow> js_truthy v \<Longrightarrow> p v"
  by (auto simp: maybe_def js_nullish_def)

text \<open>A report that arrives as declared is a report once it is normalised.\<close>

lemma get_normalized:
  "js_get (normalize_report c r) k =
     (if k = ''chat_log'' then parsed_chat_log c r
      else if k = ''auto_moderation_categories'' then parsed_categories c r else js_get r k)"
  unfolding normalize_report_def js_get_spread by (cases r) (auto simp: fields_of_def)

lemma normalized_report:
  assumes "is_RawReport r" and "transcript_ok c r"
  shows "is_Report (normalize_report c r)"
proof -
  from assms(1) have fields: "list_all (\<lambda>(k, p). p (js_get r k)) report_fields"
    and log: "or_null (\<lambda>v. is_string v \<or> list_of is_ChatMessage v) (js_get r ''chat_log'')"
    and cats: "optional (or_null (\<lambda>v. is_string v \<or> list_of is_string v)) (js_get r ''auto_moderation_categories'')"
    by (simp_all add: is_RawReport_def interface_def)
  have "list_of is_ChatMessage (parsed_chat_log c r)"
    using log assms(2)
    by (cases "js_get r ''chat_log''")
      (auto simp: parsed_chat_log_def transcript_ok_def or_null_def js_or_def list_of_def split: option.splits)
  moreover have "list_of is_string (parsed_categories c r)"
  proof -
    have strs: "list_of is_string (JArr (map JStr (strings_of vs)))" for vs
      by (simp add: list_of_def list_all_iff)
    have "list_of is_string (case v of JArr vs \<Rightarrow> JArr (map JStr (strings_of vs)) | _ \<Rightarrow> JArr [])" for v
      by (cases v) (simp_all add: strs list_of_def list_all_iff)
    then show ?thesis using cats
      by (cases "js_get r ''auto_moderation_categories''")
        (auto simp: parsed_categories_def optional_def or_null_def list_of_def strs split: option.splits js.splits)
  qed
  moreover have "list_all (\<lambda>(k, p). p (js_get (normalize_report c r) k)) report_fields"
    using fields by (simp add: report_fields_def get_normalized)
  moreover have "is_object (normalize_report c r)"
    by (cases r) (simp_all add: normalize_report_def fields_of_def)
  ultimately show ?thesis
    by (simp add: is_Report_def interface_def get_normalized optional_def)
qed

lemma typed_reports [intro]:
  assumes "typed_scope s" and "body_typed c FetchReports data"
  shows "typed_scope (fetchReports_continue c data s)"
proof -
  let ?m = "js_get data ''metrics''"
  define s1 where "s1 = (if js_truthy ?m
       then s\<lparr>serverReportMetrics := JObj [(''pending'', js_or_0 ?m ''pending''),
              (''approved'', js_or_0 ?m ''approved''), (''rejected'', js_or_0 ?m ''rejected'')]\<rparr> else s)"
  from assms(2) have m: "maybe (metrics_ok [''pending'', ''approved'', ''rejected'']) ?m"
    and rows: "maybe (list_of (\<lambda>r. is_RawReport r \<and> transcript_ok c r)) (js_get data ''reports'')"
    by (simp_all add: body_typed_def interface_def)
  have s1: "typed_scope s1"
    using assms(1) counts_metrics [of "''pending''" "''approved''" "''rejected''" ?m] maybe_metrics [OF m]
    by (auto simp: s1_def typed_scope_def)
  from js_or_list [OF rows] obtain xs where xs: "js_or (js_get data ''reports'') (JArr []) = JArr xs"
    and ok: "list_all (\<lambda>r. is_RawReport r \<and> transcript_ok c r) xs" by (auto simp: list_of_iff)
  have "list_all is_Report (map (normalize_report c) xs)"
    using ok by (auto simp: list_all_iff normalized_report)
  with s1 have "typed_scope (s1\<lparr>reports := map (normalize_report c) xs, selectedReports := sel\<rparr>)" for sel
    by (simp add: typed_scope_def)
  with s1 assms(1) show ?thesis
    unfolding fetchReports_continue_def Let_def s1_def [symmetric] by (simp add: xs)
qed

lemma typed_bans [intro]:
  assumes "typed_scope s" and "body_typed c FetchBans data"
  shows "typed_scope (fetchBans_continue data s)"
proof -
  from assms(2) have m: "maybe (metrics_ok [''active'', ''inactive'', ''total'']) (js_get data ''metrics'')"
    and rows: "maybe (list_of is_Ban) (js_get data ''bans'')" by (simp_all add: body_typed_def interface_def)
  with assms(1) counts_metrics [of "''active''" "''inactive''" "''total''" "js_get data ''metrics''"] maybe_metrics [OF m]
    js_or_list [OF rows]
  show ?thesis by (auto simp: fetchBans_continue_def Let_def typed_scope_def)
qed

lemma typed_continue_body:
  assumes "typed_scope s" and "body_typed c f data" and "f \<noteq> Login"
  shows "typed_scope (continue_body c f data sc s)"
proof (cases f)
  case FetchBannedWords
  with assms show ?thesis
    by (auto simp: fetchBannedWords_continue_def body_typed_def interface_def typed_scope_def js_or_list)
next
  case FetchAccounts
  with assms show ?thesis
    by (auto simp: fetchAccounts_continue_def body_typed_def interface_def typed_scope_def js_or_list)
next
  case FetchBotDefinitions
  with assms show ?thesis
    by (auto simp: fetchBotDefinitions_continue_def body_typed_def interface_def typed_scope_def js_or_list)
next
  case FetchBannedWordsSettings
  with assms(1) show ?thesis by (simp add: fetchBannedWordsSettings_continue_def)
next
  case UpdateBannedWordsEnabled
  with assms(1) show ?thesis by (simp add: updateBannedWordsEnabled_continue_def Let_def)
next
  case SeedTestReports
  with assms(1) show ?thesis by (simp add: seedTestReports_continue_def Let_def)
qed (use assms typed_reports typed_bans in \<open>auto simp: body_typed_def typed_scope_def maybe_def
      updateAutoModerationEnabled_continue_def updateBotSettings_continue_def\<close>)

section \<open>Events\<close>

lemma typed_settle [intro]: "typed_scope s \<Longrightarrow> typed_scope (settle_call n cl r s)"
proof -
  assume s: "typed_scope s"
  then have "typed_scope ((end_call n s)\<lparr>infraHealth := JNull\<rparr>)"
    by (simp add: typed_scope_def maybe_def js_nullish_def end_call_def)
  with s show ?thesis by (simp add: settle_call_def Let_def)
qed

lemma typed_anonymous:
  "typed_scope s \<Longrightarrow> typed_scope ((forget_session s)\<lparr>currentAdminUsername := JStr []\<rparr>)"
  using typed_forget [of s] by (simp add: typed_scope_def)

lemma typed_refreshed [intro]: "typed_scope s \<Longrightarrow> typed_scope (refreshed n cl ok s)"
  using typed_forget [of s] typed_anonymous [of s] by (auto simp: refreshed_def Let_def)

lemma typed_bootstrap [intro]: "typed_scope s \<Longrightarrow> typed_scope (bootstrapAuth sc s)"
  using typed_anonymous [of s] by (simp add: bootstrapAuth_def)

lemma typed_commit [intro]: "typed_scope s \<Longrightarrow> typed_scope (commit s)"
proof -
  assume s: "typed_scope s"
  have "typed_scope (run_changed (effectDeps s) (effects (scope_of s)) s)"
    by (rule run_changed_inv [where P = typed_scope, OF _ s])
      (auto simp: effects_def Let_def when_in_def)
  then show ?thesis by (simp add: commit_def)
qed

lemma typed_replied [intro]: "typed_scope s \<Longrightarrow> typed_scope (replied c n cl answer s)"
  by (auto simp: replied_def split: stage.split option.split)

lemma typed_body_read [intro]:
  assumes "typed_scope s" and "callStage cl = RefreshBody \<Longrightarrow> pred_option is_LoginResponse parsed"
    and "callStage cl = OkBody \<Longrightarrow> pred_option (body_typed c (callOp cl)) parsed"
  shows "typed_scope (body_read c n cl parsed s)"
proof (cases "callStage cl")
  case RefreshBody
  with assms show ?thesis
    by (cases parsed) (auto simp: body_read_def)
next
  case OkBody
  with assms show ?thesis
    by (cases parsed) (auto simp: body_read_def body_typed_def intro!: typed_login typed_continue_body)
qed (use assms(1) in \<open>simp_all add: body_read_def\<close>)

lemma typed_step:
  assumes "typed_scope s" and "event_conforms c s e"
  shows "typed_scope (panel_step c e s)"
proof (cases e)
  case (BodyRead n parsed)
  show ?thesis
  proof (cases "calls s n")
    case (Some cl)
    have "typed_scope (body_read c n cl parsed s)"
      using assms BodyRead Some
      by (intro typed_body_read) (auto simp: event_conforms_def pred_option_def split: option.splits)
    with BodyRead Some show ?thesis by simp
  qed (use assms BodyRead in simp)
next
  case Deferred_render
  with assms show ?thesis by (simp add: deferred_render_def)
qed (use assms in \<open>auto split: option.split\<close>)

lemma initial_typed: "typed_scope (initial_admin st)"
  by (simp add: initial_admin_def initial_scope_def scope.defs typed_scope_def maybe_def js_nullish_def
      counts_def interface_def list_of_def)

end
