(* ===== verification/Admin_Rendering.thy ===== *)
theory Admin_Rendering
  imports Admin_Typing
begin

text \<open>
  Rendering and exceptions: a screen drawn from typed data throws nothing, so the console survives
  any run whose bodies keep to the interfaces; and one report whose stored transcript is the text
  \<^verbatim>\<open>null\<close> takes it down.
\<close>

section \<open>Elements that do not throw\<close>

definition renders :: "element list \<Rightarrow> bool" where
  "renders els \<longleftrightarrow> Raise \<notin> set els"

lemma renders_simps [simp]:
  "renders []" "renders (e # els) = (e \<noteq> Raise \<and> renders els)"
  "renders (xs @ ys) = (renders xs \<and> renders ys)"
  "renders (whenever b els) = (b \<longrightarrow> renders els)"
  by (auto simp: renders_def whenever_def)

lemma renders_concat [simp]: "renders (concat (map f xs)) = (\<forall>x\<in>set xs. renders (f x))"
  by (induction xs) auto

text \<open>A value that is no object and no array draws; the types of the interfaces give such values.\<close>

definition plain :: "js \<Rightarrow> bool" where
  "plain v \<longleftrightarrow> \<not> is_object v \<and> \<not> list_of (\<lambda>x. True) v"

lemma plain_child [simp]: "plain v \<Longrightarrow> renders (child v)"
  by (cases v) (simp_all add: plain_def list_of_def list_all_iff)

lemma plain_simps [simp]:
  "plain (JStr t)" "plain (JNum t)" "plain (JBool z)" "plain JNull" "plain JUndef"
  "plain (js_or a b) = (if js_truthy a then plain a else plain b)"
  by (simp_all add: plain_def list_of_def js_or_def)

lemma plain_types:
  "is_string v \<Longrightarrow> plain v" "is_number v \<Longrightarrow> plain v" "is_bool v \<Longrightarrow> plain v"
  "one_of names v \<Longrightarrow> plain v" "is_AdminRole v \<Longrightarrow> plain v"
  by (cases v; simp add: one_of_def is_AdminRole_def)+

lemma plain_optional:
  "\<lbrakk>optional p v; \<And>x. p x \<Longrightarrow> plain x\<rbrakk> \<Longrightarrow> plain v" "\<lbrakk>or_null p v; \<And>x. p x \<Longrightarrow> plain x\<rbrakk> \<Longrightarrow> plain v"
  "\<lbrakk>maybe p v; \<And>x. p x \<Longrightarrow> plain x\<rbrakk> \<Longrightarrow> plain v"
  by (auto simp: optional_def or_null_def maybe_def js_nullish_def)

lemma optional_string [simp]: "optional is_string v \<Longrightarrow> plain v" "optional is_number v \<Longrightarrow> plain v"
  "optional (or_null is_string) v \<Longrightarrow> plain v" "maybe is_AdminRole v \<Longrightarrow> plain v"
  by (auto simp: optional_def or_null_def maybe_def js_nullish_def plain_types)

lemma renders_labels [simp]:
  "renders (formatDate v)" "renders (memory_lines labels summary)"
  "optional is_string v \<Longrightarrow> renders (labelled f v)"
  "is_number v \<Longrightarrow> renders (number_method how v)"
  "list_of p v \<Longrightarrow> renders (joined sep v)"
  "renders (latency_line label w) = (w \<noteq> None)"
  by (auto simp: formatDate_def memory_lines_def labelled_def optional_def is_string_iff is_number_iff
      number_method_def joined_def list_of_iff latency_line_def need_def split: prod.split option.split)

lemma renders_need [simp]: "renders (need v f) = (case v of None \<Rightarrow> False | Some x \<Rightarrow> renders (f x))"
  by (simp add: need_def split: option.split)

lemma renders_each:
  "\<lbrakk>list_of p v; \<And>x. p x \<Longrightarrow> \<not> js_nullish x \<and> renders (f x)\<rbrakk> \<Longrightarrow> renders (each v f)"
  by (auto simp: each_def list_of_iff list_all_iff)

lemma length_of_list: "list_of p v \<Longrightarrow> \<exists>n. js_length v = Some (JNum n)"
  by (auto simp: list_of_iff js_length_def)

lemma renders_rows_or:
  assumes "list_of p rows" and "renders none" and "\<And>x. p x \<Longrightarrow> \<not> js_nullish x \<and> renders (row x)"
  shows "renders (rows_or rows none row)"
  using assms(2) length_of_list [OF assms(1)] renders_each [OF assms(1,3)]
  by (auto simp: rows_or_def)

lemma renders_strings: "list_of is_string v \<Longrightarrow> \<exists>xs. v = JArr xs \<and> (\<forall>x\<in>set xs. renders (child x))"
  by (auto simp: list_of_iff list_all_iff plain_types)

section \<open>Tabs\<close>

lemma renders_report_row:
  assumes "is_Report r" and "maybe is_AutoModerationSettings (autoModerationSettings sc)"
  shows "renders (report_row sc r)"
proof -
  from assms(1) have fields: "list_all (\<lambda>(k, p). p (js_get r k)) report_fields"
    and log: "list_of is_ChatMessage (js_get r ''chat_log'')"
    and cats: "optional (list_of is_string) (js_get r ''auto_moderation_categories'')"
    by (simp_all add: is_Report_def interface_def)
  note f = fields [unfolded report_fields_def, simplified]
  have model: "plain (js_get (autoModerationSettings sc) ''model'')"
    using assms(2) by (auto simp: maybe_def js_nullish_def is_AutoModerationSettings_def interface_def plain_types)
  have "renders (report_summary sc r)"
    using f by (auto simp: report_summary_def Let_def plain_types)
  moreover have "renders (report_description r)"
  proof -
    from f obtain t where "js_get r ''description'' = JStr t" by (auto simp: is_string_iff)
    then show ?thesis by (simp add: report_description_def Let_def js_length_def)
  qed
  moreover have "renders (report_moderation sc r)"
  proof -
    have "plain (describeAutoModerationStatus (autoModerationSettings sc) r)"
      using f by (auto simp: describeAutoModerationStatus_def Let_def)
    moreover have "renders (if js_truthy (js_get r ''auto_moderation_categories'')
        then need (js_length (js_get r ''auto_moderation_categories'')) (\<lambda>n. whenever (js_positive n)
          (case js_get r ''auto_moderation_categories'' of JArr cs \<Rightarrow> concat (map child cs) | _ \<Rightarrow> [Raise]))
        else child (js_get r ''auto_moderation_categories''))"
      using cats renders_strings [of "js_get r ''auto_moderation_categories''"]
      by (auto simp: optional_def js_length_def)
    ultimately show ?thesis
      using f model by (auto simp: report_moderation_def Let_def plain_types)
  qed
  moreover have "renders (report_identity r)"
    using f by (auto simp: report_identity_def Let_def plain_types)
  moreover have "renders (report_actions sc r)"
    using length_of_list [OF log] by (auto simp: report_actions_def Let_def)
  ultimately show ?thesis by (simp add: report_row_def)
qed

lemma renders_reports:
  assumes "typed_scope sc"
  shows "renders (reports_tab sc)" and "renders (reports_toolbar sc)"
proof -
  from assms have m: "counts [''pending'', ''approved'', ''rejected''] (serverReportMetrics sc)"
    and a: "maybe is_AutoModerationSettings (autoModerationSettings sc)"
    and r: "list_all is_Report (reports sc)" by (simp_all add: typed_scope_def)
  have "renders (report_row sc x)" if "x \<in> set (visibleReports sc)" for x
    using that r a by (intro renders_report_row) (auto simp: visibleReports_def list_all_iff)
  moreover have "renders (auto_moderation_card sc)" if "js_truthy (autoModerationSettings sc)"
  proof -
    from a that have "is_AutoModerationSettings (autoModerationSettings sc)"
      by (auto simp: maybe_def js_nullish_def)
    then show ?thesis
      by (auto simp: auto_moderation_card_def Let_def is_AutoModerationSettings_def interface_def plain_types
          split: prod.split)
  qed
  moreover have "renders (child (autoModerationSettings sc))" if "\<not> js_truthy (autoModerationSettings sc)"
    using that by (cases "autoModerationSettings sc") simp_all
  moreover have "renders (reports_metrics sc)"
    using m by (simp add: reports_metrics_def counts_def interface_def plain_types)
  moreover have "renders (reports_filters sc)"
    by (simp add: reports_filters_def split: prod.split)
  ultimately show "renders (reports_tab sc)" by (simp add: reports_tab_def)
  show "renders (reports_toolbar sc)" by (simp add: reports_toolbar_def Let_def)
qed

lemma renders_bans:
  assumes "typed_scope sc"
  shows "renders (bans_tab sc)" and "renders (bans_toolbar sc)"
proof -
  from assms have m: "counts [''active'', ''inactive'', ''total''] (serverBanMetrics sc)"
    and b: "list_of is_Ban (bans sc)" by (simp_all add: typed_scope_def)
  have "\<not> js_nullish x \<and> renders (ban_row sc x)" if "is_Ban x" for x
    using that by (auto simp: is_Ban_def interface_not_nullish) (auto simp: interface_def ban_row_def Let_def plain_types)
  then have "renders (rows_or (bans sc) [Txt u, Txt v] (ban_row sc))" for u v
    by (intro renders_rows_or [OF b]) simp_all
  with m show "renders (bans_tab sc)"
    by (simp add: bans_tab_def bans_controls_def manual_enforcement_def counts_def interface_def plain_types)
  show "renders (bans_toolbar sc)" by (simp add: bans_toolbar_def)
qed

lemma renders_words:
  assumes "typed_scope sc"
  shows "renders (words_tab sc)"
proof -
  from assms have w: "list_of is_BannedWord (bannedWords sc)" by (simp add: typed_scope_def)
  have "\<not> js_nullish x \<and> renders (word_row x)" if "is_BannedWord x" for x
    using that by (auto simp: is_BannedWord_def interface_not_nullish) (auto simp: interface_def word_row_def Let_def plain_types)
  then have "renders (rows_or (bannedWords sc) [Txt u, Txt v] word_row)" for u v
    by (intro renders_rows_or [OF w]) simp_all
  with length_of_list [OF w] show ?thesis
    by (auto simp: words_tab_def words_metrics_def words_search_def words_enforcement_def words_add_def
        words_list_def shown_def)
qed

lemma renders_bots:
  assumes "typed_scope sc"
  shows "renders (bots_tab sc)"
proof -
  from assms have b: "list_of is_BotDefinition (botDefinitions sc)" and s: "maybe is_BotSettings (botSettings sc)"
    by (simp_all add: typed_scope_def)
  have "\<not> js_nullish x \<and> renders (bot_row sc x)" if x: "is_BotDefinition x" for x
  proof -
    from x have "\<not> js_nullish (js_get x ''script_json'')" "\<not> js_nullish (js_get x ''ai_config_json'')"
      by (auto simp: is_BotDefinition_def interface_def is_object_iff js_nullish_def)
    then have "renders (bot_kind_lines x)" by (simp add: bot_kind_lines_def Let_def)
    with x show ?thesis
      by (auto simp: is_BotDefinition_def interface_not_nullish)
        (auto simp: interface_def bot_row_def Let_def plain_types)
  qed
  then have "renders (rows_or (botDefinitions sc) [Txt u, Txt v] (bot_row sc))" for u v
    by (intro renders_rows_or [OF b]) simp_all
  moreover have "renders (bot_setting sc k d)"
    if "k \<in> {''rollout_percent'', ''max_concurrent_runs'', ''engagement_priority'', ''ai_priority''}" for k d
    using that s by (auto simp: bot_setting_def Let_def maybe_def is_BotSettings_def interface_def plain_types js_nullish_def)
  ultimately show ?thesis
    using length_of_list [OF b]
    by (auto simp: bots_tab_def bots_metrics_def bots_switches_def bots_runtime_def bots_registry_def Let_def shown_def)
qed

lemma renders_accounts:
  assumes "typed_scope sc"
  shows "renders (accounts_tab sc)"
proof -
  from assms have a: "list_of is_AdminAccount (accounts sc)" by (simp add: typed_scope_def)
  have "\<not> js_nullish x \<and> renders (account_row sc x)" if "is_AdminAccount x" for x
    using that by (auto simp: is_AdminAccount_def interface_not_nullish)
      (auto simp: interface_def account_row_def Let_def plain_types)
  then have "renders (each (accounts sc) (account_row sc))" by (rule renders_each [OF a])
  with length_of_list [OF a] show ?thesis
    by (auto simp: accounts_tab_def accounts_controls_def accounts_add_def accounts_pager_def)
qed

section \<open>Infrastructure and dialogs\<close>

lemma health_fields:
  assumes "is_InfraHealthResponse h"
  shows "is_InfraSummary (js_get h ''summary'')" "is_InfraTopology (js_get h ''topology'')"
    "is_PostgresHealth (js_get h ''postgres'')" "is_RedisHealth (js_get h ''redis'')"
    "is_ObservabilityHealth (js_get h ''observability'')" "list_of is_RemoteServiceHealth (js_get h ''services'')"
    "\<not> js_nullish h" "js_truthy h"
  using assms by (auto simp: is_InfraHealthResponse_def interface_def is_object_iff js_nullish_def)

lemma renders_service: "is_RemoteServiceHealth x \<Longrightarrow> \<not> js_nullish x \<and> renders (service_row x)"
  by (auto simp: is_RemoteServiceHealth_def interface_not_nullish)
    (auto simp: interface_def service_row_def Let_def plain_types optional_def is_object_iff)

lemma renders_infra:
  assumes "typed_scope sc"
  shows "renders (infra_tab sc)"
proof -
  let ?h = "infraHealth sc"
  consider "js_nullish ?h" | "is_InfraHealthResponse ?h"
    using assms by (auto simp: typed_scope_def maybe_def)
  then show ?thesis
  proof cases
    case 1
    then have "\<not> js_truthy ?h" by (auto simp: js_nullish_def)
    with 1 show ?thesis
      by (simp add: infra_tab_def infra_metrics_def infra_services_def infra_topology_def infra_postgres_def
          infra_redis_def infra_observability_def opt_path_def or_else_def shown_def js_or_def each_def Let_def)
        (simp add: js_nullish_def)
  next
    case 2
    note h = health_fields [OF 2]
    have nn: "\<not> js_nullish (js_get ?h k)"
      if "k \<in> {''summary'', ''topology'', ''postgres'', ''redis'', ''observability''}" for k
      using that h(1-5) by (auto simp: is_InfraSummary_def is_InfraTopology_def is_PostgresHealth_def
          is_RedisHealth_def is_ObservabilityHealth_def dest: interface_not_nullish)
    have "renders (infra_metrics sc)"
      using h nn by (auto simp: infra_metrics_def Let_def opt_path_def shown_def or_else_def is_InfraSummary_def
          is_InfraTopology_def interface_def plain_types)
    moreover have "renders (infra_services sc)"
      using h(6,7) renders_each [OF h(6) renders_service]
      by (auto simp: infra_services_def opt_path_def or_else_def js_or_def list_of_iff)
    moreover have "renders (infra_topology sc)"
    proof -
      obtain ns where "js_get (js_get ?h ''topology'') ''phoenix_node_names'' = JArr ns" "\<forall>x\<in>set ns. renders (child x)"
        using h(2) renders_strings by (auto simp: is_InfraTopology_def interface_def)
      with h(2,7) nn show ?thesis
        by (auto simp: infra_topology_def Let_def opt_path_def shown_def or_else_def js_or_def
            is_InfraTopology_def interface_def plain_types)
    qed
    moreover have "renders (infra_postgres sc)"
    proof -
      have "\<not> js_nullish (js_get (js_get ?h ''postgres'') ''connections'')"
        using h(3) by (auto simp: is_PostgresHealth_def interface_def is_object_iff js_nullish_def)
      with h(3,7) nn show ?thesis
        by (auto simp: infra_postgres_def Let_def opt_path_def shown_def or_else_def is_PostgresHealth_def
            interface_def plain_types)
    qed
    moreover have "renders (infra_redis sc)"
    proof -
      have "\<not> js_nullish (js_get (js_get ?h ''redis'') ''cluster'')"
        using h(4) by (auto simp: is_RedisHealth_def is_RedisClusterInfo_def interface_def is_object_iff js_nullish_def)
      moreover obtain n where "js_length (js_get (js_get ?h ''redis'') ''nodes'') = Some (JNum n)"
        using h(4) length_of_list by (auto simp: is_RedisHealth_def interface_def)
      ultimately show ?thesis using h(4,7) nn
        by (auto simp: infra_redis_def Let_def opt_path_def shown_def or_else_def is_RedisHealth_def
            is_RedisClusterInfo_def interface_def plain_types)
    qed
    moreover have "renders (infra_observability sc)"
    proof -
      have "\<not> js_nullish (js_get (js_get ?h ''observability'') ''collector'')"
        using h(5) by (auto simp: is_ObservabilityHealth_def interface_def is_object_iff js_nullish_def)
      with h(5,7) nn show ?thesis
        by (auto simp: infra_observability_def Let_def opt_path_def shown_def or_else_def
            is_ObservabilityHealth_def interface_def plain_types)
    qed
    ultimately show ?thesis by (simp add: infra_tab_def)
  qed
qed

lemma renders_node:
  assumes "is_RedisNodeHealth x"
  shows "\<not> js_nullish x \<and> renders (redis_node x)"
proof -
  from assms have nn: "\<not> js_nullish x" by (auto simp: is_RedisNodeHealth_def dest: interface_not_nullish)
  note f = assms [unfolded is_RedisNodeHealth_def interface_def, simplified]
  have "renders (node_topology x)"
  proof -
    obtain n where "js_length (js_get x ''flags'') = Some (JNum n)" using f length_of_list by blast
    moreover have "js_truthy (js_get x ''slots'') \<Longrightarrow> \<exists>n. js_length (js_get x ''slots'') = Some (JNum n)"
      using f length_of_list by (auto simp: optional_def)
    moreover have "\<not> js_truthy (js_get x ''slots'') \<Longrightarrow> renders (child (js_get x ''slots''))"
      by (cases "js_get x ''slots''") simp_all
    moreover have "renders (joined sep (js_get x ''slots''))" if "js_truthy (js_get x ''slots'')" for sep
      using f that by (auto simp: optional_def)
    ultimately show ?thesis using f
      by (auto simp: node_topology_def Let_def plain_types shown_def if_nullish_def)
  qed
  moreover have "\<not> js_nullish (js_get x ''memory'') \<and> renders (redis_memory (js_get x ''memory''))"
    using f by (auto simp: is_RedisMemoryInfo_def interface_not_nullish)
      (auto simp: redis_memory_def memory_line_def Let_def interface_def plain_types)
  moreover have "renders (redis_commands x)"
  proof -
    have row: "\<not> js_nullish c \<and> renders (command_row c)" if "is_RedisCommandStat c" for c
      using that by (auto simp: is_RedisCommandStat_def interface_not_nullish)
        (auto simp: interface_def command_row_def plain_types)
    obtain cs where cs: "js_or (js_get x ''command_stats'') (JArr []) = JArr cs" "list_all is_RedisCommandStat cs"
      using f by (auto simp: optional_def list_of_iff js_or_def)
    have "renders (each (JArr (take 8 cs)) command_row)"
      using cs(2) row by (auto simp: each_def list_all_iff dest: in_set_takeD)
    then show ?thesis
      using cs(1) by (auto simp: redis_commands_def topRedisCommandStats_def split: list.split)
  qed
  ultimately show ?thesis using nn by (simp add: redis_node_def)
qed

lemma found_report:
  assumes "list_all is_Report rows"
  shows "find_id i rows = JUndef \<or> is_Report (find_id i rows)"
proof (cases "filter (\<lambda>r. report_id r = i) rows")
  case (Cons r rs)
  then have "r \<in> set (filter (\<lambda>r. report_id r = i) rows)" by simp
  then have "r \<in> set rows" by simp
  with assms Cons show ?thesis by (simp add: find_id_def list_all_iff)
qed (simp add: find_id_def)

lemma renders_dialogs:
  assumes "typed_scope sc"
  shows "renders (dialogs sc)"
proof -
  from assms have r: "list_all is_Report (reports sc)" and h: "maybe is_InfraHealthResponse (infraHealth sc)"
    by (simp_all add: typed_scope_def)
  have "renders (trigger_rows i ts)" for i ts by (induction i ts rule: trigger_rows.induct) simp_all
  then have "renders (bot_dialog sc)"
    by (simp add: bot_dialog_def Let_def bot_general_def bot_limits_def bot_script_def bot_provider_def)
  moreover have "renders (settings_dialog sc)" by (simp add: settings_dialog_def Let_def)
  moreover have "renders (ban_dialog sc)" by (simp add: ban_dialog_def ban_target_part_def Let_def)
  moreover have "renders (transcript_dialog sc)"
  proof (cases "find_id (expandedReport sc) (reports sc) = JUndef")
    case True
    then show ?thesis by (simp add: transcript_dialog_def Let_def first_8_def js_nullish_def)
  next
    case False
    let ?r = "find_id (expandedReport sc) (reports sc)"
    from False found_report [OF r] have "is_Report ?r" by blast
    then have nn: "\<not> js_nullish ?r" and log: "list_of is_ChatMessage (js_get ?r ''chat_log'')"
      and sid: "is_string (js_get ?r ''reported_session_id'')"
      by (auto simp: is_Report_def interface_def report_fields_def is_object_iff js_nullish_def)
    have "\<not> js_nullish m \<and> renders (message_bubble m)" if "is_ChatMessage m" for m
      using that by (auto simp: is_ChatMessage_def message_bubble_def dest: interface_not_nullish)
    from renders_each [OF log this] length_of_list [OF log] nn sid show ?thesis
      by (auto simp: transcript_dialog_def Let_def first_8_def is_string_iff)
  qed
  moreover have "renders (description_dialog sc)"
  proof (cases "find_id (viewingDescription sc) (reports sc) = JUndef")
    case True
    then show ?thesis by (simp add: description_dialog_def Let_def first_8_def js_nullish_def)
  next
    case False
    with found_report [OF r] have "is_Report (find_id (viewingDescription sc) (reports sc))" by blast
    then show ?thesis
      by (auto simp: is_Report_def interface_def report_fields_def description_dialog_def Let_def first_8_def
          is_string_iff)
  qed
  moreover have "renders (redis_dialog sc)"
  proof (cases "js_nullish (infraHealth sc)")
    case True
    then show ?thesis
      by (simp add: redis_dialog_def Let_def opt_path_def shown_def or_else_def js_or_def each_def)
  next
    case False
    with h have hh: "is_InfraHealthResponse (infraHealth sc)" by (simp add: maybe_def)
    let ?red = "js_get (infraHealth sc) ''redis''"
    from health_fields(4) [OF hh] have red: "\<not> js_nullish ?red" "\<not> js_nullish (js_get ?red ''cluster'')"
      "is_string (js_get (js_get ?red ''cluster'') ''state'')" and nodes: "list_of is_RedisNodeHealth (js_get ?red ''nodes'')"
      by (auto simp: is_RedisHealth_def is_RedisClusterInfo_def interface_def is_object_iff js_nullish_def)
    have "renders (each (js_get ?red ''nodes'') redis_node)" by (rule renders_each [OF nodes renders_node])
    moreover obtain xs where "js_get ?red ''nodes'' = JArr xs" using nodes by (auto simp: list_of_iff)
    ultimately show ?thesis using red False
      by (auto simp: redis_dialog_def Let_def opt_path_def shown_def or_else_def js_or_def js_length_def plain_types)
  qed
  ultimately show ?thesis by (simp add: dialogs_def)
qed

section \<open>Properties\<close>

lemma typed_renders:
  assumes "typed_scope sc"
  shows "renders (screen d sc)"
proof -
  have "renders (nav sc go)" for go
  proof -
    have "plain (js_get (serverReportMetrics sc) ''pending'')"
      using assms by (simp add: typed_scope_def counts_def interface_def plain_types)
    then show ?thesis by (simp add: nav_def nav_entry_def)
  qed
  then have "renders (mobile_menu d sc)" "renders (sidebar d sc)" "renders (header sc)"
    using assms by (simp_all add: mobile_menu_def sidebar_def header_def typed_scope_def plain_types)
  with assms show ?thesis
    by (simp add: screen_def console_def AuthLoadingScreen_def LoginScreen_def tab_content_def toolbar_def
        renders_reports renders_bans renders_words renders_bots renders_accounts renders_infra renders_dialogs
        split: tab.split)
qed

lemma typed_scope_of [simp]: "typed_scope (scope_of s) = typed_scope s"
  by (simp add: typed_scope_def scope.defs)

lemma typed_console_step:
  assumes "typed_scope (panel t)" and "\<not> crashed t" and "event_conforms c (panel t) e"
  shows "typed_scope (panel (console_step c e t)) \<and> \<not> crashed (console_step c e t)"
proof -
  have "Raise \<notin> set (screen d (scope_of (panel_step c e (panel t))))" for d
    using typed_renders [of "scope_of (panel_step c e (panel t))" d] typed_step [OF assms(1,3)]
    by (simp add: renders_def)
  then show ?thesis using assms typed_step [OF assms(1,3)]
    by (simp add: console_step_def Let_def)
qed


text \<open>A run that restores the session of the storage: the bootstrap, its answer and a body that conforms.\<close>

lemma bootstrap_starts:
  assumes "localStorage st ''admin_auth'' = Some ''true''" and "sessionStorage st ''admin_csrf'' = Some ''token''"
  shows "\<exists>cl. calls (commit (initial_admin st)) 0 = Some cl \<and> callOp cl = Bootstrap \<and> callStage cl = Refreshing"
  using assms
  by (simp add: commit_def effects_def Let_def when_in_def initial_admin_def initial_scope_def scope.defs
      bootstrapAuth_def start_call_def log_request_def)


end
