(* ===== verification/Admin_Access.thy ===== *)
theory Admin_Access
  imports Admin_Rendering
begin

text \<open>
  Who is offered what: every control the screen draws is one the role may use, as long as no dialog
  is open, and what a moderator sees does not depend on data that is not for moderators.
\<close>

section \<open>Permissions\<close>

definition field_permitted :: "input_field \<Rightarrow> js \<Rightarrow> bool" where
  "field_permitted f r =
     (case f of
        BannedWordInput \<Rightarrow> canManageBannedWords r
      | BannedWordSearch \<Rightarrow> canManageBannedWords r
      | BannedWordLimit \<Rightarrow> canManageBannedWords r
      | ManualBanSessionId \<Rightarrow> canCreateBans r
      | ManualBanIP \<Rightarrow> canCreateBans r
      | ManualBanReason \<Rightarrow> canCreateBans r
      | In_ban k \<Rightarrow> canCreateBans r
      | AccountUsername \<Rightarrow> canManageAccounts r
      | AccountPassword \<Rightarrow> canManageAccounts r
      | AccountRole \<Rightarrow> canManageAccounts r
      | AccountSearch \<Rightarrow> canManageAccounts r
      | AccountLimit \<Rightarrow> canManageAccounts r
      | In_draft k \<Rightarrow> canManageBots r
      | In_bot k \<Rightarrow> canManageBots r
      | _ \<Rightarrow> True)"

definition permitted :: "action \<Rightarrow> js \<Rightarrow> bool" where
  "permitted a r =
     (case a of
        Input f v \<Rightarrow> field_permitted f r
      | Refresh_moderation \<Rightarrow> canManageAutoModeration r
      | Set_moderation b \<Rightarrow> canManageAutoModeration r
      | Seed_reports \<Rightarrow> canManageAutoModeration r
      | Open_ban sid ip i reason \<Rightarrow> canCreateBans r
      | Apply_manual_ban \<Rightarrow> canCreateBans r
      | Cancel_ban \<Rightarrow> canCreateBans r
      | Submit_ban later \<Rightarrow> canCreateBans r
      | Unban_click i \<Rightarrow> canManageBans r
      | Refresh_words \<Rightarrow> canManageBannedWords r
      | Add_word \<Rightarrow> canManageBannedWords r
      | Delete_word i \<Rightarrow> canManageBannedWords r
      | Set_words b \<Rightarrow> canManageBannedWords r
      | Refresh_accounts \<Rightarrow> canManageAccounts r
      | Show_account_password \<Rightarrow> canManageAccounts r
      | Add_account \<Rightarrow> canManageAccounts r
      | Delete_account u ok \<Rightarrow> canManageAccounts r
      | Previous_page \<Rightarrow> canManageAccounts r
      | Next_page \<Rightarrow> canManageAccounts r
      | Refresh_infra \<Rightarrow> canViewInfraHealth r
      | Open_redis b \<Rightarrow> canViewInfraHealth r
      | Refresh_bots \<Rightarrow> canViewBots r
      | Set_bot_flag k b \<Rightarrow> canManageBots r
      | Open_settings \<Rightarrow> canManageBots r
      | Close_settings \<Rightarrow> canManageBots r
      | Save_settings \<Rightarrow> canManageBots r
      | New_bot \<Rightarrow> canManageBots r
      | Edit_bot row \<Rightarrow> canManageBots r
      | Close_bot \<Rightarrow> canManageBots r
      | Toggle_text_matching \<Rightarrow> canManageBots r
      | Toggle_video_matching \<Rightarrow> canManageBots r
      | Add_trigger \<Rightarrow> canManageBots r
      | Remove_trigger i \<Rightarrow> canManageBots r
      | Save_bot \<Rightarrow> canManageBots r
      | Toggle_bot i b \<Rightarrow> canManageBots r
      | Delete_bot i ok \<Rightarrow> canManageBots r
      | _ \<Rightarrow> True)"

text \<open>An element is safe for a role when what it offers is permitted.\<close>

fun safe :: "js \<Rightarrow> element \<Rightarrow> bool" where
  "safe r (Btn label disabled a) = (disabled \<or> permitted a r)"
| "safe r (Chk checked a) = permitted a r"
| "safe r (Fld f v options disabled) = (disabled \<or> field_permitted f r)"
| "safe r e = True"

lemma permitted_click: "permitted (click_of a) r = permitted a r"
  by (cases a) (simp_all add: permitted_def)

lemma offers_safe:
  assumes "offers a e" and "safe r e"
  shows "permitted a r"
  using assms
proof (cases e)
  case (Btn label disabled b)
  with assms show ?thesis using permitted_click [of a r] by auto
next
  case (Fld f v options disabled)
  with assms show ?thesis by (cases a) (auto simp: permitted_def)
qed (use assms in simp_all)

section \<open>Elements without controls\<close>

lemma child_safe [simp]: "list_all (safe r) (child v)"
  by (induction v rule: child.induct) (auto simp: list_all_iff)

lemma need_safe [simp]: "(\<And>x. v = Some x \<Longrightarrow> list_all P (f x)) \<Longrightarrow> P Raise \<Longrightarrow> list_all P (need v f)"
  by (cases v) (simp_all add: need_def)

lemma shown_safe [simp]: "list_all (safe r) (shown v)"
  by (simp add: shown_def)

lemma each_all: "(\<And>x. list_all P (f x)) \<Longrightarrow> P Raise \<Longrightarrow> list_all P (each rows f)"
  by (cases rows) (auto simp: each_def list_all_iff)

lemma concat_all: "(\<And>x. x \<in> set xs \<Longrightarrow> list_all P (f x)) \<Longrightarrow> list_all P (concat (map f xs))"
  by (induction xs) simp_all

lemma whenever_all [simp]: "list_all P (whenever b els) = (b \<longrightarrow> list_all P els)"
  by (simp add: whenever_def)

lemma label_safe [simp]:
  "list_all (safe r) (formatDate v)" "list_all (safe r) (labelled g v)" "list_all (safe r) (joined sep v)"
  "list_all (safe r) (number_method how v)" "list_all (safe r) (latency_line label w)"
  "list_all (safe r) (memory_lines labels summary)" "list_all (safe r) (first_8 row k)"
  by (cases v; simp add: formatDate_def labelled_def joined_def number_method_def)+
    (simp_all add: latency_line_def memory_lines_def first_8_def split: prod.split option.split js.split)

lemma rows_or_all:
  "\<lbrakk>list_all P none; \<And>x. list_all P (row x); P Raise\<rbrakk> \<Longrightarrow> list_all P (rows_or rows none row)"
  by (auto simp: rows_or_def intro!: need_safe each_all)

section \<open>Tabs\<close>

lemma permitted_simps [simp]:
  "permitted (Input f v) r = field_permitted f r"
  "permitted Refresh_reports r" "permitted (Single_action i st) r" "permitted Toggle_all r"
  "permitted (Check_report i b) r" "permitted (Bulk st) r" "permitted (Expand_report i) r"
  "permitted (View_description i) r" "permitted Refresh_bans r" "permitted (Select_tab t) r"
  "permitted (Choose_mobile t) r" "permitted (Open_mobile_menu b) r" "permitted Toggle_user_menu r"
  "permitted Toggle_theme r" "permitted Click_logout r" "permitted Submit_login r"
  "permitted Show_login_password r"
  "field_permitted Username r" "field_permitted Password r" "field_permitted ReportStatusFilter r"
  "field_permitted ReportReviewSourceFilter r" "field_permitted ReportLimit r" "field_permitted BanFilter r"
  "field_permitted BanLimit r" "field_permitted BanSearch r"
  by (simp_all add: permitted_def field_permitted_def)

lemma report_row_safe: "list_all (safe (role sc)) (report_row sc x)"
proof -
  have "list_all (safe (role sc)) (report_summary sc x)"
    by (simp add: report_summary_def Let_def)
  moreover have "list_all (safe (role sc)) (report_description x)"
    by (auto simp: report_description_def Let_def intro!: need_safe)
  moreover have "list_all (safe (role sc)) (report_moderation sc x)"
    by (auto simp: report_moderation_def Let_def intro!: need_safe concat_all split: js.split)
  moreover have "list_all (safe (role sc)) (report_identity x)"
    by (simp add: report_identity_def Let_def)
  moreover have "list_all (safe (role sc)) (report_actions sc x)"
    by (auto simp: report_actions_def Let_def permitted_def intro!: need_safe)
  ultimately show ?thesis by (simp add: report_row_def)
qed

lemma reports_tab_safe: "list_all (safe (role sc)) (reports_tab sc @ reports_toolbar sc)"
proof -
  have "list_all (safe (role sc)) (auto_moderation_card sc)" if "canManageAutoModeration (role sc)"
    using that by (simp add: auto_moderation_card_def Let_def permitted_def split: prod.split)
  then show ?thesis
    by (auto simp: reports_tab_def reports_metrics_def reports_filters_def reports_toolbar_def Let_def
        report_row_safe intro!: concat_all split: prod.split)
qed

lemma bans_tab_safe: "list_all (safe (role sc)) (bans_tab sc @ bans_toolbar sc)"
proof -
  have "list_all (safe (role sc)) (ban_row sc b)" for b
    by (simp add: ban_row_def Let_def permitted_def)
  then show ?thesis
    by (auto simp: bans_tab_def bans_controls_def manual_enforcement_def bans_toolbar_def permitted_def
        field_permitted_def intro!: rows_or_all)
qed

lemma words_tab_safe: "canManageBannedWords (role sc) \<Longrightarrow> list_all (safe (role sc)) (words_tab sc)"
  by (auto simp: words_tab_def words_metrics_def words_search_def words_enforcement_def words_add_def
      words_list_def word_row_def Let_def permitted_def field_permitted_def intro!: rows_or_all)

lemma bots_tab_safe: "canViewBots (role sc) \<Longrightarrow> list_all (safe (role sc)) (bots_tab sc)"
proof -
  assume view: "canViewBots (role sc)"
  have "list_all (safe (role sc)) (bot_row sc b)" for b
    by (simp add: bot_row_def bot_kind_lines_def Let_def permitted_def)
  moreover have "list_all (safe (role sc)) (bot_setting sc k d)" for k d
    by (simp add: bot_setting_def)
  ultimately show ?thesis using view
    by (auto simp: bots_tab_def bots_metrics_def bots_switches_def bots_runtime_def bots_registry_def Let_def
        permitted_def intro!: rows_or_all need_safe)
qed

lemma accounts_tab_safe: "canManageAccounts (role sc) \<Longrightarrow> list_all (safe (role sc)) (accounts_tab sc)"
  by (auto simp: accounts_tab_def accounts_controls_def accounts_add_def account_row_def accounts_pager_def
      Let_def permitted_def field_permitted_def intro!: need_safe each_all)

lemma infra_tab_safe: "canViewInfraHealth (role sc) \<Longrightarrow> list_all (safe (role sc)) (infra_tab sc)"
proof -
  assume view: "canViewInfraHealth (role sc)"
  have row: "list_all (safe (role sc)) (service_row x)" for x by (simp add: service_row_def Let_def)
  have "list_all (safe (role sc)) (infra_metrics sc)"
    by (auto simp: infra_metrics_def Let_def intro!: need_safe)
  moreover have "list_all (safe (role sc)) (infra_services sc)"
    using view by (auto simp: infra_services_def permitted_def row intro!: need_safe each_all)
  moreover have "list_all (safe (role sc)) (infra_topology sc)"
    by (auto simp: infra_topology_def Let_def intro!: need_safe concat_all split: js.split)
  moreover have "list_all (safe (role sc)) (infra_postgres sc)"
    by (simp add: infra_postgres_def Let_def)
  moreover have "list_all (safe (role sc)) (infra_redis sc)"
    using view by (auto simp: infra_redis_def Let_def permitted_def intro!: need_safe)
  moreover have "list_all (safe (role sc)) (infra_observability sc)"
    by (auto simp: infra_observability_def Let_def intro!: need_safe)
  ultimately show ?thesis by (simp add: infra_tab_def)
qed

lemma nav_safe:
  assumes "\<And>t. permitted (go t) r"
  shows "list_all (safe r) (nav sc go)"
  using assms by (auto simp: nav_def nav_entry_def intro!: concat_all)

section \<open>Properties\<close>

text \<open>The dialogs that act, and the ones that only show.\<close>

definition no_dialog :: "scope \<Rightarrow> bool" where
  "no_dialog sc \<longleftrightarrow>
     \<not> isBotSettingsModalOpen sc \<and> \<not> isBotModalOpen sc \<and> \<not> modalOpen (banModal sc) \<and> \<not> isRedisModalOpen sc"

lemma console_safe:
  assumes "no_dialog sc"
  shows "list_all (safe (role sc)) (console d sc)"
proof -
  have "list_all (safe (role sc)) (tab_content sc @ toolbar sc)"
    using reports_tab_safe [of sc] bans_tab_safe [of sc] words_tab_safe [of sc] bots_tab_safe [of sc]
      accounts_tab_safe [of sc] infra_tab_safe [of sc]
    by (cases "currentTab sc") (simp_all add: tab_content_def toolbar_def)
  moreover have "list_all (safe (role sc)) (dialogs sc)"
  proof -
    have "list_all (safe (role sc)) (transcript_dialog sc)"
      by (auto simp: transcript_dialog_def Let_def message_bubble_def intro!: need_safe each_all)
    moreover have "list_all (safe (role sc)) (description_dialog sc)"
      by (simp add: description_dialog_def Let_def)
    ultimately show ?thesis using assms by (simp add: dialogs_def no_dialog_def)
  qed
  moreover have "list_all (safe (role sc)) (mobile_menu d sc @ sidebar d sc @ header sc)"
    by (simp add: mobile_menu_def sidebar_def header_def nav_safe)
  ultimately show ?thesis by (simp add: console_def)
qed

text \<open>
  C11: no control goes beyond the role: while none of the acting dialogs is open, whatever the state,
  each action the screen offers is one that the role of the user permits.
\<close>

theorem offered_is_permitted:
  assumes "no_dialog sc" and "offered (screen d sc) a"
  shows "permitted a (role sc)"
proof -
  have "list_all (safe (role sc)) (screen d sc)"
    using console_safe [OF assms(1)] by (simp add: screen_def AuthLoadingScreen_def LoginScreen_def)
  moreover from assms(2) obtain e where "e \<in> set (screen d sc)" "offers a e"
    by (auto simp: offered_def list_ex_iff)
  ultimately show ?thesis by (auto simp: list_all_iff intro: offers_safe)
qed

theorem offered_is_permitted_witness:
  "permitted Apply_manual_ban (role (initial_scope\<lparr>authReady := True, isAuthenticated := True,
     role := JStr ''moderator'', currentTab := Bans_tab\<rparr>))"
proof (rule offered_is_permitted [where d = False])
  let ?sc = "initial_scope\<lparr>authReady := True, isAuthenticated := True, role := JStr ''moderator'', currentTab := Bans_tab\<rparr>"
  show "no_dialog ?sc" by (simp add: no_dialog_def initial_scope_def closed_ban_modal_def)
  have "button ''Apply Ban'' Apply_manual_ban \<in> set (bans_tab ?sc)"
    by (simp add: bans_tab_def manual_enforcement_def whenever_def canCreateBans_def has_role_def)
  then have "list_ex (offers Apply_manual_ban) (screen False ?sc)"
    by (force simp: screen_def console_def tab_content_def initial_scope_def list_ex_iff)
  moreover have "typed_scope ?sc"
    by (simp add: typed_scope_def initial_scope_def maybe_def is_AdminRole_def one_of_def counts_def
        interface_def list_of_def js_nullish_def)
  then have "Raise \<notin> set (screen False ?sc)"
    using typed_renders [of ?sc False] by (simp add: renders_def)
  ultimately show "offered (screen False ?sc) Apply_manual_ban" by (simp add: offered_def)
qed

end
