(* ===== verification/Admin_Privacy.thy ===== *)
theory Admin_Privacy
  imports Admin_Access
begin

text \<open>
  What a moderator's screen depends on. The state of the panel may hold data that is not for
  moderators: what an administrator loaded before, or what a wider role loaded before it was narrowed.
  None of it reaches the screen, as long as the dialogs that show it are closed.
\<close>

section \<open>Bots without their secrets\<close>

text \<open>The configuration of a bot without its token and its prompt.\<close>

definition drop_secrets :: "js \<Rightarrow> js" where
  "drop_secrets config =
     (case config of
        JObj fs \<Rightarrow> JObj (filter (\<lambda>(k, v). k \<noteq> ''api_token'' \<and> k \<noteq> ''system_prompt'') fs)
      | _ \<Rightarrow> config)"

definition redact :: "js \<Rightarrow> js" where
  "redact row =
     (case row of
        JObj fs \<Rightarrow> JObj (map (\<lambda>(k, v). (k, if k = ''ai_config_json'' then drop_secrets v else v)) fs)
      | _ \<Rightarrow> row)"

definition redact_all :: "js \<Rightarrow> js" where
  "redact_all rows = (case rows of JArr bots \<Rightarrow> JArr (map redact bots) | _ \<Rightarrow> rows)"

lemma get_drop_secrets:
  "k \<noteq> ''api_token'' \<Longrightarrow> k \<noteq> ''system_prompt'' \<Longrightarrow> js_get (drop_secrets v) k = js_get v k"
proof (cases v)
  case (JObj fs)
  assume "k \<noteq> ''api_token''" "k \<noteq> ''system_prompt''"
  then have "map_of (filter (\<lambda>(k, v). k \<noteq> ''api_token'' \<and> k \<noteq> ''system_prompt'') fs) k = map_of fs k"
    by (induction fs) auto
  with JObj show ?thesis by (simp add: drop_secrets_def)
qed (simp_all add: drop_secrets_def)

lemma nullish_drop_secrets [simp]: "js_nullish (drop_secrets v) = js_nullish v"
  by (cases v) (simp_all add: drop_secrets_def js_nullish_def)

lemma drop_secrets_JUndef [simp]: "drop_secrets JUndef = JUndef"
  by (simp add: drop_secrets_def)

lemma get_redact:
  "js_get (redact b) k = (if k = ''ai_config_json'' then drop_secrets (js_get b k) else js_get b k)"
proof (cases b)
  case (JObj fs)
  have "map_of (map (\<lambda>(k, v). (k, if k = ''ai_config_json'' then drop_secrets v else v)) fs) k =
      (if k = ''ai_config_json'' then map_option drop_secrets (map_of fs k) else map_of fs k)"
    by (induction fs) auto
  with JObj show ?thesis by (cases "map_of fs k"; cases "k = ''ai_config_json''") (simp_all add: redact_def)
qed (simp_all add: redact_def)

lemma nullish_redact [simp]: "js_nullish (redact b) = js_nullish b"
  by (cases b) (simp_all add: redact_def js_nullish_def)

lemma length_redact [simp]: "js_length (redact_all v) = js_length v"
  by (cases v) (simp_all add: redact_all_def js_length_def)

lemma kind_lines_redact [simp]: "bot_kind_lines (redact b) = bot_kind_lines b"
  by (simp add: bot_kind_lines_def get_redact string_field_def get_drop_secrets Let_def)

lemma bot_row_redact:
  "\<not> canManageBots (role sc) \<Longrightarrow> bot_row sc (redact b) = bot_row sc b"
  by (simp add: bot_row_def get_redact Let_def whenever_def)

lemma each_redact:
  assumes "\<And>b. f (redact b) = f b"
  shows "each (redact_all rows) f = each rows f"
proof (cases rows)
  case (JArr bots)
  then show ?thesis by (simp add: redact_all_def each_def o_def assms cong: if_cong)
qed (simp_all add: redact_all_def)

section \<open>Independence\<close>

text \<open>The state with everything replaced that is not for moderators.\<close>

definition without_privileged :: "js \<Rightarrow> js \<Rightarrow> nat \<Rightarrow> bot_form \<Rightarrow> bot_draft \<Rightarrow> scope \<Rightarrow> scope" where
  "without_privileged health people count form draft sc =
     sc\<lparr>infraHealth := health, accounts := people, accountTotal := count, botForm := form,
        botSettingsDraft := draft, botDefinitions := redact_all (botDefinitions sc)\<rparr>"

lemma without_privileged_fields [simp]:
  "isAuthenticated (without_privileged h a n f d sc) = isAuthenticated sc"
  "authReady (without_privileged h a n f d sc) = authReady sc"
  "role (without_privileged h a n f d sc) = role sc"
  "currentAdminUsername (without_privileged h a n f d sc) = currentAdminUsername sc"
  "username (without_privileged h a n f d sc) = username sc"
  "password (without_privileged h a n f d sc) = password sc"
  "reports (without_privileged h a n f d sc) = reports sc"
  "serverReportMetrics (without_privileged h a n f d sc) = serverReportMetrics sc"
  "selectedReports (without_privileged h a n f d sc) = selectedReports sc"
  "reportStatusFilter (without_privileged h a n f d sc) = reportStatusFilter sc"
  "reportReviewSourceFilter (without_privileged h a n f d sc) = reportReviewSourceFilter sc"
  "reportLimit (without_privileged h a n f d sc) = reportLimit sc"
  "bans (without_privileged h a n f d sc) = bans sc"
  "serverBanMetrics (without_privileged h a n f d sc) = serverBanMetrics sc"
  "banFilter (without_privileged h a n f d sc) = banFilter sc"
  "banLimit (without_privileged h a n f d sc) = banLimit sc"
  "banSearch (without_privileged h a n f d sc) = banSearch sc"
  "deferredBanSearch (without_privileged h a n f d sc) = deferredBanSearch sc"
  "manualBanSessionId (without_privileged h a n f d sc) = manualBanSessionId sc"
  "manualBanIP (without_privileged h a n f d sc) = manualBanIP sc"
  "manualBanReason (without_privileged h a n f d sc) = manualBanReason sc"
  "banModal (without_privileged h a n f d sc) = banModal sc"
  "submittingBan (without_privileged h a n f d sc) = submittingBan sc"
  "bannedWords (without_privileged h a n f d sc) = bannedWords sc"
  "bannedWordTotal (without_privileged h a n f d sc) = bannedWordTotal sc"
  "bannedWordsEnabled (without_privileged h a n f d sc) = bannedWordsEnabled sc"
  "updatingBannedWordsEnabled (without_privileged h a n f d sc) = updatingBannedWordsEnabled sc"
  "bannedWordInput (without_privileged h a n f d sc) = bannedWordInput sc"
  "bannedWordSearch (without_privileged h a n f d sc) = bannedWordSearch sc"
  "deferredBannedWordSearch (without_privileged h a n f d sc) = deferredBannedWordSearch sc"
  "bannedWordLimit (without_privileged h a n f d sc) = bannedWordLimit sc"
  "autoModerationSettings (without_privileged h a n f d sc) = autoModerationSettings sc"
  "updatingAutoModerationEnabled (without_privileged h a n f d sc) = updatingAutoModerationEnabled sc"
  "isSeedingReports (without_privileged h a n f d sc) = isSeedingReports sc"
  "botSettings (without_privileged h a n f d sc) = botSettings sc"
  "isBotSettingsModalOpen (without_privileged h a n f d sc) = isBotSettingsModalOpen sc"
  "isBotModalOpen (without_privileged h a n f d sc) = isBotModalOpen sc"
  "accountUsername (without_privileged h a n f d sc) = accountUsername sc"
  "accountPassword (without_privileged h a n f d sc) = accountPassword sc"
  "accountRole (without_privileged h a n f d sc) = accountRole sc"
  "accountSearch (without_privileged h a n f d sc) = accountSearch sc"
  "deferredAccountSearch (without_privileged h a n f d sc) = deferredAccountSearch sc"
  "accountLimit (without_privileged h a n f d sc) = accountLimit sc"
  "accountPage (without_privileged h a n f d sc) = accountPage sc"
  "submittingAccount (without_privileged h a n f d sc) = submittingAccount sc"
  "isRedisModalOpen (without_privileged h a n f d sc) = isRedisModalOpen sc"
  "currentTab (without_privileged h a n f d sc) = currentTab sc"
  "expandedReport (without_privileged h a n f d sc) = expandedReport sc"
  "viewingDescription (without_privileged h a n f d sc) = viewingDescription sc"
  "isUserMenuOpen (without_privileged h a n f d sc) = isUserMenuOpen sc"
  "isMobileMenuOpen (without_privileged h a n f d sc) = isMobileMenuOpen sc"
  "showLoginPassword (without_privileged h a n f d sc) = showLoginPassword sc"
  "showCreateAccountPassword (without_privileged h a n f d sc) = showCreateAccountPassword sc"
  "botDefinitions (without_privileged h a n f d sc) = redact_all (botDefinitions sc)"
  by (simp_all add: without_privileged_def)

lemma same_lists [simp]:
  "visibleReports (without_privileged h a n f d sc) = visibleReports sc"
  "selectableVisibleReports (without_privileged h a n f d sc) = selectableVisibleReports sc"
  "selectedPendingReportIds (without_privileged h a n f d sc) = selectedPendingReportIds sc"
  "allVisibleReportsSelected (without_privileged h a n f d sc) = allVisibleReportsSelected sc"
  "review_counts (without_privileged h a n f d sc) = review_counts sc"
  by (simp_all add: visibleReports_def selectableVisibleReports_def selectedPendingReportIds_def
      allVisibleReportsSelected_def review_counts_def)

lemma same_reports:
  "reports_tab (without_privileged h a n f d sc) = reports_tab sc"
  "reports_toolbar (without_privileged h a n f d sc) = reports_toolbar sc"
proof -
  have "report_row (without_privileged h a n f d sc) = report_row sc"
    by (intro ext) (simp add: report_row_def report_summary_def report_moderation_def report_actions_def Let_def cong: if_cong)
  then show "reports_tab (without_privileged h a n f d sc) = reports_tab sc"
    by (simp add: reports_tab_def reports_metrics_def reports_filters_def auto_moderation_card_def Let_def cong: if_cong)
  show "reports_toolbar (without_privileged h a n f d sc) = reports_toolbar sc"
    by (simp add: reports_toolbar_def)
qed

lemma same_bans:
  "bans_tab (without_privileged h a n f d sc) = bans_tab sc"
  "bans_toolbar (without_privileged h a n f d sc) = bans_toolbar sc"
proof -
  have "ban_row (without_privileged h a n f d sc) = ban_row sc"
    by (intro ext) (simp add: ban_row_def Let_def)
  then show "bans_tab (without_privileged h a n f d sc) = bans_tab sc"
    by (simp add: bans_tab_def bans_controls_def inactive_bans_def manual_enforcement_def)
qed (simp add: bans_toolbar_def)

lemma same_words: "words_tab (without_privileged h a n f d sc) = words_tab sc"
  by (simp add: words_tab_def words_metrics_def words_search_def words_enforcement_def words_add_def
      words_list_def)

lemma same_bots:
  assumes "\<not> canManageBots (role sc)"
  shows "bots_tab (without_privileged h a n f d sc) = bots_tab sc"
proof -
  let ?w = "without_privileged h a n f d sc"
  have row: "bot_row ?w = bot_row sc" by (intro ext) (simp add: bot_row_def)
  have set: "bot_setting ?w = bot_setting sc" "bot_flag ?w = bot_flag sc" "flipped_flag ?w = flipped_flag sc"
    by (intro ext; simp add: bot_setting_def bot_flag_def flipped_flag_def)+
  have list: "rows_or (redact_all rows) none (bot_row sc) = rows_or rows none (bot_row sc)" for rows none
    using each_redact [of "bot_row sc", OF bot_row_redact] assms by (simp add: rows_or_def cong: if_cong)
  show ?thesis
    using assms
    by (simp add: bots_tab_def bots_metrics_def bots_switches_def bots_runtime_def bots_registry_def
        whenever_def row set list)
qed



end
