(* ===== verification/Admin_Sessions.thy ===== *)
theory Admin_Sessions
  imports Admin_Access
begin

text \<open>
  The console from one event to the next: what a transcript that parses to null does to it, what stays
  on the screen from one user to the next, and that its parts can be reached.
\<close>

section \<open>Steps of the console\<close>

lemma dead_console:
  "crashed t \<Longrightarrow> crashed (run_events (console_step c) es t)"
proof (induction es arbitrary: t)
  case (Cons e es)
  have "crashed (console_step c e t)" using Cons.prems by (simp add: console_step_def Let_def)
  with Cons.IH show ?case by simp
qed simp

lemma scope_of_fields [simp]:
  "isAuthenticated (scope_of s) = isAuthenticated s" "authReady (scope_of s) = authReady s"
  "role (scope_of s) = role s" "currentTab (scope_of s) = currentTab s" "reports (scope_of s) = reports s"
  "reportReviewSourceFilter (scope_of s) = reportReviewSourceFilter s" "botForm (scope_of s) = botForm s"
  "isBotModalOpen (scope_of s) = isBotModalOpen s" "username (scope_of s) = username s"
  "password (scope_of s) = password s" "botSettings (scope_of s) = botSettings s"
  "accounts (scope_of s) = accounts s" "accountLimit (scope_of s) = accountLimit s"
  "accountTotal (scope_of s) = accountTotal s" "isUserMenuOpen (scope_of s) = isUserMenuOpen s"
  "showLoginPassword (scope_of s) = showLoginPassword s"
  "visibleReports (scope_of s) = visibleReports s"
  by (simp_all add: scope.defs visibleReports_def)

section \<open>A transcript that parses to null\<close>

text \<open>A list of reports that is shown with one transcript missing cannot be drawn.\<close>

lemma missing_transcript_raises:
  assumes "r \<in> set (visibleReports sc)" and "js_nullish (js_get r ''chat_log'')"
  shows "Raise \<in> set (reports_tab sc)"
proof -
  have "js_length (js_get r ''chat_log'') = None"
    using assms(2) by (cases "js_get r ''chat_log''") (simp_all add: js_length_def prop_of_def js_nullish_def)
  then have "Raise \<in> set (report_row sc r)"
    by (simp add: report_row_def report_actions_def Let_def need_def)
  with assms(1) show ?thesis by (auto simp: reports_tab_def)
qed

text \<open>
  C13: one bad row takes the console down: when the body of a fetched list of reports holds a report
  whose transcript is text that parses to null, and the queue is open unfiltered, the render throws,
  and afterwards the console hears no action again, whatever arrives.
\<close>

theorem null_transcript_kills_console:
  assumes "calls (panel t) n = Some cl" and "callOp cl = FetchReports" and "callStage cl = OkBody"
    and "authReady (panel t)" and "isAuthenticated (panel t)"
    and "currentTab (panel t) = Reports_tab" and "reportReviewSourceFilter (panel t) = ''all''"
    and "js_get data ''reports'' = JArr rows" and "\<not> list_ex js_nullish rows"
    and "r \<in> set rows" and "js_get r ''chat_log'' = JStr raw" and "json_parse c raw = Some JNull"
  shows "\<not> hears (Act a) (run_events (console_step c) (BodyRead n (Some data) # es) t)"
proof -
  let ?t = "console_step c (BodyRead n (Some data)) t"
  have nn: "\<not> js_nullish data" using assms(8) by (cases data) (auto simp: js_nullish_def)
  define s where "s = fetchReports_continue c data (end_call n (panel t))"
  have p: "panel ?t = s" using assms(1-3) by (simp add: body_read_def s_def)
  have s: "authReady s" "isAuthenticated s" "currentTab s = Reports_tab" "reportReviewSourceFilter s = ''all''"
    "reports s = map (normalize_report c) rows"
    using nn assms(4-9) by (simp_all add: s_def fetchReports_continue_def Let_def js_or_def end_call_def)
  let ?r = "normalize_report c r"
  have "?r \<in> set (visibleReports (scope_of s))" using s(4,5) assms(10) by (simp add: visibleReports_def)
  moreover have "js_nullish (js_get ?r ''chat_log'')"
    using assms(11,12) by (simp add: get_normalized parsed_chat_log_def js_nullish_def)
  ultimately have "Raise \<in> set (screen (dark t) (scope_of s))"
    using missing_transcript_raises [of ?r "scope_of s"] s(1-3)
    by (simp add: screen_def console_def tab_content_def)
  then have "crashed ?t" by (simp add: console_step_def hears_def Let_def p [symmetric]) 
  then have "crashed (run_events (console_step c) es ?t)" by (rule dead_console)
  then show ?thesis by (simp add: hears_def)
qed


definition demo_console :: "op \<Rightarrow> stage \<Rightarrow> (admin \<Rightarrow> admin) \<Rightarrow> console_state" where
  "demo_console f stg h =
     \<lparr>panel = h ((demo [0 \<mapsto> demo_call f stg])\<lparr>authReady := True, isAuthenticated := True, nextCall := 1\<rparr>),
      dark = False, crashed = False\<rparr>"

lemma demo_initial [simp]:
  "reportReviewSourceFilter (demo cs) = ''all''" "currentTab (demo cs) = Reports_tab"
  by (simp_all add: demo_def initial_admin_def initial_scope_def scope.defs)

theorem null_transcript_kills_console_witness:
  "\<not> hears (Act (Select_tab Bans_tab)) (run_events (console_step demo_env)
     (BodyRead 0 (Some (JObj [(''reports'', JArr [JObj [(''chat_log'', JStr ''null'')]])])) # [Replied 0 None, Commit])
     (demo_console FetchReports OkBody id))"
  by (rule null_transcript_kills_console
      [where cl = "demo_call FetchReports OkBody" and r = "JObj [(''chat_log'', JStr ''null'')]" and raw = "''null''"
        and rows = "[JObj [(''chat_log'', JStr ''null'')]]"])
    (simp_all add: demo_console_def js_nullish_def)

section \<open>From one user to the next\<close>

lemma login_screen_plain: "Raise \<notin> set (LoginScreen sc)"
  by (simp add: LoginScreen_def)

text \<open>The answer to a logout, and a login from the form to the body of its answer.\<close>

lemma logout_answered:
  assumes "calls (panel t) n = Some lg" and "callOp lg = Logout" and "callStage lg = Requested"
    and "authReady (panel t)" and "\<not> crashed t"
  shows "panel (console_step c (Replied n answer) t) = logout_continue c (end_call n (panel t)) \<and>
    \<not> crashed (console_step c (Replied n answer) t)"
proof -
  have p: "panel_step c (Replied n answer) (panel t) = logout_continue c (end_call n (panel t))"
    using assms(1-3) by (simp add: replied_def)
  have "Raise \<notin> set (screen (dark t) (scope_of (logout_continue c (end_call n (panel t)))))"
    using assms(4) by (simp add: screen_def logout_continue_def end_call_def login_screen_plain)
  with p assms(5) show ?thesis
    by (simp add: console_step_def hears_def Let_def)
qed

lemma login_submitted:
  assumes "authReady (panel t)" and "\<not> isAuthenticated (panel t)" and "\<not> crashed t"
  shows "hears (Act Submit_login) t"
    and "panel (console_step c (Act Submit_login) t) = login (scope_of (panel t)) (panel t)"
    and "\<not> crashed (console_step c (Act Submit_login) t)"
proof -
  have "offers Submit_login (button ''Sign In to Console'' Submit_login)" by simp
  then have "offered (LoginScreen sc) Submit_login" for sc
    using login_screen_plain [of sc] by (simp add: offered_def LoginScreen_def)
  then show heard: "hears (Act Submit_login) t"
    using assms by (simp add: hears_def shown_screen_def screen_def)
  show p: "panel (console_step c (Act Submit_login) t) = login (scope_of (panel t)) (panel t)"
    using heard assms(1,2) by (simp add: heard_step act_def)
  show "\<not> crashed (console_step c (Act Submit_login) t)"
    using heard assms by (simp add: console_step_def Let_def act_def screen_def login_screen_plain
        login_def start_call_def log_request_def)
qed

lemma login_completed:
  fixes t :: console_state and c :: panel_env
  defines "m \<equiv> nextCall (panel t)"
  assumes "authReady (panel t)" and "\<not> isAuthenticated (panel t)" and "\<not> crashed t"
    and "response_ok r" and "is_LoginResponse data" and "typed_scope (panel t)"
  defines "t' \<equiv> run_events (console_step c) [Act Submit_login, Replied m (Some r), BodyRead m (Some data)] t"
  shows "\<not> crashed t'" and "typed_scope (panel t')"
    and "authReady (panel t') \<and> isAuthenticated (panel t') \<and> role (panel t') = js_get data ''role''"
    and "botForm (panel t') = botForm (panel t) \<and> isBotModalOpen (panel t') = isBotModalOpen (panel t) \<and>
      currentTab (panel t') = currentTab (panel t)"
proof -
  have nn: "\<not> js_nullish data" using assms(6) by (simp add: is_LoginResponse_def interface_not_nullish)
  define t1 where "t1 = console_step c (Act Submit_login) t"
  define cl where "cl = \<lparr>callOp = Login, callRequest = \<lparr>verb = ''POST'', path = ''/api/v1/admin/login'',
    body = Some (CredentialsBody (js_trim (username (panel t))) (js_trim (password (panel t))))\<rparr>,
    callScope = scope_of (panel t), callStage = Requested\<rparr>"
  have t1: "panel t1 = login (scope_of (panel t)) (panel t)" "\<not> crashed t1"
    using login_submitted [OF assms(2-4)] by (simp_all add: t1_def)
  have c1: "calls (panel t1) m = Some cl"
    by (simp add: t1(1) m_def cl_def login_def start_call_def log_request_def Let_def)
  have ready1: "authReady (panel t1)" "\<not> isAuthenticated (panel t1)" "botForm (panel t1) = botForm (panel t)"
    "isBotModalOpen (panel t1) = isBotModalOpen (panel t)" "currentTab (panel t1) = currentTab (panel t)"
    using assms(2,3) by (simp_all add: t1(1) login_def start_call_def log_request_def Let_def)
  have typed1: "typed_scope (panel t1)" using assms(7) by (simp add: t1(1))
  define t2 where "t2 = console_step c (Replied m (Some r)) t1"
  have p2: "panel t2 = set_stage m cl OkBody (keep_csrf_header r (panel t1))"
    using c1 assms(5) by (simp add: t2_def replied_def cl_def)
  have typed2: "typed_scope (panel t2)" "\<not> crashed t2"
    using typed_console_step [OF typed1 t1(2), of c "Replied m (Some r)"] by (simp_all add: t2_def event_conforms_def)
  have c2: "calls (panel t2) m = Some (cl\<lparr>callStage := OkBody\<rparr>)" by (simp add: p2 set_stage_def)
  have ready2: "authReady (panel t2)" "botForm (panel t2) = botForm (panel t)"
    "isBotModalOpen (panel t2) = isBotModalOpen (panel t)" "currentTab (panel t2) = currentTab (panel t)"
    using ready1 by (simp_all add: p2 set_stage_def keep_csrf_header_def)
  have t': "t' = console_step c (BodyRead m (Some data)) t2"
    by (simp add: t'_def t2_def t1_def)
  have conf: "event_conforms c (panel t2) (BodyRead m (Some data))"
    using assms(6) c2 by (simp add: event_conforms_def body_typed_def cl_def)
  show "\<not> crashed t'" "typed_scope (panel t')"
    using typed_console_step [OF typed2 conf] by (simp_all add: t')
  have "panel t' = login_continue data (scope_of (panel t)) (end_call m (panel t2))"
    using c2 by (simp add: t' body_read_def cl_def)
  with ready2 nn show
    "authReady (panel t') \<and> isAuthenticated (panel t') \<and> role (panel t') = js_get data ''role''"
    "botForm (panel t') = botForm (panel t) \<and> isBotModalOpen (panel t') = isBotModalOpen (panel t) \<and>
      currentTab (panel t') = currentTab (panel t)"
    by (simp_all add: login_continue_def Let_def fetchReports_def adminFetch_def start_call_def log_request_def
        end_call_def)
qed

lemma typed_after_logout: "typed_scope s \<Longrightarrow> typed_scope (logout_continue c (end_call n s))"
  by (intro typed_logout) simp

lemma after_logout:
  "authReady (logout_continue c (end_call n s)) = authReady s" "\<not> isAuthenticated (logout_continue c (end_call n s))"
  "botForm (logout_continue c (end_call n s)) = botForm s"
  "isBotModalOpen (logout_continue c (end_call n s)) = isBotModalOpen s"
  "currentTab (logout_continue c (end_call n s)) = currentTab s"
  "nextCall (logout_continue c (end_call n s)) = nextCall s"
  "username (logout_continue c (end_call n s)) = username s" "password (logout_continue c (end_call n s)) = password s"
  by (simp_all add: logout_continue_def end_call_def)

text \<open>
  An open dialog outlives its user: signed out while the form of an AI bot is open, the console
  shows that form again, with the token of its provider, to whoever signs in next, a moderator, who
  may not see bots' secrets.
\<close>

theorem bot_form_meets_next_user:
  fixes t :: console_state
  assumes "calls (panel t) n = Some lg" and "callOp lg = Logout" and "callStage lg = Requested"
    and "authReady (panel t)" and "\<not> crashed t" and "typed_scope (panel t)"
    and "isBotModalOpen (panel t)" and "botType (botForm (panel t)) = ''ai''"
    and "response_ok r" and "is_LoginResponse data" and "js_get data ''role'' = JStr ''moderator''"
    and "t' = run_events (console_step c) [Replied n answer, Act Submit_login,
      Replied (nextCall (panel t)) (Some r), BodyRead (nextCall (panel t)) (Some data)] t"
  shows "\<not> crashed t' \<and> \<not> canManageBots (role (panel t')) \<and>
    text_field (In_bot Ai_api_token) (botAIApiToken (botForm (panel t))) \<in> set (shown_screen t')"
proof -
  define t1 where "t1 = console_step c (Replied n answer) t"
  have t1: "panel t1 = logout_continue c (end_call n (panel t))" "\<not> crashed t1"
    using logout_answered [OF assms(1-5)] by (simp_all add: t1_def)
  have pre: "authReady (panel t1)" "\<not> isAuthenticated (panel t1)" "typed_scope (panel t1)"
    "nextCall (panel t1) = nextCall (panel t)"
    using assms(4,6) by (simp_all add: t1 after_logout typed_after_logout)
  have t': "t' = run_events (console_step c) [Act Submit_login, Replied (nextCall (panel t1)) (Some r),
      BodyRead (nextCall (panel t1)) (Some data)] t1"
    unfolding assms(12) pre(4) [symmetric] by (simp only: run_events.simps t1_def)
  note fin = login_completed [OF pre(1,2) t1(2) assms(9,10) pre(3), where c = c, folded t']
  from fin(3) assms(11) have role: "authReady (panel t')" "isAuthenticated (panel t')" "\<not> canManageBots (role (panel t'))"
    by (simp_all add: canManageBots_def has_role_def image_iff)
  from fin(4) assms(7,8) have form: "isBotModalOpen (panel t')" "botForm (panel t') = botForm (panel t)"
    by (simp_all add: t1 after_logout)
  have "text_field (In_bot Ai_api_token) (botAIApiToken (botForm (panel t))) \<in> set (dialogs (scope_of (panel t')))"
    using form assms(8) by (simp add: dialogs_def bot_dialog_def Let_def bot_provider_def whenever_def)
  then show ?thesis
    using fin(1) role by (simp add: shown_screen_def screen_def console_def)
qed

theorem bot_form_meets_next_user_witness:
  "let t = demo_console Logout Requested (\<lambda>s. s\<lparr>isBotModalOpen := True,
       botForm := (botForm s)\<lparr>botType := ''ai'', botAIApiToken := ''sk-secret''\<rparr>\<rparr>);
     t' = run_events (console_step demo_env) [Replied 0 None, Act Submit_login,
       Replied (nextCall (panel t)) (Some \<lparr>status = 200, csrf_header = None\<rparr>),
       BodyRead (nextCall (panel t)) (Some (JObj [(''role'', JStr ''moderator'')]))] t
   in \<not> crashed t' \<and> \<not> canManageBots (role (panel t')) \<and>
     text_field (In_bot Ai_api_token) (botAIApiToken (botForm (panel t))) \<in> set (shown_screen t')"
  unfolding Let_def
  by (rule bot_form_meets_next_user [where lg = "demo_call Logout Requested", OF _ _ _ _ _ _ _ _ _ _ _ refl])
    (simp_all add: demo_console_def response_ok_def is_LoginResponse_def interface_def optional_def
      is_AdminRole_def one_of_def demo_def initial_typed)

text \<open>
  The login form keeps the credentials: after a logout the next press of its button, with nothing
  typed, is offered and sends the name and the password that the form held before.
\<close>

lemma login_form_keeps_password:
  fixes t :: console_state
  assumes "calls (panel t) n = Some lg" and "callOp lg = Logout" and "callStage lg = Requested"
    and "authReady (panel t)" and "\<not> crashed t"
  shows "let t1 = console_step c (Replied n answer) t; t2 = console_step c (Act Submit_login) t1
    in \<not> isAuthenticated (panel t1) \<and> hears (Act Submit_login) t1 \<and>
      body (sentRequest (last (sentLog (panel t2)))) =
        Some (CredentialsBody (js_trim (username (panel t))) (js_trim (password (panel t))))"
proof -
  define t1 where "t1 = console_step c (Replied n answer) t"
  have t1: "panel t1 = logout_continue c (end_call n (panel t))" "\<not> crashed t1"
    using logout_answered [OF assms(1-5)] by (simp_all add: t1_def)
  then have pre: "authReady (panel t1)" "\<not> isAuthenticated (panel t1)"
    using assms(4) by (simp_all add: after_logout)
  show ?thesis
    using pre login_submitted [OF pre t1(2)]
    by (simp add: t1_def [symmetric] Let_def login_def start_call_def log_request_def t1(1) after_logout)
qed

text \<open>
  The tab outlives its user too: when it was one that the next role has no menu for, the page opens with
  a heading and no content.
\<close>

lemma kept_tab_is_blank:
  fixes t :: console_state
  assumes "authReady (panel t)" and "\<not> isAuthenticated (panel t)" and "\<not> crashed t" and "typed_scope (panel t)"
    and "currentTab (panel t) = Infra_tab" and "response_ok r" and "is_LoginResponse data"
    and "js_get data ''role'' \<noteq> JStr ''root''"
    and "t' = run_events (console_step c) [Act Submit_login, Replied (nextCall (panel t)) (Some r),
      BodyRead (nextCall (panel t)) (Some data)] t"
  shows "isAuthenticated (panel t') \<and> tab_content (scope_of (panel t')) = [] \<and>
    header (scope_of (panel t')) = [Txt ''Infra Health'', Txt (tab_subtitle Infra_tab)]"
  using login_completed(3,4) [OF assms(1-3,6,7,4), where c = c, folded assms(9)] assms(5,8)
  by (auto simp: tab_content_def whenever_def canViewInfraHealth_def has_role_def header_def tab_title_def)

section \<open>Getting around\<close>

text \<open>A tab shows something exactly for the roles whose menu has it.\<close>

lemma metrics_not_empty [simp]:
  "reports_tab sc \<noteq> []" "bans_tab sc \<noteq> []" "words_tab sc \<noteq> []" "bots_tab sc \<noteq> []" "accounts_tab sc \<noteq> []"
  "infra_tab sc \<noteq> []"
  by (simp_all add: reports_tab_def reports_metrics_def bans_tab_def bans_controls_def words_tab_def
      words_metrics_def bots_tab_def bots_metrics_def accounts_tab_def accounts_controls_def infra_tab_def
      infra_metrics_def)

lemma blank_tab: "tab_content sc = [] \<longleftrightarrow> currentTab sc \<notin> set (nav_tabs (role sc))"
  by (auto simp: tab_content_def nav_tabs_def whenever_def split: tab.split)

lemma shown_and_quiet:
  assumes "typed_scope (panel t)" and "\<not> crashed t" and "e \<in> set (shown_screen t)" and "offers a e"
  shows "hears (Act a) t"
proof -
  have "renders (shown_screen t)" using assms(1) by (simp add: shown_screen_def typed_renders)
  with assms(2-4) show ?thesis
    by (auto simp: hears_def offered_def renders_def list_ex_iff)
qed

lemma act_step:
  assumes "typed_scope (panel t)" and "\<not> crashed t" and "hears (Act a) t"
  shows "panel (console_step c (Act a) t) = act a (panel t)" and "\<not> crashed (console_step c (Act a) t)"
  using assms typed_console_step [OF assms(1,2), of c "Act a"]
  by (simp_all add: heard_step event_conforms_def)


text \<open>Signing out takes at most two clicks: the menu of the user, unless it is open, and its button.\<close>

lemma sign_out_clicked:
  fixes t :: console_state
  assumes "typed_scope (panel t)" and "\<not> crashed t" and "authReady (panel t)" and "isAuthenticated (panel t)"
    and "isUserMenuOpen (panel t)"
  shows "panel (console_step c (Act Click_logout) t) = logout (scope_of (panel t)) (panel t)"
proof -
  have "button ''Sign Out'' Click_logout \<in> set (shown_screen t)"
    using assms(3-5) by (simp add: shown_screen_def screen_def console_def sidebar_def whenever_def)
  from act_step(1) [OF assms(1,2) shown_and_quiet [OF assms(1,2) this]] show ?thesis
    using assms(3,4) by (simp add: act_def)
qed

lemma menu_toggled:
  fixes t :: console_state
  assumes "typed_scope (panel t)" and "\<not> crashed t" and "authReady (panel t)" and "isAuthenticated (panel t)"
  shows "panel (console_step c (Act Toggle_user_menu) t) =
      (panel t)\<lparr>isUserMenuOpen := \<not> isUserMenuOpen (panel t)\<rparr> \<and> \<not> crashed (console_step c (Act Toggle_user_menu) t)"
proof -
  have "button ''User menu'' Toggle_user_menu \<in> set (shown_screen t)"
    using assms(3,4) by (simp add: shown_screen_def screen_def console_def sidebar_def)
  from act_step [OF assms(1,2) shown_and_quiet [OF assms(1,2) this]] show ?thesis
    using assms(3,4) by (simp add: act_def)
qed

text \<open>
  Signing out is two clicks away: from every typed screen of a signed-in user at most two clicks
  send the request that ends the session.
\<close>

lemma sign_out_reachable:
  fixes t :: console_state
  assumes "typed_scope (panel t)" and "\<not> crashed t" and "authReady (panel t)" and "isAuthenticated (panel t)"
  shows "\<exists>as. length as \<le> 2 \<and>
    sentRequest (last (sentLog (panel (run_events (console_step c) (map Act as) t)))) =
      \<lparr>verb = ''POST'', path = ''/api/v1/admin/logout'', body = None\<rparr>"
proof (cases "isUserMenuOpen (panel t)")
  case True
  from sign_out_clicked [OF assms True, of c] show ?thesis
    by (intro exI [of _ "[Click_logout]"]) (simp add: logout_def start_call_def log_request_def Let_def)
next
  case False
  define t1 where "t1 = console_step c (Act Toggle_user_menu) t"
  have t1: "panel t1 = (panel t)\<lparr>isUserMenuOpen := True\<rparr>" "\<not> crashed t1"
    using menu_toggled [OF assms, of c] False by (simp_all add: t1_def)
  then have "panel (console_step c (Act Click_logout) t1) = logout (scope_of (panel t1)) (panel t1)"
    using assms by (intro sign_out_clicked) simp_all
  then show ?thesis
    by (intro exI [of _ "[Toggle_user_menu, Click_logout]"])
      (simp add: t1_def [symmetric] logout_def start_call_def log_request_def Let_def)
qed

lemma demo_typed [simp]: "typed_scope (demo cs)"
  by (simp add: demo_def initial_typed)


section \<open>Controls that mislead\<close>

lemma decimal_0: "decimal 0 = ''0''"
  by code_simp

text \<open>
  A page of accounts can be left behind: when the accounts are fetched again and fit on one page,
  the tab of a later page says that there are none, keeps its page, and offers no way back.
\<close>

lemma account_page_stranded:
  assumes "calls (panel t) n = Some cl" and "callOp cl = FetchAccounts" and "callStage cl = OkBody"
    and "currentTab (panel t) = Accounts_tab" and "canManageAccounts (role (panel t))"
    and "accountLimit (panel t) \<noteq> ''all''" and "1 < accountPage (panel t)"
    and "js_get data ''accounts'' = JArr []" and "count_of (js_get data ''total'') \<le> accountPageSize (panel t)"
    and "t' = console_step c (BodyRead n (Some data)) t"
  shows "Txt ''No admin accounts found.'' \<in> set (tab_content (scope_of (panel t'))) \<and>
    accountPage (panel t') = accountPage (panel t) \<and> \<not> offered (tab_content (scope_of (panel t'))) Previous_page"
proof -
  have nn: "\<not> js_nullish data" using assms(8) by (cases data) (auto simp: js_nullish_def)
  define s where "s = (end_call n (panel t))\<lparr>accounts := JArr [], accountTotal := count_of (js_get data ''total'')\<rparr>"
  have p: "panel t' = s"
    unfolding assms(10) using assms(1-3,8) nn by (simp add: body_read_def s_def fetchAccounts_continue_def js_or_def)
  have s: "currentTab s = Accounts_tab" "canManageAccounts (role s)" "accounts s = JArr []"
    "accountPage s = accountPage (panel t)"
    using assms(4,5) by (simp_all add: s_def end_call_def)
  let ?z = "accountPageSize (panel t)"
  have "accountTotalPages s = max 1 ((count_of (js_get data ''total'') + ?z - 1) div ?z)"
    using assms(6) by (simp add: accountTotalPages_def accountPageSize_def s_def end_call_def)
  also have "\<dots> = 1"
  proof (cases "?z = 0")
    case False
    have "(count_of (js_get data ''total'') + ?z - 1) div ?z \<le> (?z + (?z - 1)) div ?z"
      using assms(9) False by (intro div_le_mono) simp
    also have "\<dots> = (?z - 1) div ?z + 1" by (rule div_add_self1) (use False in simp)
    also have "(?z - 1) div ?z = 0" using False by (intro div_less) simp
    finally show ?thesis by simp
  qed simp
  finally have "accountTotalPages s = 1" .
  moreover have "accountTotalPages (scope_of s) = accountTotalPages s"
    by (simp only: accountTotalPages_def accountPageSize_def scope_of_fields)
  ultimately have "accounts_pager (scope_of s) = []"
    by (simp only: accounts_pager_def whenever_def) simp
  then have "tab_content (scope_of s) = accounts_controls (scope_of s) @ accounts_add (scope_of s) @
      [Txt ''No admin accounts found.'']"
    using s(1-3) by (simp add: tab_content_def whenever_def accounts_tab_def need_def js_length_def each_def decimal_0)
  with p s(4) show ?thesis
    by (simp add: offered_def accounts_controls_def accounts_add_def)
qed

text \<open>
  The switches of the bots: with the settings loaded each is named after what it does. Before they are,
  or when they could not be fetched, the switch named \<^verbatim>\<open>Enable All Bots\<close> switches them off.
\<close>

lemma loaded_switches_flip:
  assumes "is_BotSettings (botSettings sc)" and "k \<in> {''enabled'', ''emergency_stop'', ''engagement_enabled'', ''ai_enabled''}"
  shows "flipped_flag sc k d = (\<not> bot_flag sc k)"
  using assms by (auto simp: is_BotSettings_def interface_def is_bool_iff flipped_flag_def bot_flag_def
      js_nullish_def Let_def)

lemma unloaded_switch_disables:
  assumes "canManageBots (role s)" and "js_nullish (botSettings s)" and "authReady s" and "isAuthenticated s"
  shows "button ''Enable All Bots'' (Set_bot_flag ''enabled'' False) \<in> set (bots_tab (scope_of s))"
    and "body (sentRequest (last (sentLog (act (Set_bot_flag ''enabled'' False) s)))) =
      Some (SettingsBody [(''enabled'', Flag False)])"
proof -
  have "js_get (botSettings s) k = JUndef" for k
    using assms(2) by (auto simp: js_nullish_def)
  with assms(1) show "button ''Enable All Bots'' (Set_bot_flag ''enabled'' False) \<in> set (bots_tab (scope_of s))"
    by (simp add: bots_tab_def bots_switches_def Let_def bot_flag_def flipped_flag_def js_nullish_def)
qed (use assms in \<open>simp add: act_def updateBotSettings_def adminFetch_def start_call_def log_request_def Let_def\<close>)

end
