(* ===== verification/Chat_Markup.thy ===== *)
theory Chat_Markup
  imports Chat_View Chat_Input Report_Dialog Video_View
begin

text \<open>
  What a render of a chat page draws, in document order, and which user actions it offers: the widgets,
  the messages and the two dialogs (\<^verbatim>\<open>EntryModal.tsx\<close>, \<^verbatim>\<open>ReportDialog.tsx\<close>). Left out are classes that only
  style, placeholders, animation, links and symbols outside ASCII; of a message's classes the tone is
  kept, since it alone shows what became of the message.

  \<^item> A control carries the action of its handler; a button with an icon only is named by its label for
    readers of the screen, or by its icon.
  \<^item> A \<open>Bubble\<close> draws the text DOMPurify makes of its value. \<open>Throws\<close> is an exception of the render.
\<close>

section \<open>Widgets\<close>

datatype text_box = Tag_box | Message_box | Reason_box | Details_box

datatype tone = Neutral | Alarm | Faded | Warning | Own

datatype 'a widget =
    Label string
  | Counted string nat string
  | Raw js
  | Bubble tone js
  | Notice tone js
  | Dots bool
  | Light string
  | Press string bool 'a
  | Tick bool 'a
  | Box_of text_box string "nat option"
  | Menu_of text_box string "string list"
  | Frame string "(point option \<times> 'a) option" "watermark_place option"
  | Picture string bool
  | Turnstile string
  | Throws

definition only_if :: "bool \<Rightarrow> 'a widget list \<Rightarrow> 'a widget list" where
  "only_if b els = (if b then els else [])"

text \<open>A value as a child of an element: objects throw, also inside arrays.\<close>

fun draws :: "js \<Rightarrow> bool" where
  "draws (JObj fs) = False"
| "draws (JArr vs) = list_all draws vs"
| "draws v = True"

definition as_child :: "js \<Rightarrow> 'a widget list" where
  "as_child v = (if draws v then [Raw v] else [Throws])"

section \<open>Actions\<close>

text \<open>
  The actions of a chat page: those of the page itself and its entry dialog, of the message box, of the
  report dialog, and of the header and the video panel.
\<close>

datatype page_action =
    In_view view_event | In_box input_event | In_report report_event
  | Home_button | Theme_button | Layout_button | Ratio_button | Size_button | Preview_click

text \<open>What happens in a text box: new text, or a key or the loss of the focus.\<close>

fun box_use :: "page_action \<Rightarrow> (text_box \<times> string option) option" where
  "box_use (In_view (Tag_typed t)) = Some (Tag_box, Some t)"
| "box_use (In_view (Tag_key k)) = Some (Tag_box, None)"
| "box_use (In_view Tag_blur) = Some (Tag_box, None)"
| "box_use (In_box (Key t)) = Some (Message_box, Some t)"
| "box_use (In_report (Choose_reason t)) = Some (Reason_box, Some t)"
| "box_use (In_report (Describe t)) = Some (Details_box, Some t)"
| "box_use a = None"

definition fits :: "nat option \<Rightarrow> string option \<Rightarrow> bool" where
  "fits limit t \<longleftrightarrow>
     (case (limit, t) of (Some n, Some t) \<Rightarrow> length t \<le> n | _ \<Rightarrow> True)"

fun provides :: "page_action \<Rightarrow> page_action widget \<Rightarrow> bool" where
  "provides a (Press label disabled b) = (\<not> disabled \<and> a = b)"
| "provides a (Tick checked b) = (a = b)"
| "provides a (Box_of k v limit) =
     (case box_use a of Some (k', t) \<Rightarrow> k' = k \<and> fits limit t | None \<Rightarrow> False)"
| "provides a (Menu_of k v options) =
     (case box_use a of Some (k', Some t) \<Rightarrow> k' = k \<and> t \<in> set options | _ \<Rightarrow> False)"
| "provides a (Frame name (Some (at_point, b)) mark) = (a = b)"
| "provides a w = False"

definition available_in :: "page_action widget list \<Rightarrow> page_action \<Rightarrow> bool" where
  "available_in els a \<longleftrightarrow> Throws \<notin> set els \<and> list_ex (provides a) els"

section \<open>Messages\<close>

definition systemMessageClass :: "chat_message \<Rightarrow> tone" where
  "systemMessageClass m = (if systemReason m = JStr BANNED_PHRASE_REASON then Alarm else Neutral)"

definition myMessageClass :: "delivery option \<Rightarrow> tone" where
  "myMessageClass d =
     (case d of Some DPending \<Rightarrow> Faded | Some DFailed \<Rightarrow> Warning | Some DBlocked \<Rightarrow> Alarm | _ \<Rightarrow> Own)"

text \<open>The text page draws a notice as it is, the video page cleans it like any other message.\<close>

definition text_message :: "chat_message \<Rightarrow> 'a widget list" where
  "text_message m =
     (case sender m of
        System \<Rightarrow> (if draws (body m) then [Notice (systemMessageClass m) (body m)] else [Throws])
      | Me \<Rightarrow> [Bubble (myMessageClass (deliveryStatus m)) (body m)]
      | Peer \<Rightarrow> [Bubble Neutral (body m)])"

definition video_message :: "chat_message \<Rightarrow> 'a widget list" where
  "video_message m =
     (case sender m of
        System \<Rightarrow> [Bubble (systemMessageClass m) (body m)]
      | Me \<Rightarrow> [Bubble (myMessageClass (deliveryStatus m)) (body m)]
      | Peer \<Rightarrow> [Bubble Neutral (body m)])"

section \<open>Dialogs\<close>

text \<open>
  The entry dialog, drawn by the chat pages and by the landing page: \<open>on\<close> wraps its events, \<open>close\<close> is
  what closing it does. Without a site key there is no widget, so no token can arrive.
\<close>

definition EntryModal :: "string \<Rightarrow> (modal_event \<Rightarrow> 'a) \<Rightarrow> 'a \<Rightarrow> entry_modal \<Rightarrow> 'a widget list" where
  "EntryModal siteKey on close m =
     [Label ''Before you continue...'',
      Label ''We need to make sure you're human and agree to our terms.'', Press ''Close'' False close,
      Tick (termsAccepted m) (on (Tick_terms (\<not> termsAccepted m))), Label ''I have read and agree to the Terms of Service and Privacy Policy. I am 18+ years old.'',
      Tick (rulesAccepted m) (on (Tick_rules (\<not> rulesAccepted m))), Label (''I agree NOT to engage in illegal activities, abuse, harassment, or distributing explicit '' @
        ''content. Violators will be permanently banned.'')] @
     only_if (\<not> widgetReady m) [Label ''Loading verification...''] @
     [if siteKey \<noteq> [] then Turnstile siteKey
      else Label ''CAPTCHA not configured. Please set VITE_TURNSTILE_SITE_KEY.''] @
     [Press ''Cancel'' False close, Press ''Confirm & Continue'' (\<not> confirm_enabled m) (on Confirm)]"

text \<open>
  The report dialog. The browser refuses to submit the form while the required reason is not chosen
  (\<open>report_step\<close>); the transcript is drawn with the texts as they are.
\<close>

definition report_line :: "chat_message \<Rightarrow> 'a widget list" where
  "report_line m = Label (if sender m = Me then ''You:'' else ''Stranger:'') # as_child (body m)"

definition ReportDialog :: "report_props \<Rightarrow> report_dialog \<Rightarrow> page_action widget list" where
  "ReportDialog p d =
     (let msgs = chatMessages (transcript p); n = length msgs
      in if submitted d
         then [Label ''Report Submitted'',
               Label ''Thanks. Your report has been sent to moderation and will be reviewed shortly.'',
               Press ''Close'' False (In_view Close_report)]
         else [Label ''Report User'',
               Counted ''A copy of this chat ('' n
                 ('' message'' @ (if n \<noteq> 1 then ''s'' else []) @ '') will be included with your report.''),
               Label ''Reason'',
               Menu_of Reason_box (reportReason d) [[], ''harassment'', ''inappropriate_content'', ''spam'', ''other''],
               Label ''Additional Details'', Box_of Details_box (reportDescription d) (Some 500)] @
              only_if (reportDescription d \<noteq> [])
                [Counted [] (length (reportDescription d)) '' / 500 characters''] @
              only_if (msgs \<noteq> [])
                (Label ''Chat Transcript (included automatically)'' # concat (map report_line msgs)) @
              [Press (if submitting d then ''Submitting...'' else ''Submit Report'')
                 (submitting d) (In_report (Submit_report p)),
               Press ''Cancel'' False (In_view Close_report)])"

end
