(* ===== verification/Chat_Screen.thy ===== *)
theory Chat_Screen
  imports Chat_Markup
begin

text \<open>
  The screens of the two chat pages (\<^verbatim>\<open>client/src/components/TextChat.tsx\<close>, \<^verbatim>\<open>VideoChat.tsx\<close>): what is
  drawn for a state of the hook, of the page, of its message box and of its dialogs, and when each
  control is on the screen.

  \<^item> \<open>siteKey\<close> is \<^verbatim>\<open>VITE_TURNSTILE_SITE_KEY\<close>. The report dialog is given when it is mounted.
  \<^item> The spinning timers of the video page are those of \<open>Video_View\<close>; a control that the page hides below
    the width of a desktop is not drawn there.
\<close>

section \<open>Parts of both pages\<close>

definition status_light :: "chat_status \<Rightarrow> 'a widget" where
  "status_light st =
     Light (case st of Connected \<Rightarrow> ''green'' | Searching \<Rightarrow> ''yellow'' | Disconnected \<Rightarrow> ''red'' | Idle \<Rightarrow> ''gray'')"

definition searching_tags :: "string list \<Rightarrow> 'a widget list" where
  "searching_tags ts = map (\<lambda>t. Label (''#'' @ t)) ts"

definition tag_chips :: "string list \<Rightarrow> page_action widget list" where
  "tag_chips ts =
     concat (map (\<lambda>(i, t). [Label t, Press ''Remove'' False (In_view (Tag_remove i))]) (enumerate 0 ts))"

definition search_form :: "string \<Rightarrow> 'b chat_scheme \<Rightarrow> chat_view \<Rightarrow> page_action widget list" where
  "search_form first c v =
     only_if (status c = Idle \<or> status c = Disconnected)
       (Label ''Interest Tags'' # tag_chips (interestTags v) @
        [Box_of Tag_box (tagInput v) (Some 30), Label ''Press Enter or Comma to add. Max 10 tags.''] @
        only_if (status c = Disconnected \<and> str_truthy (reportPeerId c))
          [Press ''Report Last Chat'' False (In_view Open_report)] @
        [Press (if chat.connected c then if status c = Disconnected then ''Search Again'' else first else ''Connecting...'')
           (\<not> chat.connected c) (In_view Start_click)])"

definition cancel_button :: "'b chat_scheme \<Rightarrow> page_action widget list" where
  "cancel_button c = only_if (status c = Searching) [Press ''Cancel Search'' False (In_view Cancel_click)]"

definition page_dialogs ::
  "string \<Rightarrow> 'b chat_scheme \<Rightarrow> chat_view \<Rightarrow> report_dialog option \<Rightarrow> page_action widget list" where
  "page_dialogs siteKey c v d =
     (case d of
        None \<Rightarrow> []
      | Some rd \<Rightarrow>
          only_if (showReport v \<and> str_truthy (reportPeerId c))
            (ReportDialog
               \<lparr>reportedPeer = the (reportPeerId c), transcript = messages c,
                reporterSessionId = sessionId c, reporterToken = sessionToken c\<rparr> rd)) @
     (case entryModal v of
        None \<Rightarrow> []
      | Some m \<Rightarrow> EntryModal siteKey (\<lambda>e. In_view (Modal e)) (In_view Modal_close) m)"

section \<open>The text page\<close>

definition message_box :: "bool \<Rightarrow> chat_input \<Rightarrow> page_action widget list" where
  "message_box confirm i =
     [Box_of Message_box (boxValue i) (Some 2000), Press ''Send'' (js_trim (boxValue i) = []) (In_box Submit)] @
     only_if (boxValue i \<noteq> []) [Counted [] (length (boxValue i)) '' / 2000 characters''] @
     [Press ''Report'' False (In_view Open_report),
      Press (if confirm then ''Tap again to stop'' else ''Stop Chat'') False (In_view Stop_click)]"

definition text_header :: "'b chat_scheme \<Rightarrow> page_action widget list" where
  "text_header c =
     [Press ''Back to home'' False Home_button, status_light (status c), Label ''Live Chat'',
      Label (status_text (status c)), Press ''Toggle theme'' False Theme_button]"

definition text_notices :: "'b chat_scheme \<Rightarrow> chat_view \<Rightarrow> page_action widget list" where
  "text_notices c v =
     only_if (status c = Idle)
       [Label ''Pairline'', Label ''Enter your interests below or press Start to chat with someone new.''] @
     only_if (status c = Searching) (Label ''Finding your match...'' # searching_tags (interestTags v)) @
     only_if (status c = Connected \<and> messages c = []) [Label ''You're now chatting with a stranger. Say hi!'']"

definition text_screen ::
  "string \<Rightarrow> 'b chat_scheme \<Rightarrow> chat_view \<Rightarrow> chat_input \<Rightarrow> report_dialog option \<Rightarrow> page_action widget list" where
  "text_screen siteKey c v i d =
     text_header c @ text_notices c v @ concat (map text_message (messages c)) @ [Dots (peerTyping c)] @
     search_form ''Find a Stranger'' c v @ cancel_button c @
     only_if (status c = Connected) (message_box (confirmStop v) i) @ page_dialogs siteKey c v d"

section \<open>The video page\<close>

text \<open>What the page keeps about its two videos; \<open>camera_message\<close> is \<open>cameraError\<close> of the hook.\<close>

record video_look =
  videoLayout :: string
  isDesktopViewport :: bool
  stackedVideoRatio :: string
  pipSize :: string
  previewState :: preview
  panelDimensions :: "(rat \<times> rat) option"
  remoteVideoRenderedKey :: "string option"
  spinning :: spinner
  camera_message :: "string option"

definition look_layout :: "video_look \<Rightarrow> string" where
  "look_layout l = effective_layout (isDesktopViewport l) (videoLayout l)"

definition video_header :: "'b chat_scheme \<Rightarrow> video_look \<Rightarrow> page_action widget list" where
  "video_header c l =
     [Press ''Back to home'' False Home_button, status_light (status c), Label ''Live Video & Chat'',
      Label (status_text (status c))] @
     only_if (isDesktopViewport l) [Press ''Toggle video layout'' False Layout_button] @
     only_if (look_layout l = ''pip'') [Press (pipSize l) False Size_button] @
     only_if (look_layout l = ''stacked'') [Press (stackedVideoRatio l) False Ratio_button] @
     [Press ''Toggle theme'' False Theme_button]"

text \<open>
  The two videos: the small one is the preview, at its position in the layout that has one, and takes
  the clicks; the watermark is on the large one. In the stacked layout the peer's video counts as the
  large one.
\<close>

definition isLocalPip :: "video_look \<Rightarrow> bool" where
  "isLocalPip l \<longleftrightarrow> \<not> (look_layout l = ''pip'' \<and> pipSwapped (previewState l))"

definition isRemoteMainVideo :: "video_look \<Rightarrow> bool" where
  "isRemoteMainVideo l \<longleftrightarrow> look_layout l = ''stacked'' \<or> isLocalPip l"

definition pip_handlers :: "video_look \<Rightarrow> (point option \<times> page_action) option" where
  "pip_handlers l =
     Some (if look_layout l = ''pip'' then previewPosition (previewState l) else None, Preview_click)"

definition rendered :: "'b chat_scheme \<Rightarrow> video_look \<Rightarrow> bool" where
  "rendered c l = remoteVideoHasRendered (remoteVideoRenderedKey l) (status c) (reportPeerId c)"

definition video_frames :: "'b chat_scheme \<Rightarrow> video_look \<Rightarrow> page_action widget list" where
  "video_frames c l =
     (let place = watermark_style (look_layout l) (previewPosition (previewState l)) (panelDimensions l);
          mark = (if status c = Connected \<and> rendered c l then Some place else None)
      in [Frame ''remote-video-container'' (if isLocalPip l then None else pip_handlers l)
            (if isRemoteMainVideo l then mark else None),
          Frame ''local-video-container'' (if isLocalPip l then pip_handlers l else None)
            (if isRemoteMainVideo l then None else mark)])"

definition video_overlay :: "'b chat_scheme \<Rightarrow> chat_view \<Rightarrow> video_look \<Rightarrow> page_action widget list" where
  "video_overlay c v l =
     (case overlay_content (camera_message l) (status c) (showVideoConnecting (spinning l)) (rendered c l) of
        None \<Rightarrow> []
      | Some (Camera_error_overlay e) \<Rightarrow> [Label ''Camera Error'', Label e]
      | Some Searching_overlay \<Rightarrow> Label ''Finding your match...'' # searching_tags (interestTags v)
      | Some Connecting_overlay \<Rightarrow> [Label ''Connecting video...'']
      | Some Status_overlay \<Rightarrow> [Label (if status c = Idle then ''Ready to connect'' else ''Disconnected'')])"

definition message_box_v :: "chat_view \<Rightarrow> chat_input \<Rightarrow> page_action widget list" where
  "message_box_v v i =
     [Box_of Message_box (boxValue i) None, Press ''Send'' (js_trim (boxValue i) = []) (In_box Submit),
      Press (if effectiveConfirmSkip v then ''Sure?'' else ''Skip'') False (In_view Next_click),
      Press ''Report'' False (In_view Open_report),
      Press (if effectiveConfirmStop v then ''Confirm'' else ''Stop'') False (In_view Stop_click)]"

text \<open>The form, the cancel button and the dialogs are written out a second time in the source.\<close>

definition search_form_v :: "'b chat_scheme \<Rightarrow> chat_view \<Rightarrow> page_action widget list" where
  "search_form_v = search_form ''Find Partner''"

definition cancel_button_v :: "'b chat_scheme \<Rightarrow> page_action widget list" where
  "cancel_button_v = cancel_button"

definition page_dialogs_v ::
  "string \<Rightarrow> 'b chat_scheme \<Rightarrow> chat_view \<Rightarrow> report_dialog option \<Rightarrow> page_action widget list" where
  "page_dialogs_v = page_dialogs"

text \<open>The column beside the videos: the transcript, and below it what the status asks for.\<close>

definition chat_column :: "'b chat_scheme \<Rightarrow> chat_view \<Rightarrow> chat_input \<Rightarrow> page_action widget list" where
  "chat_column c v i =
     concat (map video_message (messages c)) @
     only_if (status c = Idle)
       [Label ''Pairline'', Label ''Start searching to connect instantly via text and video.''] @
     [Dots (peerTyping c)] @ search_form_v c v @ cancel_button_v c @
     only_if (status c = Connected) (message_box_v v i)"

definition video_screen ::
  "string \<Rightarrow> 'b chat_scheme \<Rightarrow> chat_view \<Rightarrow> chat_input \<Rightarrow> report_dialog option \<Rightarrow> video_look \<Rightarrow>
   page_action widget list" where
  "video_screen siteKey c v i d l =
     video_header c l @ video_frames c l @ video_overlay c v l @ chat_column c v i @ page_dialogs_v siteKey c v d"

end
