(* ===== verification/Chat_Controls.thy ===== *)
theory Chat_Controls
  imports Chat_Screen
begin

text \<open>
  Which actions the two pages offer: a specification that reads the state alone, and the proof that the
  screens offer exactly these.
\<close>

section \<open>The specification\<close>

definition resting :: "'b chat_scheme \<Rightarrow> bool" where
  "resting c \<longleftrightarrow> status c = Idle \<or> status c = Disconnected"

definition dialog_drawn :: "'b chat_scheme \<Rightarrow> chat_view \<Rightarrow> report_dialog option \<Rightarrow> bool" where
  "dialog_drawn c v d \<longleftrightarrow> d \<noteq> None \<and> showReport v \<and> str_truthy (reportPeerId c)"

definition report_of :: "'b chat_scheme \<Rightarrow> report_props" where
  "report_of c =
     \<lparr>reportedPeer = the (reportPeerId c), transcript = messages c,
      reporterSessionId = sessionId c, reporterToken = sessionToken c\<rparr>"

fun modal_offers :: "entry_modal \<Rightarrow> modal_event \<Rightarrow> bool" where
  "modal_offers m (Tick_terms b) = (b \<noteq> termsAccepted m)"
| "modal_offers m (Tick_rules b) = (b \<noteq> rulesAccepted m)"
| "modal_offers m Confirm = confirm_enabled m"
| "modal_offers m e = False"

fun report_offers :: "report_props \<Rightarrow> report_dialog \<Rightarrow> report_event \<Rightarrow> bool" where
  "report_offers p d (Choose_reason r) =
     (\<not> submitted d \<and> r \<in> {[], ''harassment'', ''inappropriate_content'', ''spam'', ''other''})"
| "report_offers p d (Describe t) = (\<not> submitted d \<and> length t \<le> 500)"
| "report_offers p d (Submit_report p') = (\<not> submitted d \<and> \<not> submitting d \<and> p' = p)"
| "report_offers p d e = False"

fun view_offers :: "'b chat_scheme \<Rightarrow> chat_view \<Rightarrow> report_dialog option \<Rightarrow> view_event \<Rightarrow> bool" where
  "view_offers c v d (Tag_typed t) = (resting c \<and> length t \<le> 30)"
| "view_offers c v d (Tag_key k) = resting c"
| "view_offers c v d Tag_blur = resting c"
| "view_offers c v d (Tag_remove n) = (resting c \<and> n < length (interestTags v))"
| "view_offers c v d Start_click = (resting c \<and> chat.connected c)"
| "view_offers c v d Cancel_click = (status c = Searching)"
| "view_offers c v d Stop_click = (status c = Connected)"
| "view_offers c v d Open_report = (status c = Connected \<or> status c = Disconnected \<and> str_truthy (reportPeerId c))"
| "view_offers c v d Close_report = dialog_drawn c v d"
| "view_offers c v d (Modal e) = (case entryModal v of None \<Rightarrow> False | Some m \<Rightarrow> modal_offers m e)"
| "view_offers c v d Modal_close = (entryModal v \<noteq> None)"
| "view_offers c v d e = False"

fun box_offers :: "'b chat_scheme \<Rightarrow> chat_input \<Rightarrow> nat option \<Rightarrow> input_event \<Rightarrow> bool" where
  "box_offers c i limit (Key t) = (status c = Connected \<and> fits limit (Some t))"
| "box_offers c i limit Submit = (status c = Connected \<and> js_trim (boxValue i) \<noteq> [])"
| "box_offers c i limit e = False"

fun text_offers :: "'b chat_scheme \<Rightarrow> chat_view \<Rightarrow> chat_input \<Rightarrow> report_dialog option \<Rightarrow> page_action \<Rightarrow> bool" where
  "text_offers c v i d (In_view e) = view_offers c v d e"
| "text_offers c v i d (In_box e) = box_offers c i (Some 2000) e"
| "text_offers c v i d (In_report e) = (dialog_drawn c v d \<and> report_offers (report_of c) (the d) e)"
| "text_offers c v i d Home_button = True"
| "text_offers c v i d Theme_button = True"
| "text_offers c v i d a = False"

text \<open>The video page also skips, has no limit on a message, and offers the controls of its videos.\<close>

fun video_offers ::
  "'b chat_scheme \<Rightarrow> chat_view \<Rightarrow> chat_input \<Rightarrow> report_dialog option \<Rightarrow> video_look \<Rightarrow> page_action \<Rightarrow> bool" where
  "video_offers c v i d l (In_view Next_click) = (status c = Connected)"
| "video_offers c v i d l (In_view e) = view_offers c v d e"
| "video_offers c v i d l (In_box e) = box_offers c i None e"
| "video_offers c v i d l (In_report e) = (dialog_drawn c v d \<and> report_offers (report_of c) (the d) e)"
| "video_offers c v i d l Home_button = True"
| "video_offers c v i d l Theme_button = True"
| "video_offers c v i d l Layout_button = isDesktopViewport l"
| "video_offers c v i d l Size_button = (look_layout l = ''pip'')"
| "video_offers c v i d l Ratio_button = (look_layout l = ''stacked'')"
| "video_offers c v i d l Preview_click = True"

section \<open>The screens offer exactly these\<close>

definition offers :: "page_action widget list \<Rightarrow> page_action \<Rightarrow> bool" where
  "offers els a \<longleftrightarrow> list_ex (provides a) els"

lemma offers_simps [simp]:
  "offers [] a = False" "offers (e # els) a = (provides a e \<or> offers els a)"
  "offers (els @ els') a = (offers els a \<or> offers els' a)"
  "offers (only_if b els) a = (b \<and> offers els a)"
  "offers (concat elss) a = list_ex (\<lambda>els. offers els a) elss"
  by (auto simp: offers_def only_if_def list_ex_iff)

lemma mute [simp]:
  "\<not> offers (as_child x) a" "\<not> offers (text_message m) a" "\<not> offers (video_message m) a"
  "\<not> provides a (status_light st)"
  by (simp_all add: as_child_def text_message_def video_message_def status_light_def split: sender.split)

lemma mute_line [simp]: "\<not> offers (report_line m) a"
  by (simp add: report_line_def)

lemma mute_tags [simp]: "\<not> offers (searching_tags ts) a"
  by (simp add: searching_tags_def offers_def list_ex_iff)

lemma mute_notices [simp]: "\<not> offers (text_notices c v) a" "\<not> offers (video_overlay c v l) a"
  by (simp_all add: text_notices_def video_overlay_def split: option.split overlay.split)

lemma mute_messages [simp]:
  "\<not> list_ex (\<lambda>els. offers els a) (map text_message ms)" "\<not> list_ex (\<lambda>els. offers els a) (map video_message ms)"
  "\<not> list_ex (\<lambda>els. offers els a) (map report_line ms)"
  by (simp_all add: list_ex_iff)

lemma offers_chips: "offers (tag_chips ts) a \<longleftrightarrow> (\<exists>n<length ts. a = In_view (Tag_remove n))"
proof -
  have "offers (tag_chips ts) a \<longleftrightarrow> (\<exists>c\<in>set (enumerate 0 ts). a = In_view (Tag_remove (fst c)))"
    by (simp add: tag_chips_def list_ex_iff split_beta)
  also have "\<dots> \<longleftrightarrow> (\<exists>n<length ts. a = In_view (Tag_remove n))"
  proof -
    have "fst ` set (enumerate 0 ts) = {..<length ts}"
      by (metis add_0 atLeast_upt list.set_map map_fst_enumerate)
    then show ?thesis by (metis image_iff lessThan_iff)
  qed
  finally show ?thesis .
qed

lemma offers_EntryModal:
  "offers (EntryModal k (\<lambda>e. In_view (Modal e)) (In_view Modal_close) m) a \<longleftrightarrow>
     a = In_view Modal_close \<or> (\<exists>e. a = In_view (Modal e) \<and> modal_offers m e)"
proof (cases "\<exists>e. a = In_view (Modal e)")
  case True
  then obtain e where "a = In_view (Modal e)" ..
  then show ?thesis by (cases e) (auto simp: EntryModal_def)
qed (auto simp: EntryModal_def)

lemma offers_ReportDialog:
  "offers (ReportDialog p d) a \<longleftrightarrow> a = In_view Close_report \<or> (\<exists>e. a = In_report e \<and> report_offers p d e)"
proof (cases a)
  case (In_view e)
  then show ?thesis by (cases e) (auto simp: ReportDialog_def Let_def)
next
  case (In_box e)
  then show ?thesis by (cases e) (auto simp: ReportDialog_def Let_def)
next
  case (In_report e)
  then show ?thesis by (cases e) (auto simp: ReportDialog_def Let_def fits_def)
qed (auto simp: ReportDialog_def Let_def)

lemma offers_dialogs:
  "offers (page_dialogs k c v d) a \<longleftrightarrow>
     dialog_drawn c v d \<and> (a = In_view Close_report \<or> (\<exists>e. a = In_report e \<and> report_offers (report_of c) (the d) e)) \<or>
     (\<exists>m. entryModal v = Some m \<and> (a = In_view Modal_close \<or> (\<exists>e. a = In_view (Modal e) \<and> modal_offers m e)))"
  by (auto simp: page_dialogs_def dialog_drawn_def report_of_def offers_ReportDialog offers_EntryModal
      split: option.splits)

lemma offers_form:
  "offers (search_form first c v) a \<longleftrightarrow>
     resting c \<and>
     ((\<exists>e. a = In_view e \<and> (case e of Tag_typed t \<Rightarrow> length t \<le> 30 | Tag_key k \<Rightarrow> True | Tag_blur \<Rightarrow> True
          | Tag_remove n \<Rightarrow> n < length (interestTags v) | Start_click \<Rightarrow> chat.connected c
          | Open_report \<Rightarrow> status c = Disconnected \<and> str_truthy (reportPeerId c) | _ \<Rightarrow> False)))"
proof (cases a)
  case (In_view e)
  then show ?thesis by (cases e) (auto simp: search_form_def resting_def offers_chips fits_def)
next
  case (In_box e)
  then show ?thesis by (cases e) (auto simp: search_form_def resting_def offers_chips)
next
  case (In_report e)
  then show ?thesis by (cases e) (auto simp: search_form_def resting_def offers_chips)
qed (auto simp: search_form_def resting_def offers_chips)

lemmas offers_parts = offers_form offers_dialogs cancel_button_def dialog_drawn_def resting_def

lemma text_screen_offers: "offers (text_screen k c v i d) a = text_offers c v i d a"
proof (cases a)
  case (In_view e)
  then show ?thesis
    by (cases e) (auto simp: text_screen_def text_header_def message_box_def offers_parts split: option.splits)
next
  case (In_box e)
  then show ?thesis
    by (cases e) (auto simp: text_screen_def text_header_def message_box_def offers_parts fits_def)
next
  case (In_report e)
  then show ?thesis
    by (cases e) (auto simp: text_screen_def text_header_def message_box_def offers_parts)
qed (auto simp: text_screen_def text_header_def message_box_def offers_parts)

lemma video_frames_offers: "offers (video_frames c l) a \<longleftrightarrow> a = Preview_click"
  by (auto simp: video_frames_def Let_def pip_handlers_def)

lemma video_screen_offers: "offers (video_screen k c v i d l) a = video_offers c v i d l a"
proof (cases a)
  case (In_view e)
  then show ?thesis
    by (cases e) (auto simp: video_screen_def chat_column_def video_header_def message_box_v_def search_form_v_def cancel_button_v_def
        page_dialogs_v_def video_frames_offers offers_parts split: option.splits)
next
  case (In_box e)
  then show ?thesis
    by (cases e) (auto simp: video_screen_def chat_column_def video_header_def message_box_v_def search_form_v_def cancel_button_v_def
        page_dialogs_v_def video_frames_offers offers_parts fits_def)
next
  case (In_report e)
  then show ?thesis
    by (cases e) (auto simp: video_screen_def chat_column_def video_header_def message_box_v_def search_form_v_def cancel_button_v_def
        page_dialogs_v_def video_frames_offers offers_parts)
qed (auto simp: video_screen_def chat_column_def video_header_def message_box_v_def search_form_v_def cancel_button_v_def
    page_dialogs_v_def video_frames_offers offers_parts)

section \<open>When a render throws\<close>

text \<open>
  An open report draws what was said as it is, and so does the text page with notices; the video page
  sanitizes notices too.
\<close>

definition report_undrawable :: "'b chat_scheme \<Rightarrow> chat_view \<Rightarrow> report_dialog option \<Rightarrow> bool" where
  "report_undrawable c v d \<longleftrightarrow>
     dialog_drawn c v d \<and> \<not> submitted (the d) \<and> (\<exists>m\<in>set (messages c). sender m \<noteq> System \<and> \<not> draws (body m))"

definition undrawable :: "'b chat_scheme \<Rightarrow> chat_view \<Rightarrow> report_dialog option \<Rightarrow> bool" where
  "undrawable c v d \<longleftrightarrow>
     (\<exists>m\<in>set (messages c). sender m = System \<and> \<not> draws (body m)) \<or> report_undrawable c v d"

lemma only_if_set [simp]: "set (only_if b els) = (if b then set els else {})"
  by (simp add: only_if_def)

lemma throws_messages:
  "Throws \<in> set (concat (map text_message ms) :: page_action widget list) \<longleftrightarrow> (\<exists>m\<in>set ms. sender m = System \<and> \<not> draws (body m))"
proof -
  have "Throws \<in> set (text_message m :: page_action widget list) \<longleftrightarrow> sender m = System \<and> \<not> draws (body m)" for m
    by (cases "sender m") (simp_all add: text_message_def)
  then show ?thesis by simp
qed

lemma throws_report:
  "Throws \<in> set (ReportDialog p d) \<longleftrightarrow> \<not> submitted d \<and> (\<exists>m\<in>set (chatMessages (transcript p)). \<not> draws (body m))"
proof -
  have "Throws \<in> set (report_line m :: page_action widget list) \<longleftrightarrow> \<not> draws (body m)" for m :: chat_message
    by (simp add: report_line_def as_child_def)
  then show ?thesis by (auto simp: ReportDialog_def Let_def)
qed

lemma calm_parts [simp]:
  "Throws \<notin> set (search_form first c v)" "Throws \<notin> set (cancel_button c)" "Throws \<notin> set (message_box b i)"
  "Throws \<notin> set (text_header c)" "Throws \<notin> set (text_notices c v)" "Throws \<notin> set (EntryModal k on close m)"
  by (auto simp: search_form_def tag_chips_def cancel_button_def message_box_def text_header_def status_light_def
      text_notices_def searching_tags_def EntryModal_def)

lemma throws_text_screen: "Throws \<in> set (text_screen k c v i d) \<longleftrightarrow> undrawable c v d"
  by (auto simp: text_screen_def undrawable_def report_undrawable_def throws_messages [simplified] page_dialogs_def throws_report
      chatMessages_def dialog_drawn_def split: option.splits)

lemma available_text: "available_in (text_screen k c v i d) a \<longleftrightarrow> \<not> undrawable c v d \<and> text_offers c v i d a"
  using text_screen_offers [of k c v i d a] by (simp add: available_in_def throws_text_screen offers_def)

lemma throws_video_screen:
  "Throws \<in> set (video_screen k c v i d l) \<longleftrightarrow> report_undrawable c v d"
proof -
  have "Throws \<notin> set (video_message m :: page_action widget list)" for m
    by (cases "sender m") (simp_all add: video_message_def)
  moreover have "Throws \<notin> set (video_header c l)" "Throws \<notin> set (video_frames c l)" "Throws \<notin> set (video_overlay c v l)"
    "Throws \<notin> set (message_box_v v i)"
    by (auto simp: video_header_def status_light_def video_frames_def Let_def video_overlay_def searching_tags_def
        message_box_v_def split: option.split overlay.split)
  ultimately show ?thesis
    by (auto simp: video_screen_def chat_column_def search_form_v_def cancel_button_v_def page_dialogs_v_def page_dialogs_def
        report_undrawable_def throws_report chatMessages_def dialog_drawn_def split: option.splits)
qed

lemma available_video: "available_in (video_screen k c v i d l) a \<longleftrightarrow> \<not> report_undrawable c v d \<and> video_offers c v i d l a"
  using video_screen_offers [of k c v i d l a] by (simp add: available_in_def throws_video_screen offers_def)

text \<open>Its message box, unlike that of the text page, takes a text of any length.\<close>

lemma video_box_has_no_limit:
  "\<lbrakk>status c = Connected; d = None\<rbrakk> \<Longrightarrow> available_in (video_screen k c v i d l) (In_box (Key t))"
  by (simp add: available_video report_undrawable_def dialog_drawn_def fits_def)

text \<open>
  C23: the screens of both pages and their states agree: an action is on offer exactly when the
  specification, which reads the state alone, allows it, and the render does not throw. So the form, the
  cancel button and the chat buttons follow the status of the hook, the start button its connection, the
  dialogs their flags, the controls of the videos the layout; and a render throws exactly when a message in an
  open report, or on the text page a notice, is an object.
\<close>

theorem chat_controls_exact:
  "(available_in (text_screen k c v i d) a \<longleftrightarrow> \<not> undrawable c v d \<and> text_offers c v i d a) \<and>
   (available_in (video_screen k c v i d l) a \<longleftrightarrow> \<not> report_undrawable c v d \<and> video_offers c v i d l a)"
  by (intro conjI available_text available_video)

end
