(* ===== verification/Chat_Desk.thy ===== *)
theory Chat_Desk
  imports Chat_Controls Chat_Session Chat_Input
begin

text \<open>
  A whole chat page (\<open>TextChat\<close> in \<^verbatim>\<open>client/src/components/TextChat.tsx\<close>, \<open>VideoChat\<close> in
  \<^verbatim>\<open>VideoChat.tsx\<close>): the hook with its sockets, the view around it, the message box, the report dialog
  and the entry dialog as one event system. The two pages of the source are copies of each other, so what
  they share is defined once, over the code in which they differ.

  \<^item> The user acts only through the controls the screen draws. What the view and the box hand on becomes a
    call of the hook, in the same event.
  \<^item> After each event the page renders and commits: the effects of the view run, the message box is
    mounted in a chat and only there, the report dialog while it is asked for and there is someone to
    report. A render that throws takes the page down, as the error boundary does.
  \<^item> A box or a dialog that was unmounted is kept in \<open>pastBoxes\<close> or \<open>pastReports\<close>, since its timers and
    requests may still end. The dialog and the hook share the health context.
  \<^item> Time and the network stay with the environment: the hook's own events, the widget of the entry
    dialog, timers, and the outcome of a report.
\<close>

section \<open>The code of a page\<close>

text \<open>
  The steps of its hook (\<open>'e\<close> are its events, \<open>'x\<close> the part of its state that is its own) and of its
  view; the calls of the hook a step of the view makes; the events of the hook that the page does not
  make; the screen; and what else the page keeps (\<open>'y\<close>): how it reacts to a control, to an event of its
  own (\<open>'l\<close>) and to a commit.
\<close>

record ('e, 'x, 'y, 'l) page_code =
  hookStep :: "'e \<Rightarrow> 'x chat_scheme \<Rightarrow> 'x chat_scheme"
  viewStep :: "view_event \<Rightarrow> chat_view \<Rightarrow> chat_view"
  callsOf :: "lib_outcome \<Rightarrow> chat_view \<Rightarrow> chat_view \<Rightarrow> 'e list"
  typingCall :: "bool \<Rightarrow> 'e"
  leaveCall :: 'e
  fromOutside :: "'e \<Rightarrow> bool"
  screenOf :: "string \<Rightarrow> 'x chat_scheme \<Rightarrow> chat_view \<Rightarrow> chat_input \<Rightarrow> report_dialog option \<Rightarrow> 'y \<Rightarrow> page_action widget list"
  lookPress :: "page_action \<Rightarrow> 'y \<Rightarrow> 'y"
  lookStep :: "'l \<Rightarrow> 'x chat_scheme \<Rightarrow> 'y \<Rightarrow> 'y"
  lookCommit :: "'x chat_scheme \<Rightarrow> 'y \<Rightarrow> 'y"

record ('x, 'y) desk =
  hook :: "'x chat_scheme"
  viewState :: chat_view
  inputBox :: "chat_input option"
  pastBoxes :: "chat_input list"
  reportBox :: "report_dialog option"
  pastReports :: "report_dialog list"
  left :: bool
  look :: 'y

definition open_desk :: "'x chat_scheme \<Rightarrow> string option \<Rightarrow> 'y \<Rightarrow> ('x, 'y) desk" where
  "open_desk c token y =
     \<lparr>hook = c, viewState = initial_view token, inputBox = None, pastBoxes = [], reportBox = None,
      pastReports = [], left = False, look = y\<rparr>"

definition desk_screen :: "('e, 'x, 'y, 'l) page_code \<Rightarrow> string \<Rightarrow> ('x, 'y) desk \<Rightarrow> page_action widget list" where
  "desk_screen pc k d =
     screenOf pc k (hook d) (viewState d) (case inputBox d of Some i \<Rightarrow> i | None \<Rightarrow> initial_input) (reportBox d) (look d)"

section \<open>Events reach the parts\<close>

definition page_hears ::
  "('e, 'x, 'y, 'l) page_code \<Rightarrow> lib_outcome \<Rightarrow> view_event \<Rightarrow> ('x, 'y) desk \<Rightarrow> ('x, 'y) desk" where
  "page_hears pc lib e d =
     (let v' = viewStep pc e (viewState d)
      in d\<lparr>viewState := v', hook := run_events (hookStep pc) (callsOf pc lib (viewState d) v') (hook d)\<rparr>)"

text \<open>A message of the box goes through the view, a typing report straight to the hook.\<close>

definition box_calls ::
  "('e, 'x, 'y, 'l) page_code \<Rightarrow> lib_outcome \<Rightarrow> chat_input \<Rightarrow> chat_input \<Rightarrow> ('x, 'y) desk \<Rightarrow> ('x, 'y) desk" where
  "box_calls pc lib i i' d =
     (let d = fold (\<lambda>t. page_hears pc lib (Send_click t)) (drop (length (sentTexts i)) (sentTexts i')) d
      in d\<lparr>hook := run_events (hookStep pc) (map (typingCall pc) (drop (length (sentTyping i)) (sentTyping i'))) (hook d)\<rparr>)"

definition box_hears ::
  "('e, 'x, 'y, 'l) page_code \<Rightarrow> lib_outcome \<Rightarrow> input_event \<Rightarrow> ('x, 'y) desk \<Rightarrow> ('x, 'y) desk" where
  "box_hears pc lib e d =
     (case inputBox d of
        None \<Rightarrow> d
      | Some i \<Rightarrow> box_calls pc lib i (input_step e i) (d\<lparr>inputBox := Some (input_step e i)\<rparr>))"

definition past_box_hears ::
  "('e, 'x, 'y, 'l) page_code \<Rightarrow> lib_outcome \<Rightarrow> nat \<Rightarrow> input_event \<Rightarrow> ('x, 'y) desk \<Rightarrow> ('x, 'y) desk" where
  "past_box_hears pc lib n e d =
     (if n < length (pastBoxes d)
      then let i = pastBoxes d ! n; i' = input_step e i
        in box_calls pc lib i i' (d\<lparr>pastBoxes := (pastBoxes d)[n := i']\<rparr>)
      else d)"

definition dialog_hears :: "report_event \<Rightarrow> ('x, 'y) desk \<Rightarrow> ('x, 'y) desk" where
  "dialog_hears e d =
     (case reportBox d of
        None \<Rightarrow> d
      | Some r \<Rightarrow>
          let r' = report_step e (r\<lparr>network := health (hook d)\<rparr>)
          in d\<lparr>reportBox := Some r', hook := (hook d)\<lparr>health := network r'\<rparr>\<rparr>)"

definition past_dialog_hears :: "nat \<Rightarrow> report_event \<Rightarrow> ('x, 'y) desk \<Rightarrow> ('x, 'y) desk" where
  "past_dialog_hears n e d =
     (if n < length (pastReports d)
      then let r' = report_step e ((pastReports d ! n)\<lparr>network := health (hook d)\<rparr>)
        in d\<lparr>pastReports := (pastReports d)[n := r'], hook := (hook d)\<lparr>health := network r'\<rparr>\<rparr>
      else d)"

section \<open>Commits\<close>

definition see_hook :: "('e, 'x, 'y, 'l) page_code \<Rightarrow> ('x, 'y) desk \<Rightarrow> ('x, 'y) desk" where
  "see_hook pc d =
     d\<lparr>viewState := viewStep pc
         (View_commit (chat.connected (hook d)) (status (hook d)) (messages (hook d)) True) (viewState d),
       look := lookCommit pc (hook d) (look d)\<rparr>"

definition unmount_box :: "('x, 'y) desk \<Rightarrow> ('x, 'y) desk" where
  "unmount_box d =
     (case inputBox d of
        None \<Rightarrow> d
      | Some i \<Rightarrow> d\<lparr>inputBox := None, pastBoxes := pastBoxes d @ [input_step Unmount_input i]\<rparr>)"

definition mount_box :: "('x, 'y) desk \<Rightarrow> ('x, 'y) desk" where
  "mount_box d =
     (if status (hook d) = Connected
      then d\<lparr>inputBox := Some (case inputBox d of None \<Rightarrow> initial_input | Some i \<Rightarrow> i)\<rparr>
      else unmount_box d)"

definition unmount_dialog :: "('x, 'y) desk \<Rightarrow> ('x, 'y) desk" where
  "unmount_dialog d0 =
     (let d = dialog_hears Close_dialog d0
      in case reportBox d of None \<Rightarrow> d | Some r \<Rightarrow> d\<lparr>reportBox := None, pastReports := pastReports d @ [r]\<rparr>)"

definition mount_dialog :: "('x, 'y) desk \<Rightarrow> ('x, 'y) desk" where
  "mount_dialog d =
     (if showReport (viewState d) \<and> str_truthy (reportPeerId (hook d))
      then d\<lparr>reportBox := Some (case reportBox d of None \<Rightarrow> open_dialog (health (hook d)) | Some r \<Rightarrow> r)\<rparr>
      else unmount_dialog d)"

definition leave_desk :: "('e, 'x, 'y, 'l) page_code \<Rightarrow> ('x, 'y) desk \<Rightarrow> ('x, 'y) desk" where
  "leave_desk pc d0 =
     (let d = unmount_dialog (unmount_box d0)
      in d\<lparr>hook := hookStep pc (leaveCall pc) (hook d), left := True\<rparr>)"

definition commit_desk :: "('e, 'x, 'y, 'l) page_code \<Rightarrow> string \<Rightarrow> ('x, 'y) desk \<Rightarrow> ('x, 'y) desk" where
  "commit_desk pc k d =
     (if left d then d
      else let d' = mount_dialog (mount_box (see_hook pc d))
        in if Throws \<in> set (desk_screen pc k d') then leave_desk pc d else d')"

section \<open>The page\<close>

datatype ('e, 'l) desk_event =
    Act page_action lib_outcome
  | Outside 'e
  | Look 'l
  | Widget modal_event
  | Stop_tap_over nat
  | Skip_tap_over nat
  | Box_later input_event
  | Past_box nat input_event
  | Dialog_settles report_outcome
  | Past_dialog nat report_outcome

definition from_widget :: "modal_event \<Rightarrow> bool" where
  "from_widget e \<longleftrightarrow> (case e of Tick_terms b \<Rightarrow> False | Tick_rules b \<Rightarrow> False | Confirm \<Rightarrow> False | _ \<Rightarrow> True)"

definition later :: "input_event \<Rightarrow> bool" where
  "later e \<longleftrightarrow> (case e of Deferred_report \<Rightarrow> True | Typing_timer t \<Rightarrow> True | _ \<Rightarrow> False)"

fun press_control :: "('e, 'x, 'y, 'l) page_code \<Rightarrow> lib_outcome \<Rightarrow> page_action \<Rightarrow> ('x, 'y) desk \<Rightarrow> ('x, 'y) desk" where
  "press_control pc lib (In_view e) d = page_hears pc lib e d"
| "press_control pc lib (In_box e) d = box_hears pc lib e d"
| "press_control pc lib (In_report e) d = dialog_hears e d"
| "press_control pc lib Home_button d = leave_desk pc d"
| "press_control pc lib a d = d\<lparr>look := lookPress pc a (look d)\<rparr>"

fun desk_step :: "('e, 'x, 'y, 'l) page_code \<Rightarrow> string \<Rightarrow> ('e, 'l) desk_event \<Rightarrow> ('x, 'y) desk \<Rightarrow> ('x, 'y) desk" where
  "desk_step pc k (Act a lib) d =
     (if \<not> left d \<and> available_in (desk_screen pc k d) a then commit_desk pc k (press_control pc lib a d) else d)"
| "desk_step pc k (Outside e) d =
     (if fromOutside pc e then commit_desk pc k (d\<lparr>hook := hookStep pc e (hook d)\<rparr>) else d)"
| "desk_step pc k (Look e) d =
     (if \<not> left d then commit_desk pc k (d\<lparr>look := lookStep pc e (hook d) (look d)\<rparr>) else d)"
| "desk_step pc k (Widget e) d =
     (if \<not> left d \<and> k \<noteq> [] \<and> from_widget e then commit_desk pc k (page_hears pc LibOk (Modal e) d) else d)"
| "desk_step pc k (Stop_tap_over t) d =
     (if \<not> left d then commit_desk pc k (page_hears pc LibOk (Stop_timer t) d) else d)"
| "desk_step pc k (Skip_tap_over t) d =
     (if \<not> left d then commit_desk pc k (page_hears pc LibOk (Skip_timer t) d) else d)"
| "desk_step pc k (Box_later e) d = (if later e then commit_desk pc k (box_hears pc LibOk e d) else d)"
| "desk_step pc k (Past_box n e) d = (if later e then commit_desk pc k (past_box_hears pc LibOk n e d) else d)"
| "desk_step pc k (Dialog_settles r) d = commit_desk pc k (dialog_hears (Settle_report r) d)"
| "desk_step pc k (Past_dialog n r) d = commit_desk pc k (past_dialog_hears n (Settle_report r) d)"

section \<open>What the operations leave alone\<close>

lemma dialog_fields [simp]:
  "reportPeerId (hook (dialog_hears e d)) = reportPeerId (hook d)" "status (hook (dialog_hears e d)) = status (hook d)"
  "messages (hook (dialog_hears e d)) = messages (hook d)" "viewState (dialog_hears e d) = viewState d"
  "inputBox (dialog_hears e d) = inputBox d" "left (dialog_hears e d) = left d" "look (dialog_hears e d) = look d"
  "pastBoxes (dialog_hears e d) = pastBoxes d"
  "reportPeerId (hook (past_dialog_hears n e d)) = reportPeerId (hook d)" "left (past_dialog_hears n e d) = left d"
  "status (hook (past_dialog_hears n e d)) = status (hook d)" "viewState (past_dialog_hears n e d) = viewState d"
  "messages (hook (past_dialog_hears n e d)) = messages (hook d)" "inputBox (past_dialog_hears n e d) = inputBox d"
  "reportBox (past_dialog_hears n e d) = reportBox d" "pastBoxes (past_dialog_hears n e d) = pastBoxes d"
  by (simp_all add: dialog_hears_def past_dialog_hears_def Let_def split: option.split)

lemma unmount_fields [simp]:
  "viewState (unmount_box d) = viewState d" "hook (unmount_box d) = hook d" "reportBox (unmount_box d) = reportBox d"
  "left (unmount_box d) = left d" "inputBox (unmount_box d) = None" "look (unmount_box d) = look d"
  "viewState (unmount_dialog d) = viewState d" "reportPeerId (hook (unmount_dialog d)) = reportPeerId (hook d)"
  "status (hook (unmount_dialog d)) = status (hook d)" "messages (hook (unmount_dialog d)) = messages (hook d)"
  "left (unmount_dialog d) = left d" "inputBox (unmount_dialog d) = inputBox d" "reportBox (unmount_dialog d) = None"
  "look (unmount_dialog d) = look d" "pastBoxes (unmount_dialog d) = pastBoxes d"
  "viewState (leave_desk pc d) = viewState d" "left (leave_desk pc d)" "inputBox (leave_desk pc d) = None"
  by (simp_all add: unmount_box_def unmount_dialog_def leave_desk_def Let_def split: option.split)

lemma mount_fields [simp]:
  "hook (see_hook pc d) = hook d" "left (see_hook pc d) = left d" "reportBox (see_hook pc d) = reportBox d"
  "inputBox (see_hook pc d) = inputBox d" "pastBoxes (see_hook pc d) = pastBoxes d"
  "hook (mount_box d) = hook d" "left (mount_box d) = left d" "viewState (mount_box d) = viewState d"
  "reportBox (mount_box d) = reportBox d" "inputBox (mount_box d) \<noteq> None \<longleftrightarrow> status (hook d) = Connected"
  "viewState (mount_dialog d) = viewState d" "reportPeerId (hook (mount_dialog d)) = reportPeerId (hook d)"
  "status (hook (mount_dialog d)) = status (hook d)" "messages (hook (mount_dialog d)) = messages (hook d)"
  "left (mount_dialog d) = left d" "inputBox (mount_dialog d) = inputBox d" "pastBoxes (mount_dialog d) = pastBoxes d"
  by (simp_all add: see_hook_def mount_box_def mount_dialog_def)

lemma mount_report: "reportBox (mount_dialog d) \<noteq> None \<longleftrightarrow> showReport (viewState d) \<and> str_truthy (reportPeerId (hook d))"
  by (simp add: mount_dialog_def)

lemma commit_fields:
  "\<not> left (commit_desk pc k d) \<Longrightarrow> reportPeerId (hook (commit_desk pc k d)) = reportPeerId (hook d)"
  "\<not> left (commit_desk pc k d) \<Longrightarrow> status (hook (commit_desk pc k d)) = status (hook d)"
  "left d \<Longrightarrow> commit_desk pc k d = d"
  by (auto simp: commit_desk_def Let_def split: if_splits)

lemma left_hears [simp]:
  "left (page_hears pc lib e d) = left d" "left (box_hears pc lib be d) = left d" "left (past_box_hears pc lib n be d) = left d"
proof -
  have "left (fold (\<lambda>t. page_hears pc lib (Send_click t)) ts d) = left d" for ts d
    by (induction ts arbitrary: d) (simp_all add: page_hears_def Let_def)
  then have "left (box_calls pc lib i i' d) = left d" for i i' d by (simp add: box_calls_def Let_def)
  then show "left (box_hears pc lib be d) = left d" "left (past_box_hears pc lib n be d) = left d"
    by (simp_all add: box_hears_def past_box_hears_def Let_def split: option.split)
qed (simp add: page_hears_def Let_def)

lemma left_step: "left d \<Longrightarrow> left (desk_step pc k e d)"
  by (cases e) (simp_all add: commit_fields)

lemma left_run: "left d \<Longrightarrow> left (run_events (desk_step pc k) es d)"
  by (induction es arbitrary: d) (simp_all add: left_step)

text \<open>The view changes by its steps alone, and the look by what the page does with it.\<close>

lemma view_kept:
  assumes step: "\<And>e v. P v \<Longrightarrow> P (viewStep pc e v)" and "P (viewState d)"
  shows "P (viewState (desk_step pc k e d))"
proof -
  have hears: "P (viewState d) \<Longrightarrow> P (viewState (page_hears pc lib e d))" for lib e d
    by (simp add: page_hears_def Let_def step)
  have "P (viewState d) \<Longrightarrow> P (viewState (fold (\<lambda>t. page_hears pc lib (Send_click t)) ts d))" for lib ts d
    by (induction ts arbitrary: d) (simp_all add: hears)
  then have calls: "P (viewState d) \<Longrightarrow> P (viewState (box_calls pc lib i i' d))" for lib i i' d
    by (simp add: box_calls_def Let_def)
  have box: "P (viewState d) \<Longrightarrow> P (viewState (box_hears pc lib be d))"
    "P (viewState d) \<Longrightarrow> P (viewState (past_box_hears pc lib n be d))" for lib n be d
    by (simp_all add: box_hears_def past_box_hears_def Let_def calls split: option.split)
  have press: "P (viewState (press_control pc lib a d))" for lib a
    using assms(2) by (cases a) (simp_all add: hears box)
  have commit: "P (viewState d) \<Longrightarrow> P (viewState (commit_desk pc k d))" for d
    by (simp add: commit_desk_def Let_def see_hook_def step)
  show ?thesis using assms(2) by (cases e) (simp_all add: commit press hears box)
qed

lemma look_kept:
  assumes "\<And>a y. P y \<Longrightarrow> P (lookPress pc a y)" and "\<And>e c y. P y \<Longrightarrow> P (lookStep pc e c y)"
    and step: "\<And>c y. P y \<Longrightarrow> P (lookCommit pc c y)" and "P (look d)"
  shows "P (look (desk_step pc k e d))"
proof -
  have hears [simp]: "look (page_hears pc lib e d) = look d" for lib e d
    by (simp add: page_hears_def Let_def)
  have "look (fold (\<lambda>t. page_hears pc lib (Send_click t)) ts d) = look d" for lib ts d
    by (induction ts arbitrary: d) simp_all
  then have "look (box_calls pc lib i i' d) = look d" for lib i i' d by (simp add: box_calls_def Let_def)
  then have [simp]: "look (box_hears pc lib be d) = look d" "look (past_box_hears pc lib n be d) = look d" for lib n be d
    by (simp_all add: box_hears_def past_box_hears_def Let_def split: option.split)
  have [simp]: "look (past_dialog_hears n re d) = look d" for n re d by (simp add: past_dialog_hears_def Let_def)
  have press: "P (look (press_control pc lib a d))" for lib a
    using assms(1,4) by (cases a) (simp_all add: leave_desk_def Let_def)
  have commit: "P (look d) \<Longrightarrow> P (look (commit_desk pc k d))" for d
    by (simp add: commit_desk_def Let_def leave_desk_def see_hook_def mount_box_def mount_dialog_def step)
  show ?thesis using assms(2,4) by (cases e) (simp_all add: commit press)
qed

end
