(* ===== verification/Desk_Contract.thy ===== *)
theory Desk_Contract
  imports Chat_Desk
begin

text \<open>
  What a chat page owes its screen, as the locale \<open>page_contract\<close> over the code of the page, and what
  follows for every run of every page that keeps it: after each event screen and state agree, and a report
  that was asked for is put up against the next stranger. \<open>two_tap_page\<close> adds what makes the buttons that
  end a chat safe against a single tap. \<open>Desk_Props\<close> and \<open>Video_Desk\<close> hold the instances.
\<close>

section \<open>What a commit leaves on the screen\<close>

text \<open>A condition that holds at every state of a run.\<close>

fun along :: "('s \<Rightarrow> bool) \<Rightarrow> ('e \<Rightarrow> 's \<Rightarrow> 's) \<Rightarrow> 'e list \<Rightarrow> 's \<Rightarrow> bool" where
  "along P f [] s = P s"
| "along P f (e # es) s = (P s \<and> along P f es (f e s))"

lemma along_ends: "along P f es s \<Longrightarrow> P s \<and> P (run_events f es s)"
  by (induction es arbitrary: s) auto

definition desk_sync :: "('e, 'x, 'y, 'l) page_code \<Rightarrow> string \<Rightarrow> ('x, 'y) desk \<Rightarrow> bool" where
  "desk_sync pc k d \<longleftrightarrow>
     left d \<or>
     (reportBox d \<noteq> None \<longleftrightarrow> showReport (viewState d) \<and> str_truthy (reportPeerId (hook d))) \<and>
     (inputBox d \<noteq> None \<longleftrightarrow> status (hook d) = Connected) \<and>
     hookStatus (viewState d) = status (hook d) \<and>
     Throws \<notin> set (desk_screen pc k d)"

text \<open>There is nobody to report; the Report button was pressed and no dialog is up.\<close>

definition nobody :: "('x, 'y) desk \<Rightarrow> bool" where
  "nobody d \<longleftrightarrow> \<not> str_truthy (reportPeerId (hook d))"

definition flagged :: "('x, 'y) desk \<Rightarrow> bool" where
  "flagged d \<longleftrightarrow> showReport (viewState d) \<and> reportBox d = None"

text \<open>A commit mounts a fresh dialog whenever there is someone to report and the flag is set.\<close>

lemma commit_opens:
  assumes "reportBox d = None" and "showReport (viewState (see_hook pc d))" and "str_truthy (reportPeerId (hook d))"
    and "\<not> left (commit_desk pc k d)"
  shows "\<exists>h. reportBox (commit_desk pc k d) = Some (open_dialog h)"
  using assms by (auto simp: commit_desk_def Let_def mount_dialog_def split: if_splits)

lemma commit_view: "\<not> left (commit_desk pc k d) \<Longrightarrow> viewState (commit_desk pc k d) = viewState (see_hook pc d)"
  by (auto simp: commit_desk_def Let_def split: if_splits)

section \<open>The contract\<close>

locale page_contract =
  fixes pc :: "('e, 'x, 'y, 'l) page_code"
  assumes sees_status: "hookStatus (viewStep pc (View_commit conn st msgs changed) v) = st"
    and keeps_flag: "\<lbrakk>showReport v; e \<noteq> Close_report\<rbrakk> \<Longrightarrow> showReport (viewStep pc e v)"
    and close_offered:
      "available_in (screenOf pc k c v i d y) (In_view Close_report) \<longleftrightarrow>
       Throws \<notin> set (screenOf pc k c v i d y) \<and> dialog_drawn c v d"
    and fresh_report:
      "\<lbrakk>Throws \<notin> set (screenOf pc k c v i (Some (open_dialog h)) y); dialog_drawn c v (Some (open_dialog h))\<rbrakk> \<Longrightarrow>
       available_in (screenOf pc k c v i (Some (open_dialog h)) y) (In_report (Choose_reason ''harassment''))"
begin

lemma commit_sync: "desk_sync pc k (commit_desk pc k d)"
  by (auto simp: commit_desk_def Let_def desk_sync_def mount_report see_hook_def sees_status simp del: not_None_eq)

lemma step_sync: "desk_sync pc k d \<Longrightarrow> desk_sync pc k (desk_step pc k e d)"
  by (cases e) (auto simp: commit_sync)

lemma run_sync: "desk_sync pc k d \<Longrightarrow> desk_sync pc k (run_events (desk_step pc k) es d)"
  by (induction es arbitrary: d) (simp_all add: step_sync)

lemma see_flag: "showReport (viewState d) \<Longrightarrow> showReport (viewState (see_hook pc d))"
  by (simp add: see_hook_def keeps_flag)

lemma page_hears_flagged: "\<lbrakk>flagged d; e \<noteq> Close_report\<rbrakk> \<Longrightarrow> flagged (page_hears pc lib e d)"
  by (simp add: page_hears_def flagged_def Let_def keeps_flag)

lemma box_calls_flagged: "flagged d \<Longrightarrow> flagged (box_calls pc lib i i' d)"
proof -
  have "flagged d \<Longrightarrow> flagged (fold (\<lambda>t. page_hears pc lib (Send_click t)) ts d)" for ts d
    by (induction ts arbitrary: d) (simp_all add: page_hears_flagged)
  moreover assume "flagged d"
  ultimately show ?thesis by (simp add: box_calls_def Let_def flagged_def)
qed

lemma box_hears_flagged: "flagged d \<Longrightarrow> flagged (box_hears pc lib e d)"
  by (auto simp: box_hears_def intro!: box_calls_flagged split: option.split) (simp add: flagged_def)

lemma past_box_hears_flagged: "flagged d \<Longrightarrow> flagged (past_box_hears pc lib n e d)"
  by (auto simp: past_box_hears_def Let_def intro!: box_calls_flagged) (simp add: flagged_def)

lemma press_flagged:
  assumes "flagged d" and "available_in (desk_screen pc k d) a"
  shows "flagged (press_control pc lib a d) \<or> left (press_control pc lib a d)"
proof (cases a)
  case (In_view e)
  with assms have "e \<noteq> Close_report" by (auto simp: desk_screen_def close_offered dialog_drawn_def flagged_def)
  with assms(1) show ?thesis by (simp add: In_view page_hears_flagged)
next
  case (In_report e)
  with assms(1) show ?thesis by (simp add: dialog_hears_def flagged_def)
next
  case (In_box e)
  with assms(1) show ?thesis by (simp add: box_hears_flagged)
qed (use assms(1) in \<open>simp_all add: flagged_def\<close>)

text \<open>Every event commits such a state, while no dialog is mounted.\<close>

lemma step_of_flagged:
  assumes "flagged d" and "\<not> left d"
  shows "desk_step pc k e d = d \<or> (\<exists>d'. desk_step pc k e d = commit_desk pc k d' \<and> (flagged d' \<or> left d'))"
proof (cases e)
  case (Act a lib)
  with press_flagged [OF assms(1), of k a lib] show ?thesis by auto
next
  case (Box_later be)
  with box_hears_flagged [OF assms(1)] show ?thesis by auto
next
  case (Past_box n be)
  with past_box_hears_flagged [OF assms(1)] show ?thesis by auto
next
  case (Widget me)
  with page_hears_flagged [OF assms(1)] show ?thesis by auto
next
  case (Stop_tap_over t)
  with page_hears_flagged [OF assms(1)] show ?thesis by auto
next
  case (Skip_tap_over t)
  with page_hears_flagged [OF assms(1)] show ?thesis by auto
qed (use assms in \<open>auto simp: dialog_hears_def flagged_def\<close>)

lemma flagged_step:
  assumes "flagged d" and "desk_sync pc k d" and "nobody (desk_step pc k e d)"
  shows "left (desk_step pc k e d) \<or> flagged (desk_step pc k e d)"
proof (cases "left d \<or> desk_step pc k e d = d")
  case False
  then obtain d' where d': "desk_step pc k e d = commit_desk pc k d'" "flagged d' \<or> left d'"
    using step_of_flagged [OF assms(1)] by blast
  have "desk_sync pc k (desk_step pc k e d)" by (rule step_sync [OF assms(2)])
  with d' assms(3) see_flag [of d'] show ?thesis
    by (auto simp: desk_sync_def flagged_def nobody_def commit_fields commit_view)
qed (use assms(1) in \<open>auto simp: left_step\<close>)

lemma flagged_run:
  assumes "flagged d" and "desk_sync pc k d" and "along nobody (desk_step pc k) es d"
  shows "left (run_events (desk_step pc k) es d) \<or> flagged (run_events (desk_step pc k) es d)"
  using assms
proof (induction es arbitrary: d)
  case (Cons e es)
  have "nobody (desk_step pc k e d)"
    using along_ends [of nobody "desk_step pc k" es "desk_step pc k e d"] Cons.prems(3) by (cases es) auto
  from flagged_step [OF Cons.prems(1,2) this] show ?case
  proof
    assume "flagged (desk_step pc k e d)"
    with Cons.IH [OF _ step_sync [OF Cons.prems(2)], of e] Cons.prems(3) show ?thesis by simp
  qed (simp add: left_run)
qed simp

lemma opens_by_itself:
  assumes "desk_sync pc k d" and "showReport (viewState d)" and "along nobody (desk_step pc k) es d"
    and "s = desk_step pc k e (run_events (desk_step pc k) es d)" and "\<not> nobody s" and "\<not> left s"
  shows "\<exists>h. reportBox s = Some (open_dialog h) \<and>
    available_in (desk_screen pc k s) (In_report (Choose_reason ''harassment'')) \<and>
    available_in (desk_screen pc k s) (In_view Close_report)"
proof -
  let ?d = "run_events (desk_step pc k) es d"
  have sync: "desk_sync pc k s" unfolding assms(4) by (intro step_sync run_sync assms(1))
  have stay: "\<not> left ?d" "\<not> left d" using assms(4,6) left_step left_run by blast+
  have none: "nobody ?d" "nobody d" using along_ends [OF assms(3)] by simp_all
  with assms(1,2) stay have "flagged d" by (auto simp: desk_sync_def flagged_def nobody_def)
  from flagged_run [OF this assms(1,3)] stay have "flagged ?d" by simp
  from step_of_flagged [OF this stay(1), of k e] none(1) assms(4,5) obtain d'
    where d': "s = commit_desk pc k d'" "flagged d' \<or> left d'" by auto
  then have fl: "flagged d'" and peer: "str_truthy (reportPeerId (hook d'))"
    using assms(5,6) by (auto simp: commit_fields nobody_def)
  from commit_opens [of d' pc k] fl peer see_flag [of d'] d'(1) assms(6)
  obtain h where h: "reportBox s = Some (open_dialog h)" by (auto simp: flagged_def)
  moreover have "showReport (viewState s)" using fl see_flag [of d'] d'(1) assms(6) by (simp add: commit_view flagged_def)
  ultimately have "dialog_drawn (hook s) (viewState s) (Some (open_dialog h))"
    using assms(5) by (simp add: dialog_drawn_def nobody_def)
  with sync h assms(6) show ?thesis
    by (auto simp: desk_sync_def desk_screen_def close_offered intro!: fresh_report)
qed

end

section \<open>Two taps\<close>

locale two_tap_page = page_contract pc for pc :: "('e, 'x, 'y, 'l) page_code" +
  fixes unarmed :: "chat_view \<Rightarrow> bool"
  assumes leave_status: "status (hookStep pc (leaveCall pc) c) = status c"
    and send_status: "status (run_events (hookStep pc) (callsOf pc lib v (viewStep pc (Send_click t) v)) c) = status c"
    and typing_status: "status (hookStep pc (typingCall pc b) c) = status c"
    and first_tap:
      "\<lbrakk>available_in (screenOf pc k c v i d y) (In_view e); status c = Connected; hookStatus v = Connected;
        entryModal v = None; unarmed v\<rbrakk> \<Longrightarrow> callsOf pc lib v (viewStep pc e v) = []"
begin

lemma leave_desk_status: "status (hook (leave_desk pc d)) = status (hook d)"
  by (simp add: leave_desk_def Let_def leave_status)

lemma commit_status: "status (hook (commit_desk pc k d)) = status (hook d)"
  by (simp add: commit_desk_def Let_def leave_desk_status)

lemma box_calls_status: "status (hook (box_calls pc lib i i' d)) = status (hook d)"
proof -
  have "status (hook (fold (\<lambda>t. page_hears pc lib (Send_click t)) ts d0)) = status (hook d0)" for ts d0
    by (induction ts arbitrary: d0) (simp_all add: page_hears_def Let_def send_status)
  moreover have "status (run_events (hookStep pc) (map (typingCall pc) bs) c) = status c" for bs c
    by (induction bs arbitrary: c) (simp_all add: typing_status)
  ultimately show ?thesis by (simp add: box_calls_def Let_def)
qed

lemma box_hears_status: "status (hook (box_hears pc lib e d)) = status (hook d)"
  by (simp add: box_hears_def box_calls_status split: option.split)

lemma past_box_hears_status: "status (hook (past_box_hears pc lib n e d)) = status (hook d)"
  by (simp add: past_box_hears_def Let_def box_calls_status)

lemma one_tap:
  assumes "desk_sync pc k d" and "status (hook d) = Connected" and "unarmed (viewState d)"
    and "entryModal (viewState d) = None"
  shows "status (hook (desk_step pc k (Act a lib) d)) = Connected"
proof (cases "left d \<or> \<not> available_in (desk_screen pc k d) a")
  case False
  with assms(1,2) have "hookStatus (viewState d) = Connected" by (simp add: desk_sync_def)
  with False assms first_tap have "status (hook (press_control pc lib a d)) = Connected"
    by (cases a) (auto simp: desk_screen_def page_hears_def Let_def box_hears_status leave_desk_status)
  with False show ?thesis by (simp add: commit_status)
qed (use assms(2) in auto)

end

section \<open>Only the user asks\<close>

lemma widget_hands_nothing: "e \<noteq> Confirm \<Longrightarrow> confirmedTokens (modal_step e m) = confirmedTokens m"
  by (cases e) (simp_all add: turnstileSuccess_def turnstileError_def turnstileExpire_def)

lemma seeking_status: "session_of c = Seeking \<longleftrightarrow> status c = Searching"
  by (cases "status c") (simp_all add: session_of_def)

lemma status_of_session: "session_of a = session_of b \<Longrightarrow> status a = status b"
  by (cases "status a"; cases "status b") (simp_all add: session_of_def)

lemma run_quiet:
  assumes "\<And>x c. \<lbrakk>x \<in> set es; status (f x c) = Searching\<rbrakk> \<Longrightarrow> status c = Searching"
    and "status (run_events f es c) = Searching"
  shows "status c = Searching"
  using assms by (induction es arbitrary: c) auto

text \<open>
  A page on which only the taps of \<open>asks\<close> ask for a search, which may go out \<open>late\<close>, after a wait. A widget
  that hands on its token does not confirm the dialog.
\<close>

locale asked_page = two_tap_page pc unarmed
  for pc :: "('e, 'x, 'y, 'l) page_code" and unarmed :: "chat_view \<Rightarrow> bool" +
  fixes asks :: "view_event \<Rightarrow> bool" and late :: "'e \<Rightarrow> bool"
  assumes outside_quiet: "\<lbrakk>fromOutside pc e; \<not> late e; status (hookStep pc e c) = Searching\<rbrakk> \<Longrightarrow> status c = Searching"
    and view_keeps: "view_inv 0 v \<Longrightarrow> view_inv 0 (viewStep pc ve v)"
    and other_quiet:
      "\<lbrakk>view_inv 0 v; \<not> asks ve; status (run_events (hookStep pc) (callsOf pc lib v (viewStep pc ve v)) c) = Searching\<rbrakk> \<Longrightarrow>
       status c = Searching"
    and timers_quiet: "\<not> asks (Stop_timer t)" "\<not> asks (Skip_timer t)" "from_widget me \<Longrightarrow> \<not> asks (Modal me)"
begin

lemma page_hears_quiet:
  "\<lbrakk>view_inv 0 (viewState d); \<not> asks ve; status (hook (page_hears pc lib ve d)) = Searching\<rbrakk> \<Longrightarrow> status (hook d) = Searching"
  by (simp add: page_hears_def Let_def) (rule other_quiet)

lemma searches_when_tapped:
  assumes "view_inv 0 (viewState d)" and "status (hook (desk_step pc k e d)) = Searching"
    and "status (hook d) \<noteq> Searching"
  shows "(\<exists>ve lib. e = Act (In_view ve) lib \<and> asks ve) \<or> (\<exists>oe. e = Outside oe \<and> late oe)"
proof (cases e)
  case (Act a lib)
  with assms have "status (hook (press_control pc lib a d)) = Searching" by (simp add: commit_status split: if_splits)
  with assms(1,3) page_hears_quiet [OF assms(1)] show ?thesis
    by (cases a) (auto simp: Act box_hears_status leave_desk_status)
next
  case (Outside oe)
  with assms(2,3) outside_quiet [of oe "hook d"] show ?thesis by (auto simp: commit_status split: if_splits)
next
  case (Widget me)
  with assms(2,3) page_hears_quiet [OF assms(1)] timers_quiet(3) show ?thesis by (auto simp: commit_status split: if_splits)
next
  case (Stop_tap_over t)
  with assms(2,3) page_hears_quiet [OF assms(1)] timers_quiet(1) show ?thesis by (auto simp: commit_status split: if_splits)
next
  case (Skip_tap_over t)
  with assms(2,3) page_hears_quiet [OF assms(1)] timers_quiet(2) show ?thesis by (auto simp: commit_status split: if_splits)
qed (use assms(2,3) in \<open>auto simp: commit_status box_hears_status past_box_hears_status split: if_splits\<close>)

lemma run_view_inv: "view_inv 0 (viewState d) \<Longrightarrow> view_inv 0 (viewState (run_events (desk_step pc k) es d))"
  by (induction es arbitrary: d) (simp_all add: view_kept [of "view_inv 0", OF view_keeps])

lemma commit_view_inv: "view_inv 0 (viewState d) \<Longrightarrow> view_inv 0 (viewState (commit_desk pc k d))"
  by (simp add: commit_desk_def Let_def see_hook_def view_keeps)

end

lemma open_view_inv: "view_inv 0 (viewState (open_desk c token y))"
  by (simp add: open_desk_def view_inv_def initial_view_def tags_wf_def searches_wf_def)

end
