(* ===== verification/Text_Report.thy ===== *)
theory Text_Report
  imports Text_Session Report_Dialog
begin

text \<open>
  What a report of the text page is about. The dialog takes the peer to report and the transcript from
  the hook at the same time; the lemmas follow both through every event of the hook: the peer is that
  of the last match announced, and all that was said on the transcript was said since.
\<close>

section \<open>What was said, and with whom\<close>

definition talk :: "'a chat_scheme \<Rightarrow> nat set" where
  "talk s = set (map cid (filter (\<lambda>m. sender m \<noteq> System) (messages s)))"

text \<open>
  \<open>told k ps s t\<close>: going from \<open>s\<close> to \<open>t\<close>, the peer to report is one of \<open>ps\<close> and nothing said is older than
  \<open>k\<close>, or it is the same as before and only what is younger than \<open>k\<close> was added.
\<close>

definition told :: "nat \<Rightarrow> string list \<Rightarrow> 'a chat_scheme \<Rightarrow> 'a chat_scheme \<Rightarrow> bool" where
  "told k ps s t \<longleftrightarrow>
     nextKey s \<le> nextKey t \<and>
     (\<forall>p. reportPeerId t = Some p \<longrightarrow>
        p \<in> set ps \<and> talk t \<subseteq> {k..} \<or> reportPeerId s = Some p \<and> talk t \<subseteq> talk s \<union> {k..})"

lemma told_trans: "\<lbrakk>told k ps s t; told k qs t u\<rbrakk> \<Longrightarrow> told k (ps @ qs) s u"
  unfolding told_def by fastforce

lemma told_same:
  "\<lbrakk>nextKey t = nextKey s; reportPeerId t = reportPeerId s \<or> reportPeerId t = None; talk t \<subseteq> talk s\<rbrakk> \<Longrightarrow>
   told k ps s t"
  by (auto simp: told_def)

lemma told_later: "\<lbrakk>nextKey s \<le> nextKey t; reportPeerId t = None\<rbrakk> \<Longrightarrow> told k ps s t"
  by (simp add: told_def)

lemma talk_frame [simp]:
  "talk (s\<lparr>connected := b1\<rparr>) = talk s" "talk (s\<lparr>peerId := x\<rparr>) = talk s" "talk (s\<lparr>sessionId := i1\<rparr>) = talk s"
  "talk (s\<lparr>sessionToken := i2\<rparr>) = talk s" "talk (s\<lparr>reportPeerId := i3\<rparr>) = talk s" "talk (s\<lparr>status := st\<rparr>) = talk s"
  "talk (s\<lparr>peerTyping := b2\<rparr>) = talk s" "talk (s\<lparr>peerTypingTimeoutRef := r\<rparr>) = talk s"
  "talk (s\<lparr>mounted := b3\<rparr>) = talk s" "talk (s\<lparr>awaitingSetup := a\<rparr>) = talk s" "talk (s\<lparr>awaitingStart := b\<rparr>) = talk s"
  "talk (s\<lparr>awaitingReply := c\<rparr>) = talk s" "talk (s\<lparr>typingTimers := l\<rparr>) = talk s" "talk (s\<lparr>nextKey := n\<rparr>) = talk s"
  "talk (s\<lparr>now := n'\<rparr>) = talk s" "talk (s\<lparr>ws := w\<rparr>) = talk s" "talk (s\<lparr>health := h\<rparr>) = talk s"
  "talk (s\<lparr>outbox := out\<rparr>) = talk s" "talk (s\<lparr>chatEpochRef := e1\<rparr>) = talk s"
  "talk (s\<lparr>showReconnectMessageRef := e2\<rparr>) = talk s" "talk (s\<lparr>messages := []\<rparr>) = {}"
  by (simp_all add: talk_def)

lemma talk_update [simp]: "talk (s\<lparr>messages := update_delivery i st r (messages s)\<rparr>) = talk s"
proof -
  have "map cid (filter (\<lambda>m. sender m \<noteq> System) (update_delivery i st r ms)) =
      map cid (filter (\<lambda>m. sender m \<noteq> System) ms)" for ms
    by (induction ms) (simp_all add: update_delivery_def)
  then show ?thesis by (simp add: talk_def del: set_map)
qed

lemma talk_grow [simp]:
  "talk (s\<lparr>messages := grow_text (messages s) m\<rparr>) = talk s \<union> (if sender m = System then {} else {cid m})"
  by (simp add: talk_def grow_text_def)

lemma talk_numbered [simp]: "talk (s\<lparr>messages := numbered k t xs\<rparr>) = {}"
proof -
  have "\<forall>m\<in>set (numbered k t xs). sender m = System" by (induction xs arbitrary: k) simp_all
  then show ?thesis by (simp add: talk_def)
qed

lemma talk_ops [simp]:
  "talk (beginNewChatEpoch s) = talk s" "talk (setReconnectMessageVisible v s) = talk s"
  "talk (pushSystemMessage t why s) = talk s" "talk (updateDeliveryStatus i st r s) = talk s"
  "talk (clearTypingTimeout s) = talk s"
  by (simp_all add: beginNewChatEpoch_def setReconnectMessageVisible_def pushSystemMessage_def
      updateDeliveryStatus_def clearTypingTimeout_def split: option.split)

lemma talk_show [simp]: "talk (showConnectionStatusMessage t s) = talk s"
  by (simp add: showConnectionStatusMessage_def)

lemma report_ops [simp]:
  "reportPeerId (beginNewChatEpoch s) = reportPeerId s" "reportPeerId (setReconnectMessageVisible v s) = reportPeerId s"
  "reportPeerId (pushSystemMessage t why s) = reportPeerId s" "reportPeerId (updateDeliveryStatus i st r s) = reportPeerId s"
  "reportPeerId (showConnectionStatusMessage t' s) = reportPeerId s" "reportPeerId (clearTypingTimeout s) = reportPeerId s"
  "nextKey (beginNewChatEpoch s) = nextKey s" "nextKey (setReconnectMessageVisible v s) = nextKey s"
  "nextKey (pushSystemMessage t why s) = Suc (nextKey s)" "nextKey (updateDeliveryStatus i st r s) = nextKey s"
  "nextKey (clearTypingTimeout s) = nextKey s"
  "nextKey (showConnectionStatusMessage t' s) = (if showReconnectMessageRef s then nextKey s else Suc (nextKey s))"
  by (auto simp: beginNewChatEpoch_def setReconnectMessageVisible_def pushSystemMessage_def
      updateDeliveryStatus_def showConnectionStatusMessage_def clearTypingTimeout_def split: option.split)

section \<open>Through the events\<close>

lemma told_handleMessage:
  assumes "k \<le> nextKey s" shows "told k (announced_peer m) s (handleMessage m s)"
proof -
  let ?s = "rememberSession m s"
  have s: "nextKey ?s = nextKey s" "reportPeerId ?s = reportPeerId s" "talk ?s = talk s"
    by (simp_all add: rememberSession_def Let_def)
  have same: "told k ps s ?s" for ps using s by (simp add: told_same)
  show ?thesis
  proof (cases "mtype m")
    case MMatch
    have "nextKey s \<le> nextKey (onMatch m ?s)" "talk (onMatch m ?s) = {}"
      using s by (simp_all add: onMatch_def Let_def)
    moreover have "reportPeerId (onMatch m ?s) = Some p \<Longrightarrow> p \<in> set (announced_peer m)" for p
      using MMatch by (auto simp: onMatch_def Let_def announced_peer_def str_or_null_def split: if_splits)
    ultimately show ?thesis by (simp add: told_def handleMessage_def MMatch)
  next
    case MMessage
    have "told k ps s (onPeerMessage m ?s)" for ps
      using s assms same by (auto simp: told_def onPeerMessage_def Let_def)
    then show ?thesis by (simp add: handleMessage_def MMessage)
  next
    case MTyping
    have "told k ps s (onTyping m ?s)" for ps
      using s same by (simp add: told_def onTyping_def Let_def)
    then show ?thesis by (simp add: handleMessage_def MTyping)
  qed (use s same in \<open>simp_all add: handleMessage_def told_def onSystemMessage_def onPeerDisconnected_def onBanned_def
        onServerError_def onTimeout_def onStopped_def Let_def\<close>)
qed

lemma told_deliver1:
  assumes "k \<le> nextKey s" shows "told k (announced e) s (deliver1 e s)"
proof (cases e)
  case (InvokeMessage h m)
  with told_handleMessage [OF assms, of "decode_message m"] show ?thesis by (simp add: told_def)
qed (auto simp: told_def handleClose_def handleOpen_def handleMaxRetries_def handleReconnecting_def Let_def)

lemma told_deliver:
  "k \<le> nextKey s \<Longrightarrow> told k (concat (map announced es)) s (fold deliver1 es s)"
proof (induction es arbitrary: s)
  case Nil
  then show ?case by (simp add: told_def)
next
  case (Cons e es)
  have e: "told k (announced e) s (deliver1 e s)" by (rule told_deliver1 [OF Cons.prems])
  then have "k \<le> nextKey (deliver1 e s)" using Cons.prems by (simp add: told_def)
  from told_trans [OF e Cons.IH [OF this]] show ?case by simp
qed

lemma told_silent: "filter is_invocation (snd r) = [] \<Longrightarrow> told k ps s (run_ws r s)"
  by (simp add: run_ws_def deliver_none told_def)

lemma told_startSearch_send: "told k ps s (startSearch_send i tok s)"
  by (auto simp: told_def startSearch_send_def Let_def split: option.split dest!: wsSend_outbox)

lemma told_unmount: "told k ps s (unmount s)"
proof -
  let ?t = "cleanup (s\<lparr>mounted := False, health := removeChannel channelName (health s)\<rparr>)"
  have "\<not> mounted ?t" by (simp add: cleanup_def)
  then obtain out where "run_ws (disconnect (ws ?t)) ?t = ?t\<lparr>ws := fst (disconnect (ws ?t)), outbox := out\<rparr>"
    by (rule run_ws_unmounted)
  moreover have "ws ?t = ws s" by (simp add: cleanup_def)
  ultimately show ?thesis by (simp add: unmount_def Let_def told_def) (simp add: cleanup_def)
qed

text \<open>The peers an event announces.\<close>

definition heard_from :: "chat_event \<Rightarrow> chat \<Rightarrow> string list" where
  "heard_from e s = (case move_of e s of Hears ps \<Rightarrow> ps | _ \<Rightarrow> [])"

lemma told_step: "told (nextKey s) (heard_from e s) s (chat_step e s)"
proof (cases e)
  case Unmount
  then show ?thesis using told_unmount by simp
next
  case (Library le)
  have "told (nextKey s) ps s t \<longleftrightarrow> told (nextKey s) ps (s\<lparr>ws := w\<rparr>) t" for w ps t by (simp add: told_def)
  with told_deliver [of "nextKey s" "s\<lparr>ws := fst (ws_step le (ws s))\<rparr>" "snd (ws_step le (ws s))"]
  show ?thesis by (simp add: Library run_ws_def heard_from_def told_def)
next
  case (StartSearch lib i tok)
  obtain p r where connect: "connect lib (ws s) = (p, r)" by (metis surj_pair)
  have "told k ps s (run_ws r (s\<lparr>awaitingStart := ts\<rparr>))" for k ps ts
    using told_silent [of r k ps "s\<lparr>awaitingStart := ts\<rparr>"] connect_no_invocation [of lib "ws s"]
    by (simp add: connect told_def)
  then show ?thesis
    using told_startSearch_send by (auto simp: StartSearch startSearch_def connect Let_def)
next
  case (ResumeStart task)
  have "told k ps s (startSearch_send i tok (s\<lparr>awaitingStart := ts, connected := True\<rparr>))" for k ps i tok ts
    using told_startSearch_send [of k ps "s\<lparr>awaitingStart := ts, connected := True\<rparr>" i tok] by (simp add: told_def)
  then show ?thesis
    by (auto simp: ResumeStart startSearch_continue_def Let_def told_def split: promise_state.split)
next
  case (SendMessage t)
  have "told (nextKey s) ps s (run_ws r (s\<lparr>messages := grow_text (messages s) (my_message (nextKey s) (now s) t),
      nextKey := Suc (nextKey s), awaitingReply := ts\<rparr>))" if "filter is_invocation (snd r) = []" for ps r ts
    using that by (auto simp: run_ws_def deliver_none told_def)
  then show ?thesis
    by (simp add: SendMessage sendMessage_def Let_def split_beta request_no_invocation told_same)
qed (auto simp: told_def setup_continue_def sendMessage_continue_def reply_received_def reply_failed_def stopSearch_def
    disconnectChat_def skip_def sendTyping_def typingTimerFires_def Let_def dest!: wsSend_outbox
    split: option.split promise_state.split)

section \<open>A report is about one chat\<close>

lemma report_since:
  assumes "reportPeerId (run_events chat_step es s0) = Some p" and "reportPeerId s0 = None"
  shows "\<exists>es1 e es2. es = es1 @ e # es2 \<and> p \<in> set (heard_from e (run_events chat_step es1 s0)) \<and>
    talk (run_events chat_step es s0) \<subseteq> {nextKey (run_events chat_step es1 s0)..} \<and>
    nextKey (run_events chat_step es1 s0) \<le> nextKey (run_events chat_step es s0)"
  using assms(1)
proof (induction es arbitrary: p rule: rev_induct)
  case Nil
  with assms(2) show ?case by simp
next
  case (snoc e es)
  let ?s = "run_events chat_step es s0" and ?t = "run_events chat_step (es @ [e]) s0"
  have t: "?t = chat_step e ?s" by (simp add: run_events_append)
  have step: "told (nextKey ?s) (heard_from e ?s) ?s ?t" using told_step [of ?s e] by (simp add: t)
  with snoc.prems consider (new) "p \<in> set (heard_from e ?s)" "talk ?t \<subseteq> {nextKey ?s..}"
    | (old) "reportPeerId ?s = Some p" "talk ?t \<subseteq> talk ?s \<union> {nextKey ?s..}"
    unfolding told_def by blast
  then show ?case
  proof cases
    case new
    with step show ?thesis unfolding told_def by blast
  next
    case old
    from snoc.IH [OF old(1)] obtain es1 e' es2 where ih: "es = es1 @ e' # es2"
      "p \<in> set (heard_from e' (run_events chat_step es1 s0))"
      "talk ?s \<subseteq> {nextKey (run_events chat_step es1 s0)..}"
      "nextKey (run_events chat_step es1 s0) \<le> nextKey ?s" by blast
    with old(2) have "talk ?t \<subseteq> {nextKey (run_events chat_step es1 s0)..}" by fastforce
    moreover have "nextKey ?s \<le> nextKey ?t" using step by (simp add: told_def)
    ultimately show ?thesis using ih
      by (intro exI [of _ es1] exI [of _ e'] exI [of _ "es2 @ [e]"]) auto
  qed
qed

lemma no_report_at_first: "reportPeerId (text_page lib h) = None"
proof -
  obtain p r where connect: "connect lib (initial_ws :: unit ws) = (p, r)" by (metis surj_pair)
  with connect_no_invocation [of lib "initial_ws :: unit ws"] show ?thesis
    by (simp add: text_page_def setupEffect_def initial_chat_def run_ws_def deliver_none)
qed

text \<open>
  C20: a report is about one chat: in every run of the text hook, the peer the dialog would report was
  announced by some event of the run, and every message of the transcript that goes with the report was
  said during or after that event; nothing said in an earlier chat is ever laid to this peer's charge.
\<close>

theorem reports_concern_one_chat:
  assumes "s = run_events chat_step es (text_page lib h)" and "reportPeerId s = Some p"
  shows "\<exists>es1 e es2. es = es1 @ e # es2 \<and>
    p \<in> set (heard_from e (run_events chat_step es1 (text_page lib h))) \<and>
    list_all (\<lambda>m. nextKey (run_events chat_step es1 (text_page lib h)) \<le> cid m) (chatMessages (messages s))"
proof -
  from report_since [OF _ no_report_at_first, of es lib h p] assms obtain es1 e es2 where
    "es = es1 @ e # es2" "p \<in> set (heard_from e (run_events chat_step es1 (text_page lib h)))"
    "talk s \<subseteq> {nextKey (run_events chat_step es1 (text_page lib h))..}" by auto
  then show ?thesis
    by (intro exI [of _ es1] exI [of _ e] exI [of _ es2]) (auto simp: talk_def chatMessages_def list_all_iff)
qed

theorem reports_concern_one_chat_witness:
  "\<exists>es1 e es2. chatting = es1 @ e # es2 \<and>
    ''p1'' \<in> set (heard_from e (run_events chat_step es1 (text_page LibOk initial_health))) \<and>
    list_all (\<lambda>m. nextKey (run_events chat_step es1 (text_page LibOk initial_health)) \<le> cid m)
      (chatMessages (messages (run_events chat_step chatting (text_page LibOk initial_health))))"
  by (rule reports_concern_one_chat [OF refl])
    (simp add: chatting_def text_run_defs ws_ops ws_next_def)

end
