(* ===== verification/Text_Desk.thy ===== *)
theory Text_Desk
  imports Desk_Contract Text_Report
begin

text \<open>
  The whole text page (\<open>TextChat\<close> in \<^verbatim>\<open>client/src/components/TextChat.tsx\<close>): the code of
  \<open>Chat_Desk\<close> for the text hook, its view and its screen. It keeps nothing else.
\<close>

text \<open>The calls of the hook that a step of the view made.\<close>

definition calls_since :: "lib_outcome \<Rightarrow> chat_view \<Rightarrow> chat_view \<Rightarrow> chat_event list" where
  "calls_since lib v v' =
     map (\<lambda>(i, t). StartSearch lib i t) (drop (length (searches v)) (searches v')) @
     replicate (stopped v' - stopped v) DisconnectChat @ replicate (cancelled v' - cancelled v) StopSearch @
     map SendMessage (drop (length (sentMessages v)) (sentMessages v'))"

text \<open>The hook's calls are made by the page; the rest of its events come from outside.\<close>

fun from_outside :: "chat_event \<Rightarrow> bool" where
  "from_outside Unmount = False"
| "from_outside (StartSearch lib i t) = False"
| "from_outside StopSearch = False"
| "from_outside DisconnectChat = False"
| "from_outside Skip = False"
| "from_outside (SendMessage t) = False"
| "from_outside (SendTyping b) = False"
| "from_outside e = True"

definition text_code :: "(chat_event, unit, unit, unit) page_code" where
  "text_code =
     \<lparr>hookStep = chat_step, viewStep = text_view_step, callsOf = calls_since, typingCall = SendTyping,
      leaveCall = Unmount, fromOutside = from_outside, screenOf = (\<lambda>k c v i d y. text_screen k c v i d),
      lookPress = (\<lambda>a y. y), lookStep = (\<lambda>e c y. y), lookCommit = (\<lambda>c y. y)\<rparr>"

type_synonym text_desk = "(unit, unit) desk"

definition text_desk_page :: "string \<Rightarrow> lib_outcome \<Rightarrow> health \<Rightarrow> string option \<Rightarrow> text_desk" where
  "text_desk_page k lib h token = commit_desk text_code k (open_desk (text_page lib h) token ())"

lemma text_code_parts [simp]:
  "hookStep text_code = chat_step" "viewStep text_code = text_view_step" "callsOf text_code = calls_since"
  "typingCall text_code = SendTyping" "leaveCall text_code = Unmount" "fromOutside text_code = from_outside"
  "screenOf text_code k c v i d y = text_screen k c v i d" "lookPress text_code a y = y"
  "lookStep text_code l c y = y" "lookCommit text_code c y = y"
  by (simp_all add: text_code_def)

end
