(* ===== verification/Desk_Props.thy ===== *)
theory Desk_Props
  imports Text_Desk Text_Session
begin

text \<open>
  What the text page as a whole guarantees: its own messages are bounded by the box they were typed in, a
  single tap does not end a chat; and when its report dialog opens without being asked for.
\<close>

section \<open>The messages of the user\<close>

definition mine :: "'a chat_scheme \<Rightarrow> js set" where
  "mine s = set (map body (filter (\<lambda>m. sender m = Me) (messages s)))"

lemma mine_frame [simp]:
  "mine (s\<lparr>connected := b1\<rparr>) = mine s" "mine (s\<lparr>peerId := x\<rparr>) = mine s" "mine (s\<lparr>sessionId := i1\<rparr>) = mine s"
  "mine (s\<lparr>sessionToken := i2\<rparr>) = mine s" "mine (s\<lparr>reportPeerId := i3\<rparr>) = mine s" "mine (s\<lparr>status := st\<rparr>) = mine s"
  "mine (s\<lparr>peerTyping := b2\<rparr>) = mine s" "mine (s\<lparr>peerTypingTimeoutRef := r\<rparr>) = mine s"
  "mine (s\<lparr>mounted := b3\<rparr>) = mine s" "mine (s\<lparr>awaitingSetup := a\<rparr>) = mine s" "mine (s\<lparr>awaitingStart := b\<rparr>) = mine s"
  "mine (s\<lparr>awaitingReply := c\<rparr>) = mine s" "mine (s\<lparr>typingTimers := l\<rparr>) = mine s" "mine (s\<lparr>nextKey := n\<rparr>) = mine s"
  "mine (s\<lparr>now := n'\<rparr>) = mine s" "mine (s\<lparr>ws := w\<rparr>) = mine s" "mine (s\<lparr>health := h\<rparr>) = mine s"
  "mine (s\<lparr>outbox := out\<rparr>) = mine s" "mine (s\<lparr>chatEpochRef := e1\<rparr>) = mine s"
  "mine (s\<lparr>showReconnectMessageRef := e2\<rparr>) = mine s" "mine (s\<lparr>messages := []\<rparr>) = {}"
  by (simp_all add: mine_def)

lemma mine_grow [simp]:
  "mine (s\<lparr>messages := grow_text (messages s) m\<rparr>) = mine s \<union> (if sender m = Me then {body m} else {})"
  by (simp add: mine_def grow_text_def)

lemma mine_numbered [simp]: "mine (s\<lparr>messages := numbered k t xs\<rparr>) = {}"
proof -
  have "\<forall>m\<in>set (numbered k t xs). sender m = System" by (induction xs arbitrary: k) simp_all
  then show ?thesis by (simp add: mine_def)
qed

lemma mine_update [simp]: "mine (s\<lparr>messages := update_delivery i st None (messages s)\<rparr>) = mine s"
proof -
  have "map body (filter (\<lambda>m. sender m = Me) (update_delivery i st None ms)) = map body (filter (\<lambda>m. sender m = Me) ms)" for ms
    by (induction ms) (simp_all add: update_delivery_def)
  then show ?thesis by (simp add: mine_def del: set_map)
qed

lemma mine_ops [simp]:
  "mine (beginNewChatEpoch s) = mine s" "mine (setReconnectMessageVisible v s) = mine s"
  "mine (pushSystemMessage t why s) = mine s" "mine (updateDeliveryStatus i st None s) = mine s"
  "mine (clearTypingTimeout s) = mine s"
  by (simp_all add: beginNewChatEpoch_def setReconnectMessageVisible_def pushSystemMessage_def
      updateDeliveryStatus_def clearTypingTimeout_def split: option.split)

lemma mine_show [simp]: "mine (showConnectionStatusMessage t s) = mine s"
  by (simp add: showConnectionStatusMessage_def)

lemma mine_deliver1: "mine (deliver1 e s) \<subseteq> mine s"
proof (cases e)
  case (InvokeMessage h m)
  let ?m = "decode_message m" and ?s = "rememberSession (decode_message m) s"
  have s: "mine ?s = mine s" by (simp add: rememberSession_def Let_def)
  have "mine (handleMessage ?m s) \<subseteq> mine s"
    using s unfolding handleMessage_def Let_def
    by (cases "mtype ?m") (simp_all add: onMatch_def onPeerMessage_def peer_message_def onSystemMessage_def
        onPeerDisconnected_def onBanned_def onServerError_def onTimeout_def onStopped_def onTyping_def Let_def)
  then show ?thesis by (simp add: InvokeMessage)
qed (simp_all add: handleClose_def handleOpen_def handleMaxRetries_def handleReconnecting_def Let_def)

lemma mine_run_ws: "mine (run_ws r s) \<subseteq> mine s"
proof -
  have "mine (fold deliver1 es s) \<subseteq> mine s" for es s
  proof (induction es arbitrary: s)
    case (Cons e es)
    from subset_trans [OF Cons.IH [of "deliver1 e s"] mine_deliver1] show ?case by simp
  qed simp
  from this [of "snd r" "s\<lparr>ws := fst r\<rparr>"] show ?thesis by (simp add: run_ws_def)
qed

lemma mine_wsSend: "wsSend ty dat s = Some s' \<Longrightarrow> mine s' = mine s"
  by (auto dest: wsSend_outbox)

lemma mine_startSearch_send: "mine (startSearch_send i tok s) = {}"
  by (auto simp: startSearch_send_def Let_def split: option.split dest!: mine_wsSend)

definition typed_by :: "chat_event \<Rightarrow> js set" where
  "typed_by e = (case e of SendMessage t \<Rightarrow> if js_trim t \<noteq> [] then {JStr t} else {} | _ \<Rightarrow> {})"

lemma mine_step: "mine (chat_step e s) \<subseteq> mine s \<union> typed_by e"
proof (cases e)
  case Unmount
  then show ?thesis
    using mine_run_ws [of "disconnect (ws s)" "cleanup (s\<lparr>mounted := False, health := h\<rparr>)" for h]
    by (auto simp: unmount_def Let_def cleanup_def)
next
  case (Library le)
  then show ?thesis using mine_run_ws by (auto simp: typed_by_def)
next
  case (StartSearch lib i tok)
  then show ?thesis
    using mine_run_ws [of _ "s\<lparr>awaitingStart := ts\<rparr>" for ts]
    by (simp add: startSearch_def Let_def split_beta mine_startSearch_send typed_by_def)
next
  case (ResumeStart task)
  then show ?thesis
    by (simp add: startSearch_continue_def Let_def mine_startSearch_send typed_by_def split: promise_state.split)
next
  case (SendMessage t)
  have "mine (run_ws r (s\<lparr>messages := grow_text (messages s) (my_message (nextKey s) (now s) t),
      nextKey := Suc (nextKey s), awaitingReply := ts\<rparr>)) \<subseteq> mine s \<union> {JStr t}" for r ts
    using mine_run_ws [of r "s\<lparr>messages := grow_text (messages s) (my_message (nextKey s) (now s) t),
      nextKey := Suc (nextKey s), awaitingReply := ts\<rparr>"] by (simp add: my_message_def)
  then show ?thesis by (auto simp: SendMessage sendMessage_def Let_def split_beta typed_by_def)
qed (auto simp: setup_continue_def sendMessage_continue_def reply_received_def reply_failed_def stopSearch_def
    disconnectChat_def skip_def sendTyping_def typingTimerFires_def typed_by_def Let_def dest!: mine_wsSend
    split: option.split promise_state.split)

text \<open>A message that the box can have held.\<close>

definition fits_box :: "js \<Rightarrow> bool" where
  "fits_box v \<longleftrightarrow> (\<exists>t. v = JStr t \<and> js_trim t \<noteq> [] \<and> length t \<le> 2000)"

definition box_bounded :: "chat_input \<Rightarrow> bool" where
  "box_bounded i \<longleftrightarrow> length (boxValue i) \<le> 2000"

definition desk_inv :: "text_desk \<Rightarrow> bool" where
  "desk_inv d \<longleftrightarrow>
     (\<forall>v\<in>mine (hook d). fits_box v) \<and> (\<forall>i. inputBox d = Some i \<longrightarrow> box_bounded i) \<and>
     (\<forall>i\<in>set (pastBoxes d). box_bounded i)"

lemma mine_run:
  "\<lbrakk>\<forall>v\<in>mine s. fits_box v; \<forall>e\<in>set es. \<forall>v\<in>typed_by e. fits_box v\<rbrakk> \<Longrightarrow> \<forall>v\<in>mine (run_events chat_step es s). fits_box v"
proof (induction es arbitrary: s)
  case (Cons e es)
  from Cons.prems mine_step [of e s] have "\<forall>v\<in>mine (chat_step e s). fits_box v" by auto
  with Cons.IH Cons.prems(2) show ?case by simp
qed simp

lemma calls_typed:
  "\<lbrakk>e \<in> set (calls_since lib v v'); x \<in> typed_by e\<rbrakk> \<Longrightarrow>
   \<exists>t \<in> set (drop (length (sentMessages v)) (sentMessages v')). x = JStr t \<and> js_trim t \<noteq> []"
  by (auto simp: calls_since_def typed_by_def split: if_splits)

lemma only_send_sends:
  "(\<And>t. e \<noteq> Send_click t) \<Longrightarrow> sentMessages (text_view_step e v) = sentMessages v"
  by (cases e) (auto simp: view_commit_def Let_def handleTagInputKeyDown_def addTag_def removeTag_def
      handleStartSearchClick_def startSearch_call_def modal_event_in_def handleModalConfirm_def
      handleDisconnect_def split: option.split)

lemma page_hears_inv:
  assumes "desk_inv d" and "\<And>t. e = Send_click t \<Longrightarrow> length t \<le> 2000"
  shows "desk_inv (page_hears text_code lib e d)"
proof -
  have "set (drop (length (sentMessages v)) (sentMessages (text_view_step e v))) \<subseteq> {t. length t \<le> 2000}" for v
  proof (cases "\<exists>t. e = Send_click t")
    case True
    with assms(2) show ?thesis by (auto simp: handleSend_def split: if_splits)
  next
    case False
    then show ?thesis by (simp add: only_send_sends)
  qed
  then have "\<forall>v\<in>mine (run_events chat_step (calls_since lib (viewState d) (text_view_step e (viewState d))) (hook d)). fits_box v"
    using assms(1) by (intro mine_run) (auto simp: desk_inv_def fits_box_def dest!: calls_typed)
  with assms(1) show ?thesis by (simp add: page_hears_def Let_def desk_inv_def)
qed

lemma box_step_texts:
  "\<exists>ts. sentTexts (input_step e i) = sentTexts i @ ts \<and> set ts \<subseteq> {boxValue i}"
  by (cases e) (auto simp: handleChange_def deferredReport_def reportTyping_def clearTypingTimer_def typingTimer_def
      handleSubmit_def unmountInput_def Let_def split: option.split list.split)

lemma box_step_bounded:
  "\<lbrakk>box_bounded i; \<And>t. e = Key t \<Longrightarrow> length t \<le> 2000\<rbrakk> \<Longrightarrow> box_bounded (input_step e i)"
  by (cases e) (auto simp: box_bounded_def handleChange_def deferredReport_def reportTyping_def clearTypingTimer_def
      typingTimer_def handleSubmit_def unmountInput_def Let_def split: option.split list.split)

lemma box_calls_inv:
  assumes "desk_inv d" and "box_bounded i" shows "desk_inv (box_calls text_code lib i (input_step e i) d)"
proof -
  obtain ts where ts: "sentTexts (input_step e i) = sentTexts i @ ts" "set ts \<subseteq> {boxValue i}"
    using box_step_texts by blast
  have "desk_inv (fold (\<lambda>t. page_hears text_code lib (Send_click t)) ts d)"
    using assms ts(2)
  proof (induction ts arbitrary: d)
    case (Cons t ts)
    then have "desk_inv (page_hears text_code lib (Send_click t) d)" by (auto intro!: page_hears_inv simp: box_bounded_def)
    with Cons show ?case by simp
  qed simp
  moreover from this have "\<forall>v\<in>mine (run_events chat_step (map SendTyping bs) (hook (fold (\<lambda>t. page_hears text_code lib (Send_click t)) ts d))).
      fits_box v" for bs
    by (intro mine_run) (auto simp: typed_by_def desk_inv_def)
  ultimately show ?thesis by (simp add: box_calls_def Let_def ts(1) desk_inv_def)
qed

lemma box_hears_inv:
  assumes "desk_inv d" and "\<And>t. e = Key t \<Longrightarrow> length t \<le> 2000" shows "desk_inv (box_hears text_code lib e d)"
proof (cases "inputBox d")
  case (Some i)
  with assms(1) have i: "box_bounded i" by (simp add: desk_inv_def)
  with box_step_bounded [OF this assms(2)] assms(1) have "desk_inv (d\<lparr>inputBox := Some (input_step e i)\<rparr>)"
    by (simp add: desk_inv_def)
  from box_calls_inv [OF this i] show ?thesis by (simp add: box_hears_def Some)
qed (use assms in \<open>simp add: box_hears_def\<close>)

lemma past_box_hears_inv:
  assumes "desk_inv d" and "later e" shows "desk_inv (past_box_hears text_code lib n e d)"
proof (cases "n < length (pastBoxes d)")
  case True
  with assms(1) have i: "box_bounded (pastBoxes d ! n)" by (simp add: desk_inv_def)
  from assms(2) have "box_bounded (input_step e (pastBoxes d ! n))"
    by (intro box_step_bounded i) (simp add: later_def)
  with assms(1) have "desk_inv (d\<lparr>pastBoxes := (pastBoxes d)[n := input_step e (pastBoxes d ! n)]\<rparr>)"
    using set_update_subset_insert by (fastforce simp: desk_inv_def)
  from box_calls_inv [OF this i] True show ?thesis by (simp add: past_box_hears_def Let_def)
qed (use assms in \<open>simp add: past_box_hears_def\<close>)

lemma look_inv [simp]: "desk_inv (look_update f d) = desk_inv d"
  by (simp add: desk_inv_def)

lemma dialog_hears_inv [simp]:
  "desk_inv (dialog_hears e d) = desk_inv d" "desk_inv (past_dialog_hears n e d) = desk_inv d"
  by (auto simp: dialog_hears_def past_dialog_hears_def desk_inv_def Let_def split: option.split)

lemma unmount_inv: "desk_inv d \<Longrightarrow> desk_inv (unmount_box d)" "desk_inv d \<Longrightarrow> desk_inv (unmount_dialog d)"
proof -
  assume d: "desk_inv d"
  have "box_bounded (unmountInput i) = box_bounded i" for i
    by (simp add: unmountInput_def clearTypingTimer_def box_bounded_def split: option.split)
  with d show "desk_inv (unmount_box d)" by (auto simp: unmount_box_def desk_inv_def split: option.split)
  from d have "desk_inv (dialog_hears Close_dialog d)" by simp
  then show "desk_inv (unmount_dialog d)" by (auto simp: unmount_dialog_def Let_def desk_inv_def split: option.split)
qed

lemma leave_inv: "desk_inv d \<Longrightarrow> desk_inv (leave_desk text_code d)"
proof -
  assume "desk_inv d"
  then have "desk_inv (unmount_dialog (unmount_box d))" by (simp add: unmount_inv)
  then show ?thesis using mine_step [of Unmount] by (fastforce simp: leave_desk_def Let_def desk_inv_def typed_by_def)
qed

lemma desk_commit_inv: "desk_inv d \<Longrightarrow> desk_inv (commit_desk text_code k d)"
proof -
  assume d: "desk_inv d"
  then have "desk_inv (see_hook text_code d)" by (simp add: see_hook_def desk_inv_def)
  then have "desk_inv (mount_box (see_hook text_code d))"
    by (auto simp: mount_box_def unmount_inv) (auto simp: desk_inv_def box_bounded_def initial_input_def split: option.split)
  then have "desk_inv (mount_dialog (mount_box (see_hook text_code d)))"
    by (auto simp: mount_dialog_def unmount_inv) (auto simp: desk_inv_def)
  with d show ?thesis by (simp add: commit_desk_def Let_def leave_inv)
qed

lemma press_inv:
  assumes "desk_inv d" and "available_in (desk_screen text_code k d) a" shows "desk_inv (press_control text_code lib a d)"
proof -
  have offers: "text_offers (hook d) (viewState d) (case inputBox d of Some i \<Rightarrow> i | None \<Rightarrow> initial_input) (reportBox d) a"
    using assms(2) by (simp add: desk_screen_def available_text)
  show ?thesis
  proof (cases a)
    case (In_view e)
    with offers have "\<And>t. e \<noteq> Send_click t" by auto
    with assms(1) page_hears_inv [of d e lib] show ?thesis by (simp add: In_view)
  next
    case (In_box e)
    with offers have "\<And>t. e = Key t \<Longrightarrow> length t \<le> 2000" by (auto simp: fits_def)
    with assms(1) box_hears_inv [of d e lib] show ?thesis by (simp add: In_box)
  qed (use assms(1) in \<open>simp_all add: leave_inv\<close>)
qed

lemma desk_step_inv: "desk_inv d \<Longrightarrow> desk_inv (desk_step text_code k e d)"
proof (cases e)
  case (Outside ce)
  assume d: "desk_inv d"
  have "desk_inv (d\<lparr>hook := chat_step ce (hook d)\<rparr>)" if "from_outside ce"
    using d that mine_step [of ce "hook d"] by (cases ce) (fastforce simp: desk_inv_def typed_by_def)+
  with d show ?thesis by (simp add: Outside desk_commit_inv)
next
  case (Box_later be)
  assume "desk_inv d"
  then have "desk_inv (box_hears text_code LibOk be d)" if "later be" using that by (auto intro: box_hears_inv simp: later_def)
  with \<open>desk_inv d\<close> show ?thesis by (simp add: Box_later desk_commit_inv)
qed (auto intro: desk_commit_inv press_inv page_hears_inv past_box_hears_inv)

lemma desk_page_inv: "desk_inv (text_desk_page k lib h token)"
proof -
  have "mine (text_page lib h) = {}"
    using mine_run_ws [of _ "(initial_chat h)\<lparr>mounted := True, awaitingSetup := p\<rparr>" for p]
    by (auto simp: text_page_def setupEffect_def split_beta initial_chat_def mine_def)
  then show ?thesis unfolding text_desk_page_def by (intro desk_commit_inv) (simp add: desk_inv_def open_desk_def)
qed

interpretation desk_sys: invariant_system "desk_step text_code k" "text_desk_page k lib h token" desk_inv for k lib h token
  by unfold_locales (simp_all add: desk_page_inv desk_step_inv)

text \<open>
  C28: the box bounds what is sent: in every run of the whole text page, whatever the server and the network
  do, each message of the user on the transcript is a text with something in it and has at most 2000
  characters.
\<close>

theorem own_messages_bounded:
  "list_all (\<lambda>m. sender m = Me \<longrightarrow> (\<exists>t. body m = JStr t \<and> js_trim t \<noteq> [] \<and> length t \<le> 2000))
     (messages (hook (run_events (desk_step text_code k) es (text_desk_page k lib h token))))"
  using desk_sys.inv_run [of k es lib h token] by (auto simp: desk_inv_def mine_def fits_box_def list_all_iff)

section \<open>A report nobody asked for\<close>

text \<open>The flag falls only with the button of the dialog.\<close>

lemma view_keeps_flag:
  "\<lbrakk>showReport v; e \<noteq> Close_report\<rbrakk> \<Longrightarrow> showReport (text_view_step e v)"
  by (cases e) (auto simp: view_commit_def Let_def handleTagInputKeyDown_def addTag_def removeTag_def
      handleStartSearchClick_def startSearch_call_def modal_event_in_def handleModalConfirm_def
      handleDisconnect_def handleSend_def split: option.split)

lemma run_silent: "filter is_invocation (snd r) = [] \<Longrightarrow> status (run_ws r s) = status s"
  by (simp add: run_ws_def deliver_none)

lemma send_keeps_chat:
  "status (chat_step (SendMessage t) c) = status c" "status (chat_step (SendTyping b) c) = status c"
  by (auto simp: sendMessage_def sendTyping_def Let_def split_beta run_silent request_no_invocation
      split: option.split dest!: wsSend_outbox)

lemma sends_keep_chat: "status (run_events chat_step (map SendMessage ts) c) = status c"
  by (induction ts arbitrary: c) (simp_all add: send_keeps_chat del: chat_step.simps)

lemma unmount_keeps_status: "status (chat_step Unmount c) = status c"
proof -
  let ?t = "cleanup (c\<lparr>mounted := False, health := removeChannel channelName (health c)\<rparr>)"
  have "\<not> mounted ?t" "status ?t = status c" by (simp_all add: cleanup_def)
  moreover from this(1) obtain out where "run_ws (disconnect (ws c)) ?t = ?t\<lparr>ws := fst (disconnect (ws c)), outbox := out\<rparr>"
    by (rule run_ws_unmounted)
  moreover have "ws ?t = ws c" by (simp add: cleanup_def)
  ultimately show ?thesis by (simp add: unmount_def Let_def)
qed

interpretation text_desk: two_tap_page text_code "\<lambda>v. \<not> confirmStop v"
proof (unfold_locales, goal_cases)
  case 1 show ?case by (simp add: view_commit_def Let_def)
next
  case 2 then show ?case by (simp add: view_keeps_flag)
next
  case 3 show ?case by (auto simp: available_text throws_text_screen)
next
  case 4 then show ?case by (simp add: available_text throws_text_screen open_dialog_def)
next
  case 5 show ?case by (simp only: text_code_parts unmount_keeps_status)
next
  case 6 show ?case by (simp add: calls_since_def handleSend_def sends_keep_chat del: chat_step.simps)
next
  case 7 show ?case by (simp only: text_code_parts send_keeps_chat)
next
  case (8 k c v i d y e)
  then have "e = Stop_click \<or> e = Open_report \<or> e = Close_report"
    by (cases e) (auto simp: available_text resting_def)
  with 8 show ?case by (auto simp: calls_since_def handleDisconnect_def)
qed

text \<open>
  The text page asks with the start button and the dialog; a search asked while the socket was down goes out
  when it is up.
\<close>

definition text_asks :: "view_event \<Rightarrow> bool" where
  "text_asks e \<longleftrightarrow> e \<in> {Start_click, Modal Confirm}"

lemma other_calls:
  assumes "view_inv 0 v" and "\<not> text_asks e" and "x \<in> set (calls_since lib v (text_view_step e v))"
  shows "x = DisconnectChat \<or> x = StopSearch \<or> (\<exists>t. x = SendMessage t)"
proof -
  have "searches (text_view_step e v) = searches v"
  proof (cases e)
    case (Modal me)
    with assms(2) have "me \<noteq> Confirm" by (auto simp: text_asks_def)
    with assms(1) show ?thesis
      by (auto simp: Modal modal_event_in_def view_inv_def widget_hands_nothing Let_def split: option.split)
  qed (use assms(2) in \<open>auto simp: text_asks_def view_commit_def handleTagInputKeyDown_def addTag_def removeTag_def
      handleDisconnect_def handleSend_def Let_def\<close>)
  with assms(3) show ?thesis by (auto simp: calls_since_def)
qed

lemma not_asked:
  "\<lbrakk>status (chat_step e c) = Searching; move_of e c \<noteq> Asks; move_of e c \<noteq> Skips\<rbrakk> \<Longrightarrow> status c = Searching"
  using text_session.seeks_when_asked [of e c] by (auto simp: seeking_status)

interpretation text_asked: asked_page text_code "\<lambda>v. \<not> confirmStop v" text_asks "\<lambda>e. \<exists>t. e = ResumeStart t"
proof (unfold_locales, goal_cases)
  case (1 e c)
  then have "move_of e c \<noteq> Asks" "move_of e c \<noteq> Skips" by (cases e; simp)+
  with 1 show ?case by (intro not_asked [of e c]) simp_all
next
  case 2 then show ?case by (simp add: text_view_keeps)
next
  case (3 v ve lib c)
  have "status c = Searching" if "x \<in> set (calls_since lib v (text_view_step ve v))" "status (chat_step x c) = Searching" for x c
    using other_calls [OF 3(1,2) that(1)] not_asked [OF that(2)] by auto
  from run_quiet [OF this] 3(3) show ?case by simp
qed (auto simp: text_asks_def from_widget_def)

lemma text_search_needs_tap:
  assumes "d = run_events (desk_step text_code k) es (text_desk_page k lib h token)"
    and "status (hook d) \<noteq> Searching" and "status (hook (desk_step text_code k e d)) = Searching"
  shows "(\<exists>tap lib'. e = Act (In_view tap) lib' \<and> tap \<in> {Start_click, Modal Confirm} \<and>
      available_in (desk_screen text_code k d) (In_view tap)) \<or>
    (\<exists>task. e = Outside (ResumeStart task))"
proof -
  have "view_inv 0 (viewState d)" unfolding assms(1) text_desk_page_def
    by (intro text_asked.run_view_inv text_asked.commit_view_inv open_view_inv)
  from text_asked.searches_when_tapped [OF this assms(3,2)] assms(2,3) show ?thesis
    by (auto simp: text_asks_def split: if_splits)
qed

lemma text_page_sync: "desk_sync text_code k (text_desk_page k lib h token)"
  unfolding text_desk_page_def by (rule text_desk.commit_sync)

text \<open>
  C19: the report dialog opens by itself on the next stranger. The flag set by the Report button outlives the
  dialog: let it be set on a page that shows no dialog, because there is nobody to report (the peer is not
  reportable, or the connection was lost while the dialog was open, or a new search was started). Whatever
  happens then while nobody can be reported, the first event that brings a reportable peer puts up a
  fresh report dialog against that peer, for whom nobody pressed the button.
\<close>

theorem report_opens_by_itself:
  assumes "d = run_events (desk_step text_code k) es0 (text_desk_page k lib h token)"
    and "showReport (viewState d)"
    and "along nobody (desk_step text_code k) es d"
    and "s = desk_step text_code k e (run_events (desk_step text_code k) es d)"
    and "\<not> nobody s" and "\<not> left s"
  shows "\<exists>h'. reportBox s = Some (open_dialog h') \<and>
    available_in (desk_screen text_code k s) (In_report (Choose_reason ''harassment'')) \<and>
    available_in (desk_screen text_code k s) (In_view Close_report)"
  using text_desk.opens_by_itself [OF _ assms(2-6)] text_desk.run_sync [OF text_page_sync] assms(1) by blast

text \<open>
  A run that shows it: a chat with a peer who cannot be reported, in which Report is pressed; the peer
  leaves, the user searches again, and the next stranger is matched.
\<close>

definition js_unreportable :: "string \<Rightarrow> js" where
  "js_unreportable peer = JObj [(''type'', JStr ''match''), (''peer_id'', JStr peer), (''reportable'', JBool False)]"

definition chat_with_bot :: "(chat_event, unit) desk_event list" where
  "chat_with_bot =
     [Outside (Library (JoinOk 2 0)), Outside ResumeSetup, Act (In_view Start_click) LibOk,
      Outside (Library (SendReplyOk (js_unreportable ''p1'')))]"

definition next_search :: "(chat_event, unit) desk_event list" where
  "next_search = [Outside (Library (ChannelEvent ''disconnected'' (JObj []))), Act (In_view Start_click) LibOk]"

lemmas desk_run_defs = text_desk_page_def open_desk_def commit_desk_def see_hook_def mount_box_def unmount_box_def mount_dialog_def
  unmount_dialog_def dialog_hears_def page_hears_def calls_since_def initial_view_def view_commit_def
  handleStartSearchClick_def startSearch_call_def search_form_shown_def captcha_rejected_def desk_screen_def
  throws_text_screen available_text undrawable_def report_undrawable_def dialog_drawn_def resting_def Let_def

lemmas example_defs = chat_with_bot_def next_search_def js_unreportable_def text_run_defs ws_ops ws_next_def
  onChannelEvent_def channelEvents_def onPeerDisconnected_def pushSystemMessage_def unmountInput_def

lemma no_captcha:
  "\<not> js_includes ''You are talking to a random stranger.'' ''CAPTCHA''"
  "\<not> js_includes ''Stranger has disconnected.'' ''CAPTCHA''"
  by (simp_all add: js_startsWith_def)

lemma bot_run:
  "(\<lambda>d. status (hook d) = Connected \<and> \<not> confirmStop (viewState d) \<and> entryModal (viewState d) = None)
     (run_events (desk_step text_code ''k'') chat_with_bot (text_desk_page ''k'' LibOk initial_health (Some ''t'')))"
  "(\<lambda>d. showReport (viewState d) \<and> along nobody (desk_step text_code ''k'') next_search d)
     (run_events (desk_step text_code ''k'') (chat_with_bot @ [Act (In_view Open_report) LibOk])
        (text_desk_page ''k'' LibOk initial_health (Some ''t'')))"
  "(\<lambda>d. \<not> nobody d \<and> \<not> left d)
     (run_events (desk_step text_code ''k'') (chat_with_bot @ [Act (In_view Open_report) LibOk] @ next_search @
        [Outside (Library (SendReplyOk (js_match ''p2'')))])
        (text_desk_page ''k'' LibOk initial_health (Some ''t'')))"
  by (simp_all add: desk_run_defs example_defs nobody_def no_captcha del: js_includes.simps cong: let_weak_cong)

lemma said_hi:
  "list_ex (\<lambda>m. sender m = Me \<and> body m = JStr ''hi'')
     (messages (hook (run_events (desk_step text_code ''k'') (chat_with_bot @ [Act (In_box (Key ''hi'')) LibOk, Act (In_box Submit) LibOk])
        (text_desk_page ''k'' LibOk initial_health (Some ''t'')))))"
  by (simp add: desk_run_defs example_defs no_captcha fits_def box_hears_def box_calls_def initial_input_def handleChange_def
      handleSubmit_def clearTypingTimer_def reportTyping_def handleSend_def sendTyping_def my_message_def
      del: js_includes.simps cong: let_weak_cong)

theorem own_messages_bounded_witness:
  "list_ex (\<lambda>m. sender m = Me \<and> body m = JStr ''hi'')
     (messages (hook (run_events (desk_step text_code ''k'') (chat_with_bot @ [Act (In_box (Key ''hi'')) LibOk, Act (In_box Submit) LibOk])
        (text_desk_page ''k'' LibOk initial_health (Some ''t''))))) \<and>
   list_all (\<lambda>m. sender m = Me \<longrightarrow> (\<exists>t. body m = JStr t \<and> js_trim t \<noteq> [] \<and> length t \<le> 2000))
     (messages (hook (run_events (desk_step text_code ''k'') (chat_with_bot @ [Act (In_box (Key ''hi'')) LibOk, Act (In_box Submit) LibOk])
        (text_desk_page ''k'' LibOk initial_health (Some ''t'')))))"
  by (intro conjI said_hi own_messages_bounded)

theorem report_opens_by_itself_witness:
  "\<exists>h'. reportBox (run_events (desk_step text_code ''k'') (chat_with_bot @ [Act (In_view Open_report) LibOk] @ next_search @
      [Outside (Library (SendReplyOk (js_match ''p2'')))]) (text_desk_page ''k'' LibOk initial_health (Some ''t''))) =
    Some (open_dialog h')"
proof -
  let ?d = "run_events (desk_step text_code ''k'') (chat_with_bot @ [Act (In_view Open_report) LibOk])
    (text_desk_page ''k'' LibOk initial_health (Some ''t''))"
  let ?s = "run_events (desk_step text_code ''k'') (chat_with_bot @ [Act (In_view Open_report) LibOk] @ next_search @
      [Outside (Library (SendReplyOk (js_match ''p2'')))]) (text_desk_page ''k'' LibOk initial_health (Some ''t''))"
  have "?s = desk_step text_code ''k'' (Outside (Library (SendReplyOk (js_match ''p2'')))) (run_events (desk_step text_code ''k'') next_search ?d)"
    by (simp only: run_events_append run_events.simps)
  from report_opens_by_itself [OF refl _ _ this] bot_run(2,3) show ?thesis by blast
qed

section \<open>One tap\<close>

text \<open>
  A single tap does not end a chat: on a page in a chat whose stop button has not been tapped and whose
  entry dialog is closed, every action the screen offers, except leaving the page, leaves the hook in
  the chat.
\<close>

theorem one_tap_keeps_chat:
  assumes "d = run_events (desk_step text_code k) es (text_desk_page k lib h token)"
    and "status (hook d) = Connected" and "\<not> confirmStop (viewState d)" and "entryModal (viewState d) = None"
    and "a \<noteq> Home_button"
  shows "status (hook (desk_step text_code k (Act a lib') d)) = Connected"
  using text_desk.one_tap [OF _ assms(2-4)] text_desk.run_sync [OF text_page_sync] assms(1) by blast

theorem one_tap_keeps_chat_witness:
  "status (hook (desk_step text_code ''k'' (Act (In_view Stop_click) LibOk)
     (run_events (desk_step text_code ''k'') chat_with_bot (text_desk_page ''k'' LibOk initial_health (Some ''t''))))) = Connected"
  by (rule one_tap_keeps_chat [OF refl]) (use bot_run(1) in simp_all)

end
