(* ===== verification/Video_Desk.thy ===== *)
theory Video_Desk
  imports Desk_Contract Video_Session
begin

text \<open>
  The whole video page (\<open>VideoChat\<close> in \<^verbatim>\<open>client/src/components/VideoChat.tsx\<close>): the code of \<open>Chat_Desk\<close> for
  the video hook, its view and its screen, and what the page keeps about its two videos.

  \<^item> The browser tells the page the width of the window, the size of the panel, where the pointer is, and
    when a frame of the peer was drawn; timers of the spinner and of a swap fire when the environment says.
  \<^item> The effects of the preview and of the spinner run at a commit in which what they depend on changed
    (\<open>placeSaw\<close>, \<open>spinnerSaw\<close>); a measured panel is a new object, so it always counts as a change.
  \<^item> \<open>storage\<close> is the local storage of the browser. A clock that goes back is read as standing still.
\<close>

section \<open>What the page keeps about its videos\<close>

record video_page_look =
  drawn :: video_look
  spinnerSaw :: "(chat_status \<times> bool) option"
  placeSaw :: "(string \<times> bool \<times> string \<times> (rat \<times> rat) option) option"
  storage :: "string \<Rightarrow> string option"

definition layout_key :: string where "layout_key = ''pairline-video-layout''"

definition ratio_key :: string where "ratio_key = ''pairline-stacked-video-ratio''"

definition size_key :: string where "size_key = ''pairline-pip-size''"

definition initial_preview :: preview where
  "initial_preview =
     \<lparr>previewPosition = None, dragging = False, dragOffset = None, dragHasMoved = False, pipSwapped = False,
      swapTransitionDisabled = False, swapTimerRuns = False\<rparr>"

definition initial_look :: "(string \<Rightarrow> string option) \<Rightarrow> bool \<Rightarrow> video_page_look" where
  "initial_look saved desktop =
     \<lparr>drawn =
        \<lparr>videoLayout = stored_layout (saved layout_key), isDesktopViewport = desktop,
         stackedVideoRatio = stored_ratio (saved ratio_key), pipSize = stored_pip_size (saved size_key),
         previewState = initial_preview, panelDimensions = None, remoteVideoRenderedKey = None,
         spinning = initial_spinner, camera_message = None\<rparr>,
      spinnerSaw = None, placeSaw = None, storage = saved\<rparr>"

text \<open>Controls.\<close>

definition save :: "string \<Rightarrow> string \<Rightarrow> video_look \<Rightarrow> video_page_look \<Rightarrow> video_page_look" where
  "save key value l y = y\<lparr>drawn := l, storage := (storage y)(key := Some value)\<rparr>"

fun look_press :: "page_action \<Rightarrow> video_page_look \<Rightarrow> video_page_look" where
  "look_press Layout_button y =
     (let l = drawn y; choice = toggle_layout (videoLayout l) in save layout_key choice (l\<lparr>videoLayout := choice\<rparr>) y)"
| "look_press Ratio_button y =
     (let l = drawn y; choice = cycle_ratio (stackedVideoRatio l)
      in save ratio_key choice (l\<lparr>stackedVideoRatio := choice\<rparr>) y)"
| "look_press Size_button y =
     (let l = drawn y; choice = cycle_pip_size (pipSize l) in save size_key choice (l\<lparr>pipSize := choice\<rparr>) y)"
| "look_press Preview_click y =
     (let l = drawn y in y\<lparr>drawn := l\<lparr>previewState := handle_pip_click (look_layout l) (previewState l)\<rparr>\<rparr>)"
| "look_press a y = y"

text \<open>What the browser reports.\<close>

datatype look_event =
    Window_resized bool
  | Panel_measured rat rat
  | Frame_drawn
  | Pointer_down rect rect point
  | Pointer_move rect rect point
  | Pointer_up rect rect
  | Swap_timer
  | Spinner_timer nat nat

definition on_preview :: "(preview \<Rightarrow> preview) \<Rightarrow> video_look \<Rightarrow> video_look" where
  "on_preview f l = l\<lparr>previewState := f (previewState l)\<rparr>"

definition updateViewportMode :: "bool \<Rightarrow> video_look \<Rightarrow> video_look" where
  "updateViewportMode desktop l = l\<lparr>isDesktopViewport := desktop\<rparr>"

definition measurePanel :: "rat \<Rightarrow> rat \<Rightarrow> video_look \<Rightarrow> video_look" where
  "measurePanel w h l = l\<lparr>panelDimensions := Some (w, h)\<rparr>"

text \<open>The listeners of the peer's video carry the key of the last commit.\<close>

definition markRendered :: "video \<Rightarrow> video_look \<Rightarrow> video_look" where
  "markRendered c l = l\<lparr>remoteVideoRenderedKey := Some (remoteVideoRenderKey (status c) (reportPeerId c))\<rparr>"

fun look_hears :: "look_event \<Rightarrow> video \<Rightarrow> video_look \<Rightarrow> video_look" where
  "look_hears (Window_resized desktop) c l = updateViewportMode desktop l"
| "look_hears (Panel_measured w h) c l = measurePanel w h l"
| "look_hears Frame_drawn c l = markRendered c l"
| "look_hears (Pointer_down panel pv client) c l = on_preview (pointer_down (look_layout l) panel pv client) l"
| "look_hears (Pointer_move panel pv client) c l = on_preview (pointer_move (look_layout l) panel pv client) l"
| "look_hears (Pointer_up panel pv) c l = on_preview (pointer_up (look_layout l) panel pv) l"
| "look_hears Swap_timer c l = on_preview swap_timer_fires l"
| "look_hears (Spinner_timer i t) c l = l\<lparr>spinning := spin_step (Spin_timer i t) (spinning l)\<rparr>"

definition look_step :: "look_event \<Rightarrow> video \<Rightarrow> video_page_look \<Rightarrow> video_page_look" where
  "look_step e c y =
     (let y' = y\<lparr>drawn := look_hears e c (drawn y)\<rparr>
      in case e of Panel_measured w h \<Rightarrow> y'\<lparr>placeSaw := None\<rparr> | _ \<Rightarrow> y')"

text \<open>The effects of a commit.\<close>

definition place_effect :: "video_page_look \<Rightarrow> video_page_look" where
  "place_effect y =
     (let l = drawn y; pv = previewState l; layout = look_layout l;
          deps = (pipSize l, pipSwapped pv, layout, panelDimensions l)
      in if placeSaw y = Some deps then y
         else y\<lparr>placeSaw := Some deps,
                drawn := l\<lparr>previewState := pv\<lparr>previewPosition :=
                  reposition_effect layout (pipSize l) (panelDimensions l) (previewPosition pv)\<rparr>\<rparr>\<rparr>)"

definition spin_effect :: "video \<Rightarrow> video_page_look \<Rightarrow> video_page_look" where
  "spin_effect c y =
     (let l = drawn y; s = spinning l
      in if spinnerSaw y = Some (status c, isVideoConnecting c) then y
         else y\<lparr>spinnerSaw := Some (status c, isVideoConnecting c),
                drawn := l\<lparr>spinning := spin_step
                  (Spin_change (max (clock s) (now c)) (status c = Connected \<and> isVideoConnecting c)) s\<rparr>\<rparr>)"

definition look_commit :: "video \<Rightarrow> video_page_look \<Rightarrow> video_page_look" where
  "look_commit c y = place_effect (spin_effect c (y\<lparr>drawn := (drawn y)\<lparr>camera_message := cameraError c\<rparr>\<rparr>))"

section \<open>The page\<close>

definition calls_since_v :: "chat_view \<Rightarrow> chat_view \<Rightarrow> video_event list" where
  "calls_since_v v v' =
     map (\<lambda>(i, t). VStartSearch i t) (drop (length (searches v)) (searches v')) @
     replicate (stopped v' - stopped v) VDisconnectChat @ replicate (skipped v' - skipped v) VSkip @
     replicate (cancelled v' - cancelled v) VStopSearch @
     map VSendMessage (drop (length (sentMessages v)) (sentMessages v'))"

fun from_outside_v :: "video_event \<Rightarrow> bool" where
  "from_outside_v VUnmount = False"
| "from_outside_v (VStartSearch i t) = False"
| "from_outside_v VStopSearch = False"
| "from_outside_v VDisconnectChat = False"
| "from_outside_v VSkip = False"
| "from_outside_v (VSendMessage t) = False"
| "from_outside_v (VSendTyping b) = False"
| "from_outside_v e = True"

definition video_code :: "(video_event, unit video_ext go_chat_ext media_chat_ext, video_page_look, look_event) page_code" where
  "video_code =
     \<lparr>hookStep = video_step, viewStep = video_view_step, callsOf = (\<lambda>lib. calls_since_v), typingCall = VSendTyping,
      leaveCall = VUnmount, fromOutside = from_outside_v,
      screenOf = (\<lambda>k c v i d y. video_screen k c v i d (drawn y)),
      lookPress = look_press, lookStep = look_step, lookCommit = look_commit\<rparr>"

type_synonym video_desk = "(unit video_ext go_chat_ext media_chat_ext, video_page_look) desk"

definition video_desk_page ::
  "string \<Rightarrow> lib_outcome \<Rightarrow> env \<Rightarrow> health \<Rightarrow> string option \<Rightarrow> (string \<Rightarrow> string option) \<Rightarrow> bool \<Rightarrow> video_desk" where
  "video_desk_page k lib c h token saved desktop =
     commit_desk video_code k (open_desk (video_page lib c h) token (initial_look saved desktop))"

lemma video_code_parts [simp]:
  "hookStep video_code = video_step" "viewStep video_code = video_view_step" "callsOf video_code lib = calls_since_v"
  "typingCall video_code = VSendTyping" "leaveCall video_code = VUnmount" "fromOutside video_code = from_outside_v"
  "screenOf video_code k c v i d y = video_screen k c v i d (drawn y)" "lookPress video_code = look_press"
  "lookStep video_code = look_step" "lookCommit video_code = look_commit"
  by (simp_all add: video_code_def)

section \<open>It keeps the contract\<close>

lemma view_keeps_flag_v: "\<lbrakk>showReport v; e \<noteq> Close_report\<rbrakk> \<Longrightarrow> showReport (video_view_step e v)"
  by (cases e) (auto simp: view_commit_v_def Let_def handleTagInputKeyDown_def addTag_def removeTag_def
      handleStartSearchClick_def startSearch_call_def modal_event_in_def handleModalConfirm_def
      handleDisconnect_v_def handleNext_def handleSend_v_def split: option.split)

lemma quiet_status: "move_of_v e c = Quiet \<Longrightarrow> status (video_step e c) = status c"
  using video_session.refines [of e c] by (intro status_of_session) simp

lemma sends_quiet: "status (run_events video_step (map VSendMessage ts) c) = status c"
  by (induction ts arbitrary: c) (simp_all add: quiet_status del: video_step.simps)

interpretation video_taps: two_tap_page video_code "\<lambda>v. \<not> confirmStop v \<and> \<not> confirmSkip v"
proof (unfold_locales, goal_cases)
  case 1 show ?case by (simp add: view_commit_v_def Let_def)
next
  case 2 then show ?case by (simp add: view_keeps_flag_v)
next
  case 3 show ?case by (auto simp: available_video throws_video_screen)
next
  case 4 then show ?case by (simp add: available_video throws_video_screen open_dialog_def)
next
  case 5 show ?case by (simp add: quiet_status del: video_step.simps)
next
  case 6 show ?case by (simp add: calls_since_v_def handleSend_v_def sends_quiet del: video_step.simps)
next
  case 7 show ?case by (simp add: quiet_status del: video_step.simps)
next
  case (8 k c v i d y e)
  then have "e = Stop_click \<or> e = Next_click \<or> e = Open_report \<or> e = Close_report"
    by (cases e) (auto simp: available_video resting_def)
  with 8 show ?case
    by (auto simp: calls_since_v_def handleDisconnect_v_def handleNext_def effectiveConfirmStop_def effectiveConfirmSkip_def)
qed

lemma video_page_sync: "desk_sync video_code k (video_desk_page k lib c h token saved desktop)"
  unfolding video_desk_page_def by (rule video_taps.commit_sync)

section \<open>Only the user asks for a search\<close>

definition video_asks :: "view_event \<Rightarrow> bool" where
  "video_asks e \<longleftrightarrow> e \<in> {Start_click, Next_click, Modal Confirm}"

lemma other_calls_v:
  assumes "view_inv 0 v" and "\<not> video_asks e" and "x \<in> set (calls_since_v v (video_view_step e v))"
  shows "x = VDisconnectChat \<or> x = VStopSearch \<or> (\<exists>t. x = VSendMessage t)"
proof -
  have "searches (video_view_step e v) = searches v \<and> skipped (video_view_step e v) = skipped v"
  proof (cases e)
    case (Modal me)
    with assms(2) have "me \<noteq> Confirm" by (auto simp: video_asks_def)
    with assms(1) show ?thesis
      by (auto simp: Modal modal_event_in_def view_inv_def widget_hands_nothing Let_def split: option.split)
  qed (use assms(2) in \<open>auto simp: video_asks_def view_commit_v_def handleTagInputKeyDown_def addTag_def removeTag_def
      handleDisconnect_v_def handleSend_v_def Let_def\<close>)
  with assms(3) show ?thesis by (auto simp: calls_since_v_def)
qed

lemma not_asked_v:
  "\<lbrakk>status (video_step e c) = Searching; move_of_v e c \<noteq> Asks; move_of_v e c \<noteq> Skips\<rbrakk> \<Longrightarrow> status c = Searching"
  using video_session.seeks_when_asked [of e c] by (auto simp: seeking_status)

interpretation video_asked: asked_page video_code "\<lambda>v. \<not> confirmStop v \<and> \<not> confirmSkip v" video_asks "\<lambda>_. False"
proof (unfold_locales, goal_cases)
  case (1 e c)
  then have "move_of_v e c \<noteq> Asks" "move_of_v e c \<noteq> Skips" by (cases e; simp)+
  with 1 show ?case by (intro not_asked_v [of e c]) simp_all
next
  case 2 then show ?case by (simp add: video_view_keeps)
next
  case (3 v ve lib c)
  have "status c = Searching" if "x \<in> set (calls_since_v v (video_view_step ve v))" "status (video_step x c) = Searching" for x c
    using other_calls_v [OF 3(1,2) that(1)] not_asked_v [OF that(2)] by auto
  from run_quiet [OF this] 3(3) show ?case by simp
qed (auto simp: video_asks_def from_widget_def)

lemma video_page_view: "view_inv 0 (viewState (video_desk_page k lib c h token saved desktop))"
  unfolding video_desk_page_def by (intro video_asked.commit_view_inv open_view_inv)

end
