(* ===== verification/Video_Desk_Props.thy ===== *)
theory Video_Desk_Props
  imports Video_Desk
begin

text \<open>
  What the video page as a whole guarantees: it searches only when its user taps a button that says so, a
  single tap does not end a chat, and the layout that was chosen is the one of the next visit. Its report
  dialog opens by itself on the next stranger, as that of the text page.
\<close>

section \<open>A run into a chat\<close>

definition video_chat_run :: "(video_event, look_event) desk_event list" where
  "video_chat_run =
     [Outside (VLibrary (JoinOk 2 0)), Outside VResumeSetup, Act (In_view Start_click) LibOk,
      Outside (ResumeSearch (Search [] (Some ''t'') SearchCamera) LibOk CameraDenied),
      Outside (VLibrary (SendReplyOk (JObj [(''type'', JStr ''match''), (''peer_id'', JStr ''p1'')])))]"

definition sample_page :: video_desk where
  "sample_page = video_desk_page ''k'' LibOk plain_env initial_health (Some ''t'') (\<lambda>_. None) True"

lemma no_captcha_v: "\<not> js_includes ''You are talking to a random stranger.'' ''CAPTCHA''"
  by (simp add: js_startsWith_def)

lemmas video_desk_run_defs = sample_page_def video_desk_page_def open_desk_def commit_desk_def see_hook_def mount_box_def
  unmount_box_def mount_dialog_def unmount_dialog_def dialog_hears_def page_hears_def calls_since_v_def initial_view_def
  view_commit_v_def handleStartSearchClick_def startSearch_call_def search_form_shown_def captcha_rejected_def
  desk_screen_def throws_video_screen available_video report_undrawable_def dialog_drawn_def resting_def Let_def
  look_commit_def place_effect_def spin_effect_def initial_look_def initial_preview_def initial_spinner_def
  look_layout_def effective_layout_def reposition_effect_def spinner_effect_def clear_spin_def stored_layout_def
  stored_ratio_def stored_pip_size_def

lemmas match_run_defs = video_chat_run_def video_run_defs ws_ops ws_next_def no_captcha_v handleMessage_v_def
  decode_message_def onMatch_v_def match_reset_def match_peer_def match_signaling_def match_intro_v_def match_intro_def
  canOpenGoWebSocket_def initial_health_def close_pc_def onSendOk_def onSendError_def dispatchMessage_def msg_types_def

lemma video_chat_reached:
  "(\<lambda>d. status (hook d) = Connected \<and> \<not> confirmStop (viewState d) \<and> \<not> confirmSkip (viewState d) \<and>
     entryModal (viewState d) = None)
   (run_events (desk_step video_code ''k'') video_chat_run sample_page)"
  "(\<lambda>d. status (hook d) \<noteq> Searching \<and> status (hook (desk_step video_code ''k'' (Act (In_view Start_click) LibOk) d)) = Searching)
   (run_events (desk_step video_code ''k'') (take 2 video_chat_run) sample_page)"
  by (simp_all add: video_desk_run_defs match_run_defs del: js_includes.simps cong: let_weak_cong)

section \<open>Taps\<close>

text \<open>
  C21: the video page searches only when its user says so: in every run of the whole page, an event that
  makes the hook search is a tap on a button that the screen offers then, and that button is the start
  button, the skip button or the button that confirms the entry dialog. No message, timer, promise, widget,
  message box, report or leftover of an earlier search starts one.
\<close>

theorem search_needs_tap:
  assumes "d = run_events (desk_step video_code k) es (video_desk_page k lib c h token saved desktop)"
    and "status (hook d) \<noteq> Searching" and "status (hook (desk_step video_code k e d)) = Searching"
  shows "\<exists>tap lib'. e = Act (In_view tap) lib' \<and> tap \<in> {Start_click, Next_click, Modal Confirm} \<and>
    available_in (desk_screen video_code k d) (In_view tap)"
proof -
  have "view_inv 0 (viewState d)" unfolding assms(1) by (intro video_asked.run_view_inv video_page_view)
  from video_asked.searches_when_tapped [OF this assms(3,2)] obtain tap lib'
    where "e = Act (In_view tap) lib'" "video_asks tap" by blast
  with assms(2,3) show ?thesis by (auto simp: video_asks_def split: if_splits)
qed

theorem search_needs_tap_witness:
  "available_in (desk_screen video_code ''k'' (run_events (desk_step video_code ''k'') (take 2 video_chat_run) sample_page))
     (In_view Start_click)"
  using search_needs_tap [OF refl, of "''k''" "take 2 video_chat_run" LibOk plain_env initial_health "Some ''t''" "\<lambda>_. None" True
      "Act (In_view Start_click) LibOk"] video_chat_reached(2) by (simp add: sample_page_def)



section \<open>The layout of the next visit\<close>

definition choices_saved :: "video_page_look \<Rightarrow> bool" where
  "choices_saved y \<longleftrightarrow>
     stored_layout (storage y layout_key) = videoLayout (drawn y) \<and>
     stored_ratio (storage y ratio_key) = stackedVideoRatio (drawn y) \<and>
     stored_pip_size (storage y size_key) = pipSize (drawn y)"

lemma cycled_is_key:
  "cycle_ratio r \<in> fst ` set STACKED_VIDEO_RATIOS" "cycle_pip_size z \<in> fst ` set PIP_SIZES"
proof -
  have key: "next_key ks p \<in> set ks" if "ks \<noteq> []" for ks p
    using that by (simp add: next_key_def)
  have "cycle_ratio r \<in> set (map fst STACKED_VIDEO_RATIOS)" "cycle_pip_size z \<in> set (map fst PIP_SIZES)"
    unfolding cycle_ratio_def cycle_pip_size_def by (rule key; simp add: STACKED_VIDEO_RATIOS_def PIP_SIZES_def)+
  then show "cycle_ratio r \<in> fst ` set STACKED_VIDEO_RATIOS" "cycle_pip_size z \<in> fst ` set PIP_SIZES" by simp_all
qed

lemma keys_differ [simp]: "layout_key \<noteq> ratio_key" "layout_key \<noteq> size_key" "ratio_key \<noteq> size_key"
  by (simp_all add: layout_key_def ratio_key_def size_key_def)

lemma press_saves: "choices_saved y \<Longrightarrow> choices_saved (look_press a y)"
  by (cases a) (simp_all add: choices_saved_def save_def Let_def stored_layout_def toggle_layout_def stored_ratio_def
      stored_pip_size_def cycled_is_key keys_differ [symmetric])

lemma look_step_saves: "choices_saved y \<Longrightarrow> choices_saved (look_step e c y)"
  by (cases e) (simp_all add: look_step_def choices_saved_def on_preview_def updateViewportMode_def
      measurePanel_def markRendered_def Let_def)

lemma look_commit_saves: "choices_saved y \<Longrightarrow> choices_saved (look_commit c y)"
  by (simp add: look_commit_def place_effect_def spin_effect_def choices_saved_def Let_def)

interpretation choices: invariant_system "desk_step video_code k" "video_desk_page k lib c h token saved desktop"
  "\<lambda>d. choices_saved (look d)" for k lib c h token saved desktop
proof
  have "choices_saved (initial_look saved desktop)" by (simp add: choices_saved_def initial_look_def)
  then show "choices_saved (look (video_desk_page k lib c h token saved desktop))"
    by (simp add: video_desk_page_def open_desk_def commit_desk_def see_hook_def mount_box_def mount_dialog_def
        leave_desk_def look_commit_saves Let_def)
qed (rule look_kept [of choices_saved], simp_all add: press_saves look_step_saves look_commit_saves)

text \<open>
  The layout survives: whatever happens on a visit of the video page, a later visit with the storage it left
  opens with the layout, the ratio and the preview size that were on the screen, although only a tap writes
  them and what was stored before may be anything.
\<close>

lemma layout_choices_survive:
  "let y = look (run_events (desk_step video_code k) es (video_desk_page k lib c h token saved desktop));
       l = drawn (initial_look (storage y) desktop')
   in videoLayout l = videoLayout (drawn y) \<and> stackedVideoRatio l = stackedVideoRatio (drawn y) \<and>
      pipSize l = pipSize (drawn y)"
  using choices.inv_run [of k es lib c h token saved desktop] by (simp add: choices_saved_def initial_look_def Let_def)

section \<open>A report nobody asked for\<close>

lemma video_report_opens_by_itself:
  assumes "d = run_events (desk_step video_code k) es0 (video_desk_page k lib c h token saved desktop)"
    and "showReport (viewState d)"
    and "along nobody (desk_step video_code k) es d"
    and "s = desk_step video_code k e (run_events (desk_step video_code k) es d)"
    and "\<not> nobody s" and "\<not> left s"
  shows "\<exists>h'. reportBox s = Some (open_dialog h') \<and>
    available_in (desk_screen video_code k s) (In_report (Choose_reason ''harassment'')) \<and>
    available_in (desk_screen video_code k s) (In_view Close_report)"
  using video_taps.opens_by_itself [OF _ assms(2-6)] video_taps.run_sync [OF video_page_sync] assms(1) by blast

end
