(* ===== verification/Shell_Screen.thy ===== *)
theory Shell_Screen
  imports Page_Shell Chat_Markup
begin

text \<open>
  What the pages around the chats draw (\<^verbatim>\<open>client/src/components/LandingPage.tsx\<close>,
  \<^verbatim>\<open>ServiceUnavailable.tsx\<close>, \<^verbatim>\<open>VideoDisabled.tsx\<close>, \<^verbatim>\<open>ErrorBoundary.tsx\<close>, \<^verbatim>\<open>ThemeToggle.tsx\<close>), with the
  events of the shell behind their controls.

  \<^item> A \<open>Picture\<close> has its alternative text and whether it is opaque; texts outside ASCII are left out.
  \<^item> Of a chat page only the arrow back is given here; the rest is in \<open>Chat_Screen\<close>.
\<close>

datatype shell_action = Go shell_event | Switch_theme | Open_link string

definition ThemeToggle :: "shell_action widget" where
  "ThemeToggle = Press ''Toggle theme'' False Switch_theme"

text \<open>
  The link floats over the page and takes no clicks while the footer is in view. The preview image and
  the video trade places when the video plays.
\<close>

definition landing_screen :: "string \<Rightarrow> landing \<Rightarrow> shell_action widget list" where
  "landing_screen siteKey l =
     only_if (\<not> pageReady l) [Picture ''Loading'' True] @
     [Press ''GitHub'' (\<not> showGithubIcon l) (Open_link ''https://github.com/alessblaze/pairline''),
      Picture ''Pairline promo preview'' (\<not> promoVideoReady l), Picture ''/stream_master.m3u8'' (promoVideoReady l),
      Picture ''Pairline'' True,
      Press ''Start Text Chat'' False (Go (Open_chat ''/text'')), Press ''Video Chat'' False (Go (Open_chat ''/video'')),
      Picture ''Pairline Features'' True, Picture ''Albert Profile Reflection'' True,
      Label ''2026 Pairline. All rights reserved. Let your dreams take flight!''] @
     (case showModal l of
        None \<Rightarrow> []
      | Some m \<Rightarrow> EntryModal siteKey (\<lambda>e. Go (Landing_modal e)) (Go Landing_close) m)"

definition unavailable_screen :: "shell_action widget list" where
  "unavailable_screen =
     [ThemeToggle, Picture ''Service Unavailable Anime Character'' True, Label ''Service Unavailable'',
      Label (''We're having trouble connecting to the Pairline network. Our servers might be undergoing '' @
        ''maintenance or dropping connections.''),
      Press ''Retry Connection'' False (Go Retry_click)]"

definition video_disabled_screen :: "shell_action widget list" where
  "video_disabled_screen =
     [Label ''Video Chat Coming Soon'',
      Label (''Hosting millions of video streams is terribly expensive! We are currently setting up '' @
        ''dedicated high-bandwidth infrastructure. Video Chat will be available soon.''),
      Press ''Return to Text Chat'' False (Go Home_click)]"

definition error_screen :: "string option \<Rightarrow> shell_action widget list" where
  "error_screen message =
     [Picture ''Error Anime Character'' True, Label ''Something went wrong'',
      Label (if str_truthy message then the message
             else ''An unexpected critical error occurred while running the application.''),
      Press ''Return Home'' False (Go Return_home)]"

text \<open>The banners of the provider stand above every route.\<close>

definition banner_line :: "string option \<Rightarrow> shell_action widget list" where
  "banner_line b = (case b of None \<Rightarrow> [] | Some t \<Rightarrow> [Label t])"

definition route_screen :: "bool \<Rightarrow> string \<Rightarrow> string option \<Rightarrow> shell \<Rightarrow> shell_action widget list" where
  "route_screen enabled siteKey message s =
     (case route_element enabled (path s) of
        Landing_page \<Rightarrow> landing_screen siteKey (landing_state s)
      | Video_disabled_page \<Rightarrow> video_disabled_screen
      | Unavailable_page \<Rightarrow> unavailable_screen
      | Navigate_to q \<Rightarrow> []
      | _ \<Rightarrow> if hasError s then error_screen message else [Press ''Back to home'' False (Go Home_click)])"

definition shell_screen :: "bool \<Rightarrow> string \<Rightarrow> string option \<Rightarrow> shell \<Rightarrow> shell_action widget list" where
  "shell_screen enabled siteKey message s =
     banner_line (degraded_banner (serviceHealth s)) @ banner_line (offline_banner (serviceHealth s)) @
     route_screen enabled siteKey message s"

definition pressable :: "shell_action widget list \<Rightarrow> shell_event \<Rightarrow> bool" where
  "pressable els e \<longleftrightarrow> (\<exists>label. Press label False (Go e) \<in> set els)"

text \<open>
  No page is a dead end: in every run of the shell, whatever pages were visited and whatever failed, the
  landing page is shown already or at most one button on the screen leads to it.
\<close>

theorem landing_page_one_tap_away:
  fixes enabled p es
  defines "s \<equiv> run_events (shell_step enabled) es (initial_shell enabled p)"
  shows "\<exists>taps. length taps \<le> 1 \<and> list_all (pressable (shell_screen enabled siteKey message s)) taps \<and>
    (let s' = run_events (shell_step enabled) taps s in route_element enabled (path s') = Landing_page \<and> chatPage s' = None)"
proof -
  have inv: "shell_inv enabled s" unfolding s_def by (rule shell_sys.inv_run)
  have one: ?thesis if "pressable (route_screen enabled siteKey message s) e"
    "path (shell_step enabled e s) = ''/''" "chatPage (shell_step enabled e s) = None" for e
    using that by (intro exI [of _ "[e]"]) (auto simp: shell_screen_def pressable_def route_element_def)
  have home: "path (show_path enabled ''/'' None t) = ''/''" "chatPage (show_path enabled ''/'' None t) = None" for t
    by (simp_all add: show_path_def route_element_def is_chat_page_def)
  have chat: ?thesis if el: "route_element enabled (path s) = Text_page \<or> route_element enabled (path s) = Video_page"
  proof (cases "hasError s")
    case True
    with el home show ?thesis
      by (intro one [of Return_home])
        (auto simp: pressable_def route_screen_def error_screen_def handleReturnHome_def initial_shell_def)
  next
    case False
    with el inv have "chatPage s \<noteq> None" by (auto simp: shell_inv_def is_chat_page_def)
    with False el home show ?thesis
      by (intro one [of Home_click]) (auto simp: pressable_def route_screen_def)
  qed
  show ?thesis
  proof (cases "route_element enabled (path s)")
    case Landing_page
    with inv show ?thesis
      by (intro exI [of _ "[]"]) (auto simp: shell_inv_def is_chat_page_def)
  next
    case (Navigate_to q)
    with inv show ?thesis by (simp add: shell_inv_def)
  next
    case Video_disabled_page
    then have "path s = ''/video-disabled''" by (auto simp: route_element_def split: if_splits)
    then show ?thesis using Video_disabled_page home
      by (intro one [of Home_click]) (auto simp: pressable_def route_screen_def video_disabled_screen_def)
  next
    case Unavailable_page
    then have "path s = ''/unavailable''" by (auto simp: route_element_def split: if_splits)
    then show ?thesis using Unavailable_page home
      by (intro one [of Retry_click]) (auto simp: pressable_def route_screen_def unavailable_screen_def handleRetry_def)
  next
    case Text_page
    then show ?thesis by (intro chat) simp
  next
    case Video_page
    then show ?thesis by (intro chat) simp
  qed
qed

end
