(* ===== verification/Spec2Isabelle.thy ===== *)
theory Spec2Isabelle
  imports Ice_Servers Network_Health Ws_Client Text_Chat Video_Runs Admin_Props Admin_Forms
    Text_Session Video_Session Chat_Input Report_Dialog Chat_View Video_View Page_Shell Hls_Player
    Admin_Privacy Admin_Sessions Desk_Props Video_Desk_Props Shell_Screen
begin

text \<open>
  A model of the front end of Pairline, the anonymous text and video chat (the TypeScript of
  \<^verbatim>\<open>src/frontend\<close>), with the theorems that make it correct.

  \<^bold>\<open>The program.\<close> A chat page is a React hook. The text hook
  (\<^verbatim>\<open>client/src/hooks/useTextChat.tsx\<close>) talks to the Elixir service over a Phoenix channel,
  through the WebSocket client of \<^verbatim>\<open>client/src/services/websocket.ts\<close>; it keeps the transcript,
  the typing indicator, the session and the delivery status of what the user sent. The video hook
  (\<^verbatim>\<open>client/src/hooks/useVideoChat.tsx\<close>) does the same and also drives a peer connection: it signals
  over a raw WebSocket to the Go service, negotiates offers and answers, fetches TURN credentials,
  normalises them (\<^verbatim>\<open>client/src/services/iceServers.ts\<close>), and retries. Both report to the health
  context (\<^verbatim>\<open>client/src/hooks/useNetworkHealth.tsx\<close>), which shows banners and leaves for the
  unavailable page.

  Around the hooks stand the pages (\<^verbatim>\<open>client/src/components/TextChat.tsx\<close>,
  \<^verbatim>\<open>VideoChat.tsx\<close>) with the message box, the interest tags, the captcha dialog
  (\<^verbatim>\<open>EntryModal.tsx\<close>) and the report dialog (\<^verbatim>\<open>ReportDialog.tsx\<close>), and around those the routes
  (\<^verbatim>\<open>App.tsx\<close>) with the landing page. A second application, the moderation console
  (\<^verbatim>\<open>admin/src/components/AdminPanelRuntime.tsx\<close>), signs an administrator in, fetches reports, bans,
  words, accounts, bots and service health by role, and changes them; its requests carry a token that
  is refreshed once when it has expired.

  \<^bold>\<open>The theories.\<close>
  \<^item> \<open>Pairline_Prelude\<close>: JavaScript strings and dynamic values, runs of event systems, the
    locale \<open>invariant_system\<close> with its one induction over runs.
  \<^item> \<open>Ice_Servers\<close>: the whole of \<^verbatim>\<open>iceServers.ts\<close>. The random shuffle is a parameter with the
    hypothesis that it permutes.
  \<^item> \<open>Network_Health\<close>: the health context; the locale \<open>channel_registry\<close> is what the hooks
    rely on.
  \<^item> \<open>Ws_Client\<close>: the class \<open>WebSocketClient\<close>, method by method. The phoenix package is the
    environment: its callbacks are events, the outcome of a call that may throw is an argument. The
    locale \<open>transport\<close> is the contract the hooks use.
  \<^item> \<open>Chat_Types\<close>: protocol messages, transcript entries and the state both hooks share; the
    locale \<open>transcript\<close>, interpreted by the unbounded log of the text page and the capped log of
    the video page.
  \<^item> \<open>Text_Chat\<close>: the text hook and its page, with its invariant and properties.
  \<^item> \<open>Video_State\<close>, \<open>Video_Signaling\<close>, \<open>Video_Chat\<close>, \<open>Video_Page\<close>: the video
    hook: state and small operations; signaling, TURN, offers and answers; the signaling socket, the
    messages of the server and the actions of the user; the page as an event system.
  \<^item> \<open>Video_Frame\<close>, \<open>Video_Props\<close>, \<open>Video_Signals\<close>, \<open>Video_Runs\<close>: what operations
    leave alone, the invariant, whom signals reach, retries and the runs that show defects.
  \<^item> \<open>Chat_Session\<close>: the abstract session both hooks promise, as the locale \<open>chat_session\<close>;
    \<open>Text_Session\<close> and \<open>Video_Session\<close>: the two refinements, its instances.
  \<^item> \<open>Chat_Input\<close>: the message box and its typing reports. \<open>Entry_Modal\<close> and \<open>Report_Dialog\<close>: the
    two dialogs. \<open>Chat_View\<close>: searches, captcha, tags and two-tap buttons of both pages; the locale
    \<open>chat_page_view\<close> is the contract both keep. \<open>Video_View\<close>: layout, preview, overlay and spinner of
    the video page.
  \<^item> \<open>Page_Shell\<close>: routes, landing page, error boundary, unavailable page and themes, composed with
    the chat pages and the health context. \<open>Hls_Player\<close>: the promotional video.
  \<^item> \<open>Chat_Markup\<close>, \<open>Chat_Screen\<close>: what the chat pages and their dialogs draw, as widgets with the actions
    of their controls. \<open>Chat_Controls\<close>: which actions are on offer, as a specification over the state that
    the screens meet exactly. \<open>Shell_Screen\<close>: the pages around the chats.
  \<^item> \<open>Text_Report\<close>: what a report of the text hook is about.
  \<^item> \<open>Chat_Desk\<close>: a whole chat page, hook, view, message box and dialogs, in which the user acts through
    the screen, over the code in which the two pages differ. \<open>Desk_Contract\<close>: what that code owes the page,
    as a chain of locales, \<open>page_contract\<close>, \<open>two_tap_page\<close> and \<open>asked_page\<close>. \<open>Text_Desk\<close> and \<open>Video_Desk\<close>: the
    two pages, the latter with the layout, the preview and the spinner of \<open>Video_View\<close>; \<open>Desk_Props\<close> and
    \<open>Video_Desk_Props\<close>: their properties.
  \<^item> \<open>Admin_Utils\<close>, \<open>Admin_State\<close>: helpers of the console, its render state and the mutable state its
    closures share. \<open>Admin_Actions\<close>: session, fetches and handlers. \<open>Admin_Panel\<close>: the continuations
    of the requests, permissions, effects and the panel as an event system. \<open>Admin_Forms\<close>: the ban,
    bot and settings dialogs. \<open>Admin_Calls\<close>, \<open>Admin_Props\<close>: the life cycle of a call, its invariant,
    and the properties of the panel.
  \<^item> \<open>Admin_Types\<close>: the interfaces of \<^verbatim>\<open>admin/src/types/index.ts\<close> as predicates. \<open>Admin_Markup\<close>: the
    elements a screen consists of, with the actions of their controls and the exceptions of a render.
    \<open>Admin_Tabs\<close>, \<open>Admin_Pools\<close>, \<open>Admin_Dialogs\<close>, \<open>Admin_Screen\<close>: the markup of the console, tab by tab
    and dialog by dialog, up to what the component returns.
  \<^item> \<open>Admin_Console\<close>: the panel behind its screen, an instance of the locale \<open>restricted_system\<close>: only
    what is drawn can be clicked. \<open>Admin_Typing\<close>, \<open>Admin_Rendering\<close>: data that keeps to the interfaces,
    and that it renders. \<open>Admin_Access\<close>, \<open>Admin_Privacy\<close>: what a role is offered and shown.
    \<open>Admin_Sessions\<close>: the console from one user to the next.

  \<^bold>\<open>How the code is modelled.\<close> The state of a component is a record with the fields of the
  source. A function of the source is a definition of the same name, with \<open>_v\<close> appended where the
  video hook or page repeats a name of the text one. An asynchronous function stores a task at each
  \<^verbatim>\<open>await\<close>; the definition ending in \<open>_continue\<close> is the rest of it. A page is a function from
  events to state changes, and its properties hold after every list of events: user actions,
  callbacks of the libraries and the browser, timers, settled promises and React commits, in every
  order. Timers and promises are identities in lists and maps, so that a timer that was not cleared,
  or a promise nobody settles, shows in the state. A handler of the console runs with the values of the
  render that created it; responses, bodies and parsed JSON are arguments of the events, and what the
  console reads of them may be any value. Numbers the code only prints are kept as text; counters are
  natural numbers (they never reach the limits of a double), lengths on the screen are rationals. No
  definition uses fuel: every function is total by structural recursion, loops that wait are tasks,
  and a call of the console is shown to change its phase at most six times.

  \<^bold>\<open>What the theorems show.\<close> Of the WebSocket client: one heartbeat, promises settle once, ten
  backed-off retries and then silence, no handler is called after the teardown; and two defects, an
  overlapping timer that survives the teardown and a failed join that sticks. Of the text hook: its
  invariant, that replies never cross into a later chat, what a reply decides, that a message typed
  offline fails visibly, that an unmounted page stays empty; and that a page whose first socket closes
  early never hears the server. Of both hooks: they refine a session that seeks only when the user asks
  and chats only when the server announced a match, with that peer. Of the video hook: the cap of the transcript, that signals reach the
  current peer only, that superseded negotiations are silent, that exactly one side makes the first
  offer, the bounds on retries; and the runs behind the findings: leaving or cancelling during the
  camera prompt, the reset before
  an offer, TURN credentials that were missing once, the queue that survives a match. Of the ICE
  list: one TURN URL per bucket, the exact filter, well-formed servers, idempotence. Of the health
  context: worst status wins, and channels do not disturb each other. Of the pages: an unverified page
  never searches without a token, tags survive the wire, typing is always withdrawn, reports are
  complete, a visible spinner stays for its minimum, the preview keeps its corner where there is room,
  the retry leads out of the unavailable page; and the runs behind the findings. Of the whole pages:
  their screens offer what their states allow and nothing else, the video page searches only at a tap on a
  button that says so, a single tap does not end a chat, the chosen layout is the one of the next visit, a
  report is about one chat, what the user of the text page sends is bounded by the box; and the report
  dialog that opens by itself on the next stranger. Of the console: the
  protocol of its requests as a refinement of an abstract life cycle, that every call was permitted,
  that selections are of pending reports, that commits reach a fixed point, what a retried call carries,
  that an edited bot is sent back as it was; and a late refresh that undoes a logout, an older fetch
  that wins. Of its screen: on data of the declared types no render throws, in any run, while one report
  with a transcript that parses to null takes the console down for good; no control goes beyond the
  role, and what a moderator sees does not depend on data kept from moderators; every tab of the role
  and the way out are one or two clicks away; and what stays on the screen for the next user.

  \<^bold>\<open>Not modelled.\<close> The Go and Elixir services (other languages, seen through arbitrary protocol
  values), styling, animation and placeholders, what the engine makes of a date or a
  locale, the fixtures of Storybook with the mock state they pass to the console, logging, the drawing
  of the mock camera, the rounding of doubles, and JavaScript strings beyond code units below 256. A
  handler of React state runs its updaters at once and in order.
\<close>

end
